(* ===== verification/GoLib.thy ===== *)
theory GoLib
  imports Main "HOL-Library.Word" "HOL-Library.AList"
begin

section \<open>Prelude: the parts of Go that the cosign sources use\<close>

text \<open>
  Results, errors and panics; maps, byte strings and time; and the encodings of Go's standard
  library (\<open>strings\<close>, \<open>encoding/hex\<close>, \<open>encoding/base64\<close>) that the components share.

  \<^item> A function that returns \<open>(T, error)\<close> has a result of type \<open>T res\<close>: \<open>Ok\<close> a value with a
    nil error, \<open>Err\<close> a non-nil error, \<open>Panic\<close> a run-time panic. An error is a value the caller
    may inspect and drop; a panic is not, so every operation that handles errors passes it on.
  \<^item> A value of type \<open>error\<close> that the code keeps in a variable is a \<open>gerror option\<close>.
  \<^item> A byte slice and a string are both lists of bytes (HOL's \<open>char\<close> is a byte).
  \<^item> A Go map is an association list: its order stands for the iteration order, which Go leaves
    open, so a theorem for every list is a theorem for every iteration order.
\<close>

type_synonym bytes = "char list"
type_synonym ('k, 'v) gomap = "('k \<times> 'v) list"
type_synonym int64 = "64 word"

named_theorems res_simps \<open>rewriting of result values and of their sequencing\<close>

subsection \<open>Errors and results\<close>

text \<open>
  Errors by origin: made by \<open>errors.New\<close> or \<open>fmt.Errorf\<close>; by \<open>errors.Wrap\<close> (or \<open>%w\<close>) around a
  non-nil error; a text that joins the texts of collected errors; a missing file
  (\<open>os.IsNotExist\<close>); a registry's HTTP status (\<open>transport.Error\<close>); an object the Kubernetes API
  does not have (\<open>apierrs.IsNotFound\<close>); Rekor's conflict answer with the location of the entry
  that exists; and any other error of a library.
\<close>

datatype gerror =
    ErrorString string
  | Wrapped gerror string
  | Joined string "gerror list"
  | NotExist string
  | TransportError nat
  | APINotFound string
  | Conflict string
  | LibError string

text \<open>\<open>apierrs.IsNotFound\<close> and \<open>os.IsNotExist\<close>.\<close>

fun IsNotFound :: "gerror \<Rightarrow> bool" where
  "IsNotFound (APINotFound _) = True"
| "IsNotFound _ = False"

fun is_not_exist :: "gerror \<Rightarrow> bool" where
  "is_not_exist (NotExist _) = True"
| "is_not_exist _ = False"

datatype 'a res = Ok 'a | Err gerror | Panic string

fun bindr :: "'a res \<Rightarrow> ('a \<Rightarrow> 'b res) \<Rightarrow> 'b res" where
  "bindr (Ok a) f = f a"
| "bindr (Err e) f = Err e"
| "bindr (Panic p) f = Panic p"

text \<open>\<open>return x, errors.Wrap(err, msg)\<close> after a test that \<open>err\<close> is not nil.\<close>

fun wrapr :: "string \<Rightarrow> 'a res \<Rightarrow> 'a res" where
  "wrapr msg (Ok a) = Ok a"
| "wrapr msg (Err e) = Err (Wrapped e msg)"
| "wrapr msg (Panic p) = Panic p"

text \<open>A call whose error the code looks at itself.\<close>

fun handler :: "'a res \<Rightarrow> (gerror \<Rightarrow> 'b res) \<Rightarrow> ('a \<Rightarrow> 'b res) \<Rightarrow> 'b res" where
  "handler (Ok a) h f = f a"
| "handler (Err e) h f = h e"
| "handler (Panic p) h f = Panic p"

fun is_ok :: "'a res \<Rightarrow> bool" where
  "is_ok (Ok _) = True"
| "is_ok _ = False"

definition of_err :: "gerror option \<Rightarrow> unit res" where
  "of_err e = (case e of None \<Rightarrow> Ok () | Some x \<Rightarrow> Err x)"

lemma bindr_Ok_iff [res_simps]: "bindr m f = Ok b \<longleftrightarrow> (\<exists>a. m = Ok a \<and> f a = Ok b)"
  by (cases m) auto

lemma wrapr_Ok_iff [res_simps]: "wrapr msg m = Ok a \<longleftrightarrow> m = Ok a"
  by (cases m) auto

lemma wrapr_Panic_iff [res_simps]: "wrapr msg m = Panic p \<longleftrightarrow> m = Panic p"
  by (cases m) auto

lemma handler_Ok_iff [res_simps]:
  "handler m h f = Ok b \<longleftrightarrow> (\<exists>a. m = Ok a \<and> f a = Ok b) \<or> (\<exists>e. m = Err e \<and> h e = Ok b)"
  by (cases m) auto

lemma bindr_Panic_iff:
  "bindr m f = Panic p \<longleftrightarrow> m = Panic p \<or> (\<exists>a. m = Ok a \<and> f a = Panic p)"
  by (cases m) auto

lemma bindr_assoc [simp]: "bindr (bindr m f) g = bindr m (\<lambda>x. bindr (f x) g)"
  by (cases m) auto

lemma bindr_Ok_right [simp]: "bindr m Ok = m"
  by (cases m) auto

lemma is_ok_iff: "is_ok m \<longleftrightarrow> (\<exists>a. m = Ok a)"
  by (cases m) auto

lemma bindr_cong [fundef_cong]:
  assumes "m = m'" and "\<And>a. m' = Ok a \<Longrightarrow> f a = g a"
  shows "bindr m f = bindr m' g"
  using assms by (cases m') auto

text \<open>Guards and case distinctions with an early return.\<close>

lemma guard_Ok_iff [res_simps]:
  "(if b then Err e else m) = Ok x \<longleftrightarrow> \<not> b \<and> m = Ok x"
  "(if b then m else Err e) = Ok x \<longleftrightarrow> b \<and> m = Ok x"
  by auto

lemma case_Ok_iff [res_simps]:
  "(case p of None \<Rightarrow> Err e | Some y \<Rightarrow> f y) = Ok x \<longleftrightarrow> (\<exists>y. p = Some y \<and> f y = Ok x)"
  "(case xs of [] \<Rightarrow> Err e | y # ys \<Rightarrow> g y ys) = Ok x \<longleftrightarrow> (\<exists>y ys. xs = y # ys \<and> g y ys = Ok x)"
  by (auto split: option.splits list.splits)

text \<open>A loop that stops at the first error (or panic), as \<open>return err\<close> inside \<open>for\<close> does.\<close>

fun mapr :: "('a \<Rightarrow> 'b res) \<Rightarrow> 'a list \<Rightarrow> 'b list res" where
  "mapr f [] = Ok []"
| "mapr f (x # xs) = bindr (f x) (\<lambda>y. bindr (mapr f xs) (\<lambda>ys. Ok (y # ys)))"

lemma mapr_Ok_iff: "mapr f xs = Ok ys \<longleftrightarrow> list_all2 (\<lambda>x y. f x = Ok y) xs ys"
  by (induction xs arbitrary: ys) (auto simp: res_simps list_all2_Cons1)

lemma mapr_Ok_length: "mapr f xs = Ok ys \<Longrightarrow> length ys = length xs"
  by (auto simp: mapr_Ok_iff dest: list_all2_lengthD)

text \<open>A slice that may be nil, and \<open>append\<close>, which keeps nil only if nothing is added.\<close>

definition nil_list :: "'a list option \<Rightarrow> 'a list" where
  "nil_list g = (case g of None \<Rightarrow> [] | Some l \<Rightarrow> l)"

definition append_slice :: "'a list option \<Rightarrow> 'a list \<Rightarrow> 'a list option" where
  "append_slice g xs = (if g = None \<and> xs = [] then None else Some (nil_list g @ xs))"

lemma nil_list_simps [simp]: "nil_list None = []" "nil_list (Some l) = l"
  by (simp_all add: nil_list_def)

lemma nil_list_append [simp]: "nil_list (append_slice g xs) = nil_list g @ xs"
  by (auto simp: append_slice_def)

subsection \<open>Maps\<close>

abbreviation mlookup :: "('k, 'v) gomap \<Rightarrow> 'k \<Rightarrow> 'v option" where
  "mlookup m k \<equiv> map_of m k"

abbreviation mset_key :: "'k \<Rightarrow> 'v \<Rightarrow> ('k, 'v) gomap \<Rightarrow> ('k, 'v) gomap" where
  "mset_key k v m \<equiv> AList.update k v m"

abbreviation mdelete :: "'k \<Rightarrow> ('k, 'v) gomap \<Rightarrow> ('k, 'v) gomap" where
  "mdelete k m \<equiv> AList.delete k m"

text \<open>Reading a missing key of a \<open>map[string]string\<close> gives the empty string.\<close>

definition mget :: "(string, string) gomap \<Rightarrow> string \<Rightarrow> string" where
  "mget m k = (case map_of m k of None \<Rightarrow> [] | Some v \<Rightarrow> v)"

text \<open>\<open>for k, v := range m { new[k] = v }\<close>, as the sources copy a map.\<close>

definition mcopy :: "('k, 'v) gomap \<Rightarrow> ('k, 'v) gomap" where
  "mcopy m = foldr (\<lambda>(k, v) new. AList.update k v new) m []"

lemma map_of_mcopy [simp]: "map_of (mcopy m) = map_of m"
proof -
  have "map_of (foldr (\<lambda>(k, v) new. AList.update k v new) m []) = map_of m"
    by (induction m) (auto simp: update_conv')
  then show ?thesis by (simp add: mcopy_def)
qed

lemma map_of_update [simp]: "map_of (AList.update k v m) = (map_of m)(k \<mapsto> v)"
  by (simp add: update_conv')

lemma map_of_delete [simp]: "map_of (AList.delete k m) = (map_of m)(k := None)"
  by (simp add: delete_conv')

lemma mget_update [simp]: "mget (AList.update k v m) j = (if j = k then v else mget m j)"
  by (simp add: mget_def)

lemma mget_delete [simp]: "mget (AList.delete k m) j = (if j = k then [] else mget m j)"
  by (simp add: mget_def)

lemma mget_mcopy [simp]: "mget (mcopy m) j = mget m j"
  by (simp add: mget_def)

text \<open>\<open>xs[0]\<close>, which panics on an empty slice.\<close>

definition index0 :: "'a list \<Rightarrow> 'a res" where
  "index0 xs = (case xs of [] \<Rightarrow> Panic ''index out of range'' | x # _ \<Rightarrow> Ok x)"

lemma index0_Ok_iff [res_simps]: "index0 xs = Ok x \<longleftrightarrow> (\<exists>ys. xs = x # ys)"
  by (auto simp: index0_def split: list.splits)

subsection \<open>Strings\<close>

fun has_prefix :: "string \<Rightarrow> string \<Rightarrow> bool" where
  "has_prefix s [] = True"
| "has_prefix [] (c # p) = False"
| "has_prefix (x # s) (c # p) = (x = c \<and> has_prefix s p)"

definition has_suffix :: "string \<Rightarrow> string \<Rightarrow> bool" where
  "has_suffix s p = has_prefix (rev s) (rev p)"

definition trim_suffix :: "string \<Rightarrow> string \<Rightarrow> string" where
  "trim_suffix s p = (if has_suffix s p then take (length s - length p) s else s)"

fun contains :: "string \<Rightarrow> string \<Rightarrow> bool" where
  "contains [] p = (p = [])"
| "contains (x # s) p = (has_prefix (x # s) p \<or> contains s p)"

fun split_char :: "char \<Rightarrow> string \<Rightarrow> string list" where
  "split_char c [] = [[]]"
| "split_char c (x # s) =
     (if x = c then [] # split_char c s
      else (case split_char c s of [] \<Rightarrow> [[x]] | w # ws \<Rightarrow> (x # w) # ws))"

lemma has_prefix_iff: "has_prefix s p \<longleftrightarrow> (\<exists>t. s = p @ t)"
  by (induction s p rule: has_prefix.induct) auto

lemma has_suffix_iff: "has_suffix s p \<longleftrightarrow> (\<exists>t. s = t @ p)"
proof
  assume "has_suffix s p"
  then obtain t where "rev s = rev p @ t"
    by (auto simp: has_suffix_def has_prefix_iff)
  then have "s = rev t @ p"
    by (metis rev_append rev_rev_ident)
  then show "\<exists>t. s = t @ p" ..
qed (auto simp: has_suffix_def has_prefix_iff)

lemma trim_suffix_append [simp]: "trim_suffix (t @ p) p = t"
  by (auto simp: trim_suffix_def has_suffix_iff)

lemma split_char_nonempty [simp]: "split_char c s \<noteq> []"
  by (induction s) (auto split: list.splits)

text \<open>\<open>strconv.ParseBool\<close>\<close>

definition strconv_ParseBool :: "string \<Rightarrow> bool res" where
  "strconv_ParseBool s =
     (if s \<in> {''1'', ''t'', ''T'', ''TRUE'', ''true'', ''True''} then Ok True
      else if s \<in> {''0'', ''f'', ''F'', ''FALSE'', ''false'', ''False''} then Ok False
      else Err (LibError ''invalid syntax''))"

text \<open>\<open>strings.TrimPrefix\<close>, and \<open>strings.Split\<close> at a separator that is not empty.\<close>

definition trim_prefix :: "string \<Rightarrow> string \<Rightarrow> string" where
  "trim_prefix s p = (if has_prefix s p then drop (length p) s else s)"

function split_on :: "string \<Rightarrow> string \<Rightarrow> string \<Rightarrow> string list" where
  "split_on sep word [] = [rev word]"
| "split_on sep word (x # s) =
     (if has_prefix (x # s) sep then rev word # split_on sep [] (drop (length sep - 1) s)
      else split_on sep (x # word) s)"
  by pat_completeness auto
termination by (relation "measure (\<lambda>(_, _, s). length s)") auto

definition strings_Split :: "string \<Rightarrow> string \<Rightarrow> string list" where
  "strings_Split s sep = split_on sep [] s"

lemma trim_prefix_append [simp]: "trim_prefix (p @ t) p = t"
  by (auto simp: trim_prefix_def has_prefix_iff)

lemma split_on_nonempty [simp]: "split_on sep word s \<noteq> []"
  by (induction sep word s rule: split_on.induct) auto

text \<open>
  \<open>filepath.Clean\<close> and \<open>filepath.Join\<close> with slashes: empty and dot elements go, a dot-dot element
  removes the element before it, and nothing leads above a root.
\<close>

fun clean_elements :: "bool \<Rightarrow> string list \<Rightarrow> string list \<Rightarrow> string list" where
  "clean_elements rooted out [] = rev out"
| "clean_elements rooted out (e # es) =
     (if e = [] \<or> e = ''.'' then clean_elements rooted out es
      else if e = ''..''
      then (case out of
              [] \<Rightarrow> if rooted then clean_elements rooted [] es else clean_elements rooted [e] es
            | x # out' \<Rightarrow> if x = ''..'' then clean_elements rooted (e # out) es else clean_elements rooted out' es)
      else clean_elements rooted (e # out) es)"

fun join_slash :: "string list \<Rightarrow> string" where
  "join_slash [] = []"
| "join_slash [x] = x"
| "join_slash (x # y # xs) = x @ CHR ''/'' # join_slash (y # xs)"

definition filepath_Clean :: "string \<Rightarrow> string" where
  "filepath_Clean path =
     (let rooted = has_prefix path ''/'';
          body = join_slash (clean_elements rooted [] (split_char CHR ''/'' path))
      in if rooted then CHR ''/'' # body else if body = [] then ''.'' else body)"

definition filepath_Join :: "string list \<Rightarrow> string" where
  "filepath_Join elems =
     (let es = filter (\<lambda>e. e \<noteq> []) elems in if es = [] then [] else filepath_Clean (join_slash es))"

end
