(* ===== verification/Encoding.thy ===== *)
theory Encoding
  imports GoLib
begin

section \<open>Encodings of Go's standard library\<close>

text \<open>
  \<open>encoding/hex\<close> and \<open>encoding/base64\<close> (\<open>StdEncoding\<close>), as far as the sources use them, with the
  round trips the components rely on.
\<close>

subsection \<open>Hexadecimal\<close>

definition hex_digit :: "nat \<Rightarrow> char" where
  "hex_digit n = (if n < 10 then char_of (n + 48) else char_of (n + 87))"

fun hex_encode :: "bytes \<Rightarrow> string" where
  "hex_encode [] = []"
| "hex_encode (b # bs) =
     hex_digit (of_char b div 16) # hex_digit (of_char b mod 16) # hex_encode bs"

text \<open>\<open>fromHexChar\<close>: both cases of the letters are digits.\<close>

definition hex_value :: "char \<Rightarrow> nat option" where
  "hex_value c = (let n = (of_char c :: nat) in
     if 48 \<le> n \<and> n \<le> 57 then Some (n - 48)
     else if 97 \<le> n \<and> n \<le> 102 then Some (n - 87)
     else if 65 \<le> n \<and> n \<le> 70 then Some (n - 55)
     else None)"

text \<open>
  \<open>hex.DecodeString\<close> returns the bytes decoded before the first error together with the error;
  callers that drop the error use that prefix.
\<close>

fun hex_decode :: "string \<Rightarrow> bytes \<times> gerror option" where
  "hex_decode [] = ([], None)"
| "hex_decode [c] =
     ([], Some (case hex_value c of None \<Rightarrow> ErrorString ''encoding/hex: invalid byte''
                | Some _ \<Rightarrow> ErrorString ''encoding/hex: odd length hex string''))"
| "hex_decode (c # d # s) =
     (case (hex_value c, hex_value d) of
        (Some m, Some n) \<Rightarrow> (let (bs, e) = hex_decode s in (char_of (16 * m + n) # bs, e))
      | _ \<Rightarrow> ([], Some (ErrorString ''encoding/hex: invalid byte'')))"

lemma hex_value_digit:
  assumes "n < 16"
  shows "hex_value (hex_digit n) = Some n"
  using assms by (auto simp: hex_value_def hex_digit_def Let_def)

lemma hex_decode_encode: "hex_decode (hex_encode bs) = (bs, None)"
proof (induction bs)
  case (Cons b bs)
  have "hex_value (hex_digit (of_char b div 16)) = Some (of_char b div 16)"
    by (intro hex_value_digit) (simp add: less_mult_imp_div_less)
  moreover have "hex_value (hex_digit (of_char b mod 16)) = Some (of_char b mod 16)"
    by (intro hex_value_digit) simp
  moreover have "16 * (of_char b div 16) + of_char b mod 16 = (of_char b :: nat)"
    by simp
  ultimately show ?case
    using Cons.IH by simp
qed simp

lemma hex_encode_inject: "hex_encode a = hex_encode b \<longleftrightarrow> a = b"
  by (metis hex_decode_encode prod.inject)

lemma hex_encode_length: "length (hex_encode bs) = 2 * length bs"
  by (induction bs) auto

subsection \<open>Base64\<close>

text \<open>The alphabet: A to Z, a to z, 0 to 9, + and /.\<close>

definition b64_char :: "nat \<Rightarrow> char" where
  "b64_char n =
     (if n < 26 then char_of (n + 65)
      else if n < 52 then char_of (n + 71)
      else if n < 62 then char_of (n - 4)
      else if n = 62 then CHR ''+''
      else CHR ''/'')"

definition b64_value :: "char \<Rightarrow> nat option" where
  "b64_value c = (let n = (of_char c :: nat) in
     if 65 \<le> n \<and> n \<le> 90 then Some (n - 65)
     else if 97 \<le> n \<and> n \<le> 122 then Some (n - 71)
     else if 48 \<le> n \<and> n \<le> 57 then Some (n + 4)
     else if n = 43 then Some 62
     else if n = 47 then Some 63
     else None)"

fun b64_encode :: "bytes \<Rightarrow> string" where
  "b64_encode [] = []"
| "b64_encode [a] = (let n = of_char a * 16 in
     [b64_char (n div 64), b64_char (n mod 64), CHR ''='', CHR ''=''])"
| "b64_encode [a, b] = (let n = (of_char a * 256 + of_char b) * 4 in
     [b64_char (n div 4096), b64_char (n div 64 mod 64), b64_char (n mod 64), CHR ''=''])"
| "b64_encode (a # b # c # s) = (let n = (of_char a * 256 + of_char b) * 256 + of_char c in
     b64_char (n div 262144) # b64_char (n div 4096 mod 64) #
     b64_char (n div 64 mod 64) # b64_char (n mod 64) # b64_encode s)"

text \<open>
  The decoder drops line breaks, wants whole groups of four, and takes padding in the last group
  only. Go's \<open>StdEncoding\<close> is not strict: the unused bits of the last group are ignored.
\<close>

fun b64_groups :: "string \<Rightarrow> bytes option" where
  "b64_groups [] = Some []"
| "b64_groups (w # x # y # z # s) =
     (case (b64_value w, b64_value x, b64_value y, b64_value z) of
        (Some p, Some q, Some r, Some t) \<Rightarrow>
          (let n = ((p * 64 + q) * 64 + r) * 64 + t in
           map_option (\<lambda>bs. char_of (n div 65536) # char_of (n div 256 mod 256) #
                            char_of (n mod 256) # bs) (b64_groups s))
      | (Some p, Some q, Some r, None) \<Rightarrow>
          (if z = CHR ''='' \<and> s = [] then
             (let n = ((p * 64 + q) * 64 + r) div 4 in
              Some [char_of (n div 256), char_of (n mod 256)])
           else None)
      | (Some p, Some q, None, None) \<Rightarrow>
          (if y = CHR ''='' \<and> z = CHR ''='' \<and> s = [] then Some [char_of ((p * 64 + q) div 16)]
           else None)
      | _ \<Rightarrow> None)"
| "b64_groups _ = None"

definition b64_decode :: "string \<Rightarrow> bytes res" where
  "b64_decode s =
     (case b64_groups (filter (\<lambda>c. c \<noteq> CHR 0x0A \<and> c \<noteq> CHR 0x0D) s) of
        None \<Rightarrow> Err (LibError ''illegal base64 data'')
      | Some bs \<Rightarrow> Ok bs)"

lemma b64_value_char:
  assumes "n < 64"
  shows "b64_value (b64_char n) = Some n"
  using assms by (auto simp: b64_value_def b64_char_def Let_def)

lemma b64_char_no_break:
  assumes "n < 64"
  shows "b64_char n \<noteq> CHR 0x0A" and "b64_char n \<noteq> CHR 0x0D"
  using b64_value_char [OF assms] by (auto simp: b64_value_def)

lemma b64_pad_value [simp]: "b64_value CHR ''='' = None"
  by (simp add: b64_value_def)

text \<open>The arithmetic of a group: sextets of a 24-bit number, and back to its bytes.\<close>

lemma sextets24:
  fixes n :: nat
  shows "((n div 262144 * 64 + n div 4096 mod 64) * 64 + n div 64 mod 64) * 64 + n mod 64 = n"
proof -
  have "n div 262144 = n div 64 div 64 div 64" and "n div 4096 = n div 64 div 64"
    by (simp_all add: div_mult2_eq [symmetric])
  then show ?thesis by (metis div_mod_decomp)
qed

lemma bytes24:
  fixes x y z :: nat
  assumes "x < 256" "y < 256" "z < 256"
  defines "n \<equiv> (x * 256 + y) * 256 + z"
  shows "n div 262144 < 64" and "n div 65536 = x" and "n div 256 mod 256 = y" and "n mod 256 = z"
proof -
  have hi: "n div 256 = x * 256 + y" using assms by simp
  then have "n div 65536 = (x * 256 + y) div 256"
    by (simp add: div_mult2_eq [symmetric] flip: hi)
  then show "n div 65536 = x" using assms by simp
  show "n div 256 mod 256 = y" using assms(2) by (simp only: hi mod_mult_self3 mod_less)
  show "n div 262144 < 64" using assms by (simp add: n_def)
  show "n mod 256 = z" using assms(3) unfolding n_def by (simp only: mod_mult_self3 mod_less)
qed

lemma char_of_mod: "n mod 256 = of_char c \<Longrightarrow> char_of n = c" for n :: nat
  by (metis char_of_char char_of_mod_256)

lemma bytes16:
  fixes x y :: nat
  assumes "x < 256" "y < 256"
  defines "n \<equiv> (x * 256 + y) * 4"
  shows "n div 4096 < 64"
    and "((n div 4096 * 64 + n div 64 mod 64) * 64 + n mod 64) div 4 = x * 256 + y"
    and "(x * 256 + y) div 256 = x" and "(x * 256 + y) mod 256 = y"
proof -
  have "(n div 4096 * 64 + n div 64 mod 64) * 64 + n mod 64 = n"
  proof -
    have "n div 4096 = n div 64 div 64"
      by (simp add: div_mult2_eq [symmetric])
    then show ?thesis by (metis div_mod_decomp)
  qed
  then show "((n div 4096 * 64 + n div 64 mod 64) * 64 + n mod 64) div 4 = x * 256 + y"
    by (simp add: n_def)
qed (use assms in auto)

lemma bytes8:
  fixes x :: nat
  assumes "x < 256"
  shows "x * 16 div 64 < 64" and "(x * 16 div 64 * 64 + x * 16 mod 64) div 16 = x"
proof -
  show "x * 16 div 64 < 64" using assms by auto
  show "(x * 16 div 64 * 64 + x * 16 mod 64) div 16 = x"
    by (metis div_mod_decomp nonzero_mult_div_cancel_right zero_neq_numeral)
qed

lemma b64_groups_encode: "b64_groups (b64_encode bs) = Some bs"
proof (induction bs rule: b64_encode.induct)
  case (2 a)
  show ?case
    using bytes8 [of "of_char a"] by (simp only: b64_encode.simps Let_def) (simp add: b64_value_char)
next
  case (3 a b)
  show ?case
    using bytes16 [of "of_char a" "of_char b"]
    by (simp only: b64_encode.simps Let_def) (simp add: b64_value_char char_of_mod)
next
  case (4 a b c s)
  define n where "n = (of_char a * 256 + of_char b) * 256 + (of_char c :: nat)"
  note n = bytes24 [of "of_char a" "of_char b" "of_char c", folded n_def]
  show ?case
    using n 4 sextets24 [of n]
    by (simp only: b64_encode.simps Let_def n_def [symmetric]) (simp add: b64_value_char char_of_mod)
qed simp

lemma b64_encode_no_breaks:
  "filter (\<lambda>c. c \<noteq> CHR 0x0A \<and> c \<noteq> CHR 0x0D) (b64_encode bs) = b64_encode bs"
proof (induction bs rule: b64_encode.induct)
  case (2 a)
  then show ?case using bytes8 [of "of_char a"] by (simp add: Let_def b64_char_no_break)
next
  case (3 a b)
  then show ?case using bytes16 [of "of_char a" "of_char b"] by (simp add: Let_def b64_char_no_break)
next
  case (4 a b c s)
  then show ?case
    using bytes24 [of "of_char a" "of_char b" "of_char c"] by (simp add: Let_def b64_char_no_break)
qed simp

theorem b64_decode_encode: "b64_decode (b64_encode bs) = Ok bs"
  by (simp add: b64_decode_def b64_encode_no_breaks b64_groups_encode)

lemma b64_decode_no_panic: "b64_decode s \<noteq> Panic p"
  by (auto simp: b64_decode_def split: option.splits)

text \<open>From here on, texts are encoded and decoded by the two round trips only.\<close>

declare hex_decode_encode [simp] b64_decode_encode [simp]
declare hex_encode.simps [simp del] hex_decode.simps [simp del] b64_encode.simps [simp del]

end
