(* ===== verification/Domain.thy ===== *)
theory Domain
  imports Complex_Main Encoding
begin

section \<open>Data shared by the components\<close>

text \<open>
  Certificates, keys, verifiers, transparency-log entries and bundles, and the \<open>libs\<close> record: the
  functions of third-party packages and of Go's cryptographic and JSON packages that the sources
  call. A definition that calls one of them takes the record as an argument; what a theorem needs
  to know of them is a hypothesis of that theorem.
\<close>

subsection \<open>Time\<close>

text \<open>
  \<open>time.Time\<close> without a monotonic reading and with whole seconds: a signed 64-bit count of the
  seconds since the year 1. \<open>time.Unix(sec, 0)\<close> adds an offset, and the addition wraps.
\<close>

type_synonym time = int64

definition unixToInternal :: int64 where
  "unixToInternal = 62135596800"

definition time_Unix :: "int64 \<Rightarrow> time" where
  "time_Unix sec = sec + unixToInternal"

definition time_Before :: "time \<Rightarrow> time \<Rightarrow> bool" where
  "time_Before t u = (sint t < sint u)"

definition time_After :: "time \<Rightarrow> time \<Rightarrow> bool" where
  "time_After t u = (sint u < sint t)"

lemma sint_time_Unix_raw: "sint (time_Unix s) = signed_take_bit 63 (sint s + 62135596800)"
proof -
  have "sint (time_Unix s) = signed_take_bit 63 (sint s + sint (62135596800 :: 64 word))"
    unfolding time_Unix_def unixToInternal_def by (subst sint_word_ariths(1)) simp
  then show ?thesis by simp
qed

lemma sint_time_Unix:
  assumes "- (2 ^ 63) \<le> sint s + 62135596800" and "sint s + 62135596800 < 2 ^ 63"
  shows "sint (time_Unix s) = sint s + 62135596800"
  using assms by (simp add: sint_time_Unix_raw signed_take_bit_int_eq_self)

lemma sint_time_Unix_wraps:
  assumes "2 ^ 63 \<le> sint s + 62135596800"
  shows "sint (time_Unix s) = sint s + 62135596800 - 2 ^ 64"
proof -
  define k where "k = sint s + 62135596800 + 2 ^ 63 - 2 ^ 64"
  have "sint s < 2 ^ 63"
    using sint_less [of s] by simp
  then have k: "0 \<le> k" "k < 2 ^ 64"
    using assms by (simp_all add: k_def)
  have "(sint s + 62135596800 + 2 ^ 63) mod 2 ^ 64 = (k + 2 ^ 64) mod 2 ^ 64"
    by (simp add: k_def)
  also have "\<dots> = k"
    using k by simp
  finally show ?thesis
    by (simp add: sint_time_Unix_raw signed_take_bit_eq_take_bit_shift take_bit_eq_mod k_def)
qed

subsection \<open>Values of JSON documents\<close>

text \<open>
  What \<open>json.Unmarshal\<close> stores in an \<open>interface{}\<close>: a \<open>float64\<close> is a rational number, a missing
  key of a map reads as nil.
\<close>

datatype iface =
    INil
  | IBool bool
  | INum rat
  | IStr string
  | IArr "iface list"
  | IObj "(string \<times> iface) list"

text \<open>
  \<open>==\<close> on interfaces: values of different dynamic types differ; two slices or two maps cannot be
  compared and the comparison panics.
\<close>

definition iface_eq :: "iface \<Rightarrow> iface \<Rightarrow> bool res" where
  "iface_eq a b =
     (case (a, b) of
        (IArr _, IArr _) \<Rightarrow> Panic ''comparing uncomparable type []interface {}''
      | (IObj _, IObj _) \<Rightarrow> Panic ''comparing uncomparable type map[string]interface {}''
      | _ \<Rightarrow> Ok (a = b))"

text \<open>The type assertion \<open>x.(string)\<close> without the second result.\<close>

definition as_string :: "iface \<Rightarrow> string res" where
  "as_string v = (case v of IStr s \<Rightarrow> Ok s | _ \<Rightarrow> Panic ''interface conversion'')"

text \<open>Reading through a pointer.\<close>

definition deref :: "'a option \<Rightarrow> 'a res" where
  "deref p = (case p of None \<Rightarrow> Panic ''nil pointer dereference'' | Some x \<Rightarrow> Ok x)"

lemma deref_simps [simp]: "deref None = Panic ''nil pointer dereference''" "deref (Some x) = Ok x"
  by (simp_all add: deref_def)

lemma deref_Ok_iff [res_simps]: "deref p = Ok x \<longleftrightarrow> p = Some x"
  by (cases p) auto

lemma as_string_Ok_iff [res_simps]: "as_string v = Ok s \<longleftrightarrow> v = IStr s"
  by (cases v) (auto simp: as_string_def)

subsection \<open>Hashes, keys, certificates\<close>

record hash =
  Algorithm :: string
  Hex :: string

definition hash_String :: "hash \<Rightarrow> string" where
  "hash_String h = Algorithm h @ '':'' @ Hex h"

datatype pubkey = ECDSAKey bytes | RSAKey bytes | ED25519Key bytes | OtherKey bytes

text \<open>
  The fields of an \<open>x509.Certificate\<close> that the sources read. IP addresses and URIs are given by
  the text their \<open>String\<close> method returns.
\<close>

record certificate =
  Raw :: bytes
  PublicKey :: pubkey
  NotBefore :: time
  NotAfter :: time
  DNSNames :: "string list"
  EmailAddresses :: "string list"
  IPAddresses :: "string list"
  URIs :: "string list"
  Extensions :: "(nat list \<times> bytes) list"
  RawSubject :: bytes
  RawIssuer :: bytes

text \<open>An \<open>x509.CertPool\<close> keeps a certificate once; certificates are compared by their bytes.\<close>

type_synonym certpool = "certificate list"

definition NewCertPool :: certpool where
  "NewCertPool = []"

definition AddCert :: "certificate \<Rightarrow> certpool \<Rightarrow> certpool" where
  "AddCert c p = (if Raw c \<in> set (map Raw p) then p else p @ [c])"

text \<open>\<open>signature.Verifier\<close>: \<open>VerifySignature(signature, message)\<close> and \<open>PublicKey()\<close>.\<close>

record verifier =
  VerifySignature :: "bytes \<Rightarrow> bytes \<Rightarrow> unit res"
  verifier_PublicKey :: "pubkey res"

subsection \<open>Transparency log\<close>

text \<open>\<open>pkg/cosign/bundle/rekor.go\<close>\<close>

record rekor_payload =
  Body :: iface
  IntegratedTime :: int64
  LogIndex :: int64
  LogID :: string

record rekor_bundle =
  SignedEntryTimestamp :: bytes
  bundle_Payload :: rekor_payload

text \<open>Rekor's \<open>models.LogEntryAnon\<close>; a pointer field is an option.\<close>

record inclusion_proof =
  proof_Hashes :: "string list"
  proof_RootHash :: "string option"
  proof_LogIndex :: "int64 option"
  proof_TreeSize :: "int64 option"

record entry_verification =
  InclusionProof :: "inclusion_proof option"
  entry_SignedEntryTimestamp :: bytes

record log_entry =
  entry_Body :: iface
  entry_IntegratedTime :: "int64 option"
  entry_LogIndex :: "int64 option"
  entry_LogID :: "string option"
  Verification :: "entry_verification option"

definition EntryToBundle :: "log_entry \<Rightarrow> rekor_bundle option res" where
  "EntryToBundle entry =
     (case Verification entry of
        None \<Rightarrow> Ok None
      | Some v \<Rightarrow>
          bindr (deref (entry_IntegratedTime entry)) (\<lambda>it.
          bindr (deref (entry_LogIndex entry)) (\<lambda>ix.
          bindr (deref (entry_LogID entry)) (\<lambda>lid.
          Ok (Some \<lparr>SignedEntryTimestamp = entry_SignedEntryTimestamp v,
                    bundle_Payload = \<lparr>Body = entry_Body entry, IntegratedTime = it,
                                      LogIndex = ix, LogID = lid\<rparr>\<rparr>)))))"

text \<open>
  The schemas of Rekor's entry types, in the part the sources read or write: data hash, signature
  and public key of a (hashed) rekord; envelope, hash and public key of an in-toto entry.
\<close>

record hash_ref =
  hash_Algorithm :: "string option"
  hash_Value :: "string option"

record signature_ref =
  sigref_Content :: bytes
  sigref_PublicKey :: "bytes option"

record rekord_schema =
  rekord_Data :: "hash_ref option option"
  rekord_Signature :: "signature_ref option"

record intoto_content =
  Envelope :: string
  content_Hash :: "hash_ref option"

record intoto_schema =
  intoto_Content :: "intoto_content option"
  intoto_PublicKey :: "bytes option"

datatype proposed_entry =
    Hashedrekord string rekord_schema
  | Intoto string intoto_schema

subsection \<open>Payloads\<close>

text \<open>\<open>payload.SimpleContainerImage\<close>, a DSSE envelope and an in-toto statement.\<close>

record simple_image =
  DockerManifestDigest :: string
  Optional :: "(string, iface) gomap"

record envelope =
  PayloadType :: string
  envelope_Payload :: string
  envelope_Signatures :: "(string \<times> string) list"

record subject =
  subject_Name :: string
  subject_Digest :: "(string, string) gomap"

record statement =
  PredicateType :: string
  Subject :: "subject list"

record sct =
  sct_LogID :: bytes
  sct_Raw :: bytes

text \<open>What a TUF repository says of a target: length, hashes and a custom JSON value.\<close>

record target_meta =
  meta_Length :: int64
  meta_Hashes :: "(string, bytes) gomap"
  meta_Custom :: "bytes option"

subsection \<open>The libraries\<close>

record libs =
  sha256 :: "bytes \<Rightarrow> bytes"
  v1_SHA256 :: "bytes \<Rightarrow> hash res"
  ecdsa_VerifyASN1 :: "pubkey \<Rightarrow> bytes \<Rightarrow> bytes \<Rightarrow> bool"
  x509_Verify :: "certificate \<Rightarrow> time \<Rightarrow> certpool option \<Rightarrow> certpool option \<Rightarrow> nat list
                  \<Rightarrow> certificate list list res"
  MarshalPKIXPublicKey :: "pubkey \<Rightarrow> bytes res"
  ParsePKIXPublicKey :: "bytes \<Rightarrow> pubkey res"
  ParsePKCS1PublicKey :: "bytes \<Rightarrow> pubkey res"
  pem_Decode :: "bytes \<Rightarrow> (bytes \<times> bytes) option"
  regexp_Compile :: "string \<Rightarrow> (string \<Rightarrow> bool) res"
  errors_Wrap :: "gerror option \<Rightarrow> string \<Rightarrow> gerror option"
  LoadVerifier :: "pubkey \<Rightarrow> verifier res"
  UnmarshalPEMToPublicKey :: "bytes \<Rightarrow> pubkey res"
  MarshalPublicKeyToPEM :: "pubkey \<Rightarrow> bytes res"
  MarshalCertificateToPEM :: "certificate \<Rightarrow> bytes res"
  MarshalCertificatesToPEM :: "certificate list \<Rightarrow> bytes res"
  LoadCertificatesFromPEM :: "bytes \<Rightarrow> certificate list res"
  NewEnvelopeVerifier :: "verifier \<Rightarrow> (envelope \<Rightarrow> unit res) res"
  ParseSCTsFromCertificate :: "bytes \<Rightarrow> sct list res"
  CertificateFromPEM :: "bytes \<Rightarrow> certificate res"
  CertificatesFromPEM :: "bytes \<Rightarrow> certificate list res"
  UnmarshalCertificatesFromPEM :: "bytes \<Rightarrow> certificate list res"
  CertsInPEM :: "bytes \<Rightarrow> certificate list"
  ctutil_VerifySCT :: "pubkey \<Rightarrow> certificate list \<Rightarrow> sct \<Rightarrow> bool \<Rightarrow> unit res"
  GetCTLogID :: "pubkey \<Rightarrow> bytes res"
  Unmarshal_AddChainResponse :: "bytes \<Rightarrow> iface res"
  ToSignedCertificateTimestamp :: "iface \<Rightarrow> sct res"
  HashLeaf :: "bytes \<Rightarrow> bytes"
  VerifyInclusionProof :: "int64 \<Rightarrow> int64 \<Rightarrow> bytes list \<Rightarrow> bytes \<Rightarrow> bytes \<Rightarrow> unit res"
  jsoncanonicalizer_Transform :: "bytes \<Rightarrow> bytes res"
  strfmt_Base64_String :: "bytes \<Rightarrow> string"
  json_Marshal :: "iface \<Rightarrow> bytes res"
  Marshal_RekorPayload :: "rekor_payload \<Rightarrow> bytes res"
  Marshal_RekorBundle :: "rekor_bundle \<Rightarrow> bytes res"
  Unmarshal_RekorBundle :: "bytes \<Rightarrow> rekor_bundle res"
  Unmarshal_Envelope :: "bytes \<Rightarrow> envelope res"
  Unmarshal_SimpleContainerImage :: "bytes \<Rightarrow> simple_image res"
  Unmarshal_Statement :: "bytes \<Rightarrow> statement res"
  Unmarshal_Object :: "bytes \<Rightarrow> (string, iface) gomap res"
  Unmarshal_Intoto :: "bytes \<Rightarrow> iface res"
  Unmarshal_Rekord :: "bytes \<Rightarrow> iface res"
  Unmarshal_Hashedrekord :: "bytes \<Rightarrow> iface res"
  Unmarshal_IntotoV001 :: "bytes \<Rightarrow> intoto_schema res"
  Unmarshal_RekordV001 :: "bytes \<Rightarrow> rekord_schema res"
  Unmarshal_HashedrekordV001 :: "bytes \<Rightarrow> rekord_schema res"
  Marshal_CosignPayload :: "string \<Rightarrow> bytes res"
  hashedrekord_APIVersion :: string
  intoto_APIVersion :: string
  GenerateTargetFileMeta :: "bytes \<Rightarrow> target_meta res"
  TargetFileMetaEqual :: "target_meta \<Rightarrow> target_meta \<Rightarrow> unit res"
  Unmarshal_sigstoreCustom :: "bytes \<Rightarrow> (string option \<times> string option) res"

text \<open>
  \<open>errors.Wrap\<close> of github.com/pkg/errors, as its documentation says: nil for a nil error, an
  error for an error.
\<close>

definition errors_Wrap_documented :: "libs \<Rightarrow> bool" where
  "errors_Wrap_documented L \<longleftrightarrow>
     (\<forall>m. errors_Wrap L None m = None) \<and> (\<forall>e m. errors_Wrap L (Some e) m \<noteq> None)"

text \<open>\<open>PemToECDSAKey\<close> (\<open>pkg/cosign/keys.go\<close>).\<close>

definition PemToECDSAKey :: "libs \<Rightarrow> bytes \<Rightarrow> pubkey res" where
  "PemToECDSAKey L pemBytes =
     bindr (UnmarshalPEMToPublicKey L pemBytes) (\<lambda>pub.
       (case pub of
          ECDSAKey k \<Rightarrow> Ok (ECDSAKey k)
        | _ \<Rightarrow> Err (ErrorString ''invalid public key: require *ecdsa.PublicKey'')))"

lemma PemToECDSAKey_Ok: "PemToECDSAKey L b = Ok k \<Longrightarrow> \<exists>d. k = ECDSAKey d"
  by (cases "UnmarshalPEMToPublicKey L b") (auto simp: PemToECDSAKey_def split: pubkey.splits)

text \<open>\<open>PublicKeyPem\<close> (\<open>pkg/signature/keys.go\<close>).\<close>

definition PublicKeyPem :: "libs \<Rightarrow> verifier \<Rightarrow> bytes res" where
  "PublicKeyPem L key = bindr (verifier_PublicKey key) (MarshalPublicKeyToPEM L)"

end
