(* ===== verification/Samples.thy ===== *)
theory Samples
  imports Domain
begin

section \<open>Concrete values for the parameters\<close>

text \<open>
  One simple implementation of the libraries, a certificate and a bundle. The examples evaluate
  the definitions on them: a key verifies a signature that is the key's bytes followed by the
  message, a certificate is its own PEM text, a hash is the text that is hashed.
\<close>

definition sample_cert :: certificate where
  "sample_cert = \<lparr>Raw = ''cert'', PublicKey = ECDSAKey ''k'', NotBefore = 100, NotAfter = 200,
     DNSNames = [], EmailAddresses = [''a@b''], IPAddresses = [], URIs = [],
     Extensions = [([1, 3, 6, 1, 4, 1, 57264, 1, 1], ''iss'')], RawSubject = ''ca'', RawIssuer = ''ca''\<rparr>"

definition sample_payload :: rekor_payload where
  "sample_payload = \<lparr>Body = IStr (b64_encode ''body''), IntegratedTime = 150 - unixToInternal, LogIndex = 7,
     LogID = hex_encode ''r''\<rparr>"

definition sample_bundle :: rekor_bundle where
  "sample_bundle = \<lparr>SignedEntryTimestamp = ''rpayload'', bundle_Payload = sample_payload\<rparr>"

fun key_bytes :: "pubkey \<Rightarrow> bytes" where
  "key_bytes (ECDSAKey b) = b"
| "key_bytes (RSAKey b) = b"
| "key_bytes (ED25519Key b) = b"
| "key_bytes (OtherKey b) = b"

definition sample_verifier :: "pubkey \<Rightarrow> verifier" where
  "sample_verifier k =
     \<lparr>VerifySignature = (\<lambda>s m. if s = key_bytes k @ m then Ok () else Err (LibError ''bad signature'')),
      verifier_PublicKey = Ok k\<rparr>"

definition sample_libs :: libs where
  "sample_libs = \<lparr>
     sha256 = (\<lambda>b. b),
     v1_SHA256 = (\<lambda>b. Ok \<lparr>Algorithm = ''sha256'', Hex = hex_encode b\<rparr>),
     ecdsa_VerifyASN1 = (\<lambda>k h s. s = key_bytes k @ h),
     x509_Verify = (\<lambda>c t roots inter usages. case roots of
        None \<Rightarrow> Err (LibError ''no roots'')
      | Some rs \<Rightarrow> if rs = [] then Err (LibError ''unknown authority'') else Ok [[c, hd rs]]),
     MarshalPKIXPublicKey = (\<lambda>k. Ok (key_bytes k)),
     ParsePKIXPublicKey = (\<lambda>b. Ok (ECDSAKey b)),
     ParsePKCS1PublicKey = (\<lambda>b. Ok (RSAKey b)),
     pem_Decode = (\<lambda>b. if b = [] then None else Some (b, [])),
     regexp_Compile = (\<lambda>e. Ok (\<lambda>s. s = e)),
     errors_Wrap = (\<lambda>e m. case e of None \<Rightarrow> None | Some x \<Rightarrow> Some (Wrapped x m)),
     LoadVerifier = (\<lambda>k. Ok (sample_verifier k)),
     UnmarshalPEMToPublicKey = (\<lambda>b. Ok (ECDSAKey b)),
     MarshalPublicKeyToPEM = (\<lambda>k. case k of
        ECDSAKey b \<Rightarrow> if b = [] then Err (LibError ''empty key'') else Ok b | _ \<Rightarrow> Err (LibError ''unsupported key'')),
     MarshalCertificateToPEM = (\<lambda>c. Ok (Raw c)),
     MarshalCertificatesToPEM = (\<lambda>cs. Ok (concat (map Raw cs))),
     LoadCertificatesFromPEM = (\<lambda>b. Ok (if b = [] then [] else [sample_cert\<lparr>Raw := b\<rparr>])),
     NewEnvelopeVerifier = (\<lambda>v. Ok (\<lambda>env. VerifySignature v (envelope_Payload env) [])),
     ParseSCTsFromCertificate = (\<lambda>b. Ok []),
     CertificateFromPEM = (\<lambda>b. Ok (sample_cert\<lparr>Raw := b\<rparr>)),
     CertificatesFromPEM = (\<lambda>b. Ok [sample_cert\<lparr>Raw := b\<rparr>]),
     UnmarshalCertificatesFromPEM = (\<lambda>b. Ok [sample_cert\<lparr>Raw := b\<rparr>]),
     CertsInPEM = (\<lambda>b. [sample_cert\<lparr>Raw := b\<rparr>]),
     ctutil_VerifySCT = (\<lambda>k cs s embedded. Ok ()),
     GetCTLogID = (\<lambda>k. Ok (key_bytes k)),
     Unmarshal_AddChainResponse = (\<lambda>b. Ok (IStr b)),
     ToSignedCertificateTimestamp = (\<lambda>v. case v of IStr b \<Rightarrow> Ok \<lparr>sct_LogID = b, sct_Raw = b\<rparr>
        | _ \<Rightarrow> Err (LibError ''bad response'')),
     HashLeaf = (\<lambda>b. b),
     VerifyInclusionProof = (\<lambda>ix sz hs root leaf. if root = leaf then Ok () else Err (LibError ''proof'')),
     jsoncanonicalizer_Transform = Ok,
     strfmt_Base64_String = b64_encode,
     json_Marshal = (\<lambda>v. case v of IStr s \<Rightarrow> Ok s | _ \<Rightarrow> Ok []),
     Marshal_RekorPayload = (\<lambda>p. Ok ''payload''),
     Marshal_RekorBundle = (\<lambda>b. Ok ''bundle''),
     Unmarshal_RekorBundle = (\<lambda>j. Ok sample_bundle),
     Unmarshal_Envelope = (\<lambda>b. Ok \<lparr>PayloadType = ''application/vnd.in-toto+json'',
        envelope_Payload = b, envelope_Signatures = []\<rparr>),
     Unmarshal_SimpleContainerImage = (\<lambda>b. Ok \<lparr>DockerManifestDigest = b, Optional = []\<rparr>),
     Unmarshal_Statement = (\<lambda>b. Ok \<lparr>PredicateType = [],
        Subject = [\<lparr>subject_Name = [], subject_Digest = [(''sha256'', b)]\<rparr>]\<rparr>),
     Unmarshal_Object = (\<lambda>b. Ok [(''payload'', IStr (b64_encode b))]),
     Unmarshal_Intoto = (\<lambda>b. Ok (IStr b)),
     Unmarshal_Rekord = (\<lambda>b. Err (LibError ''invalid kind value'')),
     Unmarshal_Hashedrekord = (\<lambda>b. Ok (IStr b)),
     Unmarshal_IntotoV001 = (\<lambda>b. Ok \<lparr>intoto_Content = Some \<lparr>Envelope = [],
        content_Hash = Some \<lparr>hash_Algorithm = Some ''sha256'', hash_Value = Some b\<rparr>\<rparr>,
        intoto_PublicKey = None\<rparr>),
     Unmarshal_RekordV001 = (\<lambda>b. Err (LibError ''rekord'')),
     Unmarshal_HashedrekordV001 = (\<lambda>b. Ok \<lparr>
        rekord_Data = Some (Some \<lparr>hash_Algorithm = Some ''sha256'', hash_Value = Some (hex_encode b)\<rparr>),
        rekord_Signature = Some \<lparr>sigref_Content = ''k'' @ b, sigref_PublicKey = None\<rparr>\<rparr>),
     Marshal_CosignPayload = (\<lambda>d. Ok d),
     hashedrekord_APIVersion = ''0.0.1'',
     intoto_APIVersion = ''0.0.1'',
     GenerateTargetFileMeta = (\<lambda>b. Ok \<lparr>meta_Length = of_nat (length b), meta_Hashes = [(''sha256'', b)],
        meta_Custom = None\<rparr>),
     TargetFileMetaEqual = (\<lambda>a b. if meta_Hashes a = meta_Hashes b then Ok () else Err (LibError ''wrong hash'')),
     Unmarshal_sigstoreCustom = (\<lambda>b. Ok (Some b, Some ''Active''))\<rparr>"

end
