(* ===== verification/TUF.thy ===== *)
theory TUF
  imports Samples
begin

section \<open>Trusted targets\<close>

text \<open>
  \<open>pkg/cosign/tuf\<close>: the usage and status kinds of a target, the lookup of verified targets by usage
  (\<open>GetTarget\<close>, \<open>GetTargetsByMeta\<close>). The client of
  the go-tuf library is a parameter: the record \<open>tuf\<close> holds what its methods return after
  \<open>NewFromEnv\<close>. The record \<open>host\<close> is the process environment: variables, files, and the TUF client
  that \<open>NewFromEnv\<close> returns in it.
\<close>

subsection \<open>Kinds\<close>

text \<open>Both kinds are Go ints; a value outside of the listed ones has no text.\<close>

type_synonym UsageKind = int
type_synonym StatusKind = int

definition UnknownUsage :: UsageKind where "UnknownUsage = 0"
definition Fulcio :: UsageKind where "Fulcio = 1"
definition Rekor :: UsageKind where "Rekor = 2"
definition CTFE :: UsageKind where "CTFE = 3"

definition UnknownStatus :: StatusKind where "UnknownStatus = 0"
definition Active :: StatusKind where "Active = 1"
definition Expired :: StatusKind where "Expired = 2"

lemmas kind_defs = UnknownUsage_def Fulcio_def Rekor_def CTFE_def UnknownStatus_def Active_def Expired_def

definition toUsageString :: "(UsageKind, string) gomap" where
  "toUsageString = [(UnknownUsage, ''Unknown''), (Fulcio, ''Fulcio''), (Rekor, ''Rekor''), (CTFE, ''CTFE'')]"

definition toStatusString :: "(StatusKind, string) gomap" where
  "toStatusString = [(UnknownStatus, ''Unknown''), (Active, ''Active''), (Expired, ''Expired'')]"

definition kind_String :: "(int, string) gomap \<Rightarrow> int \<Rightarrow> string" where
  "kind_String tbl k = (case mlookup tbl k of None \<Rightarrow> [] | Some s \<Rightarrow> s)"

definition UsageKind_MarshalText :: "UsageKind \<Rightarrow> bytes res" where
  "UsageKind_MarshalText u =
     (if kind_String toUsageString u = []
      then Err (ErrorString ''error while marshalling, UsageKind not valid'')
      else Ok (kind_String toUsageString u))"

definition StatusKind_MarshalText :: "StatusKind \<Rightarrow> bytes res" where
  "StatusKind_MarshalText s =
     (if kind_String toStatusString s = []
      then Err (ErrorString ''error while marshalling, StatusKind not valid'')
      else Ok (kind_String toStatusString s))"

text \<open>
  \<open>strings.ToLower\<close>, as far as a comparison with an ASCII word can see it: ASCII letters, and the two
  other letters whose lower case is ASCII (the Kelvin sign U+212A and the dotted capital I U+0130,
  in UTF-8). Every other letter has a lower case outside ASCII.
\<close>

definition lower_char :: "char \<Rightarrow> char" where
  "lower_char c = (let n = of_char c :: nat in if 65 \<le> n \<and> n \<le> 90 then char_of (n + 32) else c)"

fun to_lower :: "string \<Rightarrow> string" where
  "to_lower [] = []"
| "to_lower [c] = [lower_char c]"
| "to_lower [c, d] =
     (if c = CHR 0xC4 \<and> d = CHR 0xB0 then ''i'' else [lower_char c, lower_char d])"
| "to_lower (c # d # e # cs) =
     (if c = CHR 0xE2 \<and> d = CHR 0x84 \<and> e = CHR 0xAA then CHR ''k'' # to_lower cs
      else if c = CHR 0xC4 \<and> d = CHR 0xB0 then CHR ''i'' # to_lower (e # cs)
      else lower_char c # to_lower (d # e # cs))"

definition UsageKind_UnmarshalText :: "bytes \<Rightarrow> UsageKind res" where
  "UsageKind_UnmarshalText text =
     (let t = to_lower text
      in if t = ''unknown'' then Ok UnknownUsage
         else if t = ''fulcio'' then Ok Fulcio
         else if t = ''rekor'' then Ok Rekor
         else if t = ''ctfe'' then Ok CTFE
         else Err (ErrorString (''error while unmarshalling, UsageKind='' @ text @ '' not valid'')))"

definition StatusKind_UnmarshalText :: "bytes \<Rightarrow> StatusKind res" where
  "StatusKind_UnmarshalText text =
     (let t = to_lower text
      in if t = ''unknown'' then Ok UnknownStatus
         else if t = ''active'' then Ok Active
         else if t = ''expired'' then Ok Expired
         else Err (ErrorString (''error while unmarshalling, StatusKind='' @ text @ '' not valid'')))"

lemma MarshalText_UnmarshalText:
  "UsageKind_MarshalText u = Ok t \<Longrightarrow> UsageKind_UnmarshalText t = Ok u"
  "StatusKind_MarshalText s = Ok t \<Longrightarrow> StatusKind_UnmarshalText t = Ok s"
  by (auto simp: UsageKind_MarshalText_def UsageKind_UnmarshalText_def StatusKind_MarshalText_def
      StatusKind_UnmarshalText_def kind_String_def toUsageString_def toStatusString_def kind_defs
      lower_char_def char_of_def bit_Suc_0_iff Let_def split: if_splits)

subsection \<open>Targets\<close>

record TargetFile =
  Target :: bytes
  Status :: StatusKind

record customMetadata =
  Usage :: UsageKind
  custom_Status :: StatusKind

text \<open>
  \<open>json.Unmarshal\<close> into \<open>sigstoreCustomMetadata\<close>: the JSON library finds the two texts (or none) and
  calls \<open>UnmarshalText\<close>; a missing text leaves the zero value.
\<close>

definition Unmarshal_sigstoreCustomMetadata :: "libs \<Rightarrow> bytes \<Rightarrow> customMetadata res" where
  "Unmarshal_sigstoreCustomMetadata L b =
     bindr (Unmarshal_sigstoreCustom L b) (\<lambda>(u, s).
     bindr (case u of None \<Rightarrow> Ok UnknownUsage | Some t \<Rightarrow> UsageKind_UnmarshalText t) (\<lambda>usage.
     bindr (case s of None \<Rightarrow> Ok UnknownStatus | Some t \<Rightarrow> StatusKind_UnmarshalText t) (\<lambda>status.
     Ok \<lparr>Usage = usage, custom_Status = status\<rparr>)))"

record tuf =
  client_Targets :: "(string, target_meta) gomap res"
  client_Target :: "string \<Rightarrow> target_meta res"
  targets_Get :: "string \<Rightarrow> bytes res"

record host =
  Getenv :: "string \<Rightarrow> string"
  ReadFile :: "string \<Rightarrow> bytes res"
  HTTPGet :: "string \<Rightarrow> bytes res"
  tuf_NewFromEnv :: "tuf res"

text \<open>\<open>pkg/blob/load.go\<close>\<close>

definition LoadFileOrURL :: "host \<Rightarrow> string \<Rightarrow> bytes res" where
  "LoadFileOrURL H fileRef =
     (if has_prefix fileRef ''http://'' \<or> has_prefix fileRef ''https://'' then HTTPGet H fileRef
      else ReadFile H (filepath_Clean fileRef))"

definition GetTarget :: "libs \<Rightarrow> tuf \<Rightarrow> string \<Rightarrow> bytes res" where
  "GetTarget L t name =
     bindr (wrapr ''error verifying local metadata; local cache may be corrupt'' (client_Target t name)) (\<lambda>validMeta.
     bindr (targets_Get t name) (\<lambda>targetBytes.
     bindr (GenerateTargetFileMeta L targetBytes) (\<lambda>localMeta.
     bindr (TargetFileMetaEqual L localMeta validMeta) (\<lambda>_.
     Ok targetBytes))))"

fun matched_targets ::
  "libs \<Rightarrow> tuf \<Rightarrow> UsageKind \<Rightarrow> (string, target_meta) gomap \<Rightarrow> TargetFile list res" where
  "matched_targets L t usage [] = Ok []"
| "matched_targets L t usage ((name, targetMeta) # rest) =
     (case meta_Custom targetMeta of
        None \<Rightarrow> matched_targets L t usage rest
      | Some custom \<Rightarrow>
          handler (Unmarshal_sigstoreCustomMetadata L custom)
            (\<lambda>_. matched_targets L t usage rest)
            (\<lambda>scm. if Usage scm = usage
                    then bindr (wrapr ''error getting target by usage'' (GetTarget L t name)) (\<lambda>target.
                         bindr (matched_targets L t usage rest) (\<lambda>ts.
                         Ok (\<lparr>Target = target, Status = custom_Status scm\<rparr> # ts)))
                    else matched_targets L t usage rest))"

fun fallback_targets :: "libs \<Rightarrow> tuf \<Rightarrow> string list \<Rightarrow> TargetFile list res" where
  "fallback_targets L t [] = Ok []"
| "fallback_targets L t (fallback # rest) =
     handler (GetTarget L t fallback)
       (\<lambda>_. fallback_targets L t rest)
       (\<lambda>target. bindr (fallback_targets L t rest) (\<lambda>ts.
                   Ok (\<lparr>Target = target, Status = Active\<rparr> # ts)))"

definition GetTargetsByMeta :: "libs \<Rightarrow> tuf \<Rightarrow> UsageKind \<Rightarrow> string list \<Rightarrow> TargetFile list res" where
  "GetTargetsByMeta L t usage fallbacks =
     bindr (wrapr ''error getting targets'' (client_Targets t)) (\<lambda>targets.
     bindr (matched_targets L t usage targets) (\<lambda>matched.
     bindr (if matched = [] then fallback_targets L t fallbacks else Ok matched) (\<lambda>matchedTargets.
     if matchedTargets = []
     then Err (ErrorString ''no matching targets by custom metadata, fallbacks not found'')
     else Ok matchedTargets)))"

subsection \<open>Tables of keys\<close>

text \<open>
  Two clients (Rekor and the CT log) turn the targets into a table of keys: each file gives a key ID
  and an entry, a later file replaces an earlier one with the same ID, and any bad file fails the
  whole table.
\<close>

locale key_table =
  fixes load :: "libs \<Rightarrow> TargetFile \<Rightarrow> ('k \<times> 'v) res"
    and collect :: "libs \<Rightarrow> TargetFile list \<Rightarrow> ('k, 'v) gomap \<Rightarrow> ('k, 'v) gomap res"
  assumes collect_Nil: "collect L [] acc = Ok acc"
    and collect_Cons: "collect L (t # ts) acc = bindr (load L t) (\<lambda>(k, v). collect L ts (mset_key k v acc))"
begin

lemma collect_sound:
  assumes "collect L ts acc = Ok m" and "mlookup m k = Some v"
  shows "mlookup acc k = Some v \<or> (\<exists>f \<in> set ts. load L f = Ok (k, v))"
  using assms
  by (induction ts arbitrary: acc) (fastforce simp: collect_Nil collect_Cons bindr_Ok_iff split: if_splits)+

lemma collect_keeps:
  assumes "collect L ts acc = Ok m" and "k \<in> dom (map_of acc)"
  shows "k \<in> dom (map_of m)"
  using assms
  by (induction ts arbitrary: acc) (fastforce simp: collect_Nil collect_Cons bindr_Ok_iff)+

lemma collect_complete:
  assumes "collect L ts acc = Ok m" and "f \<in> set ts"
  shows "\<exists>k v. load L f = Ok (k, v) \<and> k \<in> dom (map_of m)"
  using assms
proof (induction ts arbitrary: acc)
  case (Cons t ts)
  then show ?case
    using collect_keeps by (fastforce simp: collect_Cons bindr_Ok_iff)
qed simp

end

subsection \<open>What the lookup guarantees\<close>

text \<open>A target is verified: its bytes match the metadata that the client holds for its name.\<close>

definition verified_target :: "libs \<Rightarrow> tuf \<Rightarrow> string \<Rightarrow> bytes \<Rightarrow> bool" where
  "verified_target L t name b \<longleftrightarrow>
     (\<exists>valid found. client_Target t name = Ok valid \<and> targets_Get t name = Ok b \<and>
        GenerateTargetFileMeta L b = Ok found \<and> TargetFileMetaEqual L found valid = Ok ())"

definition has_usage :: "libs \<Rightarrow> UsageKind \<Rightarrow> target_meta \<Rightarrow> StatusKind \<Rightarrow> bool" where
  "has_usage L usage m st \<longleftrightarrow>
     (\<exists>c scm. meta_Custom m = Some c \<and> Unmarshal_sigstoreCustomMetadata L c = Ok scm \<and>
        Usage scm = usage \<and> custom_Status scm = st)"

lemma GetTarget_Ok_iff [res_simps]: "GetTarget L t name = Ok b \<longleftrightarrow> verified_target L t name b"
  by (auto simp: GetTarget_def verified_target_def res_simps)

lemma matched_targets_sound:
  assumes "matched_targets L t usage targets = Ok ts" and "f \<in> set ts"
  shows "\<exists>name m. (name, m) \<in> set targets \<and> has_usage L usage m (Status f) \<and>
           verified_target L t name (Target f)"
  using assms
  by (induction L t usage targets arbitrary: ts rule: matched_targets.induct)
     (fastforce simp: res_simps has_usage_def split: option.splits if_splits)+

lemma matched_targets_complete:
  assumes "matched_targets L t usage targets = Ok ts" and "(name, m) \<in> set targets"
    and "has_usage L usage m st"
  shows "\<exists>f \<in> set ts. Status f = st \<and> verified_target L t name (Target f)"
  using assms
  by (induction L t usage targets arbitrary: ts rule: matched_targets.induct)
     (fastforce simp: res_simps has_usage_def split: option.splits if_splits)+

lemma fallback_targets_sound:
  assumes "fallback_targets L t fallbacks = Ok ts" and "f \<in> set ts"
  shows "Status f = Active \<and> (\<exists>name \<in> set fallbacks. verified_target L t name (Target f))"
  using assms
  by (induction L t fallbacks arbitrary: ts rule: fallback_targets.induct)
     (auto simp: res_simps)

text \<open>C16. The lookup of targets by usage returns at least one file, and only files whose bytes match
  the metadata of the TUF client. Where some target carries the usage in its custom metadata, the
  result has exactly such targets, each with the status of its metadata, and misses none; otherwise
  every file is a fallback and counts as active.\<close>

theorem GetTargetsByMeta_correct:
  assumes "GetTargetsByMeta L t usage fallbacks = Ok ts" and "client_Targets t = Ok targets"
  shows "ts \<noteq> [] \<and>
    (if \<exists>name m st. (name, m) \<in> set targets \<and> has_usage L usage m st
     then (\<forall>f \<in> set ts. \<exists>name m. (name, m) \<in> set targets \<and> has_usage L usage m (Status f) \<and>
             verified_target L t name (Target f)) \<and>
          (\<forall>name m st. (name, m) \<in> set targets \<longrightarrow> has_usage L usage m st \<longrightarrow>
             (\<exists>f \<in> set ts. Status f = st \<and> verified_target L t name (Target f)))
     else \<forall>f \<in> set ts. Status f = Active \<and> (\<exists>name \<in> set fallbacks. verified_target L t name (Target f)))"
proof -
  obtain matched where m: "matched_targets L t usage targets = Ok matched"
    and ts: "(if matched = [] then fallback_targets L t fallbacks else Ok matched) = Ok ts" "ts \<noteq> []"
    using assms by (auto simp: GetTargetsByMeta_def res_simps split: if_splits)
  have none: "matched = [] \<longleftrightarrow> \<not> (\<exists>name m st. (name, m) \<in> set targets \<and> has_usage L usage m st)"
    using matched_targets_sound [OF m] matched_targets_complete [OF m]
    by (metis list.set_intros(1) neq_Nil_conv empty_iff empty_set)
  show ?thesis
  proof (cases "matched = []")
    case True
    then show ?thesis
      using ts none fallback_targets_sound [of L t fallbacks ts] by auto
  next
    case False
    then have "ts = matched"
      using ts by simp
    then show ?thesis
      using False none ts(2) matched_targets_sound [OF m] matched_targets_complete [OF m] by auto
  qed
qed

definition sample_tuf :: tuf where
  "sample_tuf =
     \<lparr>client_Targets = Ok [(''rekor.pub'', \<lparr>meta_Length = 1, meta_Hashes = [(''sha256'', ''r'')], meta_Custom = Some ''Rekor''\<rparr>)],
      client_Target = (\<lambda>n. if n = ''rekor.pub''
         then Ok \<lparr>meta_Length = 1, meta_Hashes = [(''sha256'', ''r'')], meta_Custom = Some ''Rekor''\<rparr>
         else Err (LibError ''not found'')),
      targets_Get = (\<lambda>n. if n = ''rekor.pub'' then Ok ''r'' else Err (NotExist n))\<rparr>"

definition sample_host :: host where
  "sample_host = \<lparr>Getenv = (\<lambda>_. []), ReadFile = (\<lambda>f. Err (NotExist f)),
     HTTPGet = (\<lambda>u. Err (LibError ''no network'')), tuf_NewFromEnv = Ok sample_tuf\<rparr>"

lemma sample_custom_metadata [simp]:
  "Unmarshal_sigstoreCustomMetadata sample_libs ''Rekor'' = Ok \<lparr>Usage = Rekor, custom_Status = Active\<rparr>"
  by (simp add: Unmarshal_sigstoreCustomMetadata_def sample_libs_def UsageKind_UnmarshalText_def
      StatusKind_UnmarshalText_def lower_char_def char_of_def bit_Suc_0_iff Let_def)

lemma sample_rekor_targets [simp]:
  "GetTargetsByMeta sample_libs sample_tuf Rekor [''rekor.pub''] = Ok [\<lparr>Target = ''r'', Status = Active\<rparr>]"
  by (simp add: GetTargetsByMeta_def sample_tuf_def GetTarget_def) (simp add: sample_libs_def)

theorem GetTargetsByMeta_correct_witness:
  "GetTargetsByMeta sample_libs sample_tuf Rekor [''rekor.pub''] = Ok [\<lparr>Target = ''r'', Status = Active\<rparr>] \<and>
   (\<exists>name. verified_target sample_libs sample_tuf name ''r'')"
proof -
  obtain targets where t: "client_Targets sample_tuf = Ok targets"
    by (simp add: sample_tuf_def)
  have "\<exists>name. verified_target sample_libs sample_tuf name ''r''"
    using GetTargetsByMeta_correct [OF sample_rekor_targets t] by (simp split: if_splits) blast+
  then show ?thesis by simp
qed

end
