(* ===== verification/CT_Log.thy ===== *)
theory CT_Log
  imports TUF
begin

section \<open>Certificate transparency\<close>

text \<open>
  \<open>cmd/cosign/cli/fulcio/fulcioverifier/ctl/verify.go\<close>: the keys of the CT log, and the check of the
  signed certificate timestamps (SCTs) of a certificate, embedded or detached.
\<close>

record logIDMetadata =
  log_pubKey :: pubkey
  log_status :: StatusKind

definition altCTLogPublicKeyLocation :: string where
  "altCTLogPublicKeyLocation = ''SIGSTORE_CT_LOG_PUBLIC_KEY_FILE''"

definition ContainsSCT :: "libs \<Rightarrow> bytes \<Rightarrow> bool res" where
  "ContainsSCT L cert = bindr (ParseSCTsFromCertificate L cert) (\<lambda>embeddedSCTs. Ok (embeddedSCTs \<noteq> []))"

definition getAlternatePublicKey :: "libs \<Rightarrow> bytes \<Rightarrow> pubkey res" where
  "getAlternatePublicKey L inp =
     (let derBytes = (case pem_Decode L inp of None \<Rightarrow> inp | Some (b, _) \<Rightarrow> b)
      in handler (ParsePKIXPublicKey L derBytes)
           (\<lambda>_. wrapr ''failed to parse alternate public key'' (ParsePKCS1PublicKey L derBytes))
           Ok)"

fun ct_target_keys ::
  "libs \<Rightarrow> TargetFile list \<Rightarrow> (bytes, logIDMetadata) gomap \<Rightarrow> (bytes, logIDMetadata) gomap res" where
  "ct_target_keys L [] pubKeys = Ok pubKeys"
| "ct_target_keys L (t # ts) pubKeys =
     bindr (UnmarshalPEMToPublicKey L (Target t)) (\<lambda>pub.
     bindr (case pub of ECDSAKey k \<Rightarrow> Ok (ECDSAKey k)
            | _ \<Rightarrow> Err (ErrorString ''invalid public key: require *ecdsa.PublicKey'')) (\<lambda>ctPub.
     bindr (wrapr ''error getting CTFE public key hash'' (GetCTLogID L ctPub)) (\<lambda>keyID.
     ct_target_keys L ts (mset_key keyID \<lparr>log_pubKey = ctPub, log_status = Status t\<rparr> pubKeys))))"

definition ct_pubKeys :: "libs \<Rightarrow> host \<Rightarrow> (bytes, logIDMetadata) gomap res" where
  "ct_pubKeys L H =
     (let rootEnv = Getenv H altCTLogPublicKeyLocation
      in if rootEnv = []
         then bindr (tuf_NewFromEnv H) (\<lambda>tufClient.
              bindr (GetTargetsByMeta L tufClient CTFE [''ctfe.pub'']) (\<lambda>targets.
              ct_target_keys L targets []))
         else bindr (wrapr ''error reading alternate public key file'' (ReadFile H rootEnv)) (\<lambda>raw.
              bindr (wrapr ''error parsing alternate public key from the file'' (getAlternatePublicKey L raw)) (\<lambda>pubKey.
              bindr (wrapr ''error getting CTFE public key hash'' (GetCTLogID L pubKey)) (\<lambda>keyID.
              Ok [(keyID, \<lparr>log_pubKey = pubKey, log_status = Active\<rparr>)]))))"

fun verify_embedded ::
  "libs \<Rightarrow> (bytes, logIDMetadata) gomap \<Rightarrow> certificate list \<Rightarrow> sct list \<Rightarrow> unit res" where
  "verify_embedded L pubKeys certs [] = Ok ()"
| "verify_embedded L pubKeys certs (s # rest) =
     (case mlookup pubKeys (sct_LogID s) of
        None \<Rightarrow> Err (ErrorString ''ctfe public key not found for embedded SCT'')
      | Some m \<Rightarrow>
          bindr (wrapr ''error verifying embedded SCT'' (ctutil_VerifySCT L (log_pubKey m) certs s True)) (\<lambda>_.
          verify_embedded L pubKeys certs rest))"

definition VerifySCT :: "libs \<Rightarrow> host \<Rightarrow> bytes \<Rightarrow> bytes \<Rightarrow> bytes \<Rightarrow> unit res" where
  "VerifySCT L H certPEM chainPEM rawSCT =
     bindr (ct_pubKeys L H) (\<lambda>pubKeys.
     if pubKeys = [] then Err (ErrorString ''none of the CTFE keys have been found'')
     else
     bindr (CertificateFromPEM L certPEM) (\<lambda>cert.
     bindr (CertificatesFromPEM L chainPEM) (\<lambda>certChain.
     case certChain of
       [] \<Rightarrow> Err (ErrorString ''no certificate chain found'')
     | issuer # _ \<Rightarrow>
         bindr (ParseSCTsFromCertificate L certPEM) (\<lambda>embeddedSCTs.
         if embeddedSCTs = [] \<and> rawSCT = [] then Err (ErrorString ''no SCT found'')
         else if embeddedSCTs \<noteq> [] then verify_embedded L pubKeys [cert, issuer] embeddedSCTs
         else bindr (wrapr ''unmarshal'' (Unmarshal_AddChainResponse L rawSCT)) (\<lambda>addChainResp.
              bindr (ToSignedCertificateTimestamp L addChainResp) (\<lambda>s.
              (case mlookup pubKeys (sct_LogID s) of
                 None \<Rightarrow> Err (ErrorString ''ctfe public key not found'')
               | Some m \<Rightarrow> wrapr ''error verifying SCT'' (ctutil_VerifySCT L (log_pubKey m) [cert] s False))))))))"

definition VerifyEmbeddedSCT :: "libs \<Rightarrow> host \<Rightarrow> certificate list \<Rightarrow> unit res" where
  "VerifyEmbeddedSCT L H chain =
     (case chain of
        cert # issuer # rest \<Rightarrow>
          bindr (MarshalCertificateToPEM L cert) (\<lambda>certPEM.
          bindr (MarshalCertificatesToPEM L (issuer # rest)) (\<lambda>chainPEM.
          VerifySCT L H certPEM chainPEM []))
      | _ \<Rightarrow> Err (ErrorString ''certificate chain must contain at least a certificate and its issuer''))"

subsection \<open>What an accepted SCT means\<close>

definition trusted_ct_key :: "libs \<Rightarrow> host \<Rightarrow> bytes \<Rightarrow> pubkey \<Rightarrow> bool" where
  "trusted_ct_key L H keyID pub \<longleftrightarrow>
     GetCTLogID L pub = Ok keyID \<and>
     (if Getenv H altCTLogPublicKeyLocation = []
      then \<exists>tufClient targets f. tuf_NewFromEnv H = Ok tufClient \<and>
        GetTargetsByMeta L tufClient CTFE [''ctfe.pub''] = Ok targets \<and> f \<in> set targets \<and>
        UnmarshalPEMToPublicKey L (Target f) = Ok pub \<and> (\<exists>b. pub = ECDSAKey b)
      else \<exists>raw. ReadFile H (Getenv H altCTLogPublicKeyLocation) = Ok raw \<and>
        getAlternatePublicKey L raw = Ok pub)"

definition ct_load :: "libs \<Rightarrow> TargetFile \<Rightarrow> (bytes \<times> logIDMetadata) res" where
  "ct_load L t =
     bindr (UnmarshalPEMToPublicKey L (Target t)) (\<lambda>pub.
     bindr (case pub of ECDSAKey k \<Rightarrow> Ok (ECDSAKey k)
            | _ \<Rightarrow> Err (ErrorString ''invalid public key: require *ecdsa.PublicKey'')) (\<lambda>ctPub.
     bindr (wrapr ''error getting CTFE public key hash'' (GetCTLogID L ctPub)) (\<lambda>keyID.
     Ok (keyID, \<lparr>log_pubKey = ctPub, log_status = Status t\<rparr>))))"

interpretation ct_keys: key_table ct_load ct_target_keys
  by unfold_locales (simp_all add: ct_load_def)

lemma ct_load_Ok:
  assumes "ct_load L f = Ok (keyID, m)"
  shows "UnmarshalPEMToPublicKey L (Target f) = Ok (log_pubKey m) \<and>
    (\<exists>b. log_pubKey m = ECDSAKey b) \<and> GetCTLogID L (log_pubKey m) = Ok keyID"
  using assms
  by (cases "UnmarshalPEMToPublicKey L (Target f)")
     (auto simp: ct_load_def bindr_Ok_iff wrapr_Ok_iff split: pubkey.splits)

lemma ct_pubKeys_sound:
  assumes "ct_pubKeys L H = Ok keys" and "mlookup keys keyID = Some m"
  shows "trusted_ct_key L H keyID (log_pubKey m)"
  using assms ct_keys.collect_sound [of L _ "[]" keys keyID m]
  by (fastforce dest: ct_load_Ok simp: ct_pubKeys_def trusted_ct_key_def Let_def bindr_Ok_iff wrapr_Ok_iff split: if_splits)

lemma verify_embedded_Ok_iff:
  "verify_embedded L pubKeys certs scts = Ok () \<longleftrightarrow>
     (\<forall>s \<in> set scts. \<exists>m. mlookup pubKeys (sct_LogID s) = Some m \<and>
        ctutil_VerifySCT L (log_pubKey m) certs s True = Ok ())"
  by (induction scts) (auto simp: bindr_Ok_iff wrapr_Ok_iff split: option.splits)

text \<open>C14. An accepted SCT is one of a trusted log over the right certificates. If \<open>VerifySCT\<close> succeeds,
  the chain is not empty, and either every SCT embedded in the certificate verifies for the
  certificate and its issuer, or there is none and the detached one verifies for the certificate;
  the key is each time a trusted one whose log ID is the one in the SCT.\<close>

theorem VerifySCT_sound:
  assumes "VerifySCT L H certPEM chainPEM rawSCT = Ok ()"
  shows "\<exists>cert issuer rest scts.
    CertificateFromPEM L certPEM = Ok cert \<and> CertificatesFromPEM L chainPEM = Ok (issuer # rest) \<and>
    ParseSCTsFromCertificate L certPEM = Ok scts \<and>
    (if scts \<noteq> []
     then \<forall>s \<in> set scts. \<exists>pub. trusted_ct_key L H (sct_LogID s) pub \<and>
            ctutil_VerifySCT L pub [cert, issuer] s True = Ok ()
     else \<exists>resp s pub. rawSCT \<noteq> [] \<and> Unmarshal_AddChainResponse L rawSCT = Ok resp \<and>
            ToSignedCertificateTimestamp L resp = Ok s \<and> trusted_ct_key L H (sct_LogID s) pub \<and>
            ctutil_VerifySCT L pub [cert] s False = Ok ())"
proof -
  obtain keys cert chain where keys: "ct_pubKeys L H = Ok keys" and cert: "CertificateFromPEM L certPEM = Ok cert"
    and chain: "CertificatesFromPEM L chainPEM = Ok chain"
    using assms by (auto simp: VerifySCT_def bindr_Ok_iff split: if_splits)
  obtain issuer rest where chain': "chain = issuer # rest"
    using assms keys cert chain by (cases chain) (auto simp: VerifySCT_def split: if_splits)
  obtain scts where scts: "ParseSCTsFromCertificate L certPEM = Ok scts"
    using assms keys cert chain chain' by (auto simp: VerifySCT_def bindr_Ok_iff split: if_splits)
  show ?thesis
  proof (cases "scts = []")
    case True
    then show ?thesis
      using assms keys cert chain chain' scts
      by (auto simp: VerifySCT_def bindr_Ok_iff wrapr_Ok_iff split: if_splits option.splits
          dest: ct_pubKeys_sound)
  next
    case False
    then have "verify_embedded L keys [cert, issuer] scts = Ok ()"
      using assms keys cert chain chain' scts by (auto simp: VerifySCT_def split: if_splits)
    then have "\<forall>s \<in> set scts. \<exists>pub. trusted_ct_key L H (sct_LogID s) pub \<and>
            ctutil_VerifySCT L pub [cert, issuer] s True = Ok ()"
      using ct_pubKeys_sound [OF keys] by (fastforce simp: verify_embedded_Ok_iff)
    then show ?thesis
      using False cert chain chain' scts by auto
  qed
qed

theorem VerifySCT_sound_witness:
  "\<exists>H resp s pub. VerifySCT sample_libs H ''cert'' ''chain'' ''c'' = Ok () \<and>
     Unmarshal_AddChainResponse sample_libs ''c'' = Ok resp \<and>
     ToSignedCertificateTimestamp sample_libs resp = Ok s \<and> trusted_ct_key sample_libs H (sct_LogID s) pub"
proof -
  let ?H = "sample_host\<lparr>Getenv := (\<lambda>_. ''keyfile''), ReadFile := (\<lambda>_. Ok ''c'')\<rparr>"
  have ok: "VerifySCT sample_libs ?H ''cert'' ''chain'' ''c'' = Ok ()"
    by (simp add: VerifySCT_def ct_pubKeys_def getAlternatePublicKey_def) (simp add: sample_libs_def)
  have "ParseSCTsFromCertificate sample_libs ''cert'' = Ok []"
    by (simp add: sample_libs_def)
  then have "\<exists>resp s pub. Unmarshal_AddChainResponse sample_libs ''c'' = Ok resp \<and>
     ToSignedCertificateTimestamp sample_libs resp = Ok s \<and> trusted_ct_key sample_libs ?H (sct_LogID s) pub"
    using VerifySCT_sound [OF ok] by auto
  with ok show ?thesis by blast
qed

end
