(* ===== verification/Tlog.thy ===== *)
theory Tlog
  imports TUF
begin

section \<open>The transparency log\<close>

text \<open>
  \<open>pkg/cosign/tlog.go\<close>, and \<open>VerifySET\<close> of \<open>pkg/cosign/verify.go\<close>: the trusted Rekor keys, the upload
  of entries, the search for the entry of a signature, and the check of an entry (inclusion proof
  and signed entry timestamp). The Rekor server is a parameter: the record \<open>rekor_client\<close> holds
  what it answers.
\<close>

record rekor_client =
  CreateLogEntry :: "proposed_entry \<Rightarrow> (string, log_entry) gomap res"
  GetLogEntryByUUID :: "string \<Rightarrow> (string, log_entry) gomap res"
  SearchLogQuery :: "proposed_entry list \<Rightarrow> (string, log_entry) gomap list res"
  SearchIndex :: "string \<Rightarrow> string list res"
  GetPublicKey :: "bytes res"

subsection \<open>Trusted keys\<close>

record RekorPubKey =
  PubKey :: pubkey
  RekorPubKey_Status :: StatusKind

definition altRekorPublicKey :: string where
  "altRekorPublicKey = ''SIGSTORE_REKOR_PUBLIC_KEY''"

definition addRekorPublicKeyFromRekor :: string where
  "addRekorPublicKeyFromRekor = ''SIGSTORE_TRUST_REKOR_API_PUBLIC_KEY''"

definition getLogID :: "libs \<Rightarrow> pubkey \<Rightarrow> string res" where
  "getLogID L pub =
     bindr (MarshalPKIXPublicKey L pub) (\<lambda>pubBytes. Ok (hex_encode (sha256 L pubBytes)))"

fun rekor_target_keys ::
  "libs \<Rightarrow> TargetFile list \<Rightarrow> (string, RekorPubKey) gomap \<Rightarrow> (string, RekorPubKey) gomap res" where
  "rekor_target_keys L [] publicKeys = Ok publicKeys"
| "rekor_target_keys L (t # ts) publicKeys =
     bindr (wrapr ''pem to ecdsa'' (PemToECDSAKey L (Target t))) (\<lambda>rekorPubKey.
     bindr (wrapr ''error generating log ID'' (getLogID L rekorPubKey)) (\<lambda>keyID.
     rekor_target_keys L ts
       (mset_key keyID \<lparr>PubKey = rekorPubKey, RekorPubKey_Status = Status t\<rparr> publicKeys)))"

definition GetRekorPubs :: "libs \<Rightarrow> host \<Rightarrow> (string, RekorPubKey) gomap res" where
  "GetRekorPubs L H =
     bindr (tuf_NewFromEnv H) (\<lambda>tufClient.
     bindr (GetTargetsByMeta L tufClient Rekor [''rekor.pub'']) (\<lambda>targets.
     (let altRekorPub = Getenv H altRekorPublicKey
      in bindr
           (if altRekorPub \<noteq> []
            then bindr (wrapr ''error reading alternate Rekor public key file'' (ReadFile H altRekorPub)) (\<lambda>raw.
                 bindr (wrapr ''error converting PEM to ECDSAKey'' (PemToECDSAKey L raw)) (\<lambda>extra.
                 bindr (wrapr ''error generating log ID'' (getLogID L extra)) (\<lambda>keyID.
                 Ok [(keyID, \<lparr>PubKey = extra, RekorPubKey_Status = Active\<rparr>)])))
            else rekor_target_keys L targets []) (\<lambda>publicKeys.
         if publicKeys = [] then Err (ErrorString ''none of the Rekor public keys have been found'')
         else Ok publicKeys))))"

definition VerifySET :: "libs \<Rightarrow> rekor_payload \<Rightarrow> bytes \<Rightarrow> pubkey \<Rightarrow> unit res" where
  "VerifySET L bundlePayload signature pub =
     bindr (wrapr ''marshaling'' (Marshal_RekorPayload L bundlePayload)) (\<lambda>contents.
     bindr (wrapr ''canonicalizing'' (jsoncanonicalizer_Transform L contents)) (\<lambda>canonicalized.
     if \<not> ecdsa_VerifyASN1 L pub (sha256 L canonicalized) signature
     then Err (ErrorString ''unable to verify'') else Ok ()))"

subsection \<open>Entries\<close>

definition intotoEntry :: "bytes \<Rightarrow> bytes \<Rightarrow> intoto_schema" where
  "intotoEntry signature pubKey =
     \<lparr>intoto_Content = Some \<lparr>Envelope = signature, content_Hash = None\<rparr>, intoto_PublicKey = Some pubKey\<rparr>"

definition rekorEntry :: "libs \<Rightarrow> bytes \<Rightarrow> bytes \<Rightarrow> bytes \<Rightarrow> rekord_schema" where
  "rekorEntry L payload signature pubKey =
     \<lparr>rekord_Data = Some (Some \<lparr>hash_Algorithm = Some ''sha256'',
                                hash_Value = Some (hex_encode (sha256 L payload))\<rparr>),
      rekord_Signature = Some \<lparr>sigref_Content = signature, sigref_PublicKey = Some pubKey\<rparr>\<rparr>"

definition ComputeLeafHash :: "libs \<Rightarrow> log_entry \<Rightarrow> bytes res" where
  "ComputeLeafHash L e =
     bindr (as_string (entry_Body e)) (\<lambda>body.
     bindr (b64_decode body) (\<lambda>entryBytes. Ok (HashLeaf L entryBytes)))"

text \<open>The error of \<open>hex.DecodeString\<close> is dropped; the bytes decoded so far stay.\<close>

definition verifyUUID :: "libs \<Rightarrow> string \<Rightarrow> log_entry \<Rightarrow> unit res" where
  "verifyUUID L uuid e =
     (let entryUUID = fst (hex_decode uuid)
      in bindr (ComputeLeafHash L e) (\<lambda>computedLeafHash.
         if computedLeafHash \<noteq> entryUUID
         then Err (ErrorString ''computed leaf hash did not match entry UUID'') else Ok ()))"

definition GetTlogEntry :: "libs \<Rightarrow> rekor_client \<Rightarrow> string \<Rightarrow> log_entry res" where
  "GetTlogEntry L C uuid =
     bindr (GetLogEntryByUUID C uuid) (\<lambda>payload.
     case payload of
       [] \<Rightarrow> Err (ErrorString ''empty response'')
     | (k, e) # _ \<Rightarrow>
         if k \<noteq> uuid then Err (ErrorString ''unexpected entry returned from rekor server'')
         else bindr (verifyUUID L k e) (\<lambda>_. Ok e))"

definition proposedEntry :: "libs \<Rightarrow> string \<Rightarrow> bytes \<Rightarrow> bytes \<Rightarrow> proposed_entry list res" where
  "proposedEntry L b64Sig payload pubKey =
     bindr (wrapr ''decoding base64 signature'' (b64_decode b64Sig)) (\<lambda>signature.
     if signature = []
     then Ok [Intoto (intoto_APIVersion L) (intotoEntry payload pubKey)]
     else Ok [Hashedrekord (hashedrekord_APIVersion L) (rekorEntry L payload signature pubKey)])"

definition FindTlogEntry :: "libs \<Rightarrow> rekor_client \<Rightarrow> string \<Rightarrow> bytes \<Rightarrow> bytes \<Rightarrow> log_entry res" where
  "FindTlogEntry L C b64Sig payload pubKey =
     bindr (proposedEntry L b64Sig payload pubKey) (\<lambda>entries.
     bindr (wrapr ''searching log query'' (SearchLogQuery C entries)) (\<lambda>resp.
     case resp of
       [] \<Rightarrow> Err (ErrorString ''signature not found in transparency log'')
     | _ # _ # _ \<Rightarrow> Err (ErrorString ''multiple entries returned; this should not happen'')
     | [logEntry] \<Rightarrow>
         (case logEntry of
            [(k, e)] \<Rightarrow> bindr (verifyUUID L k e) (\<lambda>_. Ok e)
          | _ \<Rightarrow> Err (ErrorString ''UUID value can not be extracted''))))"

definition FindTLogEntriesByPayload :: "libs \<Rightarrow> rekor_client \<Rightarrow> bytes \<Rightarrow> string list res" where
  "FindTLogEntriesByPayload L C payload =
     SearchIndex C (''sha256:'' @ to_lower (hex_encode (sha256 L payload)))"

subsection \<open>The check of an entry\<close>

definition VerifyTLogEntry :: "libs \<Rightarrow> host \<Rightarrow> rekor_client \<Rightarrow> log_entry \<Rightarrow> unit res" where
  "VerifyTLogEntry L H C e =
     (case Verification e of
        None \<Rightarrow> Err (ErrorString ''inclusion proof not provided'')
      | Some v \<Rightarrow>
     (case InclusionProof v of
        None \<Rightarrow> Err (ErrorString ''inclusion proof not provided'')
      | Some p \<Rightarrow>
          (let hashes = map (\<lambda>h. fst (hex_decode h)) (proof_Hashes p)
           in bindr (deref (proof_RootHash p)) (\<lambda>root.
              bindr (as_string (entry_Body e)) (\<lambda>body.
              bindr (b64_decode body) (\<lambda>entryBytes.
              bindr (deref (proof_LogIndex p)) (\<lambda>ix.
              bindr (deref (proof_TreeSize p)) (\<lambda>sz.
              bindr (wrapr ''verifying inclusion proof''
                       (VerifyInclusionProof L ix sz hashes (fst (hex_decode root)) (HashLeaf L entryBytes))) (\<lambda>_.
              bindr (deref (entry_IntegratedTime e)) (\<lambda>it.
              bindr (deref (entry_LogIndex e)) (\<lambda>li.
              bindr (deref (entry_LogID e)) (\<lambda>lid.
              (let payload = \<lparr>Body = entry_Body e, IntegratedTime = it, LogIndex = li, LogID = lid\<rparr>
               in bindr (wrapr ''unable to fetch Rekor public keys from TUF repository'' (GetRekorPubs L H)) (\<lambda>keys.
                  bindr (if Getenv H addRekorPublicKeyFromRekor \<noteq> []
                         then bindr (wrapr ''unable to fetch rekor public key from rekor'' (GetPublicKey C)) (\<lambda>pem.
                              bindr (wrapr ''error converting rekor PEM public key from rekor to ECDSAKey''
                                       (PemToECDSAKey L pem)) (\<lambda>pub.
                              bindr (wrapr ''error generating log ID'' (getLogID L pub)) (\<lambda>keyID.
                              Ok (mset_key keyID \<lparr>PubKey = pub, RekorPubKey_Status = Active\<rparr> keys))))
                         else Ok keys) (\<lambda>rekorPubKeys.
                  case mlookup rekorPubKeys (LogID payload) of
                    None \<Rightarrow> Err (ErrorString ''rekor log public key not found for payload'')
                  | Some pubKey \<Rightarrow>
                      wrapr ''verifying signedEntryTimestamp''
                        (VerifySET L payload (entry_SignedEntryTimestamp v) (PubKey pubKey)))))))))))))))))"

subsection \<open>Uploads\<close>

text \<open>\<open>errors.As\<close> looks through the chain of wrapped errors.\<close>

fun as_conflict :: "gerror \<Rightarrow> string option" where
  "as_conflict (Conflict location) = Some location"
| "as_conflict (Wrapped e _) = as_conflict e"
| "as_conflict _ = None"

definition doUpload :: "libs \<Rightarrow> host \<Rightarrow> rekor_client \<Rightarrow> proposed_entry \<Rightarrow> log_entry res" where
  "doUpload L H C pe =
     handler (CreateLogEntry C pe)
       (\<lambda>err. case as_conflict err of
          Some location \<Rightarrow>
            (let uuid = last (split_char CHR ''/'' location)
             in bindr (GetTlogEntry L C uuid) (\<lambda>e.
                bindr (VerifyTLogEntry L H C e) (\<lambda>_. Ok e)))
        | None \<Rightarrow> Err err)
       (\<lambda>payload. case payload of
          (_, p) # _ \<Rightarrow> Ok p
        | [] \<Rightarrow> Err (ErrorString ''bad response from server''))"

definition TLogUpload ::
  "libs \<Rightarrow> host \<Rightarrow> rekor_client \<Rightarrow> bytes \<Rightarrow> bytes \<Rightarrow> bytes \<Rightarrow> log_entry res" where
  "TLogUpload L H C signature payload pemBytes =
     doUpload L H C (Hashedrekord (hashedrekord_APIVersion L) (rekorEntry L payload signature pemBytes))"

definition TLogUploadInTotoAttestation ::
  "libs \<Rightarrow> host \<Rightarrow> rekor_client \<Rightarrow> bytes \<Rightarrow> bytes \<Rightarrow> log_entry res" where
  "TLogUploadInTotoAttestation L H C signature pemBytes =
     doUpload L H C (Intoto (intoto_APIVersion L) (intotoEntry signature pemBytes))"

subsection \<open>What the checks guarantee\<close>

text \<open>A key is trusted under a log ID: the ID is the hash of the key, and the key comes from the file
  the environment names or, without one, from a verified TUF target with the usage of Rekor.\<close>

definition trusted_rekor_key :: "libs \<Rightarrow> host \<Rightarrow> string \<Rightarrow> RekorPubKey \<Rightarrow> bool" where
  "trusted_rekor_key L H keyID k \<longleftrightarrow>
     getLogID L (PubKey k) = Ok keyID \<and>
     (if Getenv H altRekorPublicKey \<noteq> []
      then RekorPubKey_Status k = Active \<and>
        (\<exists>raw. ReadFile H (Getenv H altRekorPublicKey) = Ok raw \<and> PemToECDSAKey L raw = Ok (PubKey k))
      else \<exists>tufClient targets f. tuf_NewFromEnv H = Ok tufClient \<and>
        GetTargetsByMeta L tufClient Rekor [''rekor.pub''] = Ok targets \<and> f \<in> set targets \<and>
        PemToECDSAKey L (Target f) = Ok (PubKey k) \<and> RekorPubKey_Status k = Status f)"

definition rekor_load :: "libs \<Rightarrow> TargetFile \<Rightarrow> (string \<times> RekorPubKey) res" where
  "rekor_load L t =
     bindr (wrapr ''pem to ecdsa'' (PemToECDSAKey L (Target t))) (\<lambda>k.
     bindr (wrapr ''error generating log ID'' (getLogID L k)) (\<lambda>keyID.
     Ok (keyID, \<lparr>PubKey = k, RekorPubKey_Status = Status t\<rparr>)))"

interpretation rekor_keys: key_table rekor_load rekor_target_keys
  by unfold_locales (simp_all add: rekor_load_def)

lemma rekor_load_Ok_iff:
  "rekor_load L f = Ok (keyID, k) \<longleftrightarrow> PemToECDSAKey L (Target f) = Ok (PubKey k) \<and>
     getLogID L (PubKey k) = Ok keyID \<and> RekorPubKey_Status k = Status f"
  by (cases k) (auto simp: rekor_load_def bindr_Ok_iff wrapr_Ok_iff)

lemma GetRekorPubs_sound:
  assumes "GetRekorPubs L H = Ok keys" and "mlookup keys keyID = Some k"
  shows "trusted_rekor_key L H keyID k"
  using assms rekor_keys.collect_sound [of L _ "[]" keys keyID k]
  by (auto simp: GetRekorPubs_def trusted_rekor_key_def rekor_load_Ok_iff res_simps Let_def split: if_splits)

text \<open>The key that the server itself offers counts only where the environment asks for it.\<close>

definition trusted_entry_key :: "libs \<Rightarrow> host \<Rightarrow> rekor_client \<Rightarrow> string \<Rightarrow> pubkey \<Rightarrow> bool" where
  "trusted_entry_key L H C keyID pub \<longleftrightarrow>
     (\<exists>k. PubKey k = pub \<and> trusted_rekor_key L H keyID k) \<or>
     (Getenv H addRekorPublicKeyFromRekor \<noteq> [] \<and> getLogID L pub = Ok keyID \<and>
      (\<exists>pem. GetPublicKey C = Ok pem \<and> PemToECDSAKey L pem = Ok pub))"

definition included_in_log :: "libs \<Rightarrow> log_entry \<Rightarrow> bool" where
  "included_in_log L e \<longleftrightarrow>
     (\<exists>v p root ix sz body raw. Verification e = Some v \<and> InclusionProof v = Some p \<and>
        proof_RootHash p = Some root \<and> proof_LogIndex p = Some ix \<and> proof_TreeSize p = Some sz \<and>
        entry_Body e = IStr body \<and> b64_decode body = Ok raw \<and>
        VerifyInclusionProof L ix sz (map (\<lambda>h. fst (hex_decode h)) (proof_Hashes p))
          (fst (hex_decode root)) (HashLeaf L raw) = Ok ())"

lemma VerifySET_Ok_iff:
  "VerifySET L payload sg pub = Ok () \<longleftrightarrow>
     (\<exists>c d. Marshal_RekorPayload L payload = Ok c \<and> jsoncanonicalizer_Transform L c = Ok d \<and>
        ecdsa_VerifyASN1 L pub (sha256 L d) sg)"
  by (auto simp: VerifySET_def res_simps)

lemma with_api_key_sound:
  assumes "GetRekorPubs L H = Ok keys" and "mlookup keys' keyID = Some k"
    and "(if Getenv H addRekorPublicKeyFromRekor \<noteq> []
          then bindr (wrapr a (GetPublicKey C)) (\<lambda>pem.
               bindr (wrapr b (PemToECDSAKey L pem)) (\<lambda>pub.
               bindr (wrapr c (getLogID L pub)) (\<lambda>i.
               Ok (mset_key i \<lparr>PubKey = pub, RekorPubKey_Status = Active\<rparr> keys))))
          else Ok keys) = Ok keys'"
  shows "trusted_entry_key L H C keyID (PubKey k)"
  using assms GetRekorPubs_sound [of L H keys keyID k]
  by (auto simp: trusted_entry_key_def res_simps split: if_splits)

text \<open>C13. A log entry that \<open>VerifyTLogEntry\<close> accepts has an inclusion proof for the hash of its body,
  and its signed entry timestamp verifies over body, time, index and log ID under a trusted key
  whose hash is that log ID: a key of the environment or of TUF, or the server's own key only where
  the environment asks for it.\<close>

theorem VerifyTLogEntry_sound:
  assumes "VerifyTLogEntry L H C e = Ok ()"
  shows "included_in_log L e \<and>
    (\<exists>v it ix lid pub. Verification e = Some v \<and> entry_IntegratedTime e = Some it \<and>
       entry_LogIndex e = Some ix \<and> entry_LogID e = Some lid \<and>
       trusted_entry_key L H C lid pub \<and>
       VerifySET L \<lparr>Body = entry_Body e, IntegratedTime = it, LogIndex = ix, LogID = lid\<rparr>
         (entry_SignedEntryTimestamp v) pub = Ok ())"
  using assms
  by (auto simp: VerifyTLogEntry_def included_in_log_def Let_def bindr_Ok_iff wrapr_Ok_iff deref_Ok_iff
      as_string_Ok_iff split: option.splits dest: with_api_key_sound)

definition sample_entry :: log_entry where
  "sample_entry =
     \<lparr>entry_Body = IStr (b64_encode ''body''), entry_IntegratedTime = Some (150 - unixToInternal),
      entry_LogIndex = Some 7, entry_LogID = Some (hex_encode ''r''),
      Verification = Some \<lparr>InclusionProof = Some \<lparr>proof_Hashes = [], proof_RootHash = Some (hex_encode ''body''),
          proof_LogIndex = Some 7, proof_TreeSize = Some 8\<rparr>, entry_SignedEntryTimestamp = ''rpayload''\<rparr>\<rparr>"

definition sample_rekor :: rekor_client where
  "sample_rekor =
     \<lparr>CreateLogEntry = (\<lambda>_. Ok [(hex_encode ''body'', sample_entry)]),
      GetLogEntryByUUID = (\<lambda>_. Ok [(hex_encode ''body'', sample_entry)]),
      SearchLogQuery = (\<lambda>_. Ok [[(hex_encode ''body'', sample_entry)]]),
      SearchIndex = (\<lambda>_. Ok [hex_encode ''body'']), GetPublicKey = Ok ''r''\<rparr>"

lemma sample_GetRekorPubs [simp]:
  "GetRekorPubs sample_libs sample_host =
     Ok [(hex_encode ''r'', \<lparr>PubKey = ECDSAKey ''r'', RekorPubKey_Status = Active\<rparr>)]"
  by (simp add: GetRekorPubs_def sample_host_def PemToECDSAKey_def getLogID_def) (simp add: sample_libs_def)

lemma sample_VerifyTLogEntry: "VerifyTLogEntry sample_libs sample_host C sample_entry = Ok ()"
  by (simp add: VerifyTLogEntry_def sample_entry_def as_string_def)
     (simp add: sample_libs_def sample_host_def VerifySET_def)

theorem VerifyTLogEntry_sound_witness:
  "VerifyTLogEntry sample_libs sample_host sample_rekor sample_entry = Ok () \<and>
   included_in_log sample_libs sample_entry"
  using VerifyTLogEntry_sound [OF sample_VerifyTLogEntry [of sample_rekor]] sample_VerifyTLogEntry
  by simp

text \<open>The search: what it asks for and when it answers.\<close>

lemma proposedEntry_encode:
  "proposedEntry L (b64_encode signature) payload pubKey =
     Ok [if signature = [] then Intoto (intoto_APIVersion L) (intotoEntry payload pubKey)
         else Hashedrekord (hashedrekord_APIVersion L) (rekorEntry L payload signature pubKey)]"
  by (simp add: proposedEntry_def)

lemma verifyUUID_Ok_iff:
  "verifyUUID L uuid e = Ok () \<longleftrightarrow>
     (\<exists>body raw. entry_Body e = IStr body \<and> b64_decode body = Ok raw \<and> HashLeaf L raw = fst (hex_decode uuid))"
  by (auto simp: verifyUUID_def ComputeLeafHash_def Let_def res_simps)

lemma FindTlogEntry_Ok_iff:
  "FindTlogEntry L C b64Sig payload pubKey = Ok e \<longleftrightarrow>
     (\<exists>q uuid. proposedEntry L b64Sig payload pubKey = Ok q \<and> SearchLogQuery C q = Ok [[(uuid, e)]] \<and>
        verifyUUID L uuid e = Ok ())"
proof (cases "bindr (proposedEntry L b64Sig payload pubKey) (\<lambda>q. wrapr ''searching log query'' (SearchLogQuery C q))")
  case (Ok resp)
  then show ?thesis
    by (cases resp rule: remdups_adj.cases; cases "hd resp" rule: remdups_adj.cases)
       (auto simp: FindTlogEntry_def bindr_Ok_iff wrapr_Ok_iff)
qed (auto simp: FindTlogEntry_def bindr_Ok_iff wrapr_Ok_iff)

text \<open>
  A log answers consistently: an entry that it has just created, or that it says it has already, is
  the one answer to the query for it, under a UUID that is the leaf hash of its body.
\<close>

definition consistent_log :: "libs \<Rightarrow> rekor_client \<Rightarrow> bool" where
  "consistent_log L C \<longleftrightarrow>
     (\<forall>pe ans. CreateLogEntry C pe = Ok ans \<longrightarrow>
        (\<exists>uuid e. ans = [(uuid, e)] \<and> SearchLogQuery C [pe] = Ok [[(uuid, e)]] \<and> verifyUUID L uuid e = Ok ())) \<and>
     (\<forall>pe err location. CreateLogEntry C pe = Err err \<longrightarrow> as_conflict err = Some location \<longrightarrow>
        (\<exists>uuid e. GetLogEntryByUUID C (last (split_char CHR ''/'' location)) = Ok [(uuid, e)] \<and>
           SearchLogQuery C [pe] = Ok [[(uuid, e)]] \<and> verifyUUID L uuid e = Ok ()))"

lemma GetTlogEntry_Ok_iff:
  "GetTlogEntry L C uuid = Ok e \<longleftrightarrow>
     (\<exists>rest. GetLogEntryByUUID C uuid = Ok ((uuid, e) # rest) \<and> verifyUUID L uuid e = Ok ())"
proof (cases "GetLogEntryByUUID C uuid")
  case (Ok ans)
  then show ?thesis
    by (cases ans) (auto simp: GetTlogEntry_def bindr_Ok_iff split: if_splits)
qed (simp_all add: GetTlogEntry_def)

lemma doUpload_found:
  assumes "consistent_log L C" and "doUpload L H C pe = Ok e"
  shows "\<exists>uuid. SearchLogQuery C [pe] = Ok [[(uuid, e)]] \<and> verifyUUID L uuid e = Ok ()"
proof (cases "CreateLogEntry C pe")
  case (Ok ans)
  then obtain uuid e' where "ans = [(uuid, e')]" "SearchLogQuery C [pe] = Ok [[(uuid, e')]]"
    "verifyUUID L uuid e' = Ok ()"
    using assms(1) unfolding consistent_log_def by blast
  then show ?thesis
    using assms(2) Ok by (simp add: doUpload_def)
next
  case (Err err)
  then obtain location where conflict: "as_conflict err = Some location"
    and get: "GetTlogEntry L C (last (split_char CHR ''/'' location)) = Ok e"
    using assms(2) by (auto simp: doUpload_def res_simps Let_def split: option.splits)
  obtain uuid e' where "GetLogEntryByUUID C (last (split_char CHR ''/'' location)) = Ok [(uuid, e')]"
    "SearchLogQuery C [pe] = Ok [[(uuid, e')]]" "verifyUUID L uuid e' = Ok ()"
    using assms(1) Err conflict unfolding consistent_log_def by blast
  then show ?thesis
    using get by (simp add: GetTlogEntry_Ok_iff)
next
  case (Panic p)
  then show ?thesis
    using assms(2) by (simp add: doUpload_def)
qed

text \<open>What was uploaded is found again. Over a log that answers consistently, if \<open>TLogUpload\<close> of a
  non-empty signature returns an entry (new, or one the log had already), then \<open>FindTlogEntry\<close> with
  the base64 text of the signature returns that entry; and if \<open>TLogUploadInTotoAttestation\<close> returns an
  entry for an attestation, \<open>FindTlogEntry\<close> with an empty signature returns it.\<close>

theorem upload_then_find:
  assumes "consistent_log L C"
  shows "(signature \<noteq> [] \<longrightarrow> TLogUpload L H C signature payload pem = Ok e \<longrightarrow>
            FindTlogEntry L C (b64_encode signature) payload pem = Ok e) \<and>
         (TLogUploadInTotoAttestation L H C payload pem = Ok e' \<longrightarrow>
            FindTlogEntry L C (b64_encode []) payload pem = Ok e')"
  using doUpload_found [OF assms]
  by (auto simp: FindTlogEntry_Ok_iff proposedEntry_encode TLogUpload_def TLogUploadInTotoAttestation_def)

theorem upload_then_find_witness:
  "TLogUpload sample_libs sample_host sample_rekor ''s'' ''p'' ''k'' = Ok sample_entry \<and>
   FindTlogEntry sample_libs sample_rekor (b64_encode ''s'') ''p'' ''k'' = Ok sample_entry"
proof -
  have c: "consistent_log sample_libs sample_rekor"
    by (simp add: consistent_log_def sample_rekor_def verifyUUID_def ComputeLeafHash_def sample_entry_def
        as_string_def) (simp add: sample_libs_def)
  have u: "TLogUpload sample_libs sample_host sample_rekor ''s'' ''p'' ''k'' = Ok sample_entry"
    by (simp add: TLogUpload_def doUpload_def sample_rekor_def)
  show ?thesis
    using upload_then_find [OF c, of "''s''" sample_host "''p''" "''k''" sample_entry] u by simp
qed

end
