(* ===== verification/OCI_Signature.thy ===== *)
theory OCI_Signature
  imports Samples
begin

section \<open>Signatures as OCI layers\<close>

text \<open>
  The three implementations of \<open>oci.Signature\<close> (\<open>pkg/oci/signatures.go\<close>): \<open>sigLayer\<close>, a layer of a
  registry with its descriptor (\<open>pkg/oci/internal/signature/layer.go\<close>); \<open>staticLayer\<close>, a signature
  made in memory (\<open>pkg/oci/static\<close>); and \<open>sigWrapper\<close>, a signature with changes
  (\<open>pkg/oci/mutate/signature.go\<close>). An interface value is the record of what its methods return.
  The lemmas relate the three: what is stored in the annotations of a signature that was made in
  memory is what a reader of the registry gets back.
\<close>

subsection \<open>The interfaces\<close>

record layer =
  Digest :: "hash res"
  DiffID :: "hash res"
  Compressed :: "bytes res"
  Uncompressed :: "bytes res"
  Size :: "int64 res"
  MediaType :: "string res"

text \<open>A nil chain and an empty chain are both the empty list: no caller tells them apart.\<close>

record oci_sig = layer +
  Annotations :: "(string, string) gomap res"
  Payload :: "bytes res"
  Base64Signature :: "string res"
  Cert :: "certificate option res"
  Chain :: "certificate list res"
  Bundle :: "rekor_bundle option res"

definition SignatureAnnotationKey :: string where
  "SignatureAnnotationKey = ''dev.cosignproject.cosign/signature''"

definition CertificateAnnotationKey :: string where
  "CertificateAnnotationKey = ''dev.sigstore.cosign/certificate''"

definition ChainAnnotationKey :: string where
  "ChainAnnotationKey = ''dev.sigstore.cosign/chain''"

definition BundleAnnotationKey :: string where
  "BundleAnnotationKey = ''dev.sigstore.cosign/bundle''"

lemmas annotation_keys =
  SignatureAnnotationKey_def CertificateAnnotationKey_def ChainAnnotationKey_def
  BundleAnnotationKey_def

lemma annotation_keys_distinct [simp]:
  "CertificateAnnotationKey \<noteq> SignatureAnnotationKey" "SignatureAnnotationKey \<noteq> CertificateAnnotationKey"
  "ChainAnnotationKey \<noteq> SignatureAnnotationKey" "SignatureAnnotationKey \<noteq> ChainAnnotationKey"
  "BundleAnnotationKey \<noteq> SignatureAnnotationKey" "SignatureAnnotationKey \<noteq> BundleAnnotationKey"
  "ChainAnnotationKey \<noteq> CertificateAnnotationKey" "CertificateAnnotationKey \<noteq> ChainAnnotationKey"
  "BundleAnnotationKey \<noteq> CertificateAnnotationKey" "CertificateAnnotationKey \<noteq> BundleAnnotationKey"
  "BundleAnnotationKey \<noteq> ChainAnnotationKey" "ChainAnnotationKey \<noteq> BundleAnnotationKey"
  by (simp_all add: annotation_keys)

subsection \<open>A layer of a registry\<close>

record descriptor =
  desc_Annotations :: "(string, string) gomap"
  desc_Digest :: hash

record sigLayer =
  Layer :: layer
  desc :: descriptor

definition sigLayer_Annotations :: "sigLayer \<Rightarrow> (string, string) gomap res" where
  "sigLayer_Annotations s = Ok (desc_Annotations (desc s))"

definition sigLayer_Payload :: "sigLayer \<Rightarrow> bytes res" where
  "sigLayer_Payload s = bindr (Compressed (Layer s)) (\<lambda>payload. Ok payload)"

definition sigLayer_Base64Signature :: "sigLayer \<Rightarrow> string res" where
  "sigLayer_Base64Signature s =
     (case mlookup (desc_Annotations (desc s)) SignatureAnnotationKey of
        None \<Rightarrow> Err (ErrorString (''signature layer '' @ hash_String (desc_Digest (desc s)) @
                                  '' is missing '' @ SignatureAnnotationKey @ '' annotation''))
      | Some b64sig \<Rightarrow> Ok b64sig)"

definition sigLayer_Cert :: "libs \<Rightarrow> sigLayer \<Rightarrow> certificate option res" where
  "sigLayer_Cert L s =
     (let certPEM = mget (desc_Annotations (desc s)) CertificateAnnotationKey
      in if certPEM = [] then Ok None
         else bindr (LoadCertificatesFromPEM L certPEM) (\<lambda>certs.
              bindr (index0 certs) (\<lambda>c. Ok (Some c))))"

definition sigLayer_Chain :: "libs \<Rightarrow> sigLayer \<Rightarrow> certificate list res" where
  "sigLayer_Chain L s =
     (let chainPEM = mget (desc_Annotations (desc s)) ChainAnnotationKey
      in if chainPEM = [] then Ok []
         else LoadCertificatesFromPEM L chainPEM)"

definition sigLayer_Bundle :: "libs \<Rightarrow> sigLayer \<Rightarrow> rekor_bundle option res" where
  "sigLayer_Bundle L s =
     (let val = mget (desc_Annotations (desc s)) BundleAnnotationKey
      in if val = [] then Ok None
         else bindr (wrapr ''unmarshaling bundle'' (Unmarshal_RekorBundle L val)) (\<lambda>b. Ok (Some b)))"

text \<open>\<open>signature.New\<close>: the methods of the embedded layer stay those of the layer.\<close>

definition signature_New :: "libs \<Rightarrow> layer \<Rightarrow> descriptor \<Rightarrow> oci_sig" where
  "signature_New L l d =
     (let s = \<lparr>Layer = l, desc = d\<rparr>
      in \<lparr>Digest = Digest l, DiffID = DiffID l, Compressed = Compressed l,
          Uncompressed = Uncompressed l, Size = Size l, MediaType = MediaType l,
          Annotations = sigLayer_Annotations s, Payload = sigLayer_Payload s,
          Base64Signature = sigLayer_Base64Signature s, Cert = sigLayer_Cert L s,
          Chain = sigLayer_Chain L s, Bundle = sigLayer_Bundle L s\<rparr>)"

subsection \<open>A signature made in memory\<close>

record options =
  LayerMediaType :: string
  ConfigMediaType :: string
  opts_Bundle :: "rekor_bundle option"
  opts_Cert :: "bytes option"
  opts_Chain :: "bytes option"
  opts_Annotations :: "(string, string) gomap option"

datatype static_option =
    WithLayerMediaType string
  | WithConfigMediaType string
  | WithAnnotations "(string, string) gomap option"
  | WithBundle "rekor_bundle option"
  | WithCertChain "bytes option" "bytes option"

fun apply_option :: "options \<Rightarrow> static_option \<Rightarrow> options" where
  "apply_option o' (WithLayerMediaType mt) = o'\<lparr>LayerMediaType := mt\<rparr>"
| "apply_option o' (WithConfigMediaType mt) = o'\<lparr>ConfigMediaType := mt\<rparr>"
| "apply_option o' (WithAnnotations ann) = o'\<lparr>opts_Annotations := ann\<rparr>"
| "apply_option o' (WithBundle b) = o'\<lparr>opts_Bundle := b\<rparr>"
| "apply_option o' (WithCertChain cert chain) = o'\<lparr>opts_Cert := cert, opts_Chain := chain\<rparr>"

text \<open>An assignment to an entry of a nil map panics; the bytes of a nil slice are none.\<close>

definition assign_key ::
  "string \<Rightarrow> string \<Rightarrow> (string, string) gomap option \<Rightarrow> (string, string) gomap option res" where
  "assign_key k v m =
     (case m of None \<Rightarrow> Panic ''assignment to entry in nil map'' | Some a \<Rightarrow> Ok (Some (mset_key k v a)))"

definition nil_bytes :: "bytes option \<Rightarrow> bytes" where
  "nil_bytes b = (case b of None \<Rightarrow> [] | Some x \<Rightarrow> x)"

definition nil_map :: "('k, 'v) gomap option \<Rightarrow> ('k, 'v) gomap" where
  "nil_map m = (case m of None \<Rightarrow> [] | Some a \<Rightarrow> a)"

definition default_options :: options where
  "default_options =
     \<lparr>LayerMediaType = ''application/vnd.dev.cosign.simplesigning.v1+json'',
      ConfigMediaType = ''application/vnd.oci.image.config.v1+json'',
      opts_Bundle = None, opts_Cert = None, opts_Chain = None, opts_Annotations = Some []\<rparr>"

definition makeOptions :: "libs \<Rightarrow> static_option list \<Rightarrow> options res" where
  "makeOptions L opts =
     (let o1 = foldl apply_option default_options opts
      in bindr (case opts_Cert o1 of
                  None \<Rightarrow> Ok (opts_Annotations o1)
                | Some cert \<Rightarrow>
                    bindr (assign_key CertificateAnnotationKey cert (opts_Annotations o1))
                      (assign_key ChainAnnotationKey (nil_bytes (opts_Chain o1)))) (\<lambda>ann.
         bindr (case opts_Bundle o1 of
                  None \<Rightarrow> Ok ann
                | Some bndl \<Rightarrow>
                    bindr (Marshal_RekorBundle L bndl) (\<lambda>b.
                      assign_key BundleAnnotationKey b ann)) (\<lambda>ann'.
         Ok (o1\<lparr>opts_Annotations := ann'\<rparr>))))"

record staticLayer =
  static_b :: bytes
  static_b64sig :: string
  static_opts :: options

definition staticLayer_Annotations :: "staticLayer \<Rightarrow> (string, string) gomap res" where
  "staticLayer_Annotations l =
     Ok (mset_key SignatureAnnotationKey (static_b64sig l)
           (mcopy (nil_map (opts_Annotations (static_opts l)))))"

definition staticLayer_Cert :: "libs \<Rightarrow> staticLayer \<Rightarrow> certificate option res" where
  "staticLayer_Cert L l =
     bindr (LoadCertificatesFromPEM L (nil_bytes (opts_Cert (static_opts l)))) (\<lambda>certs.
       Ok (case certs of [] \<Rightarrow> None | c # _ \<Rightarrow> Some c))"

definition staticLayer_Chain :: "libs \<Rightarrow> staticLayer \<Rightarrow> certificate list res" where
  "staticLayer_Chain L l = LoadCertificatesFromPEM L (nil_bytes (opts_Chain (static_opts l)))"

definition staticLayer_sig :: "libs \<Rightarrow> staticLayer \<Rightarrow> oci_sig" where
  "staticLayer_sig L l =
     \<lparr>Digest = v1_SHA256 L (static_b l), DiffID = v1_SHA256 L (static_b l),
      Compressed = Ok (static_b l), Uncompressed = Ok (static_b l),
      Size = Ok (of_nat (length (static_b l))), MediaType = Ok (LayerMediaType (static_opts l)),
      Annotations = staticLayer_Annotations l, Payload = Ok (static_b l),
      Base64Signature = Ok (static_b64sig l), Cert = staticLayer_Cert L l,
      Chain = staticLayer_Chain L l, Bundle = Ok (opts_Bundle (static_opts l))\<rparr>"

definition NewSignature :: "libs \<Rightarrow> bytes \<Rightarrow> string \<Rightarrow> static_option list \<Rightarrow> oci_sig res" where
  "NewSignature L payload b64sig opts =
     bindr (makeOptions L opts) (\<lambda>o'.
       Ok (staticLayer_sig L \<lparr>static_b = payload, static_b64sig = b64sig, static_opts = o'\<rparr>))"

definition NewAttestation :: "libs \<Rightarrow> bytes \<Rightarrow> static_option list \<Rightarrow> oci_sig res" where
  "NewAttestation L payload opts = NewSignature L payload [] opts"

subsection \<open>A signature with changes\<close>

record signatureOpts =
  so_annotations :: "(string, string) gomap option"
  so_bundle :: "rekor_bundle option"
  so_cert :: "bytes option"
  so_chain :: "bytes option"
  so_mediaType :: string

datatype signature_option =
    Mutate_WithAnnotations "(string, string) gomap option"
  | Mutate_WithBundle "rekor_bundle option"
  | Mutate_WithCertChain "bytes option" "bytes option"
  | Mutate_WithMediaType string

fun apply_signature_option :: "signatureOpts \<Rightarrow> signature_option \<Rightarrow> signatureOpts" where
  "apply_signature_option so (Mutate_WithAnnotations ann) = so\<lparr>so_annotations := ann\<rparr>"
| "apply_signature_option so (Mutate_WithBundle b) = so\<lparr>so_bundle := b\<rparr>"
| "apply_signature_option so (Mutate_WithCertChain cert chain) = so\<lparr>so_cert := cert, so_chain := chain\<rparr>"
| "apply_signature_option so (Mutate_WithMediaType mt) = so\<lparr>so_mediaType := mt\<rparr>"

definition makeSignatureOption :: "signature_option list \<Rightarrow> signatureOpts" where
  "makeSignatureOption opts =
     foldl apply_signature_option
       \<lparr>so_annotations = None, so_bundle = None, so_cert = None, so_chain = None, so_mediaType = []\<rparr>
       opts"

record sigWrapper =
  wrapped :: oci_sig
  sw_annotations :: "(string, string) gomap option"
  sw_bundle :: "rekor_bundle option"
  sw_cert :: "certificate option"
  sw_chain :: "certificate list option"
  sw_mediaType :: string

definition copyAnnotations :: "(string, string) gomap \<Rightarrow> (string, string) gomap" where
  "copyAnnotations ann = mcopy ann"

definition sigWrapper_sig :: "sigWrapper \<Rightarrow> oci_sig" where
  "sigWrapper_sig sw =
     \<lparr>Digest = Digest (wrapped sw), DiffID = DiffID (wrapped sw),
      Compressed = Compressed (wrapped sw), Uncompressed = Uncompressed (wrapped sw),
      Size = Size (wrapped sw),
      MediaType = (if sw_mediaType sw \<noteq> [] then Ok (sw_mediaType sw) else MediaType (wrapped sw)),
      Annotations = (case sw_annotations sw of Some ann \<Rightarrow> Ok (copyAnnotations ann)
                     | None \<Rightarrow> Annotations (wrapped sw)),
      Payload = Payload (wrapped sw),
      Base64Signature = Base64Signature (wrapped sw),
      Cert = (case sw_cert sw of Some c \<Rightarrow> Ok (Some c) | None \<Rightarrow> Cert (wrapped sw)),
      Chain = (case sw_chain sw of Some c \<Rightarrow> Ok c | None \<Rightarrow> Chain (wrapped sw)),
      Bundle = (case sw_bundle sw of Some b \<Rightarrow> Ok (Some b) | None \<Rightarrow> Bundle (wrapped sw))\<rparr>"

text \<open>One step of the loop over the reserved keys.\<close>

definition keep_key ::
  "(string, string) gomap \<Rightarrow> (string, string) gomap \<Rightarrow> string \<Rightarrow> (string, string) gomap" where
  "keep_key oldAnn newAnn key =
     (case mlookup oldAnn key of Some val \<Rightarrow> mset_key key val newAnn | None \<Rightarrow> mdelete key newAnn)"

definition mutate_annotations ::
  "(string, string) gomap \<Rightarrow> (string, string) gomap option \<Rightarrow> (string, string) gomap" where
  "mutate_annotations oldAnn annotations =
     (case annotations of
        Some ann \<Rightarrow>
          foldl (keep_key oldAnn)
            (mset_key SignatureAnnotationKey (mget oldAnn SignatureAnnotationKey) (copyAnnotations ann))
            [BundleAnnotationKey, CertificateAnnotationKey, ChainAnnotationKey]
      | None \<Rightarrow> copyAnnotations oldAnn)"

definition mutate_bundle ::
  "libs \<Rightarrow> rekor_bundle option \<Rightarrow> (string, string) gomap \<Rightarrow> (string, string) gomap res" where
  "mutate_bundle L bndl newAnn =
     (case bndl of
        None \<Rightarrow> Ok newAnn
      | Some bd \<Rightarrow> bindr (Marshal_RekorBundle L bd) (\<lambda>b. Ok (mset_key BundleAnnotationKey b newAnn)))"

definition mutate_cert ::
  "libs \<Rightarrow> bytes option \<Rightarrow> bytes option \<Rightarrow> (string, string) gomap
   \<Rightarrow> (certificate option \<times> certificate list option \<times> (string, string) gomap) res" where
  "mutate_cert L cert chain newAnn =
     (case cert of
        None \<Rightarrow> Ok (None, None, newAnn)
      | Some certPEM \<Rightarrow>
          bindr (LoadCertificatesFromPEM L certPEM) (\<lambda>certs.
          bindr (index0 certs) (\<lambda>c.
            (let newAnn1 = mdelete ChainAnnotationKey (mset_key CertificateAnnotationKey certPEM newAnn)
             in case chain of
                  None \<Rightarrow> Ok (Some c, None, newAnn1)
                | Some chainPEM \<Rightarrow>
                    bindr (LoadCertificatesFromPEM L chainPEM) (\<lambda>cs.
                      Ok (Some c, Some cs, mset_key ChainAnnotationKey chainPEM newAnn1))))))"

definition mutate_Signature :: "libs \<Rightarrow> oci_sig \<Rightarrow> signature_option list \<Rightarrow> oci_sig res" where
  "mutate_Signature L original opts =
     (let so = makeSignatureOption opts
      in bindr (wrapr ''could not get annotations from signature to mutate'' (Annotations original)) (\<lambda>oldAnn.
         bindr (mutate_bundle L (so_bundle so) (mutate_annotations oldAnn (so_annotations so))) (\<lambda>newAnn.
         bindr (mutate_cert L (so_cert so) (so_chain so) newAnn) (\<lambda>(c, cs, newAnn').
         Ok (sigWrapper_sig \<lparr>wrapped = original, sw_annotations = Some newAnn',
                             sw_bundle = so_bundle so, sw_cert = c, sw_chain = cs,
                             sw_mediaType = so_mediaType so\<rparr>)))))"

subsection \<open>What a reader of the registry gets back\<close>

text \<open>
  A registry keeps the layer and the annotations of its descriptor; \<open>reread\<close> is the signature
  that \<open>signature.New\<close> makes of them.
\<close>

definition reread :: "libs \<Rightarrow> hash \<Rightarrow> oci_sig \<Rightarrow> oci_sig res" where
  "reread L d s =
     bindr (Annotations s) (\<lambda>ann.
       Ok (signature_New L (layer.truncate s) \<lparr>desc_Annotations = ann, desc_Digest = d\<rparr>))"

definition same_content :: "oci_sig \<Rightarrow> oci_sig \<Rightarrow> bool" where
  "same_content s t \<longleftrightarrow>
     Payload s = Payload t \<and> Base64Signature s = Base64Signature t \<and> Cert s = Cert t \<and>
     Chain s = Chain t \<and> Bundle s = Bundle t"

definition faithful :: "libs \<Rightarrow> hash \<Rightarrow> oci_sig \<Rightarrow> bool" where
  "faithful L d s \<longleftrightarrow> (\<exists>t. reread L d s = Ok t \<and> same_content t s)"

text \<open>
  The two codecs: the reader of certificates finds none in the empty text and at least one in any
  other text it accepts; the text of a bundle is not empty and reads as that bundle.
\<close>

definition pem_reader :: "libs \<Rightarrow> bool" where
  "pem_reader L \<longleftrightarrow> LoadCertificatesFromPEM L [] = Ok [] \<and>
     (\<forall>p. p \<noteq> [] \<longrightarrow> LoadCertificatesFromPEM L p \<noteq> Ok [])"

definition bundle_codec :: "libs \<Rightarrow> rekor_bundle option \<Rightarrow> bool" where
  "bundle_codec L bndl \<longleftrightarrow>
     (\<forall>b j. bndl = Some b \<longrightarrow> Marshal_RekorBundle L b = Ok j \<longrightarrow>
        j \<noteq> [] \<and> Unmarshal_RekorBundle L j = Ok b)"

lemma index0_first:
  "cs \<noteq> [] \<Longrightarrow> bindr (index0 cs) (\<lambda>c. Ok (Some c)) = Ok (case cs of [] \<Rightarrow> None | c # _ \<Rightarrow> Some c)"
  by (cases cs) (auto simp: index0_def)

text \<open>Reading a certificate, a chain or a bundle depends on the annotation of its key only.\<close>

lemma sigLayer_Cert_reads:
  assumes "pem_reader L" and "mget (desc_Annotations (desc s)) CertificateAnnotationKey = pem"
  shows "sigLayer_Cert L s =
    bindr (LoadCertificatesFromPEM L pem) (\<lambda>cs. Ok (case cs of [] \<Rightarrow> None | c # _ \<Rightarrow> Some c))"
  using assms
  by (cases "LoadCertificatesFromPEM L pem")
     (auto simp: sigLayer_Cert_def pem_reader_def index0_first Let_def)

lemma sigLayer_Chain_reads:
  assumes "pem_reader L"
  shows "sigLayer_Chain L s =
    LoadCertificatesFromPEM L (mget (desc_Annotations (desc s)) ChainAnnotationKey)"
  using assms by (auto simp: sigLayer_Chain_def pem_reader_def Let_def)

text \<open>
  What it takes for a signature to read back as it is, and what it gives. Every reader looks at the
  annotation of its own key only.
\<close>

lemma sigLayer_cong:
  "mget (desc_Annotations (desc S)) CertificateAnnotationKey = mget (desc_Annotations (desc T)) CertificateAnnotationKey
     \<Longrightarrow> sigLayer_Cert L S = sigLayer_Cert L T"
  "mget (desc_Annotations (desc S)) ChainAnnotationKey = mget (desc_Annotations (desc T)) ChainAnnotationKey
     \<Longrightarrow> sigLayer_Chain L S = sigLayer_Chain L T"
  "mget (desc_Annotations (desc S)) BundleAnnotationKey = mget (desc_Annotations (desc T)) BundleAnnotationKey
     \<Longrightarrow> sigLayer_Bundle L S = sigLayer_Bundle L T"
  by (simp_all add: sigLayer_Cert_def sigLayer_Chain_def sigLayer_Bundle_def)

lemma faithfulI:
  assumes "Annotations s = Ok ann" and "Payload s = Compressed s"
    and "Base64Signature s = Ok v" and "mlookup ann SignatureAnnotationKey = Some v"
    and "\<And>S. desc_Annotations (desc S) = ann \<Longrightarrow> sigLayer_Cert L S = Cert s"
    and "\<And>S. desc_Annotations (desc S) = ann \<Longrightarrow> sigLayer_Chain L S = Chain s"
    and "\<And>S. desc_Annotations (desc S) = ann \<Longrightarrow> sigLayer_Bundle L S = Bundle s"
  shows "faithful L d s"
  using assms
  by (auto simp: faithful_def reread_def signature_New_def same_content_def layer.truncate_def
      sigLayer_Payload_def sigLayer_Base64Signature_def Let_def)

lemma faithfulD:
  assumes "faithful L d s" and "Annotations s = Ok ann"
  shows "Payload s = Compressed s"
    and "Base64Signature s = Ok v \<Longrightarrow> mlookup ann SignatureAnnotationKey = Some v"
    and "mget (desc_Annotations (desc S)) CertificateAnnotationKey = mget ann CertificateAnnotationKey
           \<Longrightarrow> sigLayer_Cert L S = Cert s"
    and "mget (desc_Annotations (desc S)) ChainAnnotationKey = mget ann ChainAnnotationKey
           \<Longrightarrow> sigLayer_Chain L S = Chain s"
    and "mget (desc_Annotations (desc S)) BundleAnnotationKey = mget ann BundleAnnotationKey
           \<Longrightarrow> sigLayer_Bundle L S = Bundle s"
proof -
  let ?T = "\<lparr>Layer = layer.truncate s, desc = \<lparr>desc_Annotations = ann, desc_Digest = d\<rparr>\<rparr>"
  have T: "Compressed s = Payload s" "sigLayer_Base64Signature ?T = Base64Signature s"
    "sigLayer_Cert L ?T = Cert s" "sigLayer_Chain L ?T = Chain s" "sigLayer_Bundle L ?T = Bundle s"
    using assms by (auto simp: faithful_def reread_def signature_New_def same_content_def
        layer.truncate_def sigLayer_Payload_def Let_def)
  show "Payload s = Compressed s"
    by (simp add: T)
  show "mlookup ann SignatureAnnotationKey = Some v" if "Base64Signature s = Ok v"
    using T(2) that by (auto simp: sigLayer_Base64Signature_def split: option.splits)
  show "sigLayer_Cert L S = Cert s"
    if "mget (desc_Annotations (desc S)) CertificateAnnotationKey = mget ann CertificateAnnotationKey"
    using sigLayer_cong(1) [of S ?T] T that by simp
  show "sigLayer_Chain L S = Chain s"
    if "mget (desc_Annotations (desc S)) ChainAnnotationKey = mget ann ChainAnnotationKey"
    using sigLayer_cong(2) [of S ?T] T that by simp
  show "sigLayer_Bundle L S = Bundle s"
    if "mget (desc_Annotations (desc S)) BundleAnnotationKey = mget ann BundleAnnotationKey"
    using sigLayer_cong(3) [of S ?T] T that by simp
qed

lemma assign_key_Ok_iff [res_simps]:
  "assign_key k v m = Ok m' \<longleftrightarrow> (\<exists>a. m = Some a \<and> m' = Some (mset_key k v a))"
  by (auto simp: assign_key_def split: option.splits)

text \<open>The annotations that \<open>makeOptions\<close> leaves, by key.\<close>

lemma makeOptions_annotations:
  assumes "makeOptions L opts = Ok o'" and "o1 = foldl apply_option default_options opts"
    and "\<forall>k \<in> {CertificateAnnotationKey, ChainAnnotationKey, BundleAnnotationKey}.
           mlookup (nil_map (opts_Annotations o1)) k = None"
  defines "ann \<equiv> nil_map (opts_Annotations o')"
  shows "opts_Cert o' = opts_Cert o1" and "opts_Chain o' = opts_Chain o1"
    and "opts_Bundle o' = opts_Bundle o1" and "LayerMediaType o' = LayerMediaType o1"
    and "mget ann CertificateAnnotationKey = nil_bytes (opts_Cert o1)"
    and "mget ann ChainAnnotationKey =
           (if opts_Cert o1 = None then [] else nil_bytes (opts_Chain o1))"
    and "case opts_Bundle o1 of None \<Rightarrow> mget ann BundleAnnotationKey = []
         | Some b \<Rightarrow> Marshal_RekorBundle L b = Ok (mget ann BundleAnnotationKey)"
  using assms
  by (auto simp: makeOptions_def Let_def res_simps nil_map_def nil_bytes_def mget_def
      split: option.splits)

lemma sigLayer_Bundle_reads:
  assumes "bundle_codec L bndl" and "val = mget (desc_Annotations (desc s)) BundleAnnotationKey"
    and "case bndl of None \<Rightarrow> val = [] | Some b \<Rightarrow> Marshal_RekorBundle L b = Ok val"
  shows "sigLayer_Bundle L s = Ok bndl"
  using assms by (auto simp: sigLayer_Bundle_def bundle_codec_def Let_def split: option.splits)

text \<open>Storing a signature that was made in memory loses nothing. Take a signature that
  \<open>static.NewSignature\<close> made with no use of the reserved annotation keys and no chain without a
  certificate. What \<open>signature.New\<close> reads from its layer and annotations has the same payload,
  signature, certificate, chain and bundle, also where reading the certificate fails. Needed of
  the codecs: certificates are read from non-empty text only, and a bundle reads back from its
  own JSON text.\<close>

theorem NewSignature_stored:
  assumes "pem_reader L"
    and made: "NewSignature L payload b64sig opts = Ok s"
    and o1: "o1 = foldl apply_option default_options opts"
    and free: "\<forall>k \<in> {CertificateAnnotationKey, ChainAnnotationKey, BundleAnnotationKey}.
           mlookup (nil_map (opts_Annotations o1)) k = None"
    and chain: "opts_Cert o1 = None \<longrightarrow> nil_bytes (opts_Chain o1) = []"
    and codec: "bundle_codec L (opts_Bundle o1)"
  shows "faithful L d s \<and> Payload s = Ok payload \<and> Base64Signature s = Ok b64sig"
proof -
  obtain o' where o': "makeOptions L opts = Ok o'"
    and s: "s = staticLayer_sig L \<lparr>static_b = payload, static_b64sig = b64sig, static_opts = o'\<rparr>"
    using made by (auto simp: NewSignature_def res_simps)
  note ann = makeOptions_annotations [OF o' o1 free]
  have chain': "nil_bytes (opts_Chain o1) = (if opts_Cert o1 = None then [] else nil_bytes (opts_Chain o1))"
    using chain by auto
  have "faithful L d s"
  proof (rule faithfulI)
    show "Annotations s = Ok (mset_key SignatureAnnotationKey b64sig (mcopy (nil_map (opts_Annotations o'))))"
      by (simp add: s staticLayer_sig_def staticLayer_Annotations_def)
  next
    fix S :: sigLayer
    assume S: "desc_Annotations (desc S) = mset_key SignatureAnnotationKey b64sig (mcopy (nil_map (opts_Annotations o')))"
    show "sigLayer_Cert L S = Cert s"
      using ann by (simp add: S s staticLayer_sig_def sigLayer_Cert_reads [OF \<open>pem_reader L\<close> refl]
          staticLayer_Cert_def)
    show "sigLayer_Chain L S = Chain s"
      using ann chain' by (simp add: S s staticLayer_sig_def sigLayer_Chain_reads [OF \<open>pem_reader L\<close>]
          staticLayer_Chain_def)
    have "sigLayer_Bundle L S = Ok (opts_Bundle o1)"
      by (rule sigLayer_Bundle_reads [OF codec refl]) (use ann(7) in \<open>auto simp: S split: option.splits\<close>)
    then show "sigLayer_Bundle L S = Bundle s"
      using ann(3) by (simp add: s staticLayer_sig_def)
  qed (simp_all add: s staticLayer_sig_def)
  then show ?thesis
    by (simp add: s staticLayer_sig_def)
qed

theorem NewSignature_stored_witness:
  "\<exists>s. NewSignature sample_libs ''payload'' ''c2ln'' [WithBundle (Some sample_bundle),
         WithCertChain (Some ''c'') (Some ''r'')] = Ok s \<and>
       Cert s = Ok (Some (sample_cert\<lparr>Raw := ''c''\<rparr>)) \<and> Bundle s = Ok (Some sample_bundle) \<and>
       faithful sample_libs \<lparr>Algorithm = ''sha256'', Hex = []\<rparr> s"
proof -
  let ?opts = "[WithBundle (Some sample_bundle), WithCertChain (Some ''c'') (Some ''r'')]"
  have pem: "pem_reader sample_libs"
    by (simp add: pem_reader_def sample_libs_def)
  obtain s where s: "NewSignature sample_libs ''payload'' ''c2ln'' ?opts = Ok s"
    by (simp add: NewSignature_def makeOptions_def default_options_def assign_key_def Let_def
        sample_libs_def nil_bytes_def)
  have codec: "bundle_codec sample_libs (opts_Bundle (foldl apply_option default_options ?opts))"
    by (simp add: bundle_codec_def sample_libs_def)
  have "Cert s = Ok (Some (sample_cert\<lparr>Raw := ''c''\<rparr>)) \<and> Bundle s = Ok (Some sample_bundle)"
    using s by (auto simp: NewSignature_def makeOptions_def default_options_def assign_key_def Let_def
        sample_libs_def nil_bytes_def staticLayer_sig_def staticLayer_Cert_def)
  then show ?thesis
    using s NewSignature_stored [OF pem s refl _ _ codec, of "\<lparr>Algorithm = ''sha256'', Hex = []\<rparr>"]
    by (simp add: default_options_def nil_map_def)
qed

text \<open>The reserved annotations of a changed signature are those of the original.\<close>

lemma mutate_annotations_reserved:
  "k \<in> {BundleAnnotationKey, CertificateAnnotationKey, ChainAnnotationKey}
     \<Longrightarrow> mlookup (mutate_annotations old a) k = mlookup old k"
  "mlookup old SignatureAnnotationKey = Some v
     \<Longrightarrow> mlookup (mutate_annotations old a) SignatureAnnotationKey = Some v"
  by (auto simp: mutate_annotations_def keep_key_def copyAnnotations_def mget_def split: option.splits)

lemma mutate_Signature_Ok_iff:
  "mutate_Signature L original opts = Ok s \<longleftrightarrow>
     (\<exists>old new c cs new'. Annotations original = Ok old \<and>
        mutate_bundle L (so_bundle (makeSignatureOption opts))
          (mutate_annotations old (so_annotations (makeSignatureOption opts))) = Ok new \<and>
        mutate_cert L (so_cert (makeSignatureOption opts)) (so_chain (makeSignatureOption opts)) new
          = Ok (c, cs, new') \<and>
        s = sigWrapper_sig \<lparr>wrapped = original, sw_annotations = Some new',
              sw_bundle = so_bundle (makeSignatureOption opts), sw_cert = c, sw_chain = cs,
              sw_mediaType = so_mediaType (makeSignatureOption opts)\<rparr>)"
  by (auto simp: mutate_Signature_def Let_def res_simps)

text \<open>The annotations after a new bundle, and after a new certificate and chain.\<close>

lemma mutate_bundle_Ok:
  assumes "mutate_bundle L bndl a = Ok a'"
  shows "k \<noteq> BundleAnnotationKey \<Longrightarrow> mlookup a' k = mlookup a k"
    and "case bndl of None \<Rightarrow> a' = a | Some b \<Rightarrow> Marshal_RekorBundle L b = Ok (mget a' BundleAnnotationKey)"
  using assms by (auto simp: mutate_bundle_def res_simps split: option.splits)

lemma mutate_cert_Ok:
  assumes "mutate_cert L cert chain a = Ok (c, cs, a')"
  shows "k \<notin> {CertificateAnnotationKey, ChainAnnotationKey} \<Longrightarrow> mlookup a' k = mlookup a k"
    and "cert = None \<Longrightarrow> c = None \<and> cs = None \<and> a' = a"
    and "cert = Some pem \<Longrightarrow> mget a' CertificateAnnotationKey = pem \<and>
           (\<exists>x rest. LoadCertificatesFromPEM L pem = Ok (x # rest) \<and> c = Some x)"
    and "cert = Some pem \<Longrightarrow> chain = None \<Longrightarrow> cs = None \<and> mget a' ChainAnnotationKey = []"
    and "cert = Some pem \<Longrightarrow> chain = Some p \<Longrightarrow> mget a' ChainAnnotationKey = p \<and>
           (\<exists>xs. LoadCertificatesFromPEM L p = Ok xs \<and> cs = Some xs)"
  using assms
  by (auto simp: mutate_cert_def Let_def res_simps mget_def split: option.splits)

lemma mget_cong: "mlookup a k = mlookup b k \<Longrightarrow> mget a k = mget b k"
  by (simp add: mget_def)

text \<open>What a reader finds after these two steps, given what it found before.\<close>

lemma mutate_cert_reads_Cert:
  assumes pem: "pem_reader L" and made: "mutate_cert L cert chain a = Ok (c, cs, a')"
    and S: "desc_Annotations (desc S) = copyAnnotations a'"
    and orig: "\<And>S. mget (desc_Annotations (desc S)) CertificateAnnotationKey = mget a CertificateAnnotationKey
                 \<Longrightarrow> sigLayer_Cert L S = r"
  shows "sigLayer_Cert L S = (case c of Some x \<Rightarrow> Ok (Some x) | None \<Rightarrow> r)"
  using mutate_cert_Ok(2,3) [OF made] orig [of S]
  by (cases cert) (auto simp: S copyAnnotations_def sigLayer_Cert_reads [OF pem refl])

lemma mutate_cert_reads_Chain:
  assumes pem: "pem_reader L" and made: "mutate_cert L cert chain a = Ok (c, cs, a')"
    and S: "desc_Annotations (desc S) = copyAnnotations a'"
    and orig: "\<And>S. mget (desc_Annotations (desc S)) ChainAnnotationKey = mget a ChainAnnotationKey
                 \<Longrightarrow> sigLayer_Chain L S = r"
    and chain: "cert = None \<or> chain \<noteq> None \<or> r = Ok []"
  shows "sigLayer_Chain L S = (case cs of Some xs \<Rightarrow> Ok xs | None \<Rightarrow> r)"
proof (cases cert)
  case None
  then show ?thesis
    using mutate_cert_Ok(2) [OF made] orig [of S] by (simp add: S copyAnnotations_def)
next
  case (Some p)
  then show ?thesis
    using mutate_cert_Ok(4,5) [OF made Some] chain pem
    by (cases chain) (auto simp: S copyAnnotations_def sigLayer_Chain_reads pem_reader_def)
qed

lemma mutate_bundle_reads:
  assumes codec: "bundle_codec L bndl" and made: "mutate_bundle L bndl a = Ok a'"
    and S: "mget (desc_Annotations (desc S)) BundleAnnotationKey = mget a' BundleAnnotationKey"
    and orig: "\<And>S. mget (desc_Annotations (desc S)) BundleAnnotationKey = mget a BundleAnnotationKey
                 \<Longrightarrow> sigLayer_Bundle L S = r"
  shows "sigLayer_Bundle L S = (case bndl of Some b \<Rightarrow> Ok (Some b) | None \<Rightarrow> r)"
  using mutate_bundle_Ok(2) [OF made] orig [of S] S
    sigLayer_Bundle_reads [OF codec refl, of S]
  by (cases bndl) auto

text \<open>Changing a signature in memory agrees with storing it. If the original reads back from its
  annotations as it is, so does what \<open>mutate.Signature\<close> returns, for any options, where a new
  certificate comes with a new chain or the original has none; payload and signature are those of
  the original.\<close>

theorem mutate_Signature_stored:
  assumes pem: "pem_reader L" and orig: "faithful L d original" and "is_ok (Base64Signature original)"
    and made: "mutate_Signature L original opts = Ok s"
    and codec: "bundle_codec L (so_bundle (makeSignatureOption opts))"
    and chain: "so_cert (makeSignatureOption opts) = None \<or> so_chain (makeSignatureOption opts) \<noteq> None
                \<or> Chain original = Ok []"
  shows "faithful L d s \<and> Payload s = Payload original \<and> Base64Signature s = Base64Signature original"
proof -
  let ?so = "makeSignatureOption opts"
  obtain old new c cs new' where old: "Annotations original = Ok old"
    and new: "mutate_bundle L (so_bundle ?so) (mutate_annotations old (so_annotations ?so)) = Ok new"
    and new': "mutate_cert L (so_cert ?so) (so_chain ?so) new = Ok (c, cs, new')"
    and s: "s = sigWrapper_sig \<lparr>wrapped = original, sw_annotations = Some new',
          sw_bundle = so_bundle ?so, sw_cert = c, sw_chain = cs, sw_mediaType = so_mediaType ?so\<rparr>"
    using made by (auto simp: mutate_Signature_Ok_iff)
  have ann: "Annotations s = Ok (copyAnnotations new')"
    by (simp add: s sigWrapper_sig_def)
  obtain v where v: "Base64Signature original = Ok v"
    using \<open>is_ok (Base64Signature original)\<close> by (auto simp: is_ok_iff)
  note orig' = faithfulD [OF orig old]
  note reserved = mutate_annotations_reserved [where a = "so_annotations ?so" and old = old]
  note nb = mutate_bundle_Ok [OF new] and nc = mutate_cert_Ok [OF new']
  have "faithful L d s"
  proof (rule faithfulI)
    show "Annotations s = Ok (copyAnnotations new')"
      by (simp add: s sigWrapper_sig_def)
    show "mlookup (copyAnnotations new') SignatureAnnotationKey = Some v"
      using orig'(2) [OF v] by (simp add: copyAnnotations_def nc(1) nb(1) reserved(2))
  next
    fix S :: sigLayer
    assume S: "desc_Annotations (desc S) = copyAnnotations new'"
    have new_mget: "mget new k = mget old k"
      if "k \<in> {CertificateAnnotationKey, ChainAnnotationKey}" for k
      by (rule mget_cong) (use that in \<open>auto simp: nb(1) reserved(1)\<close>)
    show "sigLayer_Cert L S = Cert s"
      using mutate_cert_reads_Cert [OF pem new' S, of "Cert original"] orig'(3) new_mget
      by (simp add: s sigWrapper_sig_def split: option.splits)
    show "sigLayer_Chain L S = Chain s"
      using mutate_cert_reads_Chain [OF pem new' S _ chain] orig'(4) new_mget
      by (simp add: s sigWrapper_sig_def split: option.splits)
    have "mget (desc_Annotations (desc S)) BundleAnnotationKey = mget new BundleAnnotationKey"
      "mget (mutate_annotations old (so_annotations ?so)) BundleAnnotationKey = mget old BundleAnnotationKey"
      by (auto intro!: mget_cong simp: S copyAnnotations_def nc(1) reserved(1))
    then show "sigLayer_Bundle L S = Bundle s"
      using mutate_bundle_reads [OF codec new, of S "Bundle original"] orig'(5)
      by (simp add: s sigWrapper_sig_def split: option.splits)
  qed (simp_all add: s sigWrapper_sig_def v orig'(1))
  then show ?thesis
    by (simp add: s sigWrapper_sig_def)
qed

theorem mutate_Signature_stored_witness:
  "\<exists>o' s. NewSignature sample_libs ''payload'' ''c2ln'' [] = Ok o' \<and>
     mutate_Signature sample_libs o' [Mutate_WithCertChain (Some ''c'') (Some ''r''),
       Mutate_WithAnnotations (Some [(''env'', ''prod'')])] = Ok s \<and>
     faithful sample_libs \<lparr>Algorithm = ''sha256'', Hex = []\<rparr> s \<and>
     Cert s = Ok (Some (sample_cert\<lparr>Raw := ''c''\<rparr>))"
proof -
  let ?opts = "[Mutate_WithCertChain (Some ''c'') (Some ''r''), Mutate_WithAnnotations (Some [(''env'', ''prod'')])]"
  let ?d = "\<lparr>Algorithm = ''sha256'', Hex = []\<rparr>"
  have pem: "pem_reader sample_libs"
    by (simp add: pem_reader_def sample_libs_def)
  obtain o' where o': "NewSignature sample_libs ''payload'' ''c2ln'' [] = Ok o'"
    and o'_def: "o' = staticLayer_sig sample_libs \<lparr>static_b = ''payload'', static_b64sig = ''c2ln'', static_opts = default_options\<rparr>"
    by (simp add: NewSignature_def makeOptions_def default_options_def)
  have orig: "faithful sample_libs ?d o'"
    by (rule faithfulI) (auto simp: o'_def staticLayer_sig_def staticLayer_Annotations_def
        default_options_def nil_map_def mcopy_def staticLayer_Cert_def staticLayer_Chain_def nil_bytes_def
        sigLayer_Cert_def sigLayer_Chain_def sigLayer_Bundle_def mget_def sample_libs_def)
  obtain s where s: "mutate_Signature sample_libs o' ?opts = Ok s"
    and cert: "Cert s = Ok (Some (sample_cert\<lparr>Raw := ''c''\<rparr>))"
    by (simp add: mutate_Signature_def makeSignatureOption_def o'_def staticLayer_sig_def
        staticLayer_Annotations_def mutate_bundle_def mutate_cert_def sample_libs_def index0_def
        sigWrapper_sig_def Let_def)
  have "is_ok (Base64Signature o')"
    by (simp add: o'_def staticLayer_sig_def)
  then show ?thesis
    using mutate_Signature_stored [OF pem orig _ s] o' s cert
    by (auto simp: makeSignatureOption_def bundle_codec_def)
qed

text \<open>The one case left out: a new certificate without a chain. Then \<open>mutate.Signature\<close> deletes
  the chain's annotation, so a reader of the stored signature finds no chain, while \<open>Chain()\<close> of
  the value in memory still returns the chain of the original.\<close>

theorem mutate_Signature_keeps_chain:
  assumes "mutate_Signature L original [Mutate_WithCertChain (Some cert) None] = Ok s"
    and "reread L d s = Ok t"
  shows "Chain s = Chain original \<and> Chain t = Ok []"
proof -
  obtain old new c cs new' where
    new': "mutate_cert L (Some cert) None new = Ok (c, cs, new')"
    and s: "s = sigWrapper_sig \<lparr>wrapped = original, sw_annotations = Some new', sw_bundle = None,
               sw_cert = c, sw_chain = cs, sw_mediaType = []\<rparr>"
    using assms(1) by (auto simp: mutate_Signature_Ok_iff makeSignatureOption_def)
  note nc = mutate_cert_Ok(4) [OF new' refl refl]
  show ?thesis
    using nc assms(2)
    by (auto simp: s sigWrapper_sig_def reread_def signature_New_def sigLayer_Chain_def Let_def
        copyAnnotations_def)
qed

theorem mutate_Signature_keeps_chain_witness:
  "\<exists>o' s t. NewSignature sample_libs ''payload'' ''c2ln'' [WithCertChain (Some ''c'') (Some ''r'')] = Ok o' \<and>
     mutate_Signature sample_libs o' [Mutate_WithCertChain (Some ''c2'') None] = Ok s \<and>
     reread sample_libs \<lparr>Algorithm = [], Hex = []\<rparr> s = Ok t \<and>
     Chain s = Ok [sample_cert\<lparr>Raw := ''r''\<rparr>] \<and> Chain t = Ok []"
proof -
  obtain o' where o': "NewSignature sample_libs ''payload'' ''c2ln'' [WithCertChain (Some ''c'') (Some ''r'')] = Ok o'"
    and ch: "Chain o' = Ok [sample_cert\<lparr>Raw := ''r''\<rparr>]" and an: "is_ok (Annotations o')"
    by (simp add: NewSignature_def makeOptions_def default_options_def assign_key_def Let_def
        sample_libs_def nil_bytes_def staticLayer_sig_def staticLayer_Chain_def staticLayer_Annotations_def)
  obtain s where s: "mutate_Signature sample_libs o' [Mutate_WithCertChain (Some ''c2'') None] = Ok s"
    and an': "is_ok (Annotations s)"
    using an by (auto simp: is_ok_iff mutate_Signature_def makeSignatureOption_def mutate_bundle_def
        mutate_cert_def sample_libs_def index0_def sigWrapper_sig_def Let_def)
  obtain t where t: "reread sample_libs \<lparr>Algorithm = [], Hex = []\<rparr> s = Ok t"
    using an' by (auto simp: is_ok_iff reread_def)
  show ?thesis
    using mutate_Signature_keeps_chain [OF s t] o' s t ch by auto
qed

end
