(* ===== verification/OCI_Registry.thy ===== *)
theory OCI_Registry
  imports OCI_Signature
begin

section \<open>Signed entities of a registry\<close>

text \<open>
  \<open>pkg/oci/remote\<close> (\<open>SignedEntity\<close>, the tags of signatures, attestations and SBOMs, reading and
  writing them), \<open>pkg/oci/empty\<close> and \<open>pkg/oci/signed\<close>. The registry and the package
  go-containerregistry that talks to it are a parameter: \<open>registry\<close> holds what a registry answers
  to \<open>remote.Get\<close>, \<open>remote.Image\<close> and \<open>remote.Index\<close>, and the package's empty image;
  \<open>remote.Write\<close> takes one registry to the next.
\<close>

subsection \<open>References, images, indices\<close>

datatype reference = Tag (Context: string) string | DigestRef (Context: string) string

text \<open>The methods of \<open>v1.Image\<close> and \<open>v1.ImageIndex\<close> that the sources call.\<close>

record image =
  image_Digest :: "hash res"
  Manifest_Layers :: "descriptor list res"
  LayerByDigest :: "hash \<Rightarrow> layer res"
  Layers :: "layer list res"

text \<open>The descriptors of an index also say what they point to.\<close>

record manifest_descriptor = descriptor +
  desc_MediaType :: string

datatype v1_index =
  V1Index (index_Digest: "hash res") (IndexManifest: "manifest_descriptor list res")
    (index_Image: "hash \<Rightarrow> image res") (index_ImageIndex: "hash \<Rightarrow> v1_index res")

text \<open>\<open>oci.Signatures\<close>: an image, and the list of signatures, which may be nil.\<close>

record oci_sigs = image +
  Get :: "oci_sig list option res"

record oci_file =
  FileMediaType :: "string res"
  file_Payload :: "bytes res"

text \<open>\<open>oci.SignedEntity\<close>; a nil \<open>oci.Signatures\<close> is \<open>None\<close>.\<close>

record signed_entity =
  entity_Digest :: "hash res"
  Signatures :: "oci_sigs option res"
  Attestations :: "oci_sigs option res"
  Attachment :: "string \<Rightarrow> oci_file res"

type_synonym ropt = "string list"

record got =
  got_MediaType :: string
  got_Digest :: hash
  got_Image :: "image res"
  got_ImageIndex :: "v1_index res"

record registry =
  remoteGet :: "ropt \<Rightarrow> reference \<Rightarrow> got res"
  remoteImage :: "ropt \<Rightarrow> reference \<Rightarrow> image res"
  remoteIndex :: "ropt \<Rightarrow> reference \<Rightarrow> v1_index res"
  empty_Image :: image

text \<open>\<open>errors.As(err, &te)\<close> for a \<open>*transport.Error\<close>.\<close>

fun as_transport :: "gerror \<Rightarrow> nat option" where
  "as_transport (TransportError code) = Some code"
| "as_transport (Wrapped e _) = as_transport e"
| "as_transport _ = None"

subsection \<open>Options\<close>

datatype remote_option =
    WithPrefix string
  | WithSignatureSuffix string
  | WithAttestationSuffix string
  | WithSBOMSuffix string
  | WithRemoteOptions ropt
  | WithTargetRepository string

record remote_options =
  SignatureSuffix :: string
  AttestationSuffix :: string
  SBOMSuffix :: string
  TagPrefix :: string
  TargetRepository :: string
  ROpt :: ropt
  OriginalOptions :: "remote_option list"

fun apply_remote_option :: "remote_options \<Rightarrow> remote_option \<Rightarrow> remote_options" where
  "apply_remote_option o' (WithPrefix p) = o'\<lparr>TagPrefix := p\<rparr>"
| "apply_remote_option o' (WithSignatureSuffix s) = o'\<lparr>SignatureSuffix := s\<rparr>"
| "apply_remote_option o' (WithAttestationSuffix s) = o'\<lparr>AttestationSuffix := s\<rparr>"
| "apply_remote_option o' (WithSBOMSuffix s) = o'\<lparr>SBOMSuffix := s\<rparr>"
| "apply_remote_option o' (WithRemoteOptions ro) = o'\<lparr>ROpt := ro\<rparr>"
| "apply_remote_option o' (WithTargetRepository r) = o'\<lparr>TargetRepository := r\<rparr>"

definition remote_makeOptions :: "string \<Rightarrow> remote_option list \<Rightarrow> remote_options" where
  "remote_makeOptions target opts =
     foldl apply_remote_option
       \<lparr>SignatureSuffix = ''sig'', AttestationSuffix = ''att'', SBOMSuffix = ''sbom'', TagPrefix = [],
        TargetRepository = target, ROpt = [''authn.DefaultKeychain''], OriginalOptions = opts\<rparr> opts"

definition GetEnvTargetRepository ::
  "libs \<Rightarrow> (string \<Rightarrow> string) \<Rightarrow> (string \<Rightarrow> string res) \<Rightarrow> string res" where
  "GetEnvTargetRepository L getenv NewRepository =
     (let ro = getenv ''COSIGN_REPOSITORY''
      in if ro \<noteq> []
         then (case NewRepository ro of
                 Ok repo \<Rightarrow> (case errors_Wrap L None ''parsing $COSIGN_REPOSITORY'' of
                              None \<Rightarrow> Ok repo | Some e \<Rightarrow> Err e)
               | Err e \<Rightarrow> (case errors_Wrap L (Some e) ''parsing $COSIGN_REPOSITORY'' of
                              None \<Rightarrow> Ok [] | Some e' \<Rightarrow> Err e')
               | Panic p \<Rightarrow> Panic p)
         else Ok [])"

subsection \<open>Tags\<close>

definition normalize :: "hash \<Rightarrow> string \<Rightarrow> string \<Rightarrow> string" where
  "normalize h prefix suffix =
     (if suffix = [] then prefix @ Algorithm h @ ''-'' @ Hex h
      else prefix @ Algorithm h @ ''-'' @ Hex h @ ''.'' @ suffix)"

definition suffixTag ::
  "(string \<Rightarrow> hash res) \<Rightarrow> registry \<Rightarrow> reference \<Rightarrow> string \<Rightarrow> remote_options \<Rightarrow> reference res" where
  "suffixTag NewHash R ref suffix o' =
     bindr (case ref of
              DigestRef _ d \<Rightarrow> NewHash d
            | Tag _ _ \<Rightarrow> bindr (remoteGet R (ROpt o') ref) (\<lambda>d. Ok (got_Digest d))) (\<lambda>h.
     Ok (Tag (TargetRepository o') (normalize h (TagPrefix o') suffix)))"

definition SignatureTag ::
  "(string \<Rightarrow> hash res) \<Rightarrow> registry \<Rightarrow> reference \<Rightarrow> remote_option list \<Rightarrow> reference res" where
  "SignatureTag NewHash R ref opts =
     (let o' = remote_makeOptions (Context ref) opts in suffixTag NewHash R ref (SignatureSuffix o') o')"

definition AttestationTag ::
  "(string \<Rightarrow> hash res) \<Rightarrow> registry \<Rightarrow> reference \<Rightarrow> remote_option list \<Rightarrow> reference res" where
  "AttestationTag NewHash R ref opts =
     (let o' = remote_makeOptions (Context ref) opts in suffixTag NewHash R ref (AttestationSuffix o') o')"

definition SBOMTag ::
  "(string \<Rightarrow> hash res) \<Rightarrow> registry \<Rightarrow> reference \<Rightarrow> remote_option list \<Rightarrow> reference res" where
  "SBOMTag NewHash R ref opts =
     (let o' = remote_makeOptions (Context ref) opts in suffixTag NewHash R ref (SBOMSuffix o') o')"

definition ResolveDigest :: "registry \<Rightarrow> reference \<Rightarrow> remote_option list \<Rightarrow> reference res" where
  "ResolveDigest R ref opts =
     (let o' = remote_makeOptions (Context ref) opts
      in case ref of
           DigestRef _ _ \<Rightarrow> Ok ref
         | Tag _ _ \<Rightarrow> bindr (remoteGet R (ROpt o') ref) (\<lambda>d.
                         Ok (DigestRef (Context ref) (hash_String (got_Digest d)))))"

subsection \<open>Reading\<close>

definition empty_Signatures :: "registry \<Rightarrow> oci_sigs" where
  "empty_Signatures R =
     (let i = empty_Image R
      in \<lparr>image_Digest = image_Digest i, Manifest_Layers = Manifest_Layers i,
          LayerByDigest = LayerByDigest i, Layers = Layers i, Get = Ok None\<rparr>)"

definition sigs_Get :: "libs \<Rightarrow> image \<Rightarrow> oci_sig list option res" where
  "sigs_Get L img =
     bindr (Manifest_Layers img) (\<lambda>ls.
     bindr (mapr (\<lambda>d. bindr (LayerByDigest img (desc_Digest d)) (\<lambda>l. Ok (signature_New L l d))) ls) (\<lambda>ss.
     Ok (Some ss)))"

definition sigs_of :: "libs \<Rightarrow> image \<Rightarrow> oci_sigs" where
  "sigs_of L i =
     \<lparr>image_Digest = image_Digest i, Manifest_Layers = Manifest_Layers i,
      LayerByDigest = LayerByDigest i, Layers = Layers i, Get = sigs_Get L i\<rparr>"

definition remote_Signatures :: "libs \<Rightarrow> registry \<Rightarrow> reference \<Rightarrow> remote_option list \<Rightarrow> oci_sigs res" where
  "remote_Signatures L R ref opts =
     (let o' = remote_makeOptions (Context ref) opts
      in handler (remoteImage R (ROpt o') ref)
           (\<lambda>err. case as_transport err of
              Some code \<Rightarrow> if code \<noteq> 404 then Err (TransportError code) else Ok (empty_Signatures R)
            | None \<Rightarrow> Err err)
           (\<lambda>img. Ok (sigs_of L img)))"

definition entity_tag :: "hash \<Rightarrow> string \<Rightarrow> remote_options \<Rightarrow> reference" where
  "entity_tag h suffix o' = Tag (TargetRepository o') (normalize h (TagPrefix o') suffix)"

definition signatures_of :: "libs \<Rightarrow> registry \<Rightarrow> hash res \<Rightarrow> remote_options \<Rightarrow> oci_sigs option res" where
  "signatures_of L R digest o' =
     bindr digest (\<lambda>h.
     bindr (remote_Signatures L R (entity_tag h (SignatureSuffix o') o') (OriginalOptions o')) (\<lambda>s. Ok (Some s)))"

definition attestations_of :: "libs \<Rightarrow> registry \<Rightarrow> hash res \<Rightarrow> remote_options \<Rightarrow> oci_sigs option res" where
  "attestations_of L R digest o' =
     bindr digest (\<lambda>h.
     bindr (remote_Signatures L R (entity_tag h (AttestationSuffix o') o') (OriginalOptions o')) (\<lambda>s. Ok (Some s)))"

text \<open>The image that \<open>SignedImage\<close> wraps.\<close>

definition remote_SignedImage :: "registry \<Rightarrow> reference \<Rightarrow> remote_option list \<Rightarrow> (image \<times> remote_options) res" where
  "remote_SignedImage R ref opts =
     (let o' = remote_makeOptions (Context ref) opts
      in handler (remoteImage R (ROpt o') ref)
           (\<lambda>err. if as_transport err = Some 404 then Err (ErrorString ''image not found in registry'') else Err err)
           (\<lambda>ri. Ok (ri, o')))"

definition remote_SignedImageIndex :: "registry \<Rightarrow> reference \<Rightarrow> remote_option list \<Rightarrow> (v1_index \<times> remote_options) res" where
  "remote_SignedImageIndex R ref opts =
     (let o' = remote_makeOptions (Context ref) opts
      in handler (remoteIndex R (ROpt o') ref)
           (\<lambda>err. if as_transport err = Some 404 then Err (ErrorString ''index not found in registry'') else Err err)
           (\<lambda>ri. Ok (ri, o')))"

definition attachment_of :: "registry \<Rightarrow> hash res \<Rightarrow> string \<Rightarrow> remote_options \<Rightarrow> oci_file res" where
  "attachment_of R digest attName o' =
     bindr digest (\<lambda>h.
     bindr (remote_SignedImage R (entity_tag h attName o') (OriginalOptions o')) (\<lambda>(img, _).
     bindr (Layers img) (\<lambda>ls.
     case ls of
       [l] \<Rightarrow> Ok \<lparr>FileMediaType = MediaType l, file_Payload = Compressed l\<rparr>
     | _ \<Rightarrow> Err (ErrorString ''expected exactly one layer in attachment''))))"

definition entity_of :: "libs \<Rightarrow> registry \<Rightarrow> hash res \<Rightarrow> remote_options \<Rightarrow> signed_entity" where
  "entity_of L R digest o' =
     \<lparr>entity_Digest = digest, Signatures = signatures_of L R digest o',
      Attestations = attestations_of L R digest o', Attachment = (\<lambda>n. attachment_of R digest n o')\<rparr>"

text \<open>The methods of the image and of the index; a nested image or index keeps the options.\<close>

definition remote_image :: "libs \<Rightarrow> registry \<Rightarrow> image \<Rightarrow> remote_options \<Rightarrow> signed_entity" where
  "remote_image L R img o' = entity_of L R (image_Digest img) o'"

definition remote_index :: "libs \<Rightarrow> registry \<Rightarrow> v1_index \<Rightarrow> remote_options \<Rightarrow> signed_entity" where
  "remote_index L R ii o' = entity_of L R (index_Digest ii) o'"

definition index_SignedImage :: "libs \<Rightarrow> registry \<Rightarrow> v1_index \<Rightarrow> remote_options \<Rightarrow> hash \<Rightarrow> signed_entity res" where
  "index_SignedImage L R ii o' h = bindr (index_Image ii h) (\<lambda>img. Ok (remote_image L R img o'))"

definition index_SignedImageIndex :: "libs \<Rightarrow> registry \<Rightarrow> v1_index \<Rightarrow> remote_options \<Rightarrow> hash \<Rightarrow> signed_entity res" where
  "index_SignedImageIndex L R ii o' h = bindr (index_ImageIndex ii h) (\<lambda>i. Ok (remote_index L R i o'))"

definition index_media_types :: "string list" where
  "index_media_types =
     [''application/vnd.oci.image.index.v1+json'', ''application/vnd.docker.distribution.manifest.list.v2+json'']"

definition image_media_types :: "string list" where
  "image_media_types =
     [''application/vnd.oci.image.manifest.v1+json'', ''application/vnd.docker.distribution.manifest.v2+json'']"

definition SignedEntity :: "libs \<Rightarrow> registry \<Rightarrow> reference \<Rightarrow> remote_option list \<Rightarrow> signed_entity res" where
  "SignedEntity L R ref opts =
     (let o' = remote_makeOptions (Context ref) opts
      in handler (remoteGet R (ROpt o') ref)
           (\<lambda>err. if as_transport err = Some 404 then Err (ErrorString ''entity not found in registry'') else Err err)
           (\<lambda>g. if got_MediaType g \<in> set index_media_types
                then bindr (got_ImageIndex g) (\<lambda>ii. Ok (remote_index L R ii o'))
                else if got_MediaType g \<in> set image_media_types
                then bindr (got_Image g) (\<lambda>i. Ok (remote_image L R i o'))
                else Err (ErrorString (''unknown mime type: '' @ got_MediaType g))))"

subsection \<open>Writing\<close>

type_synonym remote_write = "registry \<Rightarrow> ropt \<Rightarrow> reference \<Rightarrow> image \<Rightarrow> registry res"

definition WriteSignatures ::
  "remote_write \<Rightarrow> registry \<Rightarrow> string \<Rightarrow> signed_entity \<Rightarrow> remote_option list \<Rightarrow> registry res" where
  "WriteSignatures W R repo se opts =
     (let o' = remote_makeOptions repo opts
      in bindr (Signatures se) (\<lambda>sigs.
         bindr (entity_Digest se) (\<lambda>h.
         bindr (deref sigs) (\<lambda>s.
         W R (ROpt o') (entity_tag h (SignatureSuffix o') o') (image.truncate s)))))"

definition WriteAttestations ::
  "remote_write \<Rightarrow> registry \<Rightarrow> string \<Rightarrow> signed_entity \<Rightarrow> remote_option list \<Rightarrow> registry res" where
  "WriteAttestations W R repo se opts =
     (let o' = remote_makeOptions repo opts
      in bindr (Attestations se) (\<lambda>atts.
         bindr (entity_Digest se) (\<lambda>h.
         bindr (deref atts) (\<lambda>s.
         W R (ROpt o') (entity_tag h (AttestationSuffix o') o') (image.truncate s)))))"

subsection \<open>Tags do not collide\<close>

text \<open>The form that \<open>v1.NewHash\<close> enforces: the algorithm has no dash, the digits no dot.\<close>

definition wf_hash :: "hash \<Rightarrow> bool" where
  "wf_hash h \<longleftrightarrow> CHR ''-'' \<notin> set (Algorithm h) \<and> CHR ''.'' \<notin> set (Hex h)"

lemma split_at_first:
  assumes "c \<notin> set xs" and "c \<notin> set ys" and "xs @ c # a = ys @ c # b"
  shows "xs = ys \<and> a = b"
  using assms by (induction xs arbitrary: ys) (auto simp: Cons_eq_append_conv)

lemma normalize_inject:
  assumes "wf_hash h" and "wf_hash h'" and "s \<noteq> []" and "s' \<noteq> []"
    and "normalize h p s = normalize h' p s'"
  shows "h = h' \<and> s = s'"
proof -
  have eq: "Algorithm h @ CHR ''-'' # (Hex h @ CHR ''.'' # s) = Algorithm h' @ CHR ''-'' # (Hex h' @ CHR ''.'' # s')"
    using assms(3-5) by (simp add: normalize_def)
  have "Algorithm h = Algorithm h'" and rest: "Hex h @ CHR ''.'' # s = Hex h' @ CHR ''.'' # s'"
    using split_at_first [OF _ _ eq] assms(1,2) by (simp_all add: wf_hash_def)
  then show ?thesis
    using split_at_first [OF _ _ rest] assms(1,2) by (simp add: wf_hash_def)
qed

lemma makeOptions_OriginalOptions [simp]: "OriginalOptions (remote_makeOptions t opts) = opts"
proof -
  have "OriginalOptions (foldl apply_remote_option o' xs) = OriginalOptions o'" for o' xs
  proof (induction xs arbitrary: o')
    case (Cons x xs)
    then show ?case by (cases x) auto
  qed simp
  then show ?thesis by (simp add: remote_makeOptions_def)
qed

lemma ROpt_makeOptions: "ROpt (remote_makeOptions t opts) = ROpt (remote_makeOptions t' opts)"
proof -
  have step: "ROpt o1 = ROpt o2 \<Longrightarrow> ROpt (foldl apply_remote_option o1 xs) = ROpt (foldl apply_remote_option o2 xs)"
    for o1 o2 xs
  proof (induction xs arbitrary: o1 o2)
    case (Cons x xs)
    show ?case using Cons.prems by (cases x) (auto intro!: Cons.IH)
  qed simp
  show ?thesis unfolding remote_makeOptions_def by (rule step) simp
qed

text \<open>C27. Signatures, attestations and SBOMs of different entities live under different tags: for
  well-formed digests and non-empty suffixes, two tags made with the same options are equal only if
  both digest and suffix are.\<close>

theorem entity_tag_inject:
  assumes "wf_hash h" and "wf_hash h'"
    and "s \<in> {SignatureSuffix o', AttestationSuffix o', SBOMSuffix o'}"
    and "s' \<in> {SignatureSuffix o', AttestationSuffix o', SBOMSuffix o'}"
    and "[] \<notin> {SignatureSuffix o', AttestationSuffix o', SBOMSuffix o'}"
  shows "entity_tag h s o' = entity_tag h' s' o' \<longleftrightarrow> h = h' \<and> s = s'"
  using normalize_inject [OF assms(1,2), of s s' "TagPrefix o'"] assms(3-5)
  by (auto simp: entity_tag_def)

theorem entity_tag_inject_witness:
  "entity_tag \<lparr>Algorithm = ''sha256'', Hex = ''ab''\<rparr> ''sig'' (remote_makeOptions ''repo'' [])
     = Tag ''repo'' ''sha256-ab.sig'' \<and>
   entity_tag \<lparr>Algorithm = ''sha256'', Hex = ''ab''\<rparr> ''sig'' (remote_makeOptions ''repo'' [])
     \<noteq> entity_tag \<lparr>Algorithm = ''sha256'', Hex = ''ab''\<rparr> ''att'' (remote_makeOptions ''repo'' [])"
  using entity_tag_inject [of "\<lparr>Algorithm = ''sha256'', Hex = ''ab''\<rparr>" "\<lparr>Algorithm = ''sha256'', Hex = ''ab''\<rparr>"
      "''sig''" "remote_makeOptions ''repo'' []" "''att''"]
  by (simp add: wf_hash_def remote_makeOptions_def) (simp add: entity_tag_def normalize_def)

subsection \<open>What is written is read back\<close>

text \<open>
  \<open>remote.Write\<close> as documented: afterwards the reference names an image with the same manifest and
  the layers of that manifest, and what the other tags name has not changed. (References by digest
  may name more than before: those of the manifest that was written.)
\<close>

definition write_stores :: "remote_write \<Rightarrow> bool" where
  "write_stores W \<longleftrightarrow>
     (\<forall>R ro ref img R'. W R ro ref img = Ok R' \<longrightarrow>
        (\<exists>img'. remoteImage R' ro ref = Ok img' \<and> Manifest_Layers img' = Manifest_Layers img \<and>
           (\<forall>ls d. Manifest_Layers img = Ok ls \<longrightarrow> d \<in> set ls \<longrightarrow>
              LayerByDigest img' (desc_Digest d) = LayerByDigest img (desc_Digest d))) \<and>
        (\<forall>ro' repo t. Tag repo t \<noteq> ref \<longrightarrow> remoteImage R' ro' (Tag repo t) = remoteImage R ro' (Tag repo t)) \<and>
        empty_Image R' = empty_Image R)"

lemma truncate_sigs_of [simp]: "image.truncate (sigs_of L i) = i"
  by (simp add: image.truncate_def sigs_of_def)

lemma mapr_cong: "(\<And>x. x \<in> set xs \<Longrightarrow> f x = g x) \<Longrightarrow> mapr f xs = mapr g xs"
  by (induction xs) auto

lemma sigs_Get_cong:
  assumes "Manifest_Layers i = Manifest_Layers j"
    and "\<And>ls d. Manifest_Layers j = Ok ls \<Longrightarrow> d \<in> set ls \<Longrightarrow>
           LayerByDigest i (desc_Digest d) = LayerByDigest j (desc_Digest d)"
  shows "sigs_Get L i = sigs_Get L j"
proof (cases "Manifest_Layers j")
  case (Ok ls)
  have "mapr (\<lambda>d. bindr (LayerByDigest i (desc_Digest d)) (\<lambda>l. Ok (signature_New L l d))) ls =
        mapr (\<lambda>d. bindr (LayerByDigest j (desc_Digest d)) (\<lambda>l. Ok (signature_New L l d))) ls"
    using assms(2) [OF Ok] by (intro mapr_cong) simp
  then show ?thesis
    using assms(1) Ok by (simp add: sigs_Get_def)
qed (use assms(1) in \<open>simp_all add: sigs_Get_def\<close>)

lemma write_then_Signatures:
  assumes "write_stores W" and "W R (ROpt (remote_makeOptions t opts)) ref img = Ok R'"
  shows "\<exists>s. remote_Signatures L R' ref opts = Ok s \<and> Get s = sigs_Get L img"
proof -
  obtain img' where img': "remoteImage R' (ROpt (remote_makeOptions t opts)) ref = Ok img'"
    "Manifest_Layers img' = Manifest_Layers img"
    "\<And>ls d. Manifest_Layers img = Ok ls \<Longrightarrow> d \<in> set ls \<Longrightarrow>
       LayerByDigest img' (desc_Digest d) = LayerByDigest img (desc_Digest d)"
    using assms unfolding write_stores_def by blast
  have "sigs_Get L img' = sigs_Get L img"
    using img'(2,3) by (rule sigs_Get_cong)
  then show ?thesis
    using img'(1) ROpt_makeOptions [of t opts "Context ref"]
    by (simp add: remote_Signatures_def sigs_of_def Let_def)
qed

lemma entity_tag_Tag: "entity_tag h x o' = Tag (TargetRepository o') (normalize h (TagPrefix o') x)"
  by (simp add: entity_tag_def)

lemma write_frame_Signatures:
  assumes "write_stores W" and "W R ro ref img = Ok R'" and "ref' \<noteq> ref" and "ref' = Tag repo t"
  shows "remote_Signatures L R' ref' opts = remote_Signatures L R ref' opts"
proof -
  have "remoteImage R' ro' ref' = remoteImage R ro' ref'" for ro'
    using assms unfolding write_stores_def by blast
  moreover have "empty_Image R' = empty_Image R"
    using assms(1,2) unfolding write_stores_def by blast
  then have "empty_Signatures R' = empty_Signatures R"
    by (simp add: empty_Signatures_def)
  ultimately show ?thesis
    by (cases "remoteImage R (ROpt (remote_makeOptions (Context ref') opts)) ref'")
       (simp_all add: remote_Signatures_def Let_def split: option.splits)
qed

text \<open>Publishing an entity's signatures works: after \<open>WriteSignatures\<close> succeeds, the signatures of
  an entity with that digest, read with the same options, are those of the written image, one per
  layer of its manifest; the attestations of every entity, and the signatures of every other one,
  are as before.\<close>

theorem WriteSignatures_read_back:
  assumes W: "write_stores W" and wr: "WriteSignatures W R repo se opts = Ok R'"
    and se: "Signatures se = Ok (Some s)" "entity_Digest se = Ok h"
    and o': "o' = remote_makeOptions repo opts"
    and suffixes: "SignatureSuffix o' \<noteq> []" "AttestationSuffix o' \<noteq> []" "SignatureSuffix o' \<noteq> AttestationSuffix o'"
    and wf: "wf_hash h" "wf_hash h'"
  shows "(\<exists>t. signatures_of L R' (Ok h) o' = Ok (Some t) \<and> Get t = sigs_Get L (image.truncate s)) \<and>
    attestations_of L R' (Ok h') o' = attestations_of L R (Ok h') o' \<and>
    (h' \<noteq> h \<longrightarrow> signatures_of L R' (Ok h') o' = signatures_of L R (Ok h') o')"
proof -
  let ?tag = "entity_tag h (SignatureSuffix o') o'"
  have W': "W R (ROpt (remote_makeOptions repo opts)) ?tag (image.truncate s) = Ok R'"
    using wr se by (simp add: WriteSignatures_def o' Let_def)
  have opts: "OriginalOptions o' = opts"
    by (simp add: o')
  have other: "entity_tag h' x o' \<noteq> ?tag" if "x \<noteq> []" "x \<noteq> SignatureSuffix o' \<or> h' \<noteq> h" for x
    using normalize_inject [OF wf(2,1) that(1) suffixes(1), of "TagPrefix o'"] that(2)
    by (auto simp: entity_tag_def)
  show ?thesis
    using write_then_Signatures [OF W W', of L] write_frame_Signatures [OF W W' other entity_tag_Tag, of _ L opts]
      suffixes opts
    by (auto simp: signatures_of_def attestations_of_def)
qed

definition sample_image :: "oci_sig list \<Rightarrow> image" where
  "sample_image ss =
     \<lparr>image_Digest = Ok \<lparr>Algorithm = ''sha256'', Hex = ''ab''\<rparr>,
      Manifest_Layers = Ok (map (\<lambda>s. \<lparr>desc_Annotations = (case Annotations s of Ok a \<Rightarrow> a | _ \<Rightarrow> []),
                                     desc_Digest = (case Digest s of Ok d \<Rightarrow> d | _ \<Rightarrow> \<lparr>Algorithm = [], Hex = []\<rparr>)\<rparr>) ss),
      LayerByDigest = (\<lambda>d. case filter (\<lambda>s. Digest s = Ok d) ss of
         [] \<Rightarrow> Err (LibError ''unknown blob'') | s # _ \<Rightarrow> Ok (layer.truncate s)),
      Layers = Ok (map layer.truncate ss)\<rparr>"

definition sample_registry :: registry where
  "sample_registry =
     \<lparr>remoteGet = (\<lambda>_ _. Ok \<lparr>got_MediaType = ''application/vnd.oci.image.manifest.v1+json'',
         got_Digest = \<lparr>Algorithm = ''sha256'', Hex = ''ab''\<rparr>, got_Image = Ok (sample_image []),
         got_ImageIndex = Err (LibError ''not an index'')\<rparr>),
      remoteImage = (\<lambda>_ _. Err (TransportError 404)),
      remoteIndex = (\<lambda>_ _. Err (TransportError 404)),
      empty_Image = sample_image []\<rparr>"

definition sample_write :: remote_write where
  "sample_write R ro ref img =
     Ok (R\<lparr>remoteImage := (\<lambda>ro' ref'. if ref' = ref then Ok img else remoteImage R ro' ref')\<rparr>)"

lemma sample_write_stores: "write_stores sample_write"
  by (auto simp: write_stores_def sample_write_def)

theorem WriteSignatures_read_back_witness:
  "\<exists>se s R' t. SignedEntity sample_libs sample_registry (Tag ''repo'' ''latest'') [] = Ok se \<and>
     Signatures se = Ok (Some s) \<and> WriteSignatures sample_write sample_registry ''repo'' se [] = Ok R' \<and>
     signatures_of sample_libs R' (Ok \<lparr>Algorithm = ''sha256'', Hex = ''ab''\<rparr>) (remote_makeOptions ''repo'' [])
       = Ok (Some t) \<and> Get t = Ok (Some [])"
proof -
  let ?o = "remote_makeOptions ''repo'' []" and ?h = "\<lparr>Algorithm = ''sha256'', Hex = ''ab''\<rparr>"
  let ?se = "remote_image sample_libs sample_registry (sample_image []) ?o"
  have se: "SignedEntity sample_libs sample_registry (Tag ''repo'' ''latest'') [] = Ok ?se"
    by (simp add: SignedEntity_def sample_registry_def index_media_types_def image_media_types_def)
  have sg: "Signatures ?se = Ok (Some (empty_Signatures sample_registry))" and dg: "entity_Digest ?se = Ok ?h"
    by (simp_all add: remote_image_def entity_of_def signatures_of_def remote_Signatures_def
        sample_image_def sample_registry_def Let_def)
  obtain R' where wr: "WriteSignatures sample_write sample_registry ''repo'' ?se [] = Ok R'"
    using sg dg by (simp add: WriteSignatures_def sample_write_def Let_def)
  have empty: "sigs_Get sample_libs (image.truncate (empty_Signatures sample_registry)) = Ok (Some [])"
    by (simp add: sigs_Get_def empty_Signatures_def sample_registry_def sample_image_def image.truncate_def)
  show ?thesis
    using WriteSignatures_read_back [OF sample_write_stores wr sg dg refl, of ?h sample_libs] se sg wr empty
    by (auto simp: remote_makeOptions_def wf_hash_def)
qed

end
