(* ===== verification/Cert_Check.thy ===== *)
theory Cert_Check
  imports CT_Log Tlog OCI_Registry
begin

section \<open>The certificate of a signature\<close>

text \<open>
  The certificate checks of \<open>pkg/cosign/verify.go\<close>: \<open>ValidateAndUnpackCert\<close> and what it calls, and
  \<open>CheckExpiry\<close>; and the options \<open>CheckOpts\<close>, which \<open>ValidateAndUnpackCertWithChain\<close> changes.
\<close>

record Identity =
  Issuer :: string
  identity_Subject :: string

record CheckOpts =
  RegistryClientOpts :: "remote_option list"
  opts_annotations :: "(string, iface) gomap option"
  ClaimVerifier :: "(oci_sig \<Rightarrow> hash \<Rightarrow> (string, iface) gomap option \<Rightarrow> unit res) option"
  RekorClient :: "rekor_client option"
  SigVerifier :: "verifier option"
  RootCerts :: "certpool option"
  IntermediateCerts :: "certpool option"
  CertEmail :: string
  CertOidcIssuer :: string
  EnforceSCT :: bool
  SignatureRef :: string
  Identities :: "Identity list"

text \<open>The value of the constant in Go's \<open>crypto/x509\<close>.\<close>

definition ExtKeyUsageCodeSigning :: nat where
  "ExtKeyUsageCodeSigning = 3"

definition TrustedCert ::
  "libs \<Rightarrow> certificate \<Rightarrow> certpool option \<Rightarrow> certpool option \<Rightarrow> certificate list list res" where
  "TrustedCert L cert roots intermediates =
     x509_Verify L cert (NotBefore cert) roots intermediates [ExtKeyUsageCodeSigning]"

definition getSubjectAlternateNames :: "certificate \<Rightarrow> string list" where
  "getSubjectAlternateNames cert = DNSNames cert @ EmailAddresses cert @ IPAddresses cert @ URIs cert"

definition getIssuer :: "certificate \<Rightarrow> string" where
  "getIssuer cert =
     (case find (\<lambda>(i, _). i = [1, 3, 6, 1, 4, 1, 57264, 1, 1]) (Extensions cert) of
        None \<Rightarrow> [] | Some (_, v) \<Rightarrow> v)"

text \<open>One round of the loop over the identities: the issuer first, then the subject.\<close>

definition identity_matches :: "libs \<Rightarrow> certificate \<Rightarrow> Identity \<Rightarrow> bool res" where
  "identity_matches L cert identity =
     bindr (if Issuer identity \<noteq> []
            then bindr (wrapr (''malformed issuer in identity: '' @ Issuer identity)
                          (regexp_Compile L (Issuer identity))) (\<lambda>regex.
                 Ok (regex (getIssuer cert)))
            else Ok True) (\<lambda>issuerMatches.
     bindr (if identity_Subject identity \<noteq> []
            then bindr (wrapr (''malformed subject in identity: '' @ identity_Subject identity)
                          (regexp_Compile L (identity_Subject identity))) (\<lambda>regex.
                 Ok (list_ex regex (getSubjectAlternateNames cert)))
            else Ok True) (\<lambda>subjectMatches.
     Ok (subjectMatches \<and> issuerMatches)))"

fun check_identities :: "libs \<Rightarrow> certificate \<Rightarrow> Identity list \<Rightarrow> unit res" where
  "check_identities L cert [] =
     Err (ErrorString ''none of the expected identities matched what was in the certificate'')"
| "check_identities L cert (identity # rest) =
     bindr (identity_matches L cert identity) (\<lambda>m.
     if m then Ok () else check_identities L cert rest)"

definition ValidateAndUnpackCert :: "libs \<Rightarrow> host \<Rightarrow> certificate \<Rightarrow> CheckOpts \<Rightarrow> verifier res" where
  "ValidateAndUnpackCert L H cert co =
     bindr (wrapr ''invalid certificate found on signature'' (LoadVerifier L (PublicKey cert))) (\<lambda>verifier.
     bindr (TrustedCert L cert (RootCerts co) (IntermediateCerts co)) (\<lambda>chains.
     if CertEmail co \<noteq> [] \<and> CertEmail co \<notin> set (EmailAddresses cert)
     then Err (ErrorString ''expected email not found in certificate'')
     else if CertOidcIssuer co \<noteq> [] \<and> getIssuer cert \<noteq> CertOidcIssuer co
     then Err (ErrorString ''expected oidc issuer not found in certificate'')
     else if Identities co \<noteq> []
     then bindr (check_identities L cert (Identities co)) (\<lambda>_. Ok verifier)
     else bindr (ContainsSCT L (Raw cert)) (\<lambda>contains.
          if EnforceSCT co \<and> \<not> contains
          then Err (ErrorString ''certificate does not include required embedded SCT'')
          else if contains
          then bindr (index0 chains) (\<lambda>chain.
               bindr (VerifyEmbeddedSCT L H chain) (\<lambda>_. Ok verifier))
          else Ok verifier)))"

text \<open>The last certificate of the chain is the root, the others are intermediates.\<close>

definition ValidateAndUnpackCertWithChain ::
  "libs \<Rightarrow> host \<Rightarrow> certificate \<Rightarrow> certificate list \<Rightarrow> CheckOpts \<Rightarrow> verifier res \<times> CheckOpts" where
  "ValidateAndUnpackCertWithChain L H cert chain co =
     (if chain = [] then (Err (ErrorString ''no chain provided to validate certificate''), co)
      else (let rootPool = AddCert (last chain) NewCertPool;
                subPool = foldl (\<lambda>p c. AddCert c p) NewCertPool (butlast chain);
                co' = co\<lparr>RootCerts := Some rootPool, IntermediateCerts := Some subPool\<rparr>
            in (ValidateAndUnpackCert L H cert co', co')))"

definition CheckExpiry :: "certificate \<Rightarrow> time \<Rightarrow> unit res" where
  "CheckExpiry cert it =
     (if time_Before (NotAfter cert) it
      then Err (ErrorString ''certificate expired before signatures were entered in log'')
      else if time_After (NotBefore cert) it
      then Err (ErrorString ''certificate was issued after signatures were entered in log'')
      else Ok ())"

subsection \<open>What an accepted certificate means\<close>

lemma CheckExpiry_Ok_iff [res_simps]:
  "CheckExpiry cert it = Ok () \<longleftrightarrow> sint (NotBefore cert) \<le> sint it \<and> sint it \<le> sint (NotAfter cert)"
  by (auto simp: CheckExpiry_def time_Before_def time_After_def)

text \<open>An identity accepts a certificate: each expression that is given compiles and matches.\<close>

definition accepts :: "libs \<Rightarrow> Identity \<Rightarrow> certificate \<Rightarrow> bool" where
  "accepts L i cert \<longleftrightarrow>
     (Issuer i \<noteq> [] \<longrightarrow> (\<exists>r. regexp_Compile L (Issuer i) = Ok r \<and> r (getIssuer cert))) \<and>
     (identity_Subject i \<noteq> [] \<longrightarrow>
        (\<exists>r. regexp_Compile L (identity_Subject i) = Ok r \<and> (\<exists>san \<in> set (getSubjectAlternateNames cert). r san)))"

lemma identity_matches_True_iff: "identity_matches L cert i = Ok True \<longleftrightarrow> accepts L i cert"
  by (auto simp: identity_matches_def accepts_def bindr_Ok_iff wrapr_Ok_iff list_ex_iff)

lemma check_identities_sound:
  "check_identities L cert is = Ok () \<Longrightarrow> \<exists>i \<in> set is. accepts L i cert"
  by (induction "is") (auto simp: bindr_Ok_iff identity_matches_True_iff split: if_splits)

lemma check_identities_complete:
  assumes "\<And>i. i \<in> set is \<Longrightarrow> is_ok (identity_matches L cert i)" and "i \<in> set is" and "accepts L i cert"
  shows "check_identities L cert is = Ok ()"
  using assms
proof (induction "is")
  case (Cons j rest)
  obtain m where m: "identity_matches L cert j = Ok m"
    using Cons.prems(1) [of j] by (auto simp: is_ok_iff)
  show ?case
  proof (cases "j = i")
    case True
    then show ?thesis
      using Cons.prems(3) by (simp add: identity_matches_True_iff [THEN iffD2])
  next
    case False
    then have "check_identities L cert rest = Ok ()"
      using Cons.prems by (intro Cons.IH) auto
    then show ?thesis
      using m by simp
  qed
qed simp

lemma getIssuer_extension:
  assumes "getIssuer cert \<noteq> []"
  shows "([1, 3, 6, 1, 4, 1, 57264, 1, 1], getIssuer cert) \<in> set (Extensions cert)"
proof -
  obtain i v where f: "find (\<lambda>(i, _). i = [1, 3, 6, 1, 4, 1, 57264, 1, 1]) (Extensions cert) = Some (i, v)"
    using assms unfolding getIssuer_def by (auto split: option.splits)
  then have "(i, v) \<in> set (Extensions cert) \<and> i = [1, 3, 6, 1, 4, 1, 57264, 1, 1]"
    unfolding find_Some_iff by (auto dest: nth_mem)
  then show ?thesis
    using f by (auto simp: getIssuer_def)
qed


definition sample_opts :: CheckOpts where
  "sample_opts =
     \<lparr>RegistryClientOpts = [], opts_annotations = None, ClaimVerifier = None, RekorClient = None,
      SigVerifier = None, RootCerts = Some [sample_cert], IntermediateCerts = None, CertEmail = [],
      CertOidcIssuer = [], EnforceSCT = False, SignatureRef = [], Identities = []\<rparr>"

lemma sample_ValidateAndUnpackCert:
  "ValidateAndUnpackCert sample_libs H sample_cert
     (sample_opts\<lparr>CertEmail := ''a@b'', CertOidcIssuer := ''iss'', EnforceSCT := b,
        Identities := [\<lparr>Issuer = ''x'', identity_Subject = []\<rparr>, \<lparr>Issuer = ''iss'', identity_Subject = ''a@b''\<rparr>]\<rparr>)
   = Ok (sample_verifier (ECDSAKey ''k''))"
  by (simp add: ValidateAndUnpackCert_def TrustedCert_def sample_opts_def sample_cert_def getIssuer_def
      identity_matches_def getSubjectAlternateNames_def sample_libs_def)


text \<open>C29. With identities configured, SCTs are not looked at. As soon as one identity matches, the
  function returns, so the result depends neither on \<open>EnforceSCT\<close> nor on the keys of the CT log.\<close>

theorem identities_skip_SCT:
  assumes "Identities co \<noteq> []"
  shows "ValidateAndUnpackCert L H cert (co\<lparr>EnforceSCT := enforce\<rparr>) = ValidateAndUnpackCert L H' cert co"
  using assms by (simp add: ValidateAndUnpackCert_def cong: if_cong)

theorem identities_skip_SCT_witness:
  "\<exists>co v. EnforceSCT co \<and> ParseSCTsFromCertificate sample_libs (Raw sample_cert) = Ok [] \<and>
     ValidateAndUnpackCert sample_libs sample_host sample_cert co = Ok v"
proof -
  let ?co = "sample_opts\<lparr>CertEmail := ''a@b'', CertOidcIssuer := ''iss'', EnforceSCT := False,
        Identities := [\<lparr>Issuer = ''x'', identity_Subject = []\<rparr>, \<lparr>Issuer = ''iss'', identity_Subject = ''a@b''\<rparr>]\<rparr>"
  have "ValidateAndUnpackCert sample_libs sample_host sample_cert (?co\<lparr>EnforceSCT := True\<rparr>)
          = Ok (sample_verifier (ECDSAKey ''k''))"
    by (subst identities_skip_SCT [of _ _ _ _ _ sample_host]) (simp_all add: sample_ValidateAndUnpackCert)
  moreover have "EnforceSCT (?co\<lparr>EnforceSCT := True\<rparr>)"
    by simp
  moreover have "ParseSCTsFromCertificate sample_libs (Raw sample_cert) = Ok []"
    by (simp add: sample_libs_def)
  ultimately show ?thesis by blast
qed

text \<open>C28. The check of the certificate's time against the log's time cannot be fooled by overflow.
  \<open>time.Unix\<close> adds an offset to the signed 64-bit integrated time and wraps; still, for a certificate
  that is not from before the year 1, \<open>CheckExpiry\<close> accepts exactly if the exact sum lies within the
  validity of the certificate.\<close>

theorem CheckExpiry_no_wraparound:
  assumes "0 \<le> sint (NotBefore cert)"
  shows "CheckExpiry cert (time_Unix t) = Ok () \<longleftrightarrow>
    sint (NotBefore cert) \<le> sint t + 62135596800 \<and> sint t + 62135596800 \<le> sint (NotAfter cert)"
proof (cases "sint t + 62135596800 < 2 ^ 63")
  case True
  moreover have "- (2 ^ 63) \<le> sint t"
    using sint_ge [of t] by simp
  ultimately show ?thesis
    by (simp add: CheckExpiry_Ok_iff sint_time_Unix)
next
  case False
  have t: "sint t < 2 ^ 63"
    using sint_less [of t] by simp
  have na: "sint (NotAfter cert) < 2 ^ 63"
    using sint_less [of "NotAfter cert"] by simp
  have "sint (time_Unix t) < 0"
    using sint_time_Unix_wraps [of t] False t by simp
  then show ?thesis
    using False na assms by (simp add: CheckExpiry_Ok_iff)
qed

theorem CheckExpiry_no_wraparound_witness:
  "0 \<le> sint (NotBefore sample_cert) \<and> CheckExpiry sample_cert (time_Unix (- 62135596650)) = Ok () \<and>
   CheckExpiry sample_cert (time_Unix (2 ^ 63 - 1)) \<noteq> Ok ()"
  using CheckExpiry_no_wraparound [of sample_cert "- 62135596650"]
    CheckExpiry_no_wraparound [of sample_cert "2 ^ 63 - 1"]
  by (simp add: sample_cert_def)

end
