(* ===== verification/Bundle_Check.thy ===== *)
theory Bundle_Check
  imports Cert_Check
begin

section \<open>Claims and log bundles\<close>

text \<open>
  The claim verifiers of \<open>pkg/cosign/verifiers.go\<close> and, from \<open>pkg/cosign/verify.go\<close>, the check of the
  bundle (the log's promise that a signature carries) against the signature: \<open>VerifyBundle\<close>,
  \<open>compareSigs\<close>, \<open>bundleHash\<close>, \<open>bundleSig\<close> and \<open>correctAnnotations\<close>.
\<close>

subsection \<open>Claims\<close>

fun correctAnnotations :: "(string, iface) gomap \<Rightarrow> (string, iface) gomap \<Rightarrow> bool res" where
  "correctAnnotations [] hav = Ok True"
| "correctAnnotations ((k, v) # rest) hav =
     bindr (iface_eq (case mlookup hav k of None \<Rightarrow> INil | Some x \<Rightarrow> x) v) (\<lambda>eq.
     if \<not> eq then Ok False else correctAnnotations rest hav)"

definition SimpleClaimVerifier ::
  "libs \<Rightarrow> oci_sig \<Rightarrow> hash \<Rightarrow> (string, iface) gomap option \<Rightarrow> unit res" where
  "SimpleClaimVerifier L sig imageDigest annotations =
     bindr (Payload sig) (\<lambda>p.
     bindr (Unmarshal_SimpleContainerImage L p) (\<lambda>ss.
     if DockerManifestDigest ss \<noteq> hash_String imageDigest
     then Err (ErrorString (''invalid or missing digest in claim: '' @ DockerManifestDigest ss))
     else case annotations of
       None \<Rightarrow> Ok ()
     | Some ann \<Rightarrow>
         bindr (correctAnnotations ann (Optional ss)) (\<lambda>correct.
         if \<not> correct then Err (ErrorString ''missing or incorrect annotation'') else Ok ())))"

definition IntotoSubjectClaimVerifier ::
  "libs \<Rightarrow> oci_sig \<Rightarrow> hash \<Rightarrow> (string, iface) gomap option \<Rightarrow> unit res" where
  "IntotoSubjectClaimVerifier L sig imageDigest annotations =
     bindr (Payload sig) (\<lambda>p.
     bindr (Unmarshal_Envelope L p) (\<lambda>e.
     bindr (b64_decode (envelope_Payload e)) (\<lambda>stBytes.
     bindr (Unmarshal_Statement L stBytes) (\<lambda>st.
     if list_ex (\<lambda>subj. case mlookup (subject_Digest subj) ''sha256'' of
                   None \<Rightarrow> False
                 | Some dgst \<Rightarrow> ''sha256:'' @ dgst = hash_String imageDigest) (Subject st)
     then Ok () else Err (ErrorString ''no matching subject digest found'')))))"

subsection \<open>Bundles\<close>

definition deref_hash :: "hash_ref option \<Rightarrow> (string \<times> string) res" where
  "deref_hash h =
     bindr (deref h) (\<lambda>r.
     bindr (deref (hash_Algorithm r)) (\<lambda>alg.
     bindr (deref (hash_Value r)) (\<lambda>val. Ok (alg, val))))"

definition bundleHash :: "libs \<Rightarrow> string \<Rightarrow> string \<Rightarrow> (string \<times> string) res" where
  "bundleHash L bundleBody signature =
     bindr (b64_decode bundleBody) (\<lambda>bodyDecoded.
     if signature = []
     then bindr (Unmarshal_Intoto L bodyDecoded) (\<lambda>spec.
          bindr (json_Marshal L spec) (\<lambda>specMarshal.
          bindr (Unmarshal_IntotoV001 L specMarshal) (\<lambda>intotoObj.
          bindr (deref (intoto_Content intotoObj)) (\<lambda>content.
          deref_hash (content_Hash content)))))
     else handler (Unmarshal_Rekord L bodyDecoded)
       (\<lambda>_. bindr (Unmarshal_Hashedrekord L bodyDecoded) (\<lambda>spec.
             bindr (json_Marshal L spec) (\<lambda>specMarshal.
             bindr (Unmarshal_HashedrekordV001 L specMarshal) (\<lambda>hrekordObj.
             bindr (deref (rekord_Data hrekordObj)) deref_hash))))
       (\<lambda>spec. bindr (json_Marshal L spec) (\<lambda>specMarshal.
                bindr (Unmarshal_RekordV001 L specMarshal) (\<lambda>rekordObj.
                bindr (deref (rekord_Data rekordObj)) deref_hash))))"

definition bundleSig :: "libs \<Rightarrow> string \<Rightarrow> string res" where
  "bundleSig L bundleBody =
     bindr (wrapr ''decoding bundleBody'' (b64_decode bundleBody)) (\<lambda>bodyDecoded.
     handler (Unmarshal_Rekord L bodyDecoded)
       (\<lambda>_. bindr (Unmarshal_Hashedrekord L bodyDecoded) (\<lambda>spec.
             bindr (json_Marshal L spec) (\<lambda>specMarshal.
             bindr (Unmarshal_HashedrekordV001 L specMarshal) (\<lambda>hrekordObj.
             bindr (deref (rekord_Signature hrekordObj)) (\<lambda>s.
             Ok (strfmt_Base64_String L (sigref_Content s)))))))
       (\<lambda>spec. bindr (json_Marshal L spec) (\<lambda>specMarshal.
                bindr (Unmarshal_RekordV001 L specMarshal) (\<lambda>rekordObj.
                bindr (deref (rekord_Signature rekordObj)) (\<lambda>s.
                Ok (strfmt_Base64_String L (sigref_Content s)))))))"

definition compareSigs :: "libs \<Rightarrow> string \<Rightarrow> oci_sig \<Rightarrow> unit res" where
  "compareSigs L bundleBody sig =
     bindr (wrapr ''base64 signature'' (Base64Signature sig)) (\<lambda>actualSig.
     if actualSig = [] then Ok ()
     else bindr (wrapr ''failed to extract signature from bundle'' (bundleSig L bundleBody)) (\<lambda>bundleSignature.
          if bundleSignature = [] then Ok ()
          else if bundleSignature \<noteq> actualSig
          then Err (ErrorString ''signature in bundle does not match signature being verified'')
          else Ok ()))"

text \<open>
  The last step of \<open>VerifyBundle\<close>: an error of \<open>bundleHash\<close> leaves empty texts, so the comparison
  fails, and \<open>errors.Wrap\<close> of the error, which may be nil, is returned.
\<close>

definition compare_bundle_hash :: "libs \<Rightarrow> string \<Rightarrow> string \<Rightarrow> gerror option \<Rightarrow> bytes \<Rightarrow> bool res" where
  "compare_bundle_hash L alg bundlehash err payload =
     (let payloadHash = hex_encode (sha256 L payload)
      in if alg \<noteq> ''sha256'' \<or> bundlehash \<noteq> payloadHash
         then (case errors_Wrap L err ''matching bundle to payload'' of None \<Rightarrow> Ok False | Some e \<Rightarrow> Err e)
         else Ok True)"

definition match_bundle_hash :: "libs \<Rightarrow> (string \<times> string) res \<Rightarrow> bytes \<Rightarrow> bool res" where
  "match_bundle_hash L result payload =
     (case result of
        Ok (alg, bundlehash) \<Rightarrow> compare_bundle_hash L alg bundlehash None payload
      | Err e \<Rightarrow> compare_bundle_hash L [] [] (Some e) payload
      | Panic p \<Rightarrow> Panic p)"

definition VerifyBundle :: "libs \<Rightarrow> host \<Rightarrow> oci_sig \<Rightarrow> bool res" where
  "VerifyBundle L H sig =
     bindr (Bundle sig) (\<lambda>b.
     case b of
       None \<Rightarrow> Ok False
     | Some bundle \<Rightarrow>
         bindr (as_string (Body (bundle_Payload bundle))) (\<lambda>body.
         bindr (compareSigs L body sig) (\<lambda>_.
         bindr (wrapr ''retrieving rekor public key'' (GetRekorPubs L H)) (\<lambda>publicKeys.
         case mlookup publicKeys (LogID (bundle_Payload bundle)) of
           None \<Rightarrow> Err (ErrorString ''rekor log public key not found for payload'')
         | Some pubKey \<Rightarrow>
             bindr (VerifySET L (bundle_Payload bundle) (SignedEntryTimestamp bundle) (PubKey pubKey)) (\<lambda>_.
             bindr (Cert sig) (\<lambda>cert.
             case cert of
               None \<Rightarrow> Ok True
             | Some c \<Rightarrow>
                 bindr (wrapr ''checking expiry on cert''
                          (CheckExpiry c (time_Unix (IntegratedTime (bundle_Payload bundle))))) (\<lambda>_.
                 bindr (wrapr ''reading payload'' (Payload sig)) (\<lambda>payload.
                 bindr (wrapr ''reading base64signature'' (Base64Signature sig)) (\<lambda>signature.
                 match_bundle_hash L (bundleHash L body signature) payload)))))))))"

subsection \<open>What the claims say\<close>

fun is_composite :: "iface \<Rightarrow> bool" where
  "is_composite (IArr _) = True"
| "is_composite (IObj _) = True"
| "is_composite _ = False"

lemma iface_eq_True_iff: "iface_eq a b = Ok True \<longleftrightarrow> a = b \<and> \<not> is_composite b"
  by (cases a; cases b) (auto simp: iface_eq_def)

lemma correctAnnotations_True_iff:
  "correctAnnotations wanted hav = Ok True \<longleftrightarrow>
     (\<forall>(k, v) \<in> set wanted. (case mlookup hav k of None \<Rightarrow> INil | Some x \<Rightarrow> x) = v \<and> \<not> is_composite v)"
proof (induction wanted)
  case (Cons w rest)
  obtain k v where w: "w = (k, v)"
    by (cases w)
  have "correctAnnotations (w # rest) hav = Ok True \<longleftrightarrow>
      iface_eq (case mlookup hav k of None \<Rightarrow> INil | Some x \<Rightarrow> x) v = Ok True \<and> correctAnnotations rest hav = Ok True"
    by (auto simp: w bindr_Ok_iff)
  then show ?case
    by (simp add: Cons.IH iface_eq_True_iff w)
qed simp

lemma SimpleClaimVerifier_Ok_iff:
  "SimpleClaimVerifier L sig h annotations = Ok () \<longleftrightarrow>
     (\<exists>p ss. Payload sig = Ok p \<and> Unmarshal_SimpleContainerImage L p = Ok ss \<and>
        DockerManifestDigest ss = hash_String h \<and>
        (\<forall>ann. annotations = Some ann \<longrightarrow> correctAnnotations ann (Optional ss) = Ok True))"
  by (cases annotations) (auto simp: SimpleClaimVerifier_def res_simps)

lemma IntotoSubjectClaimVerifier_Ok_iff:
  "IntotoSubjectClaimVerifier L sig h annotations = Ok () \<longleftrightarrow>
     (\<exists>p e b st subj d. Payload sig = Ok p \<and> Unmarshal_Envelope L p = Ok e \<and>
        b64_decode (envelope_Payload e) = Ok b \<and> Unmarshal_Statement L b = Ok st \<and>
        subj \<in> set (Subject st) \<and> mlookup (subject_Digest subj) ''sha256'' = Some d \<and>
        ''sha256:'' @ d = hash_String h)"
proof -
  have "(case m of None \<Rightarrow> False | Some d \<Rightarrow> P d) \<longleftrightarrow> (\<exists>d. m = Some d \<and> P d)" for m :: "string option" and P
    by (cases m) auto
  then show ?thesis
    by (simp add: IntotoSubjectClaimVerifier_def res_simps list_ex_iff Bex_def)
qed

text \<open>C20. The simple claim verifier accepts exactly the payloads that name the image's digest and carry
  every wanted annotation with an equal value. A wanted nil matches a missing annotation, and a
  wanted list or object never matches (the comparison panics if the annotation is one as well).\<close>

theorem SimpleClaimVerifier_correct:
  "SimpleClaimVerifier L sig h annotations = Ok () \<longleftrightarrow>
     (\<exists>p ss. Payload sig = Ok p \<and> Unmarshal_SimpleContainerImage L p = Ok ss \<and>
        DockerManifestDigest ss = hash_String h \<and>
        (\<forall>ann k v. annotations = Some ann \<longrightarrow> (k, v) \<in> set ann \<longrightarrow>
           (mlookup (Optional ss) k = Some v \<or> mlookup (Optional ss) k = None \<and> v = INil) \<and>
           \<not> is_composite v))"
proof -
  have "(case m of None \<Rightarrow> INil | Some x \<Rightarrow> x) = v \<longleftrightarrow> m = Some v \<or> m = None \<and> v = INil" for m and v :: iface
    by (cases m) auto
  then show ?thesis
    by (simp add: SimpleClaimVerifier_Ok_iff correctAnnotations_True_iff Ball_def)
qed

subsection \<open>What a verified bundle says\<close>

lemma compareSigs_Ok_iff:
  "compareSigs L body sig = Ok () \<longleftrightarrow>
     (\<exists>b64. Base64Signature sig = Ok b64 \<and>
        (b64 = [] \<or> (\<exists>bs. bundleSig L body = Ok bs \<and> (bs = [] \<or> bs = b64))))"
proof -
  have "(if b then Ok () else m) = Ok () \<longleftrightarrow> b \<or> m = Ok ()" for b m
    by auto
  then show ?thesis
    by (simp add: compareSigs_def res_simps)
qed

lemma compare_bundle_hash_True_iff:
  "compare_bundle_hash L alg h err payload = Ok True \<longleftrightarrow> alg = ''sha256'' \<and> h = hex_encode (sha256 L payload)"
  by (auto simp: compare_bundle_hash_def Let_def split: option.splits)

lemma match_bundle_hash_True_iff:
  "match_bundle_hash L r payload = Ok True \<longleftrightarrow> r = Ok (''sha256'', hex_encode (sha256 L payload))"
proof (cases r)
  case (Ok x)
  then show ?thesis
    by (cases x) (simp add: match_bundle_hash_def compare_bundle_hash_True_iff)
qed (simp_all add: match_bundle_hash_def compare_bundle_hash_True_iff)

lemma match_bundle_hash_mismatch:
  assumes "errors_Wrap_documented L" and "(alg, h) \<noteq> (''sha256'', hex_encode (sha256 L payload))"
  shows "match_bundle_hash L (Ok (alg, h)) payload = Ok False"
  using assms by (auto simp: match_bundle_hash_def compare_bundle_hash_def errors_Wrap_documented_def)

text \<open>The checks of \<open>VerifyBundle\<close> before the comparison of the hashes.\<close>

definition bundle_signed :: "libs \<Rightarrow> host \<Rightarrow> oci_sig \<Rightarrow> rekor_bundle \<Rightarrow> string \<Rightarrow> bool" where
  "bundle_signed L H sig bndl body \<longleftrightarrow>
     Bundle sig = Ok (Some bndl) \<and> Body (bundle_Payload bndl) = IStr body \<and> compareSigs L body sig = Ok () \<and>
     (\<exists>keys k. GetRekorPubs L H = Ok keys \<and> mlookup keys (LogID (bundle_Payload bndl)) = Some k \<and>
        VerifySET L (bundle_Payload bndl) (SignedEntryTimestamp bndl) (PubKey k) = Ok ())"

lemma VerifyBundle_after_signed:
  assumes "bundle_signed L H sig bndl body"
  shows "VerifyBundle L H sig =
    bindr (Cert sig) (\<lambda>cert. case cert of None \<Rightarrow> Ok True
      | Some c \<Rightarrow>
          bindr (wrapr ''checking expiry on cert''
                   (CheckExpiry c (time_Unix (IntegratedTime (bundle_Payload bndl))))) (\<lambda>_.
          bindr (wrapr ''reading payload'' (Payload sig)) (\<lambda>payload.
          bindr (wrapr ''reading base64signature'' (Base64Signature sig)) (\<lambda>signature.
          match_bundle_hash L (bundleHash L body signature) payload))))"
  using assms by (auto simp: VerifyBundle_def bundle_signed_def as_string_def)

lemma VerifyBundle_True_signed:
  assumes "VerifyBundle L H sig = Ok True"
  obtains bndl body where "bundle_signed L H sig bndl body"
proof -
  obtain bndl where b: "Bundle sig = Ok (Some bndl)"
    using assms by (cases "Bundle sig") (auto simp: VerifyBundle_def split: option.splits)
  obtain body where body: "Body (bundle_Payload bndl) = IStr body" "compareSigs L body sig = Ok ()"
    using assms b by (auto simp: VerifyBundle_def bindr_Ok_iff as_string_Ok_iff)
  obtain keys where keys: "GetRekorPubs L H = Ok keys"
    using assms b body by (auto simp: VerifyBundle_def bindr_Ok_iff wrapr_Ok_iff as_string_def)
  obtain k where k: "mlookup keys (LogID (bundle_Payload bndl)) = Some k"
    using assms b body keys
    by (cases "mlookup keys (LogID (bundle_Payload bndl))") (auto simp: VerifyBundle_def as_string_def)
  have "VerifySET L (bundle_Payload bndl) (SignedEntryTimestamp bndl) (PubKey k) = Ok ()"
    using assms b body keys k by (auto simp: VerifyBundle_def as_string_def bindr_Ok_iff)
  then show thesis
    using that b body keys k by (auto simp: bundle_signed_def)
qed


definition sample_sig :: "bytes \<Rightarrow> oci_sig" where
  "sample_sig p =
     \<lparr>Digest = Err (LibError ''none''), DiffID = Err (LibError ''none''), Compressed = Ok p, Uncompressed = Ok p,
      Size = Ok 0, MediaType = Ok [], Annotations = Ok [], Payload = Ok p,
      Base64Signature = Ok (b64_encode ''kbody''), Cert = Ok (Some sample_cert), Chain = Ok [],
      Bundle = Ok (Some sample_bundle)\<rparr>"

theorem SimpleClaimVerifier_correct_witness:
  "SimpleClaimVerifier sample_libs (sample_sig ''sha256:ab'') \<lparr>Algorithm = ''sha256'', Hex = ''ab''\<rparr>
     (Some [(''a'', INil)]) = Ok ()"
  by (subst SimpleClaimVerifier_correct) (simp add: sample_sig_def sample_libs_def hash_String_def)

lemma sample_bundle_signed:
  "bundle_signed sample_libs sample_host (sample_sig p) sample_bundle (b64_encode ''body'')"
proof -
  have "bundleSig sample_libs (b64_encode ''body'') = Ok (b64_encode ''kbody'')"
    by (simp add: bundleSig_def) (simp add: sample_libs_def)
  then show ?thesis
    by (simp add: bundle_signed_def compareSigs_Ok_iff sample_sig_def sample_bundle_def sample_payload_def
        VerifySET_def) (simp add: sample_libs_def)
qed

lemma bundle_signed_Cert: "bundle_signed L H (sig\<lparr>Cert := c\<rparr>) bndl body \<longleftrightarrow> bundle_signed L H sig bndl body"
  by (simp add: bundle_signed_def compareSigs_def)

lemma sample_bundleHash:
  "b64 \<noteq> [] \<Longrightarrow> bundleHash sample_libs (b64_encode ''body'') b64 = Ok (''sha256'', hex_encode ''body'')"
  by (simp add: bundleHash_def) (simp add: sample_libs_def deref_hash_def)

lemma sample_expiry:
  "CheckExpiry sample_cert (time_Unix (IntegratedTime (bundle_Payload sample_bundle))) = Ok ()"
  by (simp add: CheckExpiry_Ok_iff sample_cert_def sample_bundle_def sample_payload_def time_Unix_def)

lemma sample_b64_nonempty [simp]: "b64_encode ''kbody'' \<noteq> []"
  by (simp add: b64_encode.simps)

lemma sample_VerifyBundle: "VerifyBundle sample_libs sample_host (sample_sig ''body'') = Ok True"
proof -
  have "match_bundle_hash sample_libs (Ok (''sha256'', hex_encode ''body'')) ''body'' = Ok True"
    by (simp add: match_bundle_hash_True_iff sample_libs_def)
  then show ?thesis
    by (simp add: VerifyBundle_after_signed [OF sample_bundle_signed] sample_expiry)
       (simp add: sample_sig_def sample_bundleHash sample_expiry)
qed



lemma sample_errors_Wrap: "errors_Wrap_documented sample_libs"
  by (simp add: errors_Wrap_documented_def sample_libs_def)


end
