(* ===== verification/OCI_Layout.thy ===== *)
theory OCI_Layout
  imports OCI_Registry
begin

section \<open>Signed entities of a local directory\<close>

text \<open>
  \<open>pkg/oci/layout\<close>: an OCI image layout on disk that holds an image or an index together with its
  signatures and attestations, told apart by an annotation of their kind; and
  \<open>remote.WriteSignedImageIndexImages\<close>, which publishes such a directory. The layout package of
  go-containerregistry is the parameter \<open>layout_lib\<close>; a layout is the index that it reads back.
\<close>

record layout_lib =
  layout_FromPath :: "string \<Rightarrow> v1_index res"
  layout_Write :: "string \<Rightarrow> v1_index res"
  AppendImage :: "v1_index \<Rightarrow> image \<Rightarrow> (string, string) gomap \<Rightarrow> v1_index res"
  AppendIndex :: "v1_index \<Rightarrow> v1_index \<Rightarrow> (string, string) gomap \<Rightarrow> v1_index res"

definition kindAnnotation :: string where "kindAnnotation = ''kind''"
definition imageAnnotation :: string where "imageAnnotation = ''dev.cosignproject.cosign/image''"
definition imageIndexAnnotation :: string where "imageIndexAnnotation = ''dev.cosignproject.cosign/imageIndex''"
definition sigsAnnotation :: string where "sigsAnnotation = ''dev.cosignproject.cosign/sigs''"
definition attsAnnotation :: string where "attsAnnotation = ''dev.cosignproject.cosign/atts''"

lemmas kind_annotations = kindAnnotation_def imageAnnotation_def imageIndexAnnotation_def
  sigsAnnotation_def attsAnnotation_def

subsection \<open>Reading\<close>

definition layout_SignedImageIndex :: "layout_lib \<Rightarrow> string \<Rightarrow> v1_index res" where
  "layout_SignedImageIndex LL path = bindr (layout_FromPath LL path) (\<lambda>ii. Ok ii)"

definition of_kind :: "string \<Rightarrow> manifest_descriptor \<Rightarrow> bool" where
  "of_kind annotation m \<longleftrightarrow> mlookup (desc_Annotations m) kindAnnotation = Some annotation"

definition imageByAnnotation :: "v1_index \<Rightarrow> string \<Rightarrow> image option res" where
  "imageByAnnotation ii annotation =
     bindr (IndexManifest ii) (\<lambda>manifests.
     case find (of_kind annotation) manifests of
       None \<Rightarrow> Ok None
     | Some m \<Rightarrow> bindr (index_Image ii (desc_Digest m)) (\<lambda>img. Ok (Some img)))"

definition imageIndexByAnnotation :: "v1_index \<Rightarrow> string \<Rightarrow> v1_index option res" where
  "imageIndexByAnnotation ii annotation =
     bindr (IndexManifest ii) (\<lambda>manifests.
     case find (of_kind annotation) manifests of
       None \<Rightarrow> Ok None
     | Some m \<Rightarrow> bindr (index_ImageIndex ii (desc_Digest m)) (\<lambda>i. Ok (Some i)))"

definition layout_Signatures :: "libs \<Rightarrow> v1_index \<Rightarrow> oci_sigs option res" where
  "layout_Signatures L ii =
     bindr (imageByAnnotation ii sigsAnnotation) (\<lambda>img. Ok (map_option (sigs_of L) img))"

definition layout_Attestations :: "libs \<Rightarrow> v1_index \<Rightarrow> oci_sigs option res" where
  "layout_Attestations L ii =
     bindr (imageByAnnotation ii attsAnnotation) (\<lambda>img. Ok (map_option (sigs_of L) img))"

text \<open>The empty hash asks for the entity that was signed; nil is \<open>None\<close>.\<close>

definition layout_SignedImage :: "v1_index \<Rightarrow> hash \<Rightarrow> image option res" where
  "layout_SignedImage ii h =
     (if hash_String h = '':'' then imageByAnnotation ii imageAnnotation
      else bindr (index_Image ii h) (\<lambda>i. Ok (Some i)))"

definition layout_SignedIndex :: "v1_index \<Rightarrow> hash \<Rightarrow> v1_index option res" where
  "layout_SignedIndex ii h =
     (if hash_String h = '':'' then imageIndexByAnnotation ii imageIndexAnnotation
      else bindr (index_ImageIndex ii h) (\<lambda>i. Ok (Some i)))"

definition empty_hash :: hash where
  "empty_hash = \<lparr>Algorithm = [], Hex = []\<rparr>"

subsection \<open>Writing\<close>

definition appendImage :: "layout_lib \<Rightarrow> v1_index \<Rightarrow> image \<Rightarrow> string \<Rightarrow> v1_index res" where
  "appendImage LL path img annotation = AppendImage LL path img [(kindAnnotation, annotation)]"

text \<open>The error of \<open>Get\<close> is dropped, and with it the list is nil.\<close>

definition isEmpty :: "oci_sigs option \<Rightarrow> bool res" where
  "isEmpty s =
     bindr (deref s) (\<lambda>sigs.
     case Get sigs of Ok ss \<Rightarrow> Ok (ss = None) | Err _ \<Rightarrow> Ok True | Panic p \<Rightarrow> Panic p)"

definition writeSignedEntity :: "layout_lib \<Rightarrow> v1_index \<Rightarrow> signed_entity \<Rightarrow> v1_index res" where
  "writeSignedEntity LL path se =
     bindr (wrapr ''getting signatures'' (Signatures se)) (\<lambda>sigs.
     bindr (isEmpty sigs) (\<lambda>no_sigs.
     bindr (if \<not> no_sigs
            then bindr (deref sigs) (\<lambda>s.
                 wrapr ''appending signatures'' (appendImage LL path (image.truncate s) sigsAnnotation))
            else Ok path) (\<lambda>path1.
     bindr (wrapr ''getting atts'' (Attestations se)) (\<lambda>atts.
     bindr (isEmpty atts) (\<lambda>no_atts.
     if \<not> no_atts
     then bindr (deref atts) (\<lambda>s.
          wrapr ''appending atts'' (appendImage LL path1 (image.truncate s) attsAnnotation))
     else Ok path1)))))"

definition WriteSignedImage :: "layout_lib \<Rightarrow> string \<Rightarrow> image \<Rightarrow> signed_entity \<Rightarrow> v1_index res" where
  "WriteSignedImage LL path img si =
     bindr (layout_Write LL path) (\<lambda>layoutPath.
     bindr (wrapr ''appending signed image'' (appendImage LL layoutPath img imageAnnotation)) (\<lambda>layoutPath'.
     writeSignedEntity LL layoutPath' si))"

definition WriteSignedImageIndex :: "layout_lib \<Rightarrow> string \<Rightarrow> v1_index \<Rightarrow> signed_entity \<Rightarrow> v1_index res" where
  "WriteSignedImageIndex LL path ii si =
     bindr (layout_Write LL path) (\<lambda>layoutPath.
     bindr (wrapr ''appending signed image index''
              (AppendIndex LL layoutPath ii [(kindAnnotation, imageIndexAnnotation)])) (\<lambda>layoutPath'.
     writeSignedEntity LL layoutPath' si))"

text \<open>\<open>remote.WriteSignedImageIndexImages\<close>: the directory's entity, then its signatures and attestations.\<close>

definition WriteSignedImageIndexImages ::
  "libs \<Rightarrow> (string \<Rightarrow> hash res) \<Rightarrow> remote_write \<Rightarrow> (registry \<Rightarrow> ropt \<Rightarrow> reference \<Rightarrow> v1_index \<Rightarrow> registry res)
   \<Rightarrow> registry \<Rightarrow> reference \<Rightarrow> v1_index \<Rightarrow> remote_option list \<Rightarrow> registry res" where
  "WriteSignedImageIndexImages L NewHash W WI R ref sii opts =
     (let o' = remote_makeOptions (Context ref) opts
      in bindr (wrapr ''signed image index'' (layout_SignedIndex sii empty_hash)) (\<lambda>ii.
         bindr (case ii of None \<Rightarrow> Ok R | Some i \<Rightarrow> wrapr ''writing index'' (WI R (ROpt o') ref i)) (\<lambda>R1.
         bindr (wrapr ''signed image'' (layout_SignedImage sii empty_hash)) (\<lambda>si.
         bindr (case si of None \<Rightarrow> Ok R1 | Some i \<Rightarrow> wrapr ''remote write'' (W R1 (ROpt o') ref i)) (\<lambda>R2.
         bindr (layout_Signatures L sii) (\<lambda>sigs.
         bindr (case sigs of
                  None \<Rightarrow> Ok R2
                | Some s \<Rightarrow>
                    bindr (wrapr ''sigs tag'' (SignatureTag NewHash R2 ref opts)) (\<lambda>sigsTag.
                    W R2 (ROpt o') sigsTag (image.truncate s))) (\<lambda>R3.
         bindr (layout_Attestations L sii) (\<lambda>atts.
         case atts of
           None \<Rightarrow> Ok R3
         | Some s \<Rightarrow>
             bindr (wrapr ''sigs tag'' (AttestationTag NewHash R3 ref opts)) (\<lambda>attsTag.
             W R3 (ROpt o') attsTag (image.truncate s))))))))))"

subsection \<open>What is saved is loaded\<close>

definition same_image :: "image \<Rightarrow> image \<Rightarrow> bool" where
  "same_image i j \<longleftrightarrow> image_Digest i = image_Digest j \<and> Manifest_Layers i = Manifest_Layers j \<and>
     (\<forall>ls d. Manifest_Layers j = Ok ls \<longrightarrow> d \<in> set ls \<longrightarrow>
        LayerByDigest i (desc_Digest d) = LayerByDigest j (desc_Digest d))"

text \<open>
  The layout package as documented: a new layout has an empty index; appending an image adds one
  descriptor with the given annotations at the end, under which the image is found, and keeps
  the images that were there.
\<close>

definition layout_appends :: "layout_lib \<Rightarrow> bool" where
  "layout_appends LL \<longleftrightarrow>
     (\<forall>path p. layout_Write LL path = Ok p \<longrightarrow> IndexManifest p = Ok []) \<and>
     (\<forall>p img ann p'. AppendImage LL p img ann = Ok p' \<longrightarrow>
        (\<exists>ms d mt img'. IndexManifest p = Ok ms \<and>
           IndexManifest p' = Ok (ms @ [\<lparr>desc_Annotations = ann, desc_Digest = d, desc_MediaType = mt\<rparr>]) \<and>
           index_Image p' d = Ok img' \<and> same_image img' img \<and>
           (\<forall>m \<in> set ms. index_Image p' (desc_Digest m) = index_Image p (desc_Digest m))))"

lemma find_snoc: "find P (xs @ [x]) = (case find P xs of None \<Rightarrow> if P x then Some x else None | Some y \<Rightarrow> Some y)"
  by (induction xs) auto

lemma find_SomeD: "find P xs = Some x \<Longrightarrow> x \<in> set xs \<and> P x"
  by (induction xs) (auto split: if_splits)

lemma of_kind_single [simp]: "of_kind k \<lparr>desc_Annotations = [(kindAnnotation, k')], desc_Digest = d, desc_MediaType = mt\<rparr> \<longleftrightarrow> k = k'"
  by (auto simp: of_kind_def)

lemma appendImage_reads:
  assumes LL: "layout_appends LL" and app: "appendImage LL p img k' = Ok p'"
  shows "k \<noteq> k' \<Longrightarrow> imageByAnnotation p' k = imageByAnnotation p k"
    and "imageByAnnotation p k' = Ok None \<Longrightarrow> \<exists>img'. imageByAnnotation p' k' = Ok (Some img') \<and> same_image img' img"
proof -
  obtain ms d mt img' where law: "IndexManifest p = Ok ms"
    "IndexManifest p' = Ok (ms @ [\<lparr>desc_Annotations = [(kindAnnotation, k')], desc_Digest = d, desc_MediaType = mt\<rparr>])"
    "index_Image p' d = Ok img'" "same_image img' img"
    "\<forall>m \<in> set ms. index_Image p' (desc_Digest m) = index_Image p (desc_Digest m)"
    using LL app unfolding layout_appends_def appendImage_def by blast
  show "imageByAnnotation p' k = imageByAnnotation p k" if "k \<noteq> k'"
    using law that
    by (auto simp: imageByAnnotation_def find_snoc split: option.splits dest!: find_SomeD)
  show "\<exists>img'. imageByAnnotation p' k' = Ok (Some img') \<and> same_image img' img"
    if "imageByAnnotation p k' = Ok None"
    using law that
    by (auto simp: imageByAnnotation_def find_snoc bindr_Ok_iff split: option.splits)
qed

lemma same_image_sigs: "same_image i j \<Longrightarrow> Get (sigs_of L i) = sigs_Get L j"
  by (auto simp: sigs_of_def same_image_def intro: sigs_Get_cong)

lemma isEmpty_Some: "Get s = Ok g \<Longrightarrow> isEmpty (Some s) = Ok (g = None)"
  by (simp add: isEmpty_def)

text \<open>What the directory holds of a kind, after an optional append.\<close>

lemma append_if_reads:
  assumes LL: "layout_appends LL" and "imageByAnnotation p k = Ok None"
    and "(if b then appendImage LL p (image.truncate s) k else Ok p) = Ok p'"
  shows "\<exists>r. imageByAnnotation p' k = Ok r \<and>
    (if b then \<exists>i. r = Some i \<and> same_image i (image.truncate s) else r = None) \<and>
    (\<forall>k'. k' \<noteq> k \<longrightarrow> imageByAnnotation p' k' = imageByAnnotation p k')"
  using assms(2,3) appendImage_reads [OF LL, of p "image.truncate s" k p'] by (cases b) fastforce+

lemma appendImage_index:
  assumes "layout_appends LL" and "appendImage LL p img k' = Ok p'" and "k \<noteq> k'"
    and "imageIndexByAnnotation p k = Ok None"
  shows "imageIndexByAnnotation p' k = Ok None"
proof -
  obtain ms d mt where "IndexManifest p = Ok ms"
    "IndexManifest p' = Ok (ms @ [\<lparr>desc_Annotations = [(kindAnnotation, k')], desc_Digest = d, desc_MediaType = mt\<rparr>])"
    using assms(1,2) unfolding layout_appends_def appendImage_def by blast
  then show ?thesis
    using assms(3,4) by (auto simp: imageIndexByAnnotation_def find_snoc bindr_Ok_iff split: option.splits)
qed

text \<open>What a directory holds after an image has been saved.\<close>

lemma saved_reads:
  assumes LL: "layout_appends LL" and wr: "WriteSignedImage LL path img se = Ok ii"
    and s: "Signatures se = Ok (Some s)" "Get s = Ok gs" and a: "Attestations se = Ok (Some a)" "Get a = Ok ga"
  shows "layout_SignedIndex ii empty_hash = Ok None"
    and "\<exists>img'. layout_SignedImage ii empty_hash = Ok (Some img') \<and> image_Digest img' = image_Digest img"
    and "\<exists>r. layout_Signatures L ii = Ok r \<and>
       (if gs \<noteq> None then \<exists>t. r = Some t \<and> Get t = sigs_Get L (image.truncate s) else r = None)"
    and "\<exists>r. layout_Attestations L ii = Ok r \<and>
       (if ga \<noteq> None then \<exists>t. r = Some t \<and> Get t = sigs_Get L (image.truncate a) else r = None)"
proof -
  obtain p0 p1 p2 where p0: "layout_Write LL path = Ok p0" and p1: "appendImage LL p0 img imageAnnotation = Ok p1"
    and p2: "(if gs \<noteq> None then appendImage LL p1 (image.truncate s) sigsAnnotation else Ok p1) = Ok p2"
    and ii: "(if ga \<noteq> None then appendImage LL p2 (image.truncate a) attsAnnotation else Ok p2) = Ok ii"
    using wr s a
    by (cases gs; cases ga) (auto simp: WriteSignedImage_def writeSignedEntity_def isEmpty_Some res_simps)
  have none: "imageByAnnotation p0 k = Ok None" for k
    using LL p0 by (auto simp: layout_appends_def imageByAnnotation_def)
  have kinds: "imageAnnotation \<noteq> sigsAnnotation" "imageAnnotation \<noteq> attsAnnotation" "sigsAnnotation \<noteq> attsAnnotation"
    by (simp_all add: kind_annotations)
  note app1 = appendImage_reads [OF LL p1]
  have p1_sigs: "imageByAnnotation p1 sigsAnnotation = Ok None" and p1_atts: "imageByAnnotation p1 attsAnnotation = Ok None"
    using app1(1) none kinds by metis+
  obtain img' where img': "imageByAnnotation p1 imageAnnotation = Ok (Some img')" "same_image img' img"
    using app1(2) [OF none] by blast
  note app2 = append_if_reads [OF LL p1_sigs p2]
  then have p2_atts: "imageByAnnotation p2 attsAnnotation = Ok None"
    using p1_atts kinds by metis
  note app3 = append_if_reads [OF LL p2_atts ii]
  have "imageByAnnotation ii imageAnnotation = Ok (Some img')"
    using app2 app3 img' kinds by metis
  moreover have "imageByAnnotation ii sigsAnnotation = imageByAnnotation p2 sigsAnnotation"
    using app3 kinds by metis
  ultimately show "\<exists>img'. layout_SignedImage ii empty_hash = Ok (Some img') \<and> image_Digest img' = image_Digest img"
    and "\<exists>r. layout_Signatures L ii = Ok r \<and>
       (if gs \<noteq> None then \<exists>t. r = Some t \<and> Get t = sigs_Get L (image.truncate s) else r = None)"
    and "\<exists>r. layout_Attestations L ii = Ok r \<and>
       (if ga \<noteq> None then \<exists>t. r = Some t \<and> Get t = sigs_Get L (image.truncate a) else r = None)"
    using img' app2 app3
    by (auto simp: layout_SignedImage_def layout_Signatures_def layout_Attestations_def empty_hash_def
        hash_String_def same_image_def [of img'] same_image_sigs split: if_splits)
  have "imageIndexByAnnotation p0 imageIndexAnnotation = Ok None"
    using LL p0 by (auto simp: layout_appends_def imageIndexByAnnotation_def)
  then have "imageIndexByAnnotation p1 imageIndexAnnotation = Ok None"
    by (rule appendImage_index [OF LL p1, rotated]) (simp add: kind_annotations)
  then have "imageIndexByAnnotation p2 imageIndexAnnotation = Ok None"
    using p2 appendImage_index [OF LL, of p1 _ sigsAnnotation p2] by (auto simp: kind_annotations split: if_splits)
  then have "imageIndexByAnnotation ii imageIndexAnnotation = Ok None"
    using ii appendImage_index [OF LL, of p2 _ attsAnnotation ii] by (auto simp: kind_annotations split: if_splits)
  then show "layout_SignedIndex ii empty_hash = Ok None"
    by (simp add: layout_SignedIndex_def empty_hash_def hash_String_def)
qed

text \<open>C23. Saving an image and loading it gives the same image, signatures and attestations. After
  \<open>WriteSignedImage\<close> the directory's image has the digest of the saved one; where the entity has
  a list of signatures (not nil), the directory's signatures are those of the saved signature image,
  one per layer of its manifest, and otherwise the directory has none; likewise for attestations.\<close>

theorem WriteSignedImage_read_back:
  assumes LL: "layout_appends LL" and wr: "WriteSignedImage LL path img se = Ok ii"
    and s: "Signatures se = Ok (Some s)" "Get s = Ok gs" and a: "Attestations se = Ok (Some a)" "Get a = Ok ga"
  shows "(\<exists>img'. layout_SignedImage ii empty_hash = Ok (Some img') \<and> image_Digest img' = image_Digest img) \<and>
    (\<exists>r. layout_Signatures L ii = Ok r \<and>
       (if gs \<noteq> None then \<exists>t. r = Some t \<and> Get t = sigs_Get L (image.truncate s) else r = None)) \<and>
    (\<exists>r. layout_Attestations L ii = Ok r \<and>
       (if ga \<noteq> None then \<exists>t. r = Some t \<and> Get t = sigs_Get L (image.truncate a) else r = None))"
  using saved_reads(2-4) [OF assms] by blast

text \<open>Signatures that cannot be read are dropped in silence. If \<open>Get\<close> of the signatures fails,
  \<open>writeSignedEntity\<close> ignores the error and writes what it writes for an entity without any
  signature, with the same result.\<close>

theorem writeSignedEntity_drops_unreadable:
  assumes "Signatures se = Ok (Some s)" and "Get s = Err e"
  shows "writeSignedEntity LL path se =
    writeSignedEntity LL path (se\<lparr>Signatures := Ok (Some (s\<lparr>Get := Ok None\<rparr>))\<rparr>)"
  using assms by (simp add: writeSignedEntity_def isEmpty_def cong: bindr_cong)

subsection \<open>Examples\<close>

definition sample_layout :: layout_lib where
  "sample_layout =
     \<lparr>layout_FromPath = (\<lambda>_. Err (LibError ''no layout'')),
      layout_Write = (\<lambda>_. Ok (V1Index (Err (LibError ''none'')) (Ok []) (\<lambda>_. Err (LibError ''none'')) (\<lambda>_. Err (LibError ''none'')))),
      AppendImage = (\<lambda>p img ann. bindr (IndexManifest p) (\<lambda>ms.
        (let d = \<lparr>Algorithm = ''sha256'', Hex = concat (map (\<lambda>m. Hex (desc_Digest m)) ms) @ ''a''\<rparr>
         in Ok (V1Index (index_Digest p) (Ok (ms @ [\<lparr>desc_Annotations = ann, desc_Digest = d, desc_MediaType = ''application/vnd.oci.image.manifest.v1+json''\<rparr>]))
                  (\<lambda>h. if h = d then Ok img else index_Image p h) (index_ImageIndex p))))),
      AppendIndex = (\<lambda>p i ann. Ok p)\<rparr>"

lemma sample_layout_appends: "layout_appends sample_layout"
proof -
  have fresh: "Hex (desc_Digest m) \<noteq> concat (map (\<lambda>m. Hex (desc_Digest m)) ms) @ ''a''" if "m \<in> set ms" for m ms
  proof -
    have "length (Hex (desc_Digest m)) \<le> length (concat (map (\<lambda>m. Hex (desc_Digest m)) ms))"
      using that by (induction ms) auto
    then show ?thesis
      by (metis Suc_n_not_le_n length_append_singleton)
  qed
  show ?thesis
    unfolding layout_appends_def
  proof (intro conjI allI impI)
    fix path p assume "layout_Write sample_layout path = Ok p"
    then show "IndexManifest p = Ok []" by (auto simp: sample_layout_def)
  next
    fix p img ann p' assume "AppendImage sample_layout p img ann = Ok p'"
    then obtain ms where ms: "IndexManifest p = Ok ms"
      and p': "p' = (let d = \<lparr>Algorithm = ''sha256'', Hex = concat (map (\<lambda>m. Hex (desc_Digest m)) ms) @ ''a''\<rparr>
         in V1Index (index_Digest p) (Ok (ms @ [\<lparr>desc_Annotations = ann, desc_Digest = d, desc_MediaType = ''application/vnd.oci.image.manifest.v1+json''\<rparr>]))
                  (\<lambda>h. if h = d then Ok img else index_Image p h) (index_ImageIndex p))"
      by (auto simp: sample_layout_def bindr_Ok_iff Let_def)
    show "\<exists>ms d mt img'. IndexManifest p = Ok ms \<and>
           IndexManifest p' = Ok (ms @ [\<lparr>desc_Annotations = ann, desc_Digest = d, desc_MediaType = mt\<rparr>]) \<and>
           index_Image p' d = Ok img' \<and> same_image img' img \<and>
           (\<forall>m \<in> set ms. index_Image p' (desc_Digest m) = index_Image p (desc_Digest m))"
      using ms fresh [of _ ms] by (auto simp: p' Let_def same_image_def) (metis hash.select_convs(2))
  qed
qed

definition sample_saved :: "oci_sig list option res \<Rightarrow> signed_entity" where
  "sample_saved g =
     \<lparr>entity_Digest = Ok \<lparr>Algorithm = ''sha256'', Hex = ''ab''\<rparr>,
      Signatures = Ok (Some (sigs_of sample_libs (sample_image []) \<lparr>Get := g\<rparr>)),
      Attestations = Ok (Some (sigs_of sample_libs (sample_image []) \<lparr>Get := Ok None\<rparr>)),
      Attachment = (\<lambda>_. Err (LibError ''none''))\<rparr>"

theorem WriteSignedImage_read_back_witness:
  "\<exists>ii t. WriteSignedImage sample_layout ''dir'' (sample_image []) (sample_saved (Ok (Some []))) = Ok ii \<and>
     layout_Signatures sample_libs ii = Ok (Some t) \<and> Get t = Ok (Some []) \<and>
     layout_Attestations sample_libs ii = Ok None"
proof -
  let ?s = "sigs_of sample_libs (sample_image []) \<lparr>Get := Ok (Some [])\<rparr>"
  let ?a = "sigs_of sample_libs (sample_image []) \<lparr>Get := Ok None\<rparr>"
  obtain ii where wr: "WriteSignedImage sample_layout ''dir'' (sample_image []) (sample_saved (Ok (Some []))) = Ok ii"
    by (simp add: WriteSignedImage_def writeSignedEntity_def appendImage_def sample_layout_def isEmpty_def
        sample_saved_def Let_def)
  have s: "Signatures (sample_saved (Ok (Some []))) = Ok (Some ?s)" "Get ?s = Ok (Some [])"
    and a: "Attestations (sample_saved (Ok (Some []))) = Ok (Some ?a)" "Get ?a = Ok None"
    by (simp_all add: sample_saved_def)
  have "sigs_Get sample_libs (image.truncate ?s) = Ok (Some [])"
    by (simp add: sigs_Get_def sigs_of_def sample_image_def image.truncate_def)
  then show ?thesis
    using WriteSignedImage_read_back [OF sample_layout_appends wr s a, of sample_libs] wr by auto
qed

theorem writeSignedEntity_drops_unreadable_witness:
  "\<exists>p. writeSignedEntity sample_layout p (sample_saved (Err (LibError ''registry down''))) = Ok p"
proof -
  have "Signatures (sample_saved (Err (LibError ''registry down''))) =
      Ok (Some (sigs_of sample_libs (sample_image []) \<lparr>Get := Err (LibError ''registry down'')\<rparr>))"
    by (simp add: sample_saved_def)
  from writeSignedEntity_drops_unreadable [OF this, of "LibError ''registry down''" sample_layout]
  show ?thesis
    by (simp add: writeSignedEntity_def isEmpty_def sample_saved_def)
qed

end
