(* ===== verification/Verify.thy ===== *)
theory Verify
  imports Bundle_Check OCI_Layout
begin

section \<open>Verification of signatures and attestations\<close>

text \<open>
  The entry points of \<open>pkg/cosign/verify.go\<close>: the check of one signature, the loops over the
  signatures and attestations of an entity, and their sources (a registry, a local directory, a
  file). The functions share the options \<open>co\<close> by pointer and change its intermediate certificates,
  so each of them returns the options it leaves behind. The interface \<open>check_loop\<close> says what a loop
  needs of its check: it may change the intermediates only, and does not depend on what they were.
\<close>

subsection \<open>Payloads\<close>

definition verifyOCISignature :: "verifier \<Rightarrow> oci_sig \<Rightarrow> unit res" where
  "verifyOCISignature v sig =
     bindr (Base64Signature sig) (\<lambda>b64sig.
     bindr (b64_decode b64sig) (\<lambda>signature.
     bindr (Payload sig) (\<lambda>payload.
     VerifySignature v signature payload)))"

definition IntotoPayloadType :: string where
  "IntotoPayloadType = ''application/vnd.in-toto+json''"

definition verifyOCIAttestation :: "libs \<Rightarrow> verifier \<Rightarrow> oci_sig \<Rightarrow> unit res" where
  "verifyOCIAttestation L v att =
     bindr (Payload att) (\<lambda>payload.
     bindr (Unmarshal_Envelope L payload) (\<lambda>env.
     if PayloadType env \<noteq> IntotoPayloadType
     then Err (ErrorString (''invalid payloadType '' @ PayloadType env @ '' on envelope. Expected '' @ IntotoPayloadType))
     else bindr (NewEnvelopeVerifier L v) (\<lambda>dssev. dssev env)))"

subsection \<open>Transparency\<close>

definition tlogValidatePublicKey :: "libs \<Rightarrow> rekor_client \<Rightarrow> pubkey \<Rightarrow> oci_sig \<Rightarrow> unit res" where
  "tlogValidatePublicKey L C pub sig =
     bindr (MarshalPublicKeyToPEM L pub) (\<lambda>pemBytes.
     bindr (Base64Signature sig) (\<lambda>b64sig.
     bindr (Payload sig) (\<lambda>payload.
     bindr (FindTlogEntry L C b64sig payload pemBytes) (\<lambda>_. Ok ()))))"

text \<open>A nil certificate makes \<open>MarshalCertificateToPEM\<close> panic.\<close>

definition tlogValidateCertificate :: "libs \<Rightarrow> host \<Rightarrow> rekor_client \<Rightarrow> oci_sig \<Rightarrow> unit res" where
  "tlogValidateCertificate L H C sig =
     bindr (Cert sig) (\<lambda>c.
     bindr (deref c) (\<lambda>cert.
     bindr (MarshalCertificateToPEM L cert) (\<lambda>pemBytes.
     bindr (Base64Signature sig) (\<lambda>b64sig.
     bindr (Payload sig) (\<lambda>payload.
     bindr (FindTlogEntry L C b64sig payload pemBytes) (\<lambda>e.
     bindr (VerifyTLogEntry L H C e) (\<lambda>_.
     bindr (deref (entry_IntegratedTime e)) (\<lambda>it.
     CheckExpiry cert (time_Unix it)))))))))"

text \<open>
  The last part of both checks: an error of \<open>VerifyBundle\<close> counts only without a Rekor client; with
  one, a signature whose bundle is not verified is looked up in the log. The flag is
  \<open>bundleVerified\<close>.
\<close>

definition check_transparency :: "libs \<Rightarrow> host \<Rightarrow> CheckOpts \<Rightarrow> oci_sig \<Rightarrow> bool res" where
  "check_transparency L H co sig =
     (case VerifyBundle L H sig of
        Panic p \<Rightarrow> Panic p
      | r \<Rightarrow>
        (case RekorClient co of
           None \<Rightarrow> wrapr ''unable to verify bundle'' r
         | Some C \<Rightarrow>
             if r = Ok True then Ok True
             else (case SigVerifier co of
                     Some v \<Rightarrow>
                       bindr (verifier_PublicKey v) (\<lambda>pub.
                       bindr (tlogValidatePublicKey L C pub sig) (\<lambda>_. Ok False))
                   | None \<Rightarrow> bindr (tlogValidateCertificate L H C sig) (\<lambda>_. Ok False))))"

subsection \<open>One signature, one attestation\<close>

definition intermediates :: "certificate list \<Rightarrow> certpool option" where
  "intermediates chain =
     (if length chain \<le> 1 then None else Some (foldl (\<lambda>p c. AddCert c p) NewCertPool (butlast chain)))"

text \<open>The verifier of the options, or one made of the signature's certificate.\<close>

definition find_verifier ::
  "libs \<Rightarrow> host \<Rightarrow> string \<Rightarrow> oci_sig \<Rightarrow> CheckOpts \<Rightarrow> verifier res \<times> CheckOpts" where
  "find_verifier L H no_cert sig co =
     (case SigVerifier co of
        Some v \<Rightarrow> (Ok v, co)
      | None \<Rightarrow>
          (case bindr (Cert sig) (\<lambda>c.
                (case c of None \<Rightarrow> Err (ErrorString no_cert)
                 | Some cert \<Rightarrow> bindr (Chain sig) (\<lambda>chain. Ok (cert, chain)))) of
             Ok (cert, chain) \<Rightarrow>
               (let co' = co\<lparr>IntermediateCerts := intermediates chain\<rparr>
                in (ValidateAndUnpackCert L H cert co', co'))
           | Err e \<Rightarrow> (Err e, co)
           | Panic p \<Rightarrow> (Panic p, co)))"

definition check_claims :: "CheckOpts \<Rightarrow> oci_sig \<Rightarrow> hash \<Rightarrow> unit res" where
  "check_claims co sig h =
     (case ClaimVerifier co of None \<Rightarrow> Ok () | Some cv \<Rightarrow> cv sig h (opts_annotations co))"

definition VerifyImageSignature ::
  "libs \<Rightarrow> host \<Rightarrow> oci_sig \<Rightarrow> hash \<Rightarrow> CheckOpts \<Rightarrow> bool res \<times> CheckOpts" where
  "VerifyImageSignature L H sig h co =
     (let (v, co') = find_verifier L H ''no certificate found on signature'' sig co
      in (bindr v (\<lambda>vf.
          bindr (verifyOCISignature vf sig) (\<lambda>_.
          bindr (check_claims co' sig h) (\<lambda>_.
          check_transparency L H co' sig))), co'))"

definition verify_attestation ::
  "libs \<Rightarrow> host \<Rightarrow> oci_sig \<Rightarrow> hash \<Rightarrow> CheckOpts \<Rightarrow> bool res \<times> CheckOpts" where
  "verify_attestation L H att h co =
     (let (v, co') = find_verifier L H ''no certificate found on attestation'' att co
      in (bindr v (\<lambda>vf.
          bindr (verifyOCIAttestation L vf att) (\<lambda>_.
          bindr (check_claims co' att h) (\<lambda>_.
          check_transparency L H co' att))), co'))"

subsection \<open>The loops\<close>

text \<open>
  The loop collects the elements that pass, whether some bundle was verified, and the errors of the
  others; a panic ends it.
\<close>

fun check_each ::
  "(oci_sig \<Rightarrow> CheckOpts \<Rightarrow> bool res \<times> CheckOpts) \<Rightarrow> oci_sig list \<Rightarrow> CheckOpts
   \<Rightarrow> (oci_sig list \<times> bool \<times> gerror list) res \<times> CheckOpts" where
  "check_each check [] co = (Ok ([], False, []), co)"
| "check_each check (sig # sl) co =
     (let (r, co1) = check sig co
      in case r of
           Panic p \<Rightarrow> (Panic p, co1)
         | Ok verified \<Rightarrow>
             (let (rest, co2) = check_each check sl co1
              in (bindr rest (\<lambda>(checked, bv, errs). Ok (sig # checked, verified \<or> bv, errs)), co2))
         | Err e \<Rightarrow>
             (let (rest, co2) = check_each check sl co1
              in (bindr rest (\<lambda>(checked, bv, errs). Ok (checked, bv, e # errs)), co2)))"

definition verify_loop ::
  "(oci_sig \<Rightarrow> CheckOpts \<Rightarrow> bool res \<times> CheckOpts) \<Rightarrow> string \<Rightarrow> oci_sigs option \<Rightarrow> CheckOpts
   \<Rightarrow> (oci_sig list \<times> bool) res \<times> CheckOpts" where
  "verify_loop check none_msg sigs co =
     (case bindr (deref sigs) Get of
        Ok g \<Rightarrow>
          (let (r, co') = check_each check (nil_list g) co
           in (bindr r (\<lambda>(checked, bv, errs).
                 if checked = [] then Err (Joined none_msg errs) else Ok (checked, bv)), co'))
      | Err e \<Rightarrow> (Err e, co)
      | Panic p \<Rightarrow> (Panic p, co))"

definition verifySignatures ::
  "libs \<Rightarrow> host \<Rightarrow> oci_sigs option \<Rightarrow> hash \<Rightarrow> CheckOpts \<Rightarrow> (oci_sig list \<times> bool) res \<times> CheckOpts" where
  "verifySignatures L H sigs h co =
     verify_loop (\<lambda>sig. VerifyImageSignature L H sig h) ''no matching signatures'' sigs co"

definition verifyImageAttestations ::
  "libs \<Rightarrow> host \<Rightarrow> oci_sigs option \<Rightarrow> hash \<Rightarrow> CheckOpts \<Rightarrow> (oci_sig list \<times> bool) res \<times> CheckOpts" where
  "verifyImageAttestations L H atts h co =
     verify_loop (\<lambda>att. verify_attestation L H att h) ''no matching attestations'' atts co"

subsection \<open>Where signatures come from\<close>

text \<open>\<open>fakeOCISignatures\<close> embeds a nil interface: every method but \<open>Get\<close> panics.\<close>

definition fakeOCISignatures :: "oci_sig list \<Rightarrow> oci_sigs" where
  "fakeOCISignatures signatures =
     (let np = ''nil pointer dereference''
      in \<lparr>image_Digest = Panic np, Manifest_Layers = Panic np, LayerByDigest = (\<lambda>_. Panic np),
          Layers = Panic np, Get = Ok (Some signatures)\<rparr>)"

fun reference_String :: "reference \<Rightarrow> string" where
  "reference_String (DigestRef repo d) = repo @ ''@'' @ d"
| "reference_String (Tag repo t) = repo @ '':'' @ t"

definition loadSignatureFromFile ::
  "libs \<Rightarrow> host \<Rightarrow> registry \<Rightarrow> string \<Rightarrow> reference \<Rightarrow> CheckOpts \<Rightarrow> oci_sigs res" where
  "loadSignatureFromFile L H R sigRef signedImgRef co =
     bindr (handler (LoadFileOrURL H sigRef) (\<lambda>err. if \<not> is_not_exist err then Err err else Ok sigRef) Ok) (\<lambda>targetSig.
     (let b64sig = (if is_ok (b64_decode targetSig) then targetSig else b64_encode targetSig)
      in bindr (ResolveDigest R signedImgRef (RegistryClientOpts co)) (\<lambda>digest.
         bindr (Marshal_CosignPayload L (reference_String digest)) (\<lambda>payload.
         bindr (NewSignature L payload b64sig []) (\<lambda>sig.
         Ok (fakeOCISignatures [sig]))))))"

definition getSignedEntity ::
  "libs \<Rightarrow> registry \<Rightarrow> reference \<Rightarrow> remote_option list \<Rightarrow> (signed_entity \<times> hash) res" where
  "getSignedEntity L R signedImgRef regClientOpts =
     bindr (SignedEntity L R signedImgRef regClientOpts) (\<lambda>se.
     bindr (entity_Digest se) (\<lambda>h. Ok (se, h)))"

definition lift_err :: "CheckOpts \<Rightarrow> 'a res \<Rightarrow> ('a \<Rightarrow> 'b res \<times> CheckOpts) \<Rightarrow> 'b res \<times> CheckOpts" where
  "lift_err co m f = (case m of Ok a \<Rightarrow> f a | Err e \<Rightarrow> (Err e, co) | Panic p \<Rightarrow> (Panic p, co))"

definition VerifyImageSignatures ::
  "libs \<Rightarrow> host \<Rightarrow> registry \<Rightarrow> reference \<Rightarrow> CheckOpts \<Rightarrow> (oci_sig list \<times> bool) res \<times> CheckOpts" where
  "VerifyImageSignatures L H R signedImgRef co =
     (if RootCerts co = None \<and> SigVerifier co = None
      then (Err (ErrorString ''one of verifier or root certs is required''), co)
      else lift_err co (getSignedEntity L R signedImgRef (RegistryClientOpts co)) (\<lambda>(se, h).
           lift_err co (if SignatureRef co = [] then Signatures se
                        else bindr (loadSignatureFromFile L H R (SignatureRef co) signedImgRef co) (\<lambda>s. Ok (Some s))) (\<lambda>sigs.
           verifySignatures L H sigs h co)))"

definition VerifyImageAttestations ::
  "libs \<Rightarrow> host \<Rightarrow> registry \<Rightarrow> reference \<Rightarrow> CheckOpts \<Rightarrow> (oci_sig list \<times> bool) res \<times> CheckOpts" where
  "VerifyImageAttestations L H R signedImgRef co =
     (if RootCerts co = None \<and> SigVerifier co = None
      then (Err (ErrorString ''one of verifier or root certs is required''), co)
      else lift_err co (getSignedEntity L R signedImgRef (RegistryClientOpts co)) (\<lambda>(se, h).
           lift_err co (Attestations se) (\<lambda>atts.
           verifyImageAttestations L H atts h co)))"

text \<open>The digest of the index in a directory, else of the image in it.\<close>

definition local_digest :: "v1_index \<Rightarrow> hash res" where
  "local_digest se =
     bindr (layout_SignedIndex se empty_hash) (\<lambda>ii.
     bindr (layout_SignedImage se empty_hash) (\<lambda>i.
     case (ii, i) of
       (Some x, _) \<Rightarrow> index_Digest x
     | (None, Some x) \<Rightarrow> image_Digest x
     | (None, None) \<Rightarrow> Err (ErrorString ''must verify either an image index or image'')))"

definition VerifyLocalImageSignatures ::
  "libs \<Rightarrow> host \<Rightarrow> layout_lib \<Rightarrow> string \<Rightarrow> CheckOpts \<Rightarrow> (oci_sig list \<times> bool) res \<times> CheckOpts" where
  "VerifyLocalImageSignatures L H LL path co =
     (if RootCerts co = None \<and> SigVerifier co = None
      then (Err (ErrorString ''one of verifier or root certs is required''), co)
      else lift_err co (layout_SignedImageIndex LL path) (\<lambda>se.
           lift_err co (local_digest se) (\<lambda>h.
           lift_err co (layout_Signatures L se) (\<lambda>sigs.
           verifySignatures L H sigs h co))))"

definition VerifyLocalImageAttestations ::
  "libs \<Rightarrow> host \<Rightarrow> layout_lib \<Rightarrow> string \<Rightarrow> CheckOpts \<Rightarrow> (oci_sig list \<times> bool) res \<times> CheckOpts" where
  "VerifyLocalImageAttestations L H LL path co =
     (if RootCerts co = None \<and> SigVerifier co = None
      then (Err (ErrorString ''one of verifier or root certs is required''), co)
      else lift_err co (layout_SignedImageIndex LL path) (\<lambda>se.
           lift_err co (local_digest se) (\<lambda>h.
           lift_err co (layout_Attestations L se) (\<lambda>atts.
           verifyImageAttestations L H atts h co))))"

subsection \<open>The check of one element\<close>

text \<open>Both checks are one function of the payload check and of the message for a missing certificate.\<close>

definition verify_one ::
  "libs \<Rightarrow> host \<Rightarrow> string \<Rightarrow> (verifier \<Rightarrow> oci_sig \<Rightarrow> unit res) \<Rightarrow> hash \<Rightarrow> oci_sig \<Rightarrow> CheckOpts \<Rightarrow> bool res \<times> CheckOpts" where
  "verify_one L H no_cert check_payload h sig co =
     (let (v, co') = find_verifier L H no_cert sig co
      in (bindr v (\<lambda>vf.
          bindr (check_payload vf sig) (\<lambda>_.
          bindr (check_claims co' sig h) (\<lambda>_.
          check_transparency L H co' sig))), co'))"

lemma verify_one_eqs:
  "VerifyImageSignature L H sig h = verify_one L H ''no certificate found on signature'' verifyOCISignature h sig"
  "verify_attestation L H sig h = verify_one L H ''no certificate found on attestation'' (verifyOCIAttestation L) h sig"
  by (simp_all add: fun_eq_iff VerifyImageSignature_def verify_attestation_def verify_one_def)

text \<open>
  What acceptance means. The verifier is the configured one or that of a certificate that passes
  \<open>ValidateAndUnpackCert\<close> with the intermediates the signature carries; the log has been consulted.
\<close>

definition verifier_for :: "libs \<Rightarrow> host \<Rightarrow> CheckOpts \<Rightarrow> oci_sig \<Rightarrow> verifier \<Rightarrow> bool" where
  "verifier_for L H co sig v \<longleftrightarrow>
     (case SigVerifier co of
        Some k \<Rightarrow> v = k
      | None \<Rightarrow> \<exists>cert chain. Cert sig = Ok (Some cert) \<and> Chain sig = Ok chain \<and>
          ValidateAndUnpackCert L H cert (co\<lparr>IntermediateCerts := intermediates chain\<rparr>) = Ok v)"

definition logged :: "libs \<Rightarrow> host \<Rightarrow> CheckOpts \<Rightarrow> rekor_client \<Rightarrow> oci_sig \<Rightarrow> bool" where
  "logged L H co C sig \<longleftrightarrow>
     (\<exists>pem b64 payload e.
        Base64Signature sig = Ok b64 \<and> Payload sig = Ok payload \<and> FindTlogEntry L C b64 payload pem = Ok e \<and>
        (case SigVerifier co of
           Some v \<Rightarrow> \<exists>pub. verifier_PublicKey v = Ok pub \<and> MarshalPublicKeyToPEM L pub = Ok pem
         | None \<Rightarrow> \<exists>cert it. Cert sig = Ok (Some cert) \<and> MarshalCertificateToPEM L cert = Ok pem \<and>
             VerifyTLogEntry L H C e = Ok () \<and> entry_IntegratedTime e = Some it \<and>
             CheckExpiry cert (time_Unix it) = Ok ()))"

definition transparent :: "libs \<Rightarrow> host \<Rightarrow> CheckOpts \<Rightarrow> oci_sig \<Rightarrow> bool" where
  "transparent L H co sig \<longleftrightarrow>
     (VerifyBundle L H sig = Ok True \<or>
      (case RekorClient co of
         None \<Rightarrow> VerifyBundle L H sig = Ok False
       | Some C \<Rightarrow> (\<forall>p. VerifyBundle L H sig \<noteq> Panic p) \<and> logged L H co C sig))"

definition accepted ::
  "libs \<Rightarrow> host \<Rightarrow> (verifier \<Rightarrow> oci_sig \<Rightarrow> unit res) \<Rightarrow> CheckOpts \<Rightarrow> hash \<Rightarrow> oci_sig \<Rightarrow> bool" where
  "accepted L H check_payload co h sig \<longleftrightarrow>
     (\<exists>v. verifier_for L H co sig v \<and> check_payload v sig = Ok ()) \<and>
     (\<forall>cv. ClaimVerifier co = Some cv \<longrightarrow> cv sig h (opts_annotations co) = Ok ()) \<and>
     transparent L H co sig"

lemma find_verifier_frame: "\<exists>p. snd (find_verifier L H m sig co) = co\<lparr>IntermediateCerts := p\<rparr>"
proof -
  have "\<exists>p. co = co\<lparr>IntermediateCerts := p\<rparr>"
    by (rule exI [of _ "IntermediateCerts co"]) simp
  then show ?thesis
    by (auto simp: find_verifier_def Let_def split: option.split res.split)
qed

lemma find_verifier_indep:
  "fst (find_verifier L H m sig (co\<lparr>IntermediateCerts := p\<rparr>)) = fst (find_verifier L H m sig co)"
  by (auto simp: find_verifier_def Let_def split: option.split res.split)

lemma find_verifier_Ok_iff: "fst (find_verifier L H m sig co) = Ok v \<longleftrightarrow> verifier_for L H co sig v"
proof (cases "SigVerifier co")
  case None
  show ?thesis
  proof (cases "Cert sig")
    case (Ok c)
    with None show ?thesis
      by (cases c; cases "Chain sig") (auto simp: find_verifier_def verifier_for_def Let_def)
  qed (auto simp: find_verifier_def verifier_for_def None)
qed (auto simp: find_verifier_def verifier_for_def)

lemma check_claims_frame: "check_claims (co\<lparr>IntermediateCerts := p\<rparr>) sig h = check_claims co sig h"
  by (simp add: check_claims_def split: option.splits)

lemma check_transparency_frame:
  "check_transparency L H (co\<lparr>IntermediateCerts := p\<rparr>) sig = check_transparency L H co sig"
  by (simp add: check_transparency_def split: res.splits option.splits)

lemma check_claims_Ok_iff:
  "check_claims co sig h = Ok () \<longleftrightarrow> (\<forall>cv. ClaimVerifier co = Some cv \<longrightarrow> cv sig h (opts_annotations co) = Ok ())"
  by (simp add: check_claims_def split: option.splits)

lemma check_transparency_cases:
  assumes "VerifyBundle L H sig = r" and "r \<noteq> Ok True" and "\<nexists>p. r = Panic p"
  shows "check_transparency L H co sig =
    (case RekorClient co of
       None \<Rightarrow> wrapr ''unable to verify bundle'' r
     | Some C \<Rightarrow> (case SigVerifier co of
         Some v \<Rightarrow> bindr (verifier_PublicKey v) (\<lambda>pub. bindr (tlogValidatePublicKey L C pub sig) (\<lambda>_. Ok False))
       | None \<Rightarrow> bindr (tlogValidateCertificate L H C sig) (\<lambda>_. Ok False)))"
  using assms by (cases r) (simp_all add: check_transparency_def split: option.splits)

lemma logged_iff:
  "logged L H co C sig \<longleftrightarrow>
    (case SigVerifier co of
       Some v \<Rightarrow> \<exists>pub. verifier_PublicKey v = Ok pub \<and> tlogValidatePublicKey L C pub sig = Ok ()
     | None \<Rightarrow> tlogValidateCertificate L H C sig = Ok ())"
proof (cases "SigVerifier co")
  case None
  then show ?thesis
    by (simp add: logged_def tlogValidateCertificate_def bindr_Ok_iff deref_Ok_iff) blast
next
  case (Some v)
  then show ?thesis
    by (simp add: logged_def tlogValidatePublicKey_def bindr_Ok_iff) blast
qed

lemma check_transparency_Ok_iff:
  "check_transparency L H co sig = Ok b \<longleftrightarrow>
     transparent L H co sig \<and> (b \<longleftrightarrow> VerifyBundle L H sig = Ok True)"
proof (cases "VerifyBundle L H sig = Ok True")
  case True
  then show ?thesis
    by (auto simp: check_transparency_def transparent_def split: option.splits)
next
  case False
  show ?thesis
  proof (cases "\<exists>p. VerifyBundle L H sig = Panic p")
    case True
    then show ?thesis
      by (auto simp: check_transparency_def transparent_def split: option.splits)
  next
    case False
    then have "check_transparency L H co sig =
      (case RekorClient co of
         None \<Rightarrow> wrapr ''unable to verify bundle'' (VerifyBundle L H sig)
       | Some C \<Rightarrow> (case SigVerifier co of
           Some v \<Rightarrow> bindr (verifier_PublicKey v) (\<lambda>pub. bindr (tlogValidatePublicKey L C pub sig) (\<lambda>_. Ok False))
         | None \<Rightarrow> bindr (tlogValidateCertificate L H C sig) (\<lambda>_. Ok False)))"
      using \<open>VerifyBundle L H sig \<noteq> Ok True\<close> by (intro check_transparency_cases) auto
    then show ?thesis
      using False \<open>VerifyBundle L H sig \<noteq> Ok True\<close>
      by (auto simp: transparent_def logged_iff bindr_Ok_iff wrapr_Ok_iff split: option.splits)
  qed
qed

lemma verify_one_Ok_iff:
  "fst (verify_one L H m check_payload h sig co) = Ok b \<longleftrightarrow>
     accepted L H check_payload co h sig \<and> (b \<longleftrightarrow> VerifyBundle L H sig = Ok True)"
proof -
  obtain p where p: "snd (find_verifier L H m sig co) = co\<lparr>IntermediateCerts := p\<rparr>"
    using find_verifier_frame by blast
  have "fst (verify_one L H m check_payload h sig co) =
      bindr (fst (find_verifier L H m sig co)) (\<lambda>vf. bindr (check_payload vf sig) (\<lambda>_.
      bindr (check_claims co sig h) (\<lambda>_. check_transparency L H co sig)))"
    by (simp add: verify_one_def split_beta p check_claims_frame check_transparency_frame)
  then show ?thesis
    by (auto simp: bindr_Ok_iff find_verifier_Ok_iff check_claims_Ok_iff check_transparency_Ok_iff accepted_def)
qed

subsection \<open>The loops, against their checks\<close>

text \<open>The result of a loop whose check has no memory.\<close>

fun collect ::
  "(oci_sig \<Rightarrow> bool res) \<Rightarrow> oci_sig list \<Rightarrow> (oci_sig list \<times> bool \<times> gerror list) res" where
  "collect f [] = Ok ([], False, [])"
| "collect f (sig # sl) =
     (case f sig of
        Panic p \<Rightarrow> Panic p
      | Ok verified \<Rightarrow> bindr (collect f sl) (\<lambda>(checked, bv, errs). Ok (sig # checked, verified \<or> bv, errs))
      | Err e \<Rightarrow> bindr (collect f sl) (\<lambda>(checked, bv, errs). Ok (checked, bv, e # errs)))"

lemma collect_Ok_iff:
  "collect f sl = Ok (checked, bv, errs) \<longleftrightarrow>
     (\<forall>s \<in> set sl. \<forall>p. f s \<noteq> Panic p) \<and> checked = filter (\<lambda>s. is_ok (f s)) sl \<and>
     (bv \<longleftrightarrow> (\<exists>s \<in> set sl. f s = Ok True)) \<and> errs = concat (map (\<lambda>s. case f s of Err e \<Rightarrow> [e] | _ \<Rightarrow> []) sl)"
proof (induction sl arbitrary: checked bv errs)
  case (Cons s sl)
  show ?case
    by (cases "f s") (auto simp: bindr_Ok_iff Cons.IH)
qed auto

text \<open>The interface between a loop and its check.\<close>

locale check_loop =
  fixes check :: "oci_sig \<Rightarrow> CheckOpts \<Rightarrow> bool res \<times> CheckOpts"
  assumes frame: "\<exists>p. snd (check sig co) = co\<lparr>IntermediateCerts := p\<rparr>"
    and indep: "fst (check sig (co\<lparr>IntermediateCerts := p\<rparr>)) = fst (check sig co)"
begin

lemma check_each_fst: "fst (check_each check sl co) = collect (\<lambda>sig. fst (check sig co)) sl"
proof (induction sl arbitrary: co)
  case (Cons s sl)
  obtain p where p: "snd (check s co) = co\<lparr>IntermediateCerts := p\<rparr>"
    using frame by blast
  have "fst (check_each check sl (snd (check s co))) = collect (\<lambda>sig. fst (check sig co)) sl"
    by (simp add: Cons.IH p indep)
  then show ?case
    by (simp add: split_beta split: res.splits)
qed simp

lemma check_each_frame: "\<exists>p. snd (check_each check sl co) = co\<lparr>IntermediateCerts := p\<rparr>"
proof (induction sl arbitrary: co)
  case Nil
  show ?case by (rule exI [of _ "IntermediateCerts co"]) simp
next
  case (Cons s sl)
  obtain p where p: "snd (check s co) = co\<lparr>IntermediateCerts := p\<rparr>"
    using frame by blast
  obtain q where q: "snd (check_each check sl (co\<lparr>IntermediateCerts := p\<rparr>)) = co\<lparr>IntermediateCerts := p, IntermediateCerts := q\<rparr>"
    using Cons.IH by blast
  show ?case
    by (cases "fst (check s co)") (auto simp: split_beta p q)
qed

lemma verify_loop_frame: "\<exists>p. snd (verify_loop check m sigs co) = co\<lparr>IntermediateCerts := p\<rparr>"
proof -
  have "\<exists>p. co = co\<lparr>IntermediateCerts := p\<rparr>"
    by (rule exI [of _ "IntermediateCerts co"]) simp
  then show ?thesis
    using check_each_frame by (cases "bindr (deref sigs) Get") (simp_all add: verify_loop_def Let_def split_beta)
qed

lemma verify_loop_Ok_iff:
  "fst (verify_loop check m sigs co) = Ok (checked, bv) \<longleftrightarrow>
     (\<exists>s g. sigs = Some s \<and> Get s = Ok g \<and> checked \<noteq> [] \<and>
        (\<forall>sig \<in> set (nil_list g). \<forall>p. fst (check sig co) \<noteq> Panic p) \<and>
        checked = filter (\<lambda>sig. is_ok (fst (check sig co))) (nil_list g) \<and>
        (bv \<longleftrightarrow> (\<exists>sig \<in> set (nil_list g). fst (check sig co) = Ok True)))"
proof (cases "bindr (deref sigs) Get")
  case (Ok g)
  then obtain s where s: "sigs = Some s" "Get s = Ok g"
    by (auto simp: bindr_Ok_iff deref_Ok_iff)
  have "fst (verify_loop check m sigs co) = Ok (checked, bv) \<longleftrightarrow>
      checked \<noteq> [] \<and> (\<exists>errs. collect (\<lambda>sig. fst (check sig co)) (nil_list g) = Ok (checked, bv, errs))"
    using Ok by (cases "collect (\<lambda>sig. fst (check sig co)) (nil_list g)")
      (auto simp: verify_loop_def split_beta check_each_fst)
  then show ?thesis
    using s by (auto simp: collect_Ok_iff)
next
  case (Err e)
  then show ?thesis
    by (cases sigs) (auto simp: verify_loop_def deref_def)
next
  case (Panic e)
  then show ?thesis
    by (cases sigs) (auto simp: verify_loop_def deref_def)
qed

end

interpretation one_loop: check_loop "verify_one L H m check_payload h" for L H m check_payload h
proof
  show "\<exists>p. snd (verify_one L H m check_payload h sig co) = co\<lparr>IntermediateCerts := p\<rparr>" for sig co
    using find_verifier_frame [of L H m sig co] by (simp add: verify_one_def split_beta)
  show "fst (verify_one L H m check_payload h sig (co\<lparr>IntermediateCerts := p\<rparr>)) =
      fst (verify_one L H m check_payload h sig co)" for sig co p
  proof -
    obtain q q' where "snd (find_verifier L H m sig co) = co\<lparr>IntermediateCerts := q\<rparr>"
      "snd (find_verifier L H m sig (co\<lparr>IntermediateCerts := p\<rparr>)) = co\<lparr>IntermediateCerts := p, IntermediateCerts := q'\<rparr>"
      using find_verifier_frame by metis
    then show ?thesis
      by (simp add: verify_one_def split_beta check_claims_frame check_transparency_frame find_verifier_indep)
  qed
qed

lemma lift_err_Ok_iff [res_simps]:
  "fst (lift_err co m f) = Ok r \<longleftrightarrow> (\<exists>a. m = Ok a \<and> fst (f a) = Ok r)"
  by (cases m) (simp_all add: lift_err_def)

lemma lift_err_Ok [simp]: "lift_err co (Ok a) f = f a"
  by (simp add: lift_err_def)

lemma lift_err_frame:
  assumes "\<And>a. \<exists>p. snd (f a) = co\<lparr>IntermediateCerts := p\<rparr>"
  shows "\<exists>p. snd (lift_err co m f) = co\<lparr>IntermediateCerts := p\<rparr>"
proof -
  have "\<exists>p. co = co\<lparr>IntermediateCerts := p\<rparr>"
    by (rule exI [of _ "IntermediateCerts co"]) simp
  then show ?thesis
    using assms by (cases m) (simp_all add: lift_err_def)
qed

lemma verify_one_is_ok_iff: "is_ok (fst (verify_one L H m cp h sig co)) \<longleftrightarrow> accepted L H cp co h sig"
  by (simp add: is_ok_iff verify_one_Ok_iff)

text \<open>The elements of a list that a loop returns, and its flag.\<close>

definition checks_to ::
  "libs \<Rightarrow> host \<Rightarrow> (verifier \<Rightarrow> oci_sig \<Rightarrow> unit res) \<Rightarrow> CheckOpts \<Rightarrow> hash \<Rightarrow> oci_sig list \<Rightarrow> oci_sig list \<times> bool \<Rightarrow> bool" where
  "checks_to L H cp co h sl r \<longleftrightarrow>
     fst r = filter (accepted L H cp co h) sl \<and> fst r \<noteq> [] \<and>
     (snd r \<longleftrightarrow> (\<exists>sig \<in> set (fst r). VerifyBundle L H sig = Ok True))"

lemma one_loop_Ok_iff:
  "fst (verify_loop (verify_one L H m cp h) nm sigs co) = Ok r \<longleftrightarrow>
     (\<exists>s g. sigs = Some s \<and> Get s = Ok g \<and> checks_to L H cp co h (nil_list g) r \<and>
        (\<forall>sig \<in> set (nil_list g). \<forall>p. fst (verify_one L H m cp h sig co) \<noteq> Panic p))"
  by (cases r) (auto simp: one_loop.verify_loop_Ok_iff verify_one_is_ok_iff verify_one_Ok_iff checks_to_def)

lemma verifySignatures_Ok_iff:
  "fst (verifySignatures L H sigs h co) = Ok r \<longleftrightarrow>
     (\<exists>s g. sigs = Some s \<and> Get s = Ok g \<and> checks_to L H verifyOCISignature co h (nil_list g) r \<and>
        (\<forall>sig \<in> set (nil_list g). \<forall>p. fst (VerifyImageSignature L H sig h co) \<noteq> Panic p))"
  by (simp add: verifySignatures_def verify_one_eqs one_loop_Ok_iff)

lemma verifyImageAttestations_Ok_iff:
  "fst (verifyImageAttestations L H atts h co) = Ok r \<longleftrightarrow>
     (\<exists>s g. atts = Some s \<and> Get s = Ok g \<and> checks_to L H (verifyOCIAttestation L) co h (nil_list g) r \<and>
        (\<forall>att \<in> set (nil_list g). \<forall>p. fst (verify_attestation L H att h co) \<noteq> Panic p))"
  by (simp add: verifyImageAttestations_def verify_one_eqs one_loop_Ok_iff)

lemma verify_frames:
  "\<exists>p. snd (verifySignatures L H sigs h co) = co\<lparr>IntermediateCerts := p\<rparr>"
  "\<exists>p. snd (verifyImageAttestations L H sigs h co) = co\<lparr>IntermediateCerts := p\<rparr>"
  by (simp_all add: verifySignatures_def verifyImageAttestations_def verify_one_eqs one_loop.verify_loop_frame)

lemma verify_loop_cong: "Get s = Get t \<Longrightarrow> verify_loop check m (Some s) co = verify_loop check m (Some t) co"
  by (simp add: verify_loop_def)

subsection \<open>The entry points\<close>

definition sample_stored :: "bytes \<Rightarrow> oci_sig" where
  "sample_stored p = signature_New sample_libs
     \<lparr>Digest = Ok \<lparr>Algorithm = ''sha256'', Hex = ''cd''\<rparr>, DiffID = Err (LibError ''none''), Compressed = Ok p,
      Uncompressed = Ok p, Size = Ok 1, MediaType = Ok []\<rparr>
     \<lparr>desc_Annotations = [(SignatureAnnotationKey, b64_encode (''k'' @ p))],
      desc_Digest = \<lparr>Algorithm = ''sha256'', Hex = ''cd''\<rparr>\<rparr>"

definition sample_key_opts :: CheckOpts where
  "sample_key_opts = sample_opts\<lparr>SigVerifier := Some (sample_verifier (ECDSAKey ''k''))\<rparr>"

definition published :: "bytes \<Rightarrow> registry" where
  "published p = sample_registry\<lparr>remoteImage := (\<lambda>_ _. Ok (sample_image [sample_stored p]))\<rparr>"

lemma sample_key_opts_simps [simp]:
  "RegistryClientOpts sample_key_opts = []" "SignatureRef sample_key_opts = []"
  "SigVerifier sample_key_opts = Some (sample_verifier (ECDSAKey ''k''))" "ClaimVerifier sample_key_opts = None"
  "RekorClient sample_key_opts = None"
  by (simp_all add: sample_key_opts_def sample_opts_def)

lemma sample_stored_simps [simp]:
  "Payload (sample_stored p) = Ok p" "Base64Signature (sample_stored p) = Ok (b64_encode (''k'' @ p))"
  "Bundle (sample_stored p) = Ok None"
  by (simp_all add: sample_stored_def signature_New_def sigLayer_Payload_def sigLayer_Base64Signature_def
      sigLayer_Bundle_def mget_def Let_def)

lemma sample_accepted:
  "accepted sample_libs H verifyOCISignature sample_key_opts h (sample_stored ''k'')"
  "accepted sample_libs H (verifyOCIAttestation sample_libs) sample_key_opts h (sample_stored ''k'')"
proof -
  have "verifyOCIAttestation sample_libs (sample_verifier (ECDSAKey ''k'')) (sample_stored ''k'') = Ok ()"
    by (simp add: verifyOCIAttestation_def IntotoPayloadType_def sample_libs_def sample_verifier_def)
  moreover have "verifyOCISignature (sample_verifier (ECDSAKey ''k'')) (sample_stored ''k'') = Ok ()"
    by (simp add: verifyOCISignature_def sample_verifier_def)
  moreover have "VerifyBundle sample_libs H (sample_stored ''k'') = Ok False"
    by (simp add: VerifyBundle_def)
  ultimately show "accepted sample_libs H verifyOCISignature sample_key_opts h (sample_stored ''k'')"
    "accepted sample_libs H (verifyOCIAttestation sample_libs) sample_key_opts h (sample_stored ''k'')"
    by (simp_all add: accepted_def verifier_for_def transparent_def)
qed

lemma sample_sigs_Get: "sigs_Get sample_libs (sample_image [sample_stored p]) = Ok (Some [sample_stored p])"
  by (simp add: sigs_Get_def sample_image_def sample_stored_def signature_New_def Let_def
      layer.truncate_def sigLayer_Annotations_def sigLayer_Payload_def sigLayer_Base64Signature_def)

lemma sample_published:
  "\<exists>se s. getSignedEntity sample_libs (published p) ref opts = Ok (se, \<lparr>Algorithm = ''sha256'', Hex = ''ab''\<rparr>) \<and>
     Signatures se = Ok (Some s) \<and> Attestations se = Ok (Some s) \<and> Get s = Ok (Some [sample_stored p])"
  using sample_sigs_Get [of p]
  by (simp add: getSignedEntity_def SignedEntity_def published_def sample_registry_def index_media_types_def
      image_media_types_def remote_image_def entity_of_def signatures_of_def attestations_of_def
      remote_Signatures_def sigs_of_def Let_def) (simp add: sample_image_def)

lemma sample_checks:
  "checks_to sample_libs H verifyOCISignature sample_key_opts h [sample_stored ''k''] ([sample_stored ''k''], False)"
  "checks_to sample_libs H (verifyOCIAttestation sample_libs) sample_key_opts h [sample_stored ''k''] ([sample_stored ''k''], False)"
  by (simp_all add: checks_to_def sample_accepted) (simp_all add: VerifyBundle_def)

lemma sample_no_panic:
  "fst (VerifyImageSignature sample_libs H (sample_stored ''k'') h sample_key_opts) \<noteq> Panic p"
  "fst (verify_attestation sample_libs H (sample_stored ''k'') h sample_key_opts) \<noteq> Panic p"
  by (simp_all add: verify_one_eqs verify_one_Ok_iff [THEN iffD2, OF conjI [OF _ refl]] sample_accepted)

text \<open>C1. What \<open>cosign verify\<close> reports is right, and complete. \<open>VerifyImageSignatures\<close> succeeds exactly if a
  key or roots are configured, the entity and its list of signatures can be read, no check
  panics, and at least one signature is acceptable; it then returns all acceptable ones, in their
  order. A signature is acceptable if the configured key, or the key of its own certificate, which
  chains to the roots, verifies it on its payload, its claim is about the entity's digest, and the
  transparency log has it (by a verified bundle, or an entry found in the log, or, with no client,
  there is no bundle error). The flag says whether one of them has a verified bundle.\<close>

theorem VerifyImageSignatures_correct:
  "fst (VerifyImageSignatures L H R ref co) = Ok r \<longleftrightarrow>
    (RootCerts co \<noteq> None \<or> SigVerifier co \<noteq> None) \<and>
    (\<exists>se h s g. getSignedEntity L R ref (RegistryClientOpts co) = Ok (se, h) \<and>
       (if SignatureRef co = [] then Signatures se = Ok (Some s)
        else loadSignatureFromFile L H R (SignatureRef co) ref co = Ok s) \<and>
       Get s = Ok g \<and> (\<forall>sig \<in> set (nil_list g). \<forall>p. fst (VerifyImageSignature L H sig h co) \<noteq> Panic p) \<and>
       checks_to L H verifyOCISignature co h (nil_list g) r)"
  by (cases "SignatureRef co = []")
     (auto simp: VerifyImageSignatures_def res_simps verifySignatures_Ok_iff)

theorem VerifyImageSignatures_correct_witness:
  "fst (VerifyImageSignatures sample_libs sample_host (published ''k'') (Tag ''repo'' ''v1'') sample_key_opts)
     = Ok ([sample_stored ''k''], False)"
  using sample_published [of "''k''" "Tag ''repo'' ''v1''" "RegistryClientOpts sample_key_opts"]
  by (subst VerifyImageSignatures_correct)
     (auto simp: sample_checks sample_no_panic nil_list_def)

text \<open>C17. The same for attestations: \<open>VerifyImageAttestations\<close> returns exactly the acceptable ones, where
  the payload must be an envelope of the in-toto type whose signatures the key verifies.\<close>

theorem VerifyImageAttestations_correct:
  "fst (VerifyImageAttestations L H R ref co) = Ok r \<longleftrightarrow>
    (RootCerts co \<noteq> None \<or> SigVerifier co \<noteq> None) \<and>
    (\<exists>se h s g. getSignedEntity L R ref (RegistryClientOpts co) = Ok (se, h) \<and>
       Attestations se = Ok (Some s) \<and> Get s = Ok g \<and>
       (\<forall>att \<in> set (nil_list g). \<forall>p. fst (verify_attestation L H att h co) \<noteq> Panic p) \<and>
       checks_to L H (verifyOCIAttestation L) co h (nil_list g) r)"
  by (auto simp: VerifyImageAttestations_def res_simps verifyImageAttestations_Ok_iff)

theorem VerifyImageAttestations_correct_witness:
  "fst (VerifyImageAttestations sample_libs sample_host (published ''k'') (Tag ''repo'' ''v1'') sample_key_opts)
     = Ok ([sample_stored ''k''], False)"
  using sample_published [of "''k''" "Tag ''repo'' ''v1''" "RegistryClientOpts sample_key_opts"]
  by (subst VerifyImageAttestations_correct)
     (auto simp: sample_checks sample_no_panic nil_list_def)

lemma entry_frames:
  "\<exists>p. snd (VerifyImageSignatures L H R ref co) = co\<lparr>IntermediateCerts := p\<rparr>"
  "\<exists>p. snd (VerifyImageAttestations L H R ref co) = co\<lparr>IntermediateCerts := p\<rparr>"
  "\<exists>p. snd (VerifyLocalImageSignatures L H LL path co) = co\<lparr>IntermediateCerts := p\<rparr>"
  "\<exists>p. snd (VerifyLocalImageAttestations L H LL path co) = co\<lparr>IntermediateCerts := p\<rparr>"
proof -
  have same: "\<exists>p. co = co\<lparr>IntermediateCerts := p\<rparr>"
    by (rule exI [of _ "IntermediateCerts co"]) simp
  note frame = lift_err_frame [where co = co] verify_frames [of L H _ _ co]
  show "\<exists>p. snd (VerifyImageSignatures L H R ref co) = co\<lparr>IntermediateCerts := p\<rparr>"
    "\<exists>p. snd (VerifyImageAttestations L H R ref co) = co\<lparr>IntermediateCerts := p\<rparr>"
    using same unfolding VerifyImageSignatures_def VerifyImageAttestations_def
    by (simp_all add: split_beta frame)
  show "\<exists>p. snd (VerifyLocalImageSignatures L H LL path co) = co\<lparr>IntermediateCerts := p\<rparr>"
    "\<exists>p. snd (VerifyLocalImageAttestations L H LL path co) = co\<lparr>IntermediateCerts := p\<rparr>"
    using same unfolding VerifyLocalImageSignatures_def VerifyLocalImageAttestations_def
    by (simp_all add: frame)
qed

text \<open>C21. The options survive a verification. Whatever the outcome, each entry point leaves every
  field of the caller's \<open>CheckOpts\<close> as it was, except for the intermediate certificates.\<close>

theorem verify_keeps_options:
  "\<exists>p q p' q'.
     snd (VerifyImageSignatures L H R ref co) = co\<lparr>IntermediateCerts := p\<rparr> \<and>
     snd (VerifyImageAttestations L H R ref co) = co\<lparr>IntermediateCerts := q\<rparr> \<and>
     snd (VerifyLocalImageSignatures L H LL path co) = co\<lparr>IntermediateCerts := p'\<rparr> \<and>
     snd (VerifyLocalImageAttestations L H LL path co) = co\<lparr>IntermediateCerts := q'\<rparr>"
  using entry_frames [of L H _ _ co] entry_frames(3,4) [of L H LL path co] by blast

subsection \<open>Publish or save, then verify\<close>

lemma getSignedEntity_Signatures:
  assumes "getSignedEntity L R ref opts = Ok (se, h)"
  shows "Signatures se = signatures_of L R (Ok h) (remote_makeOptions (Context ref) opts)"
  using assms
  by (cases "remoteGet R (ROpt (remote_makeOptions (Context ref) opts)) ref")
     (auto simp: getSignedEntity_def SignedEntity_def res_simps Let_def remote_index_def remote_image_def
       entity_of_def split: if_splits)

lemma written_verdict:
  assumes W: "write_stores W"
    and wr: "WriteSignatures W R (Context ref) se (RegistryClientOpts co) = Ok R'"
    and se: "Signatures se = Ok (Some s)" "entity_Digest se = Ok h"
    and got: "getSignedEntity L R' ref (RegistryClientOpts co) = Ok (se', h)"
    and co: "SignatureRef co = []" "RootCerts co \<noteq> None \<or> SigVerifier co \<noteq> None"
  shows "VerifyImageSignatures L H R' ref co = verifySignatures L H (Some (sigs_of L (image.truncate s))) h co"
proof -
  let ?o = "remote_makeOptions (Context ref) (RegistryClientOpts co)"
  have "W R (ROpt ?o) (entity_tag h (SignatureSuffix ?o) ?o) (image.truncate s) = Ok R'"
    using wr se by (simp add: WriteSignatures_def Let_def)
  from write_then_Signatures [OF W this, of L] obtain t
    where t: "Signatures se' = Ok (Some t)" "Get t = sigs_Get L (image.truncate s)"
    using getSignedEntity_Signatures [OF got] by (auto simp: signatures_of_def)
  have "verifySignatures L H (Some t) h co = verifySignatures L H (Some (sigs_of L (image.truncate s))) h co"
    unfolding verifySignatures_def by (rule verify_loop_cong) (simp add: t sigs_of_def)
  then show ?thesis
    using got t co by (auto simp: VerifyImageSignatures_def)
qed

text \<open>Publishing does not change the verdict. If \<open>WriteSignatures\<close> has written an entity's signatures
  to the registry, then \<open>VerifyImageSignatures\<close> on a reference to an entity of that digest, with the
  same registry options, gives what \<open>verifySignatures\<close> gives for the signature image that was
  written: the same accepted signatures, flag, error or panic.\<close>

theorem publish_then_verify:
  assumes W: "write_stores W"
    and wr: "WriteSignatures W R (Context ref) se (RegistryClientOpts co) = Ok R'"
    and se: "Signatures se = Ok (Some s)" "entity_Digest se = Ok h"
    and got: "getSignedEntity L R' ref (RegistryClientOpts co) = Ok (se', h)"
    and co: "SignatureRef co = []" "RootCerts co \<noteq> None \<or> SigVerifier co \<noteq> None"
  shows "VerifyImageSignatures L H R' ref co = verifySignatures L H (Some (sigs_of L (image.truncate s))) h co"
  using assms by (rule written_verdict)

definition sample_entity :: signed_entity where
  "sample_entity =
     \<lparr>entity_Digest = Ok \<lparr>Algorithm = ''sha256'', Hex = ''ab''\<rparr>,
      Signatures = Ok (Some (sigs_of sample_libs (sample_image [sample_stored ''k'']))),
      Attestations = Ok (Some (sigs_of sample_libs (sample_image []) \<lparr>Get := Ok None\<rparr>)),
      Attachment = (\<lambda>_. Err (LibError ''none''))\<rparr>"

lemma sample_verifySignatures:
  "fst (verifySignatures sample_libs H (Some (sigs_of sample_libs (sample_image [sample_stored ''k'']))) h sample_key_opts)
     = Ok ([sample_stored ''k''], False)"
  by (simp add: verifySignatures_Ok_iff sigs_of_def sample_sigs_Get nil_list_def sample_checks sample_no_panic)

theorem publish_then_verify_witness:
  "\<exists>R'. WriteSignatures sample_write sample_registry ''repo'' sample_entity [] = Ok R' \<and>
     fst (VerifyImageSignatures sample_libs sample_host R' (Tag ''repo'' ''v1'') sample_key_opts)
       = Ok ([sample_stored ''k''], False)"
proof -
  let ?ref = "Tag ''repo'' ''v1''" and ?h = "\<lparr>Algorithm = ''sha256'', Hex = ''ab''\<rparr>"
  let ?s = "sigs_of sample_libs (sample_image [sample_stored ''k''])"
  have se: "Signatures sample_entity = Ok (Some ?s)" "entity_Digest sample_entity = Ok ?h"
    by (simp_all add: sample_entity_def)
  obtain R' where wr: "WriteSignatures sample_write sample_registry ''repo'' sample_entity [] = Ok R'"
    and R': "remoteGet R' = remoteGet sample_registry"
    using se by (simp add: WriteSignatures_def sample_write_def Let_def)
  have "\<exists>se'. getSignedEntity sample_libs R' ?ref [] = Ok (se', ?h)"
    by (simp add: getSignedEntity_def SignedEntity_def R' Let_def remote_image_def entity_of_def)
       (simp add: sample_registry_def index_media_types_def image_media_types_def sample_image_def remote_image_def entity_of_def)
  then obtain se' where "getSignedEntity sample_libs R' ?ref [] = Ok (se', ?h)"
    by blast
  then have "VerifyImageSignatures sample_libs sample_host R' ?ref sample_key_opts =
      verifySignatures sample_libs sample_host (Some (sigs_of sample_libs (image.truncate ?s))) ?h sample_key_opts"
    using wr by (intro publish_then_verify [OF sample_write_stores _ se, where R = sample_registry and se' = se']) simp_all
  then show ?thesis
    using wr by (auto simp: sample_verifySignatures)
qed

text \<open>C19. Nor does saving. If an image and its entity were saved with \<open>WriteSignedImage\<close>, verifying the
  directory gives what \<open>verifySignatures\<close> gives for the saved signature image and the image's
  digest; but if the entity had no list of signatures, the verification panics on a nil
  interface, whatever key it is given.\<close>

theorem save_then_verify:
  assumes LL: "layout_appends LL" and wr: "WriteSignedImage LL path img se = Ok ii"
    and s: "Signatures se = Ok (Some s)" "Get s = Ok gs" and a: "Attestations se = Ok (Some a)" "Get a = Ok ga"
    and img: "image_Digest img = Ok h" and load: "layout_SignedImageIndex LL path = Ok ii"
    and co: "RootCerts co \<noteq> None \<or> SigVerifier co \<noteq> None"
  shows "(gs \<noteq> None \<longrightarrow>
      VerifyLocalImageSignatures L H LL path co = verifySignatures L H (Some (sigs_of L (image.truncate s))) h co) \<and>
    (gs = None \<longrightarrow> (\<exists>p. fst (VerifyLocalImageSignatures L H LL path co) = Panic p))"
proof -
  note rb = saved_reads [OF LL wr s a]
  have d: "local_digest ii = Ok h"
    using rb(1,2) img by (auto simp: local_digest_def)
  have V: "VerifyLocalImageSignatures L H LL path co =
      lift_err co (layout_Signatures L ii) (\<lambda>sigs. verifySignatures L H sigs h co)"
    using co load d by (auto simp: VerifyLocalImageSignatures_def)
  show ?thesis
  proof (cases "gs = None")
    case True
    then show ?thesis
      using rb(3) by (auto simp: V verifySignatures_def verify_loop_def deref_def)
  next
    case False
    then obtain t where t: "layout_Signatures L ii = Ok (Some t)" "Get t = sigs_Get L (image.truncate s)"
      using rb(3) by auto
    have "verifySignatures L H (Some t) h co = verifySignatures L H (Some (sigs_of L (image.truncate s))) h co"
      unfolding verifySignatures_def by (rule verify_loop_cong) (simp add: t sigs_of_def)
    then show ?thesis
      using False t by (auto simp: V)
  qed
qed

lemma layout_appends_FromPath: "layout_appends LL \<Longrightarrow> layout_appends (LL\<lparr>layout_FromPath := f\<rparr>)"
  by (simp add: layout_appends_def)

theorem save_then_verify_witness:
  "\<exists>LL. fst (VerifyLocalImageSignatures sample_libs sample_host LL ''dir'' sample_key_opts)
     = Ok ([sample_stored ''k''], False)"
proof -
  let ?s = "sigs_of sample_libs (sample_image [sample_stored ''k''])"
  let ?a = "sigs_of sample_libs (sample_image []) \<lparr>Get := Ok None\<rparr>"
  let ?LL = "\<lambda>ii. sample_layout\<lparr>layout_FromPath := (\<lambda>_. Ok ii)\<rparr>"
  obtain ii where "WriteSignedImage sample_layout ''dir'' (sample_image []) sample_entity = Ok ii"
    by (simp add: WriteSignedImage_def writeSignedEntity_def appendImage_def sample_layout_def isEmpty_def
        sample_entity_def Let_def sigs_of_def sample_sigs_Get)
  then have wr: "WriteSignedImage (?LL ii) ''dir'' (sample_image []) sample_entity = Ok ii"
    by (simp add: WriteSignedImage_def writeSignedEntity_def appendImage_def cong: if_cong)
  have s: "Signatures sample_entity = Ok (Some ?s)" "Get ?s = Ok (Some [sample_stored ''k''])"
    and a: "Attestations sample_entity = Ok (Some ?a)" "Get ?a = Ok None"
    by (simp_all add: sample_entity_def sigs_of_def sample_sigs_Get)
  have "image_Digest (sample_image []) = Ok \<lparr>Algorithm = ''sha256'', Hex = ''ab''\<rparr>"
    by (simp add: sample_image_def)
  moreover have "layout_SignedImageIndex (?LL ii) ''dir'' = Ok ii"
    by (simp add: layout_SignedImageIndex_def)
  ultimately have "VerifyLocalImageSignatures sample_libs sample_host (?LL ii) ''dir'' sample_key_opts =
      verifySignatures sample_libs sample_host (Some (sigs_of sample_libs (image.truncate ?s)))
        \<lparr>Algorithm = ''sha256'', Hex = ''ab''\<rparr> sample_key_opts"
    using save_then_verify [OF layout_appends_FromPath [OF sample_layout_appends] wr s a, where co = sample_key_opts]
    by simp
  then show ?thesis
    by (intro exI [of _ "?LL ii"]) (simp add: sample_verifySignatures)
qed

end
