(* ===== verification/Policy_API.thy ===== *)
theory Policy_API
  imports Cert_Check
begin

section \<open>Cluster image policies and their validation\<close>

text \<open>
  The resource \<open>ClusterImagePolicy\<close> of \<open>pkg/apis/cosigned/v1alpha1\<close>, its validation, and the checks of
  PEM keys in \<open>pkg/apis/utils\<close>. The field errors of knative are a parameter: a type of non-nil
  errors and the functions that make and combine them.
\<close>

subsection \<open>Field errors\<close>

record 'e apis_lib =
  ErrMissingField :: "string list \<Rightarrow> 'e"
  ErrMissingOneOf :: "string list \<Rightarrow> 'e"
  ErrMultipleOneOf :: "string list \<Rightarrow> 'e"
  ErrInvalidValue :: "string \<Rightarrow> string \<Rightarrow> string list \<Rightarrow> 'e"
  ErrGeneric :: "gerror \<Rightarrow> string list \<Rightarrow> 'e"
  Also :: "'e option \<Rightarrow> 'e option \<Rightarrow> 'e option"
  fe_ViaField :: "string \<Rightarrow> 'e \<Rightarrow> 'e"
  fe_ViaFieldIndex :: "string \<Rightarrow> nat \<Rightarrow> 'e \<Rightarrow> 'e"
  fe_Details :: "string \<Rightarrow> 'e \<Rightarrow> 'e"

text \<open>The methods may be called on nil, and then return nil.\<close>

definition ViaField :: "'e apis_lib \<Rightarrow> string \<Rightarrow> 'e option \<Rightarrow> 'e option" where
  "ViaField A field fe = map_option (fe_ViaField A field) fe"

definition ViaFieldIndex :: "'e apis_lib \<Rightarrow> string \<Rightarrow> nat \<Rightarrow> 'e option \<Rightarrow> 'e option" where
  "ViaFieldIndex A field i fe = map_option (fe_ViaFieldIndex A field i) fe"

definition CurrentField :: string where
  "CurrentField = []"

text \<open>\<open>Also\<close> as documented: it collects the errors of both, and is nil only if both are.\<close>

definition also_collects :: "'e apis_lib \<Rightarrow> bool" where
  "also_collects A \<longleftrightarrow> (\<forall>a b. Also A a b = None \<longleftrightarrow> a = None \<and> b = None)"

definition also_if :: "'e apis_lib \<Rightarrow> bool \<Rightarrow> 'e \<Rightarrow> 'e option \<Rightarrow> 'e option" where
  "also_if A b e errs = (if b then Also A errs (Some e) else errs)"

text \<open>\<open>for i, x := range xs { errs = errs.Also(f(x).ViaFieldIndex(field, i)) }\<close>\<close>

definition also_each :: "'e apis_lib \<Rightarrow> string \<Rightarrow> ('a \<Rightarrow> 'e option) \<Rightarrow> 'a list \<Rightarrow> 'e option \<Rightarrow> 'e option" where
  "also_each A field f xs errs =
     foldl (\<lambda>errs (i, x). Also A errs (ViaFieldIndex A field i (f x))) errs (enumerate 0 xs)"

subsection \<open>The resource\<close>

record KeyRef =
  SecretRef :: "string option"
  Data :: string
  KMS :: string

record KeylessRef =
  URL :: "string option"
  keyless_Identities :: "Identity list option"
  CACert :: "KeyRef option"

record Source =
  OCI :: string

record TLog =
  TLog_URL :: "string option"

record Authority =
  Key :: "KeyRef option"
  Keyless :: "KeylessRef option"
  Sources :: "Source list"
  CTLog :: "TLog option"

record ImagePattern =
  Glob :: string
  Regex :: string

record ClusterImagePolicySpec =
  Images :: "ImagePattern list"
  Authorities :: "Authority list"

subsection \<open>Keys\<close>

text \<open>
  \<open>parsePEMKey\<close> calls itself on the rest that \<open>pem.Decode\<close> leaves. The fuel is one more than the
  length of the text; without any left the recursion has not ended, which in Go overflows the stack.
\<close>

fun parsePEMKey_fuel :: "libs \<Rightarrow> nat \<Rightarrow> bytes \<Rightarrow> (bytes list \<times> bool) res" where
  "parsePEMKey_fuel L 0 b = Panic ''stack overflow''"
| "parsePEMKey_fuel L (Suc n) b =
     (case pem_Decode L b of
        None \<Rightarrow> Ok ([], False)
      | Some (pemKey, rest) \<Rightarrow>
          if rest \<noteq> []
          then bindr (parsePEMKey_fuel L n rest) (\<lambda>(list, check). Ok (pemKey # list, check))
          else Ok ([pemKey], True))"

definition parsePEMKey :: "libs \<Rightarrow> bytes \<Rightarrow> (bytes list \<times> bool) res" where
  "parsePEMKey L b = parsePEMKey_fuel L (Suc (length b)) b"

definition IsValidKey :: "libs \<Rightarrow> bytes \<Rightarrow> bool res" where
  "IsValidKey L b =
     bindr (parsePEMKey L b) (\<lambda>(pems, validPEM).
     if \<not> validPEM then Ok False
     else handler (mapr (ParsePKIXPublicKey L) pems) (\<lambda>_. Ok False) (\<lambda>_. Ok True))"

subsection \<open>Validation\<close>

definition ValidateGlob :: "'e apis_lib \<Rightarrow> string \<Rightarrow> 'e option" where
  "ValidateGlob A glob =
     (let c = count_list glob CHR ''*''
      in if c = 0 then None
         else if c = 1
         then (if \<not> has_suffix glob ''*''
               then Some (ErrInvalidValue A glob CurrentField [''glob match supports only * as a trailing character''])
               else None)
         else Some (ErrInvalidValue A glob CurrentField [''glob match supports only a single * as a trailing character'']))"

definition ValidateRegex :: "libs \<Rightarrow> 'e apis_lib \<Rightarrow> string \<Rightarrow> 'e option" where
  "ValidateRegex L A regex =
     (if is_ok (regexp_Compile L regex) then None
      else Some (ErrInvalidValue A regex CurrentField [''regex is invalid'']))"

definition Identity_Validate :: "libs \<Rightarrow> 'e apis_lib \<Rightarrow> Identity \<Rightarrow> 'e option" where
  "Identity_Validate L A identity =
     (let errs = also_if A (Issuer identity = [] \<and> identity_Subject identity = [])
                   (ErrMissingOneOf A [''issuer'', ''subject'']) None;
          errs = (if Issuer identity \<noteq> []
                  then Also A errs (ViaField A ''issuer'' (ValidateRegex L A (Issuer identity))) else errs)
      in if identity_Subject identity \<noteq> []
         then Also A errs (ViaField A ''subject'' (ValidateRegex L A (identity_Subject identity))) else errs)"

definition Source_Validate :: "'e apis_lib \<Rightarrow> Source \<Rightarrow> 'e option" where
  "Source_Validate A source = also_if A (OCI source = []) (ErrMissingField A [''oci'']) None"

definition KeylessRef_Validate :: "libs \<Rightarrow> 'e apis_lib \<Rightarrow> KeylessRef \<Rightarrow> 'e option" where
  "KeylessRef_Validate L A keyless =
     (let errs = also_if A (URL keyless = None \<and> keyless_Identities keyless = None \<and> CACert keyless = None)
                   (ErrMissingOneOf A [''url'', ''identities'', ''ca-cert'']) None;
          errs = also_if A (URL keyless \<noteq> None \<and> CACert keyless \<noteq> None)
                   (ErrMultipleOneOf A [''url'', ''ca-cert'']) errs;
          errs = also_if A (keyless_Identities keyless = Some []) (ErrMissingField A [''identities'']) errs
      in also_each A ''identities'' (Identity_Validate L A) (nil_list (keyless_Identities keyless)) errs)"

definition KeyRef_Validate :: "libs \<Rightarrow> 'e apis_lib \<Rightarrow> KeyRef \<Rightarrow> 'e option res" where
  "KeyRef_Validate L A key =
     (let errs = also_if A (Data key = [] \<and> KMS key = [] \<and> SecretRef key = None)
                   (ErrMissingOneOf A [''data'', ''kms'', ''secretref'']) None
      in if Data key \<noteq> []
         then (let errs = also_if A (KMS key \<noteq> [] \<or> SecretRef key \<noteq> None)
                            (ErrMultipleOneOf A [''data'', ''kms'', ''secretref'']) errs
               in bindr (IsValidKey L (Data key)) (\<lambda>validPubkey.
                  Ok (also_if A (\<not> validPubkey) (ErrInvalidValue A (Data key) ''data'' []) errs)))
         else Ok (also_if A (KMS key \<noteq> [] \<and> SecretRef key \<noteq> None)
                    (ErrMultipleOneOf A [''data'', ''kms'', ''secretref'']) errs))"

definition Authority_Validate :: "libs \<Rightarrow> 'e apis_lib \<Rightarrow> Authority \<Rightarrow> 'e option res" where
  "Authority_Validate L A authority =
     (let errs = also_if A (Key authority = None \<and> Keyless authority = None)
                   (ErrMissingOneOf A [''key'', ''keyless'']) None;
          errs = also_if A (Key authority \<noteq> None \<and> Keyless authority \<noteq> None)
                   (ErrMultipleOneOf A [''key'', ''keyless'']) errs
      in bindr (case Key authority of
                  None \<Rightarrow> Ok errs
                | Some k \<Rightarrow> bindr (KeyRef_Validate L A k) (\<lambda>e. Ok (Also A errs (ViaField A ''key'' e)))) (\<lambda>errs.
         let errs = (case Keyless authority of
                       None \<Rightarrow> errs
                     | Some k \<Rightarrow> Also A errs (ViaField A ''keyless'' (KeylessRef_Validate L A k)))
         in Ok (foldl (\<lambda>errs source. Also A errs (ViaField A ''source'' (Source_Validate A source))) errs
                  (Sources authority))))"

definition ImagePattern_Validate :: "libs \<Rightarrow> 'e apis_lib \<Rightarrow> ImagePattern \<Rightarrow> 'e option" where
  "ImagePattern_Validate L A pat =
     (let errs = also_if A (Regex pat \<noteq> [] \<and> Glob pat \<noteq> []) (ErrMultipleOneOf A [''regex'', ''glob'']) None;
          errs = also_if A (Regex pat = [] \<and> Glob pat = []) (ErrMissingOneOf A [''regex'', ''glob'']) errs;
          errs = (if Glob pat \<noteq> [] then Also A errs (ViaField A ''glob'' (ValidateGlob A (Glob pat))) else errs)
      in if Regex pat \<noteq> [] then Also A errs (ViaField A ''regex'' (ValidateRegex L A (Regex pat))) else errs)"

definition Spec_Validate :: "libs \<Rightarrow> 'e apis_lib \<Rightarrow> ClusterImagePolicySpec \<Rightarrow> 'e option res" where
  "Spec_Validate L A spec =
     (let errors = also_if A (Images spec = []) (ErrMissingField A [''images'']) None;
          errors = also_each A ''images'' (ImagePattern_Validate L A) (Images spec) errors;
          errors = also_if A (Authorities spec = []) (ErrMissingField A [''authorities'']) errors
      in bindr (mapr (Authority_Validate L A) (Authorities spec)) (\<lambda>es.
         Ok (also_each A ''authorities'' id es errors)))"

definition ClusterImagePolicy_Validate :: "libs \<Rightarrow> 'e apis_lib \<Rightarrow> ClusterImagePolicySpec \<Rightarrow> 'e option res" where
  "ClusterImagePolicy_Validate L A spec = bindr (Spec_Validate L A spec) (\<lambda>e. Ok (ViaField A ''spec'' e))"

subsection \<open>The recursion over PEM blocks ends\<close>

text \<open>\<open>pem.Decode\<close> as documented: the rest is what follows the block, so it is shorter.\<close>

definition pem_shrinks :: "libs \<Rightarrow> bool" where
  "pem_shrinks L \<longleftrightarrow> (\<forall>b k rest. pem_Decode L b = Some (k, rest) \<longrightarrow> length rest < length b)"

lemma parsePEMKey_fuel_enough:
  assumes "pem_shrinks L" and "length b < n" and "length b < m"
  shows "parsePEMKey_fuel L n b = parsePEMKey_fuel L m b \<and> is_ok (parsePEMKey_fuel L n b)"
  using assms(2,3)
proof (induction n arbitrary: m b)
  case (Suc n)
  obtain m' where m: "m = Suc m'"
    using Suc.prems(2) by (cases m) auto
  show ?case
  proof (cases "pem_Decode L b")
    case (Some r)
    obtain k rest where r: "r = (k, rest)"
      by (cases r)
    have "length rest < length b"
      using assms(1) Some r by (auto simp: pem_shrinks_def)
    then have "length rest < n" "length rest < m'"
      using Suc.prems m by auto
    from Suc.IH [OF this] obtain p where p: "parsePEMKey_fuel L n rest = Ok p" "parsePEMKey_fuel L m' rest = Ok p"
      unfolding is_ok_iff by metis
    then show ?thesis
      by (simp add: m Some r split_beta)
  qed (simp add: m)
qed simp

text \<open>C35. The reading of PEM keys terminates, and does what its recursion says. If \<open>pem.Decode\<close> consumes
  what it decodes, \<open>parsePEMKey\<close> returns for every text, and its value is the one of the body in
  which the recursive call is \<open>parsePEMKey\<close> itself.\<close>

theorem parsePEMKey_terminates:
  assumes "pem_shrinks L"
  shows "is_ok (parsePEMKey L b) \<and>
    parsePEMKey L b =
      (case pem_Decode L b of
         None \<Rightarrow> Ok ([], False)
       | Some (pemKey, rest) \<Rightarrow>
           if rest \<noteq> [] then bindr (parsePEMKey L rest) (\<lambda>(list, check). Ok (pemKey # list, check))
           else Ok ([pemKey], True))"
proof -
  have "parsePEMKey_fuel L (length b) rest = parsePEMKey L rest" if "pem_Decode L b = Some (k, rest)" for k rest
    using parsePEMKey_fuel_enough [OF assms, of rest "length b" "Suc (length rest)"] assms that
    by (auto simp: parsePEMKey_def pem_shrinks_def)
  then show ?thesis
    using parsePEMKey_fuel_enough [OF assms, of b "Suc (length b)" "Suc (length b)"]
    by (auto simp: parsePEMKey_def split: option.splits)
qed

theorem parsePEMKey_terminates_witness: "is_ok (parsePEMKey sample_libs ''key'')"
proof -
  have "pem_shrinks sample_libs"
    by (auto simp: pem_shrinks_def sample_libs_def split: if_splits)
  then show ?thesis
    using parsePEMKey_terminates by blast
qed

subsection \<open>What validation accepts\<close>

definition wf_glob :: "string \<Rightarrow> bool" where
  "wf_glob g \<longleftrightarrow> (\<exists>s. CHR ''*'' \<notin> set s \<and> (g = s \<or> g = s @ ''*''))"

definition wf_pattern :: "libs \<Rightarrow> ImagePattern \<Rightarrow> bool" where
  "wf_pattern L p \<longleftrightarrow>
     (Glob p \<noteq> [] \<and> Regex p = [] \<and> wf_glob (Glob p)) \<or>
     (Glob p = [] \<and> Regex p \<noteq> [] \<and> is_ok (regexp_Compile L (Regex p)))"

definition wf_identity :: "libs \<Rightarrow> Identity \<Rightarrow> bool" where
  "wf_identity L i \<longleftrightarrow>
     (Issuer i \<noteq> [] \<or> identity_Subject i \<noteq> []) \<and>
     (Issuer i \<noteq> [] \<longrightarrow> is_ok (regexp_Compile L (Issuer i))) \<and>
     (identity_Subject i \<noteq> [] \<longrightarrow> is_ok (regexp_Compile L (identity_Subject i)))"

definition wf_key :: "libs \<Rightarrow> KeyRef \<Rightarrow> bool" where
  "wf_key L k \<longleftrightarrow>
     (Data k \<noteq> [] \<and> KMS k = [] \<and> SecretRef k = None \<and> IsValidKey L (Data k) = Ok True) \<or>
     (Data k = [] \<and> KMS k \<noteq> [] \<and> SecretRef k = None) \<or> (Data k = [] \<and> KMS k = [] \<and> SecretRef k \<noteq> None)"

definition wf_keyless :: "libs \<Rightarrow> KeylessRef \<Rightarrow> bool" where
  "wf_keyless L k \<longleftrightarrow>
     (URL k \<noteq> None \<or> keyless_Identities k \<noteq> None \<or> CACert k \<noteq> None) \<and> (URL k = None \<or> CACert k = None) \<and>
     keyless_Identities k \<noteq> Some [] \<and> (\<forall>i \<in> set (nil_list (keyless_Identities k)). wf_identity L i)"

definition wf_authority :: "libs \<Rightarrow> Authority \<Rightarrow> bool" where
  "wf_authority L a \<longleftrightarrow>
     ((\<exists>k. Key a = Some k \<and> Keyless a = None \<and> wf_key L k) \<or>
      (\<exists>k. Key a = None \<and> Keyless a = Some k \<and> wf_keyless L k)) \<and>
     (\<forall>s \<in> set (Sources a). OCI s \<noteq> [])"

definition wf_policy :: "libs \<Rightarrow> ClusterImagePolicySpec \<Rightarrow> bool" where
  "wf_policy L spec \<longleftrightarrow>
     Images spec \<noteq> [] \<and> (\<forall>p \<in> set (Images spec). wf_pattern L p) \<and>
     Authorities spec \<noteq> [] \<and> (\<forall>a \<in> set (Authorities spec). wf_authority L a)"

lemma Via_None [simp]:
  "ViaField A f e = None \<longleftrightarrow> e = None" "ViaFieldIndex A f i e = None \<longleftrightarrow> e = None"
  by (simp_all add: ViaField_def ViaFieldIndex_def)

lemma wf_glob_iff:
  "wf_glob g \<longleftrightarrow> count_list g CHR ''*'' = 0 \<or> count_list g CHR ''*'' = 1 \<and> has_suffix g ''*''"
proof
  assume "wf_glob g"
  then show "count_list g CHR ''*'' = 0 \<or> count_list g CHR ''*'' = 1 \<and> has_suffix g ''*''"
    by (auto simp: wf_glob_def count_list_0_iff has_suffix_iff)
next
  assume r: "count_list g CHR ''*'' = 0 \<or> count_list g CHR ''*'' = 1 \<and> has_suffix g ''*''"
  show "wf_glob g"
  proof (cases "count_list g CHR ''*'' = 0")
    case False
    then obtain s where "g = s @ ''*''" "count_list g CHR ''*'' = 1"
      using r by (auto simp: has_suffix_iff)
    then show ?thesis
      by (auto simp: wf_glob_def count_list_0_iff)
  qed (auto simp: wf_glob_def count_list_0_iff)
qed

lemma ValidateGlob_None: "ValidateGlob A g = None \<longleftrightarrow> wf_glob g"
  by (auto simp: ValidateGlob_def wf_glob_iff Let_def)

lemma ValidateRegex_None: "ValidateRegex L A r = None \<longleftrightarrow> is_ok (regexp_Compile L r)"
  by (simp add: ValidateRegex_def)

text \<open>The validation of each part, for field errors that collect.\<close>

lemma also_None:
  assumes "also_collects A"
  shows "Also A a b = None \<longleftrightarrow> a = None \<and> b = None"
    and "also_if A c e errs = None \<longleftrightarrow> \<not> c \<and> errs = None"
    and "also_each A field f xs errs = None \<longleftrightarrow> errs = None \<and> (\<forall>x \<in> set xs. f x = None)"
    and "foldl (\<lambda>errs x. Also A errs (g x)) errs xs = None \<longleftrightarrow> errs = None \<and> (\<forall>x \<in> set xs. g x = None)"
proof -
  show both: "Also A a b = None \<longleftrightarrow> a = None \<and> b = None" for a b
    using assms by (simp add: also_collects_def)
  show "also_if A c e errs = None \<longleftrightarrow> \<not> c \<and> errs = None"
    by (auto simp: also_if_def both)
  have fold: "foldl (\<lambda>errs x. Also A errs (h x)) errs ys = None \<longleftrightarrow> errs = None \<and> (\<forall>x \<in> set ys. h x = None)"
    for h :: "'c \<Rightarrow> 'a option" and errs ys
    by (induction ys arbitrary: errs) (auto simp: both)
  show "foldl (\<lambda>errs x. Also A errs (g x)) errs xs = None \<longleftrightarrow> errs = None \<and> (\<forall>x \<in> set xs. g x = None)"
    by (rule fold)
  have "foldl (\<lambda>errs (i, x). Also A errs (ViaFieldIndex A field i (f x))) errs (enumerate n xs) = None \<longleftrightarrow>
      errs = None \<and> (\<forall>x \<in> set xs. f x = None)" for n errs
    by (induction xs arbitrary: n errs) (auto simp: both)
  then show "also_each A field f xs errs = None \<longleftrightarrow> errs = None \<and> (\<forall>x \<in> set xs. f x = None)"
    unfolding also_each_def .
qed

lemma Identity_Validate_None: "also_collects A \<Longrightarrow> Identity_Validate L A i = None \<longleftrightarrow> wf_identity L i"
  by (auto simp: Identity_Validate_def wf_identity_def Let_def also_None ValidateRegex_None)

lemma ImagePattern_Validate_None: "also_collects A \<Longrightarrow> ImagePattern_Validate L A p = None \<longleftrightarrow> wf_pattern L p"
  by (auto simp: ImagePattern_Validate_def wf_pattern_def Let_def also_None ValidateRegex_None ValidateGlob_None)

lemma KeylessRef_Validate_None: "also_collects A \<Longrightarrow> KeylessRef_Validate L A k = None \<longleftrightarrow> wf_keyless L k"
  by (auto simp: KeylessRef_Validate_def wf_keyless_def Let_def also_None Identity_Validate_None)

lemma KeyRef_Validate_None: "also_collects A \<Longrightarrow> KeyRef_Validate L A k = Ok None \<longleftrightarrow> wf_key L k"
  by (cases "Data k = []") (auto simp: KeyRef_Validate_def wf_key_def Let_def also_None bindr_Ok_iff)

lemma Authority_Validate_None:
  assumes "also_collects A"
  shows "Authority_Validate L A a = Ok None \<longleftrightarrow> wf_authority L a"
proof -
  note none = also_None [OF assms] KeylessRef_Validate_None [OF assms]
  show ?thesis
    by (cases "Key a"; cases "Keyless a")
       (auto simp: Authority_Validate_def wf_authority_def Let_def none bindr_Ok_iff Source_Validate_def
         simp flip: KeyRef_Validate_None [OF assms])
qed

lemma Validate_None_iff:
  assumes "also_collects A"
  shows "ClusterImagePolicy_Validate L A spec = Ok None \<longleftrightarrow> wf_policy L spec"
proof -
  have "(\<exists>es. mapr f xs = Ok es \<and> (\<forall>e \<in> set es. e = None)) \<longleftrightarrow> (\<forall>a \<in> set xs. f a = Ok None)"
    for f :: "Authority \<Rightarrow> 'a option res" and xs
  proof (induction xs)
    case (Cons x xs)
    have "(\<exists>es. mapr f (x # xs) = Ok es \<and> (\<forall>e \<in> set es. e = None)) \<longleftrightarrow>
        f x = Ok None \<and> (\<exists>es. mapr f xs = Ok es \<and> (\<forall>e \<in> set es. e = None))"
      by (auto simp: bindr_Ok_iff)
    then show ?case
      using Cons.IH by simp
  qed simp
  from this [of "Authority_Validate L A" "Authorities spec"] show ?thesis
    by (auto simp: ClusterImagePolicy_Validate_def Spec_Validate_def Let_def wf_policy_def bindr_Ok_iff
        also_None [OF assms] ImagePattern_Validate_None [OF assms] Authority_Validate_None [OF assms])
qed

lemma Spec_wf: "also_collects A \<Longrightarrow> ClusterImagePolicy_Validate L A spec = Ok None \<Longrightarrow> wf_policy L spec"
  using Validate_None_iff by blast

text \<open>C31. Validation accepts exactly the well-formed policies: there are images, each with either a regular
  expression that compiles or a glob whose only star is at its end; there are authorities,
  each with either a key (given in exactly one way, and parsing if inline) or a keyless part (with a
  URL, identities or a certificate, not both URL and certificate, and identities whose expressions
  compile), and no source is empty.\<close>

theorem ClusterImagePolicy_Validate_correct:
  assumes "also_collects A"
  shows "ClusterImagePolicy_Validate L A spec = Ok None \<longleftrightarrow> wf_policy L spec"
  using assms by (rule Validate_None_iff)

definition sample_apis :: "string list apis_lib" where
  "sample_apis =
     \<lparr>ErrMissingField = id, ErrMissingOneOf = id, ErrMultipleOneOf = id, ErrInvalidValue = (\<lambda>v f d. [v, f]),
      ErrGeneric = (\<lambda>_ f. f), Also = (\<lambda>a b. case (a, b) of (Some x, Some y) \<Rightarrow> Some (x @ y) | (None, _) \<Rightarrow> b | _ \<Rightarrow> a),
      fe_ViaField = (\<lambda>f. map (\<lambda>p. f @ ''.'' @ p)), fe_ViaFieldIndex = (\<lambda>f _. map (\<lambda>p. f @ ''.'' @ p)),
      fe_Details = (\<lambda>_. id)\<rparr>"

lemma sample_also: "also_collects sample_apis"
  by (auto simp: also_collects_def sample_apis_def split: option.splits)

definition sample_keyless_spec :: ClusterImagePolicySpec where
  "sample_keyless_spec =
     \<lparr>Images = [\<lparr>Glob = ''registry/*'', Regex = []\<rparr>],
      Authorities = [\<lparr>Key = None, Keyless = Some \<lparr>URL = None, keyless_Identities = None,
        CACert = Some \<lparr>SecretRef = None, Data = ''ca'', KMS = []\<rparr>\<rparr>, Sources = [], CTLog = None\<rparr>]\<rparr>"

theorem ClusterImagePolicy_Validate_correct_witness:
  "ClusterImagePolicy_Validate sample_libs sample_apis sample_keyless_spec = Ok None"
proof -
  have "wf_policy sample_libs sample_keyless_spec"
    by (simp add: wf_policy_def wf_pattern_def wf_glob_iff wf_authority_def wf_keyless_def sample_keyless_spec_def
        has_suffix_def)
  then show ?thesis
    using ClusterImagePolicy_Validate_correct [OF sample_also] by blast
qed

end
