(* ===== verification/Policy_Config.thy ===== *)
theory Policy_Config
  imports Policy_API
begin

section \<open>Policies as the admission webhook sees them\<close>

text \<open>
  The internal form of a policy (\<open>pkg/cosign/kubernetes/webhook/clusterimagepolicy\<close>), the conversion
  from the resource, the reading of its JSON, and the configuration of the webhook
  (\<open>pkg/apis/config\<close>): the policies by name, and which of them an image matches.
\<close>

subsection \<open>The internal form\<close>

record WKeyRef =
  WData :: string
  PublicKeys :: "pubkey list"

record WKeylessRef =
  WURL :: "string option"
  WIdentities :: "Identity list option"
  WCACert :: "WKeyRef option"

record WAuthority =
  WKey :: "WKeyRef option"
  WKeyless :: "WKeylessRef option"
  WSources :: "Source list"
  WCTLog :: "TLog option"
  RemoteOpts :: "remote_option list"

record WClusterImagePolicy =
  WImages :: "ImagePattern list"
  WAuthorities :: "WAuthority list"

subsection \<open>Conversion\<close>

definition convertKeyRef :: "KeyRef option \<Rightarrow> WKeyRef option" where
  "convertKeyRef inp = map_option (\<lambda>k. \<lparr>WData = Data k, PublicKeys = []\<rparr>) inp"

definition convertKeylessRef :: "KeylessRef option \<Rightarrow> WKeylessRef option" where
  "convertKeylessRef inp =
     map_option (\<lambda>k. \<lparr>WURL = URL k, WIdentities = keyless_Identities k, WCACert = convertKeyRef (CACert k)\<rparr>) inp"

definition convertAuthority :: "Authority \<Rightarrow> WAuthority" where
  "convertAuthority inp =
     \<lparr>WKey = convertKeyRef (Key inp), WKeyless = convertKeylessRef (Keyless inp), WSources = Sources inp,
      WCTLog = CTLog inp, RemoteOpts = []\<rparr>"

definition ConvertClusterImagePolicyV1alpha1ToWebhook :: "ClusterImagePolicySpec \<Rightarrow> WClusterImagePolicy" where
  "ConvertClusterImagePolicyV1alpha1ToWebhook spec =
     \<lparr>WImages = Images spec, WAuthorities = map convertAuthority (Authorities spec)\<rparr>"

subsection \<open>Reading JSON\<close>

definition ConvertKeyDataToPublicKeys :: "libs \<Rightarrow> string \<Rightarrow> pubkey list res" where
  "ConvertKeyDataToPublicKeys L pubKey =
     bindr (parsePEMKey L pubKey) (\<lambda>(pems, validPEM).
     if \<not> validPEM then Ok [] else mapr (ParsePKIXPublicKey L) pems)"

text \<open>
  What \<open>encoding/json\<close> does by itself is a parameter: \<open>json_policy\<close> gives the fields of a policy, whose
  keys are the JSON maps that \<open>KeyRef.UnmarshalJSON\<close> gets, already read as maps of strings.
\<close>

record raw_keyless =
  raw_URL :: "string option"
  raw_Identities :: "Identity list option"
  raw_CACert :: "(string, string) gomap option"

record raw_authority =
  raw_Key :: "(string, string) gomap option"
  raw_Keyless :: "raw_keyless option"
  raw_Sources :: "Source list"
  raw_CTLog :: "TLog option"

record raw_policy =
  raw_Images :: "ImagePattern list"
  raw_Authorities :: "raw_authority list"

definition KeyRef_UnmarshalJSON :: "libs \<Rightarrow> (string, string) gomap \<Rightarrow> WKeyRef res" where
  "KeyRef_UnmarshalJSON L ret =
     bindr (if mget ret ''data'' \<noteq> [] then ConvertKeyDataToPublicKeys L (mget ret ''data'') else Ok []) (\<lambda>publicKeys.
     Ok \<lparr>WData = mget ret ''data'', PublicKeys = publicKeys\<rparr>)"

definition opt_res :: "('a \<Rightarrow> 'b res) \<Rightarrow> 'a option \<Rightarrow> 'b option res" where
  "opt_res f x = (case x of None \<Rightarrow> Ok None | Some a \<Rightarrow> bindr (f a) (\<lambda>b. Ok (Some b)))"

definition unmarshal_keyless :: "libs \<Rightarrow> raw_keyless \<Rightarrow> WKeylessRef res" where
  "unmarshal_keyless L r =
     bindr (opt_res (KeyRef_UnmarshalJSON L) (raw_CACert r)) (\<lambda>ca.
     Ok \<lparr>WURL = raw_URL r, WIdentities = raw_Identities r, WCACert = ca\<rparr>)"

text \<open>\<open>NewRepository\<close> gives the empty repository for no input that it accepts as a name.\<close>

fun source_opts :: "(string \<Rightarrow> string res) \<Rightarrow> Source list \<Rightarrow> remote_option list res" where
  "source_opts NewRepository [] = Ok []"
| "source_opts NewRepository (source # rest) =
     bindr (wrapr ''failed to determine source'' (NewRepository (OCI source))) (\<lambda>targetRepoOverride.
     bindr (source_opts NewRepository rest) (\<lambda>opts.
     Ok (if targetRepoOverride \<noteq> [] then WithTargetRepository targetRepoOverride # opts else opts)))"

definition Authority_UnmarshalJSON :: "libs \<Rightarrow> (string \<Rightarrow> string res) \<Rightarrow> raw_authority \<Rightarrow> WAuthority res" where
  "Authority_UnmarshalJSON L NewRepository r =
     bindr (opt_res (KeyRef_UnmarshalJSON L) (raw_Key r)) (\<lambda>key.
     bindr (opt_res (unmarshal_keyless L) (raw_Keyless r)) (\<lambda>keyless.
     bindr (source_opts NewRepository (raw_Sources r)) (\<lambda>opts.
     Ok \<lparr>WKey = key, WKeyless = keyless, WSources = raw_Sources r, WCTLog = raw_CTLog r, RemoteOpts = opts\<rparr>)))"

definition unmarshal_policy :: "libs \<Rightarrow> (string \<Rightarrow> string res) \<Rightarrow> raw_policy \<Rightarrow> WClusterImagePolicy res" where
  "unmarshal_policy L NewRepository r =
     bindr (mapr (Authority_UnmarshalJSON L NewRepository) (raw_Authorities r)) (\<lambda>as.
     Ok \<lparr>WImages = raw_Images r, WAuthorities = as\<rparr>)"

subsection \<open>The configuration\<close>

type_synonym ImagePolicyConfig = "(string, WClusterImagePolicy) gomap"

record config_lib =
  YAMLToJSON :: "string \<Rightarrow> bytes res"
  json_policy :: "bytes \<Rightarrow> raw_policy res"
  NewRepository :: "string \<Rightarrow> string res"

definition parseEntry :: "libs \<Rightarrow> config_lib \<Rightarrow> string \<Rightarrow> WClusterImagePolicy res" where
  "parseEntry L C entry =
     bindr (wrapr ''config's value could not be converted to JSON'' (YAMLToJSON C entry)) (\<lambda>j.
     bindr (json_policy C j) (unmarshal_policy L (NewRepository C)))"

fun policies_from :: "libs \<Rightarrow> config_lib \<Rightarrow> (string, string) gomap \<Rightarrow> ImagePolicyConfig \<Rightarrow> ImagePolicyConfig res" where
  "policies_from L C [] ret = Ok ret"
| "policies_from L C ((k, v) # data) ret =
     (if k = ''_example'' then policies_from L C data ret
      else if v = [] then Err (ErrorString (''configmap has an entry '' @ k @ '' but no value''))
      else bindr (wrapr (''failed to parse the entry '' @ k) (parseEntry L C v)) (\<lambda>cip.
           policies_from L C data (mset_key k cip ret)))"

definition NewImagePoliciesConfigFromMap :: "libs \<Rightarrow> config_lib \<Rightarrow> (string, string) gomap \<Rightarrow> ImagePolicyConfig res" where
  "NewImagePoliciesConfigFromMap L C data = policies_from L C data []"

subsection \<open>Matching\<close>

definition GlobMatch :: "string \<Rightarrow> string \<Rightarrow> bool" where
  "GlobMatch img glob =
     (if \<not> has_suffix glob ''*'' then img = glob else has_prefix img (trim_suffix glob ''*''))"

text \<open>One pattern adds the authorities to the entry, or sets the error; the entry is nil at first.\<close>

fun match_patterns ::
  "libs \<Rightarrow> string \<Rightarrow> WAuthority list \<Rightarrow> ImagePattern list \<Rightarrow> WAuthority list option \<times> gerror option
   \<Rightarrow> WAuthority list option \<times> gerror option" where
  "match_patterns L img authorities [] acc = acc"
| "match_patterns L img authorities (pattern # rest) (entry, lastError) =
     match_patterns L img authorities rest
       (if Glob pattern \<noteq> []
        then (if GlobMatch img (Glob pattern) then Some (nil_list entry @ authorities) else entry, lastError)
        else if Regex pattern \<noteq> []
        then (case regexp_Compile L (Regex pattern) of
                Ok regex \<Rightarrow> (if regex img then Some (nil_list entry @ authorities) else entry, lastError)
              | Err err \<Rightarrow> (entry, Some err)
              | Panic _ \<Rightarrow> (entry, lastError))
        else (entry, lastError))"

fun match_policies ::
  "libs \<Rightarrow> string \<Rightarrow> ImagePolicyConfig \<Rightarrow> gerror option \<Rightarrow> (string, WAuthority list) gomap \<times> gerror option" where
  "match_policies L img [] lastError = ([], lastError)"
| "match_policies L img ((k, v) # rest) lastError =
     (let (entry, lastError') = match_patterns L img (WAuthorities v) (WImages v) (None, lastError);
          (ret, lastError'') = match_policies L img rest lastError'
      in (case entry of None \<Rightarrow> ret | Some as \<Rightarrow> (k, as) # ret, lastError''))"

definition GetMatchingPolicies ::
  "libs \<Rightarrow> ImagePolicyConfig option \<Rightarrow> string \<Rightarrow> (string, WAuthority list) gomap res" where
  "GetMatchingPolicies L p img =
     (case p of
        None \<Rightarrow> Err (ErrorString ''config is nil'')
      | Some policies \<Rightarrow>
          (let (ret, lastError) = match_policies L img policies None
           in case lastError of None \<Rightarrow> Ok ret | Some e \<Rightarrow> Err e))"

subsection \<open>Which policies an image matches\<close>

definition pattern_matches :: "libs \<Rightarrow> string \<Rightarrow> ImagePattern \<Rightarrow> bool" where
  "pattern_matches L img p \<longleftrightarrow>
     (if Glob p \<noteq> [] then img = Glob p \<and> \<not> has_suffix (Glob p) ''*'' \<or> (\<exists>s t. Glob p = s @ ''*'' \<and> img = s @ t)
      else Regex p \<noteq> [] \<and> (\<exists>r. regexp_Compile L (Regex p) = Ok r \<and> r img))"

lemma GlobMatch_iff:
  "GlobMatch img g \<longleftrightarrow> img = g \<and> \<not> has_suffix g ''*'' \<or> (\<exists>s t. g = s @ ''*'' \<and> img = s @ t)"
proof (cases "has_suffix g ''*''")
  case True
  then obtain s where "g = s @ ''*''"
    by (auto simp: has_suffix_iff)
  then show ?thesis
    using True by (auto simp: GlobMatch_def has_prefix_iff)
next
  case False
  then show ?thesis
    by (auto simp: GlobMatch_def has_suffix_iff)
qed

definition pattern_error :: "libs \<Rightarrow> ImagePattern \<Rightarrow> bool" where
  "pattern_error L p \<longleftrightarrow> Glob p = [] \<and> Regex p \<noteq> [] \<and> (\<exists>e. regexp_Compile L (Regex p) = Err e)"

text \<open>A policy's entry has its authorities once for each of its patterns that match.\<close>

definition matched_entry :: "libs \<Rightarrow> string \<Rightarrow> WClusterImagePolicy \<Rightarrow> WAuthority list option" where
  "matched_entry L img v =
     (let ps = filter (pattern_matches L img) (WImages v)
      in if ps = [] then None else Some (concat (replicate (length ps) (WAuthorities v))))"

lemma match_patterns_entry:
  "fst (match_patterns L img as ps (entry, err)) =
     (let ms = filter (pattern_matches L img) ps
      in if ms = [] then entry else Some (nil_list entry @ concat (replicate (length ms) as)))"
proof (induction ps arbitrary: entry err)
  case (Cons p ps)
  let ?entry = "if pattern_matches L img p then Some (nil_list entry @ as) else entry"
  have "pattern_matches L img p \<longleftrightarrow> (if Glob p \<noteq> [] then GlobMatch img (Glob p)
      else Regex p \<noteq> [] \<and> (\<exists>r. regexp_Compile L (Regex p) = Ok r \<and> r img))"
    by (simp add: pattern_matches_def GlobMatch_iff)
  then have "\<exists>err'. match_patterns L img as (p # ps) (entry, err) = match_patterns L img as ps (?entry, err')"
    by (cases "regexp_Compile L (Regex p)") auto
  then obtain err' where step: "match_patterns L img as (p # ps) (entry, err) = match_patterns L img as ps (?entry, err')"
    by blast
  show ?case
    unfolding step Cons.IH by (simp add: Let_def)
qed simp

lemma match_patterns_error:
  "snd (match_patterns L img as ps (entry, err)) = None \<longleftrightarrow> err = None \<and> (\<forall>p \<in> set ps. \<not> pattern_error L p)"
proof (induction ps arbitrary: entry err)
  case (Cons p ps)
  show ?case
    by (cases "regexp_Compile L (Regex p)") (auto simp: Cons.IH pattern_error_def)
qed simp

lemma match_policies_eq:
  "fst (match_policies L img ps err) = List.map_filter (\<lambda>(k, v). map_option (Pair k) (matched_entry L img v)) ps"
proof (induction ps arbitrary: err)
  case (Cons p ps)
  obtain k v where p: "p = (k, v)"
    by (cases p)
  have "fst (match_patterns L img (WAuthorities v) (WImages v) (None, err)) = matched_entry L img v"
    by (simp add: match_patterns_entry matched_entry_def Let_def)
  then show ?case
    using Cons.IH by (auto simp: p split_beta Let_def map_filter_simps split: option.splits)
qed (simp add: map_filter_simps)

lemma match_policies_error:
  "snd (match_policies L img ps err) = None \<longleftrightarrow>
     err = None \<and> (\<forall>(k, v) \<in> set ps. \<forall>p \<in> set (WImages v). \<not> pattern_error L p)"
proof (induction ps arbitrary: err)
  case (Cons p ps)
  obtain k v where p: "p = (k, v)"
    by (cases p)
  have "snd (match_patterns L img (WAuthorities v) (WImages v) (None, err)) = None \<longleftrightarrow>
      err = None \<and> (\<forall>p \<in> set (WImages v). \<not> pattern_error L p)"
    by (rule match_patterns_error)
  then show ?case
    using Cons.IH by (auto simp: p split_beta Let_def)
qed simp

lemma GetMatchingPolicies_Ok_iff:
  "GetMatchingPolicies L p img = Ok ret \<longleftrightarrow>
     (\<exists>policies. p = Some policies \<and>
        (\<forall>(k, v) \<in> set policies. \<forall>q \<in> set (WImages v). \<not> pattern_error L q) \<and>
        ret = List.map_filter (\<lambda>(k, v). map_option (Pair k) (matched_entry L img v)) policies)"
proof (cases p)
  case (Some policies)
  show ?thesis
    using match_policies_eq [of L img policies None] match_policies_error [of L img policies None]
    by (auto simp: GetMatchingPolicies_def Some split_beta split: option.splits)
qed (simp add: GetMatchingPolicies_def)

lemma matching_policies:
  assumes "\<And>k v x. (k, v) \<in> set policies \<Longrightarrow> x \<in> set (WImages v) \<Longrightarrow> \<not> pattern_error L x"
  shows "GetMatchingPolicies L (Some policies) img =
    Ok (List.map_filter (\<lambda>(k, v). map_option (Pair k) (matched_entry L img v)) policies)"
  using assms by (auto simp: GetMatchingPolicies_Ok_iff)

text \<open>C32. An image's policies are exactly those with a pattern that matches. \<open>GetMatchingPolicies\<close> fails if
  the expression of some policy does not compile; otherwise it returns, in order, the policies
  of which a pattern matches the image: a glob by equality, or as a prefix if it ends in a star, an
  expression by a match. The authorities are those of the policy, once for each matching pattern.\<close>

theorem GetMatchingPolicies_correct:
  "GetMatchingPolicies L p img = Ok ret \<longleftrightarrow>
     (\<exists>policies. p = Some policies \<and>
        (\<forall>(k, v) \<in> set policies. \<forall>q \<in> set (WImages v). \<not> pattern_error L q) \<and>
        ret = List.map_filter (\<lambda>(k, v). map_option (Pair k) (matched_entry L img v)) policies)"
  by (rule GetMatchingPolicies_Ok_iff)

definition sample_config :: ImagePolicyConfig where
  "sample_config =
     [(''p'', ConvertClusterImagePolicyV1alpha1ToWebhook sample_keyless_spec),
      (''q'', \<lparr>WImages = [\<lparr>Glob = [], Regex = ''other''\<rparr>], WAuthorities = []\<rparr>)]"

theorem GetMatchingPolicies_correct_witness:
  "GetMatchingPolicies sample_libs (Some sample_config) ''registry/app'' =
     Ok [(''p'', WAuthorities (ConvertClusterImagePolicyV1alpha1ToWebhook sample_keyless_spec))]"
  by (subst GetMatchingPolicies_correct)
     (simp add: sample_config_def sample_keyless_spec_def ConvertClusterImagePolicyV1alpha1ToWebhook_def
       pattern_error_def matched_entry_def pattern_matches_def map_filter_simps sample_libs_def has_suffix_def)

end
