(* ===== verification/Fulcio_Roots.thy ===== *)
theory Fulcio_Roots
  imports Cert_Check
begin

section \<open>The roots of Fulcio\<close>

text \<open>
  \<open>cmd/cosign/cli/fulcio/fulcioroots\<close>: the trusted roots and the intermediates, from a file or from
  TUF targets, computed once. The package variables are the state \<open>once\<close>.
\<close>

definition fulcioTargetStr :: string where "fulcioTargetStr = ''fulcio.crt.pem''"
definition fulcioV1TargetStr :: string where "fulcioV1TargetStr = ''fulcio_v1.crt.pem''"
definition altRoot :: string where "altRoot = ''SIGSTORE_ROOT_FILE''"

definition fulcioIntermediateV1 :: string where
  "fulcioIntermediateV1 =
     concat (map (\<lambda>l. l @ [CHR 0x0A])
       [''-----BEGIN CERTIFICATE-----'',
        ''MIICGjCCAaGgAwIBAgIUALnViVfnU0brJasmRkHrn/UnfaQwCgYIKoZIzj0EAwMw'',
        ''KjEVMBMGA1UEChMMc2lnc3RvcmUuZGV2MREwDwYDVQQDEwhzaWdzdG9yZTAeFw0y'',
        ''MjA0MTMyMDA2MTVaFw0zMTEwMDUxMzU2NThaMDcxFTATBgNVBAoTDHNpZ3N0b3Jl'',
        ''LmRldjEeMBwGA1UEAxMVc2lnc3RvcmUtaW50ZXJtZWRpYXRlMHYwEAYHKoZIzj0C'',
        ''AQYFK4EEACIDYgAE8RVS/ysH+NOvuDZyPIZtilgUF9NlarYpAd9HP1vBBH1U5CV7'',
        ''7LSS7s0ZiH4nE7Hv7ptS6LvvR/STk798LVgMzLlJ4HeIfF3tHSaexLcYpSASr1kS'',
        ''0N/RgBJz/9jWCiXno3sweTAOBgNVHQ8BAf8EBAMCAQYwEwYDVR0lBAwwCgYIKwYB'',
        ''BQUHAwMwEgYDVR0TAQH/BAgwBgEB/wIBADAdBgNVHQ4EFgQU39Ppz1YkEZb5qNjp'',
        ''KFWixi4YZD8wHwYDVR0jBBgwFoAUWMAeX5FFpWapesyQoZMi0CrFxfowCgYIKoZI'',
        ''zj0EAwMDZwAwZAIwPCsQK4DYiZYDPIaDi5HFKnfxXx6ASSVmERfsynYBiX2X6SJR'',
        ''nZU84/9DZdnFvvxmAjBOt6QpBlc4J/0DxvkTCqpclvziL6BCCPnjdlIB3Pu3BxsP'',
        ''mygUY7Ii2zbdCdliiow='']) @
     ''-----END CERTIFICATE-----''"

definition AppendCertsFromPEM :: "libs \<Rightarrow> bytes \<Rightarrow> certpool \<Rightarrow> certpool \<times> bool" where
  "AppendCertsFromPEM L pem pool = (foldl (\<lambda>p c. AddCert c p) pool (CertsInPEM L pem), CertsInPEM L pem \<noteq> [])"

fun sort_certs :: "certificate list \<Rightarrow> certpool \<times> certpool \<Rightarrow> certpool \<times> certpool" where
  "sort_certs [] pools = pools"
| "sort_certs (cert # certs) (rootPool, intermediatePool) =
     sort_certs certs
       (if RawSubject cert = RawIssuer cert then (AddCert cert rootPool, intermediatePool)
        else (rootPool, AddCert cert intermediatePool))"

fun sort_targets :: "libs \<Rightarrow> TargetFile list \<Rightarrow> certpool \<times> certpool \<Rightarrow> (certpool \<times> certpool) res" where
  "sort_targets L [] pools = Ok pools"
| "sort_targets L (t # targets) pools =
     bindr (wrapr ''error unmarshalling certificates'' (UnmarshalCertificatesFromPEM L (Target t))) (\<lambda>certs.
     sort_targets L targets (sort_certs certs pools))"

definition initRoots :: "libs \<Rightarrow> host \<Rightarrow> (certpool \<times> certpool) res" where
  "initRoots L H =
     (let rootEnv = Getenv H altRoot
      in if rootEnv \<noteq> []
         then bindr (wrapr ''error reading root PEM file'' (ReadFile H rootEnv)) (\<lambda>raw.
              bindr (wrapr ''error unmarshalling certificates'' (UnmarshalCertificatesFromPEM L raw)) (\<lambda>certs.
              Ok (sort_certs certs (NewCertPool, NewCertPool))))
         else bindr (wrapr ''initializing tuf'' (tuf_NewFromEnv H)) (\<lambda>tufClient.
              bindr (handler (GetTargetsByMeta L tufClient Fulcio [fulcioTargetStr, fulcioV1TargetStr])
                       (\<lambda>_. Err (ErrorString ''error getting targets'')) Ok) (\<lambda>targets.
              if targets = [] then Err (ErrorString ''none of the Fulcio roots have been found'')
              else bindr (sort_targets L targets (NewCertPool, NewCertPool)) (\<lambda>(rootPool, intermediatePool).
                   Ok (rootPool, fst (AppendCertsFromPEM L fulcioIntermediateV1 intermediatePool))))))"

text \<open>\<open>rootsOnce\<close>, \<open>roots\<close> and \<open>intermediates\<close>. The function runs once, also if it panics.\<close>

record once =
  once_done :: bool
  once_roots :: "certpool option"
  once_intermediates :: "certpool option"

definition once_init :: once where
  "once_init = \<lparr>once_done = False, once_roots = None, once_intermediates = None\<rparr>"

definition rootsOnce_Do :: "libs \<Rightarrow> host \<Rightarrow> once \<Rightarrow> unit res \<times> once" where
  "rootsOnce_Do L H s =
     (if once_done s then (Ok (), s)
      else case initRoots L H of
        Ok (r, i) \<Rightarrow> (Ok (), \<lparr>once_done = True, once_roots = Some r, once_intermediates = Some i\<rparr>)
      | Err e \<Rightarrow> (Panic ''initRoots'', \<lparr>once_done = True, once_roots = None, once_intermediates = None\<rparr>)
      | Panic p \<Rightarrow> (Panic p, s\<lparr>once_done := True\<rparr>))"

definition fulcioroots_Get :: "libs \<Rightarrow> host \<Rightarrow> once \<Rightarrow> certpool option res \<times> once" where
  "fulcioroots_Get L H s =
     (let (r, s') = rootsOnce_Do L H s in (bindr r (\<lambda>_. Ok (once_roots s')), s'))"

definition GetIntermediates :: "libs \<Rightarrow> host \<Rightarrow> once \<Rightarrow> certpool option res \<times> once" where
  "GetIntermediates L H s =
     (let (r, s') = rootsOnce_Do L H s in (bindr r (\<lambda>_. Ok (once_intermediates s')), s'))"

subsection \<open>What is trusted as a root\<close>

text \<open>A certificate comes from the file of the environment or else from a verified TUF target.\<close>

definition from_trusted_source :: "libs \<Rightarrow> host \<Rightarrow> certificate \<Rightarrow> bool" where
  "from_trusted_source L H c \<longleftrightarrow>
     (if Getenv H altRoot \<noteq> []
      then \<exists>raw certs. ReadFile H (Getenv H altRoot) = Ok raw \<and> UnmarshalCertificatesFromPEM L raw = Ok certs \<and> c \<in> set certs
      else \<exists>t name b certs. tuf_NewFromEnv H = Ok t \<and> verified_target L t name b \<and>
        UnmarshalCertificatesFromPEM L b = Ok certs \<and> c \<in> set certs)"

lemma AddCert_set: "x \<in> set (AddCert c p) \<Longrightarrow> x = c \<or> x \<in> set p"
  by (auto simp: AddCert_def split: if_splits)

lemma sort_certs_roots:
  assumes "c \<in> set (fst (sort_certs certs pools))"
  shows "c \<in> set (fst pools) \<or> c \<in> set certs \<and> RawSubject c = RawIssuer c"
  using assms
  by (induction certs pools rule: sort_certs.induct) (auto dest!: AddCert_set split: if_splits)

lemma sort_targets_roots:
  assumes "sort_targets L ts pools = Ok r" and "c \<in> set (fst r)"
  shows "c \<in> set (fst pools) \<or> RawSubject c = RawIssuer c \<and>
    (\<exists>t \<in> set ts. \<exists>certs. UnmarshalCertificatesFromPEM L (Target t) = Ok certs \<and> c \<in> set certs)"
  using assms
proof (induction ts arbitrary: pools)
  case (Cons t ts)
  then obtain certs where certs: "UnmarshalCertificatesFromPEM L (Target t) = Ok certs"
    "sort_targets L ts (sort_certs certs pools) = Ok r"
    by (auto simp: res_simps)
  show ?case
    using Cons.IH [OF certs(2) Cons.prems(2)] sort_certs_roots [of c certs pools] certs(1) by auto
qed auto

lemma GetTargetsByMeta_verified:
  assumes "GetTargetsByMeta L t usage fallbacks = Ok ts" and "f \<in> set ts"
  shows "\<exists>name. verified_target L t name (Target f)"
proof -
  obtain targets matched where m: "matched_targets L t usage targets = Ok matched"
    and ts: "(if matched = [] then fallback_targets L t fallbacks else Ok matched) = Ok ts"
    using assms by (auto simp: GetTargetsByMeta_def res_simps split: if_splits)
  then show ?thesis
    using assms(2) matched_targets_sound [OF m] fallback_targets_sound [of L t fallbacks ts]
    by (auto split: if_splits)
qed

text \<open>C34. Trusted roots have a trusted origin. Whatever \<open>Get\<close> returns in a run of the program that started
  with the package's initial state, a certificate in it is self-signed and comes from the file named
  by \<open>SIGSTORE_ROOT_FILE\<close> or, without that variable, from a TUF target whose bytes were verified;
  and a second call returns the same pool.\<close>

theorem fulcioroots_Get_sound:
  assumes "fulcioroots_Get L H once_init = (Ok (Some pool), s)"
  shows "(\<forall>c \<in> set pool. RawSubject c = RawIssuer c \<and> from_trusted_source L H c) \<and>
    fulcioroots_Get L H s = (Ok (Some pool), s)"
proof -
  obtain i where init: "initRoots L H = Ok (pool, i)" and s: "once_done s" "once_roots s = Some pool"
    using assms
    by (cases "initRoots L H") (auto simp: fulcioroots_Get_def rootsOnce_Do_def once_init_def)
  have "RawSubject c = RawIssuer c \<and> from_trusted_source L H c" if c: "c \<in> set pool" for c
  proof (cases "Getenv H altRoot = []")
    case False
    then obtain raw certs where "ReadFile H (Getenv H altRoot) = Ok raw" "UnmarshalCertificatesFromPEM L raw = Ok certs"
      "pool = fst (sort_certs certs (NewCertPool, NewCertPool))"
      using init by (auto simp: initRoots_def res_simps)
    then show ?thesis
      using False sort_certs_roots [of c certs "(NewCertPool, NewCertPool)"] c by (auto simp: from_trusted_source_def NewCertPool_def)
  next
    case True
    obtain t ts r where t: "tuf_NewFromEnv H = Ok t"
      "GetTargetsByMeta L t Fulcio [fulcioTargetStr, fulcioV1TargetStr] = Ok ts"
      and r: "sort_targets L ts (NewCertPool, NewCertPool) = Ok r" "pool = fst r"
      using init True by (auto simp: initRoots_def res_simps split: if_splits)
    then show ?thesis
      using True sort_targets_roots [OF r(1), of c] GetTargetsByMeta_verified [OF t(2)] c
      by (fastforce simp: from_trusted_source_def NewCertPool_def)
  qed
  then show ?thesis
    using s by (simp add: fulcioroots_Get_def rootsOnce_Do_def)
qed

theorem fulcioroots_Get_sound_witness:
  "\<exists>pool s. fulcioroots_Get sample_libs (sample_host\<lparr>Getenv := (\<lambda>_. ''root.pem''), ReadFile := (\<lambda>_. Ok ''pem'')\<rparr>) once_init
     = (Ok (Some pool), s) \<and> pool \<noteq> [] \<and> (\<forall>c \<in> set pool. RawSubject c = RawIssuer c)"
proof -
  let ?H = "sample_host\<lparr>Getenv := (\<lambda>_. ''root.pem''), ReadFile := (\<lambda>_. Ok ''pem'')\<rparr>"
  let ?pool = "[sample_cert\<lparr>Raw := ''pem''\<rparr>]"
  let ?s = "\<lparr>once_done = True, once_roots = Some ?pool, once_intermediates = Some []\<rparr>"
  have "fulcioroots_Get sample_libs ?H once_init = (Ok (Some ?pool), ?s)"
    by (simp add: fulcioroots_Get_def rootsOnce_Do_def once_init_def initRoots_def sample_libs_def
        AddCert_def NewCertPool_def) (simp add: sample_cert_def)
  then show ?thesis
    using fulcioroots_Get_sound by blast
qed

end
