(* ===== verification/Admission.thy ===== *)
theory Admission
  imports Verify Policy_Config Fulcio_Roots
begin

section \<open>Admission\<close>

text \<open>
  The webhook of \<open>pkg/cosign/kubernetes/webhook\<close>: \<open>validation.go\<close> (keys and the calls of
  \<open>VerifyImageSignatures\<close>) and \<open>validator.go\<close> (policies, pods and their kinds). Kubernetes, the name
  parser and the clients of Fulcio and Rekor are parameters, the record \<open>cluster\<close>; the registry and
  the libraries are those of the verification. Log lines are not modelled.
\<close>

record cluster =
  k8schain_New :: "string \<Rightarrow> string \<Rightarrow> string list \<Rightarrow> ropt res"
  Secret_Data :: "(string, bytes) gomap res"
  ParseReference :: "string \<Rightarrow> reference res"
  fulcio_RootCert :: "string \<Rightarrow> bytes res"
  GetRekorClient :: "string \<Rightarrow> rekor_client res"
  roots_state :: once

text \<open>
  \<open>fulcioroots.Get()\<close> in the state of the package at the start of the request. A later call in the same
  request gives the same pool, so the state is not passed on (\<open>fulcioroots_Get_again\<close>).
\<close>

definition FulcioRoots :: "libs \<Rightarrow> host \<Rightarrow> cluster \<Rightarrow> certpool option res" where
  "FulcioRoots L H E = fst (fulcioroots_Get L H (roots_state E))"

lemma fulcioroots_Get_again:
  "fulcioroots_Get L H s = (Ok pool, s') \<Longrightarrow> fulcioroots_Get L H s' = (Ok pool, s')"
  by (auto simp: fulcioroots_Get_def rootsOnce_Do_def split: if_splits res.splits)

subsection \<open>Keys\<close>

text \<open>\<open>rest\<close> is never nil, so \<open>parsePems\<close> always goes on until \<open>pem.Decode\<close> finds no block.\<close>

fun parsePems_fuel :: "libs \<Rightarrow> nat \<Rightarrow> bytes \<Rightarrow> bytes list res" where
  "parsePems_fuel L 0 b = Panic ''stack overflow''"
| "parsePems_fuel L (Suc n) b =
     (case pem_Decode L b of
        None \<Rightarrow> Ok []
      | Some (p, rest) \<Rightarrow> bindr (parsePems_fuel L n rest) (\<lambda>ps. Ok (p # ps)))"

definition parsePems :: "libs \<Rightarrow> bytes \<Rightarrow> bytes list res" where
  "parsePems L b = parsePems_fuel L (Suc (length b)) b"

text \<open>
  \<open>keys\<close> starts as an empty slice, which is not nil, so \<open>keys == nil\<close> is false at the end. A Go map of
  the secret gives nil for a missing entry.
\<close>

definition getKeys :: "libs \<Rightarrow> (string, bytes) gomap \<Rightarrow> pubkey list res" where
  "getKeys L cfg =
     bindr (parsePems L (mget cfg ''cosign.pub'')) (\<lambda>pems.
     Ok (concat (map (\<lambda>p. case ParsePKIXPublicKey L p of Ok key \<Rightarrow> [key] | _ \<Rightarrow> []) pems)))"

definition zero_CheckOpts :: CheckOpts where
  "zero_CheckOpts =
     \<lparr>RegistryClientOpts = [], opts_annotations = None, ClaimVerifier = None, RekorClient = None,
      SigVerifier = None, RootCerts = None, IntermediateCerts = None, CertEmail = [],
      CertOidcIssuer = [], EnforceSCT = False, SignatureRef = [], Identities = []\<rparr>"

definition key_opts :: "libs \<Rightarrow> verifier \<Rightarrow> remote_option list \<Rightarrow> CheckOpts" where
  "key_opts L v opts =
     zero_CheckOpts\<lparr>RegistryClientOpts := opts, SigVerifier := Some v, ClaimVerifier := Some (SimpleClaimVerifier L)\<rparr>"

definition fulcio_opts ::
  "libs \<Rightarrow> certpool option \<Rightarrow> rekor_client option \<Rightarrow> Identity list option \<Rightarrow> remote_option list \<Rightarrow> CheckOpts" where
  "fulcio_opts L fulcioRoots rekorClient identities opts =
     zero_CheckOpts\<lparr>RegistryClientOpts := opts, RootCerts := fulcioRoots, RekorClient := rekorClient,
       ClaimVerifier := Some (SimpleClaimVerifier L), Identities := nil_list identities\<rparr>"

definition validSignatures ::
  "libs \<Rightarrow> host \<Rightarrow> registry \<Rightarrow> reference \<Rightarrow> verifier \<Rightarrow> remote_option list \<Rightarrow> oci_sig list res" where
  "validSignatures L H R ref v opts =
     bindr (fst (VerifyImageSignatures L H R ref (key_opts L v opts))) (\<lambda>(sigs, _). Ok sigs)"

definition validSignaturesWithFulcio ::
  "libs \<Rightarrow> host \<Rightarrow> registry \<Rightarrow> reference \<Rightarrow> certpool option \<Rightarrow> rekor_client option \<Rightarrow> Identity list option
   \<Rightarrow> remote_option list \<Rightarrow> oci_sig list res" where
  "validSignaturesWithFulcio L H R ref fulcioRoots rekorClient identities opts =
     bindr (fst (VerifyImageSignatures L H R ref (fulcio_opts L fulcioRoots rekorClient identities opts))) (\<lambda>(sigs, _). Ok sigs)"

fun valid_any ::
  "libs \<Rightarrow> host \<Rightarrow> registry \<Rightarrow> reference \<Rightarrow> remote_option list \<Rightarrow> pubkey list \<Rightarrow> gerror option \<Rightarrow> oci_sig list res" where
  "valid_any L H R ref opts [] lastErr = (case lastErr of None \<Rightarrow> Ok [] | Some e \<Rightarrow> Err e)"
| "valid_any L H R ref opts (k # keys) lastErr =
     handler (LoadVerifier L k) (\<lambda>err. valid_any L H R ref opts keys (Some err)) (\<lambda>v.
     handler (validSignatures L H R ref v opts) (\<lambda>err. valid_any L H R ref opts keys (Some err)) (\<lambda>sps.
     if sps \<noteq> [] then Ok sps else valid_any L H R ref opts keys lastErr))"

definition valid ::
  "libs \<Rightarrow> host \<Rightarrow> cluster \<Rightarrow> registry \<Rightarrow> reference \<Rightarrow> pubkey list \<Rightarrow> remote_option list \<Rightarrow> oci_sig list res" where
  "valid L H E R ref keys opts =
     (if keys = []
      then bindr (FulcioRoots L H E) (\<lambda>roots.
           bindr (validSignaturesWithFulcio L H R ref roots None None opts) (\<lambda>sps.
           if sps \<noteq> [] then Ok sps else Err (ErrorString ''no valid signatures were found'')))
      else valid_any L H R ref opts keys None)"

subsection \<open>Policies\<close>

definition getFulcioCert :: "libs \<Rightarrow> cluster \<Rightarrow> string \<Rightarrow> certpool res" where
  "getFulcioCert L E u =
     bindr (wrapr ''getting root cert'' (fulcio_RootCert E u)) (\<lambda>chainPEM.
     (let (cp, ok) = AppendCertsFromPEM L chainPEM NewCertPool
      in if \<not> ok then Err (ErrorString ''error appending to root cert pool'') else Ok cp))"

text \<open>The outcome of one authority: signatures, an error that is noted, or nothing at all.\<close>

datatype outcome = Passed "oci_sig list" | Failed gerror | Skipped

definition keyless_check ::
  "libs \<Rightarrow> host \<Rightarrow> cluster \<Rightarrow> registry \<Rightarrow> reference \<Rightarrow> remote_option list \<Rightarrow> WAuthority \<Rightarrow> WKeylessRef \<Rightarrow> string \<Rightarrow> outcome res" where
  "keyless_check L H E R ref opts authority keyless url =
     handler (getFulcioCert L E url) (\<lambda>err. Ok (Failed (Wrapped err ''fetching FulcioRoot''))) (\<lambda>fulcioroot.
     handler (case WCTLog authority of
                Some ctlog \<Rightarrow> (case TLog_URL ctlog of
                    Some u \<Rightarrow> bindr (GetRekorClient E u) (\<lambda>c. Ok (Some c))
                  | None \<Rightarrow> Ok None)
              | None \<Rightarrow> Ok None) (\<lambda>err. Ok (Failed (Wrapped err ''creating Rekor client''))) (\<lambda>rekorClient.
     handler (validSignaturesWithFulcio L H R ref (Some fulcioroot) rekorClient (WIdentities keyless) opts)
       (\<lambda>err. Ok (Failed (Wrapped err ''validate signatures with fulcio'')))
       (\<lambda>sps. if sps \<noteq> [] then Ok (Passed sps)
              else Ok (Failed (ErrorString (''no valid signatures found for '' @ reference_String ref))))))"

definition check_authority ::
  "libs \<Rightarrow> host \<Rightarrow> cluster \<Rightarrow> registry \<Rightarrow> reference \<Rightarrow> remote_option list \<Rightarrow> WAuthority \<Rightarrow> outcome res" where
  "check_authority L H E R ref remoteOpts authority =
     (let opts = remoteOpts @ RemoteOpts authority;
          keys = (case WKey authority of None \<Rightarrow> [] | Some k \<Rightarrow> PublicKeys k)
      in if keys \<noteq> []
         then handler (valid L H E R ref keys opts)
                (\<lambda>err. Ok (Failed (Wrapped err ''failed to validate keys'')))
                (\<lambda>sps. if sps \<noteq> [] then Ok (Passed sps)
                       else Ok (Failed (ErrorString (''no valid signatures found for '' @ reference_String ref))))
         else case WKeyless authority of
           None \<Rightarrow> Ok Skipped
         | Some keyless \<Rightarrow>
             (case WURL keyless of
                None \<Rightarrow> Ok Skipped
              | Some url \<Rightarrow> keyless_check L H E R ref opts authority keyless url))"

fun try_authorities ::
  "(WAuthority \<Rightarrow> outcome res) \<Rightarrow> WAuthority list \<Rightarrow> gerror list \<Rightarrow> (oci_sig list \<times> gerror list) res" where
  "try_authorities check [] authorityErrors = Ok ([], authorityErrors)"
| "try_authorities check (authority # rest) authorityErrors =
     bindr (check authority) (\<lambda>r.
     case r of
       Passed sps \<Rightarrow> Ok (sps, [])
     | Failed err \<Rightarrow> try_authorities check rest (authorityErrors @ [err])
     | Skipped \<Rightarrow> try_authorities check rest authorityErrors)"

definition ValidatePolicy ::
  "libs \<Rightarrow> host \<Rightarrow> cluster \<Rightarrow> registry \<Rightarrow> reference \<Rightarrow> ropt \<Rightarrow> WAuthority list \<Rightarrow> remote_option list
   \<Rightarrow> (oci_sig list \<times> gerror list) res" where
  "ValidatePolicy L H E R ref kc authorities remoteOpts =
     try_authorities (check_authority L H E R ref (remoteOpts @ [WithRemoteOptions kc])) authorities []"

text \<open>Both results are maps; a policy is in exactly one of them. Its errors are not copied.\<close>

fun validatePolicies ::
  "libs \<Rightarrow> host \<Rightarrow> cluster \<Rightarrow> registry \<Rightarrow> reference \<Rightarrow> ropt \<Rightarrow> (string, WAuthority list) gomap
   \<Rightarrow> ((string, oci_sig list) gomap \<times> (string, gerror list) gomap) res" where
  "validatePolicies L H E R ref kc [] = Ok ([], [])"
| "validatePolicies L H E R ref kc ((p, authorities) # policies) =
     bindr (ValidatePolicy L H E R ref kc authorities []) (\<lambda>(sigs, errs).
     bindr (validatePolicies L H E R ref kc policies) (\<lambda>(signatures, ret).
     if errs \<noteq> [] then Ok (signatures, (p, []) # ret) else Ok ((p, sigs) # signatures, ret)))"

subsection \<open>Pods\<close>

record PodSpec =
  InitContainers :: "string list"
  Containers :: "string list"
  ImagePullSecrets :: "string list"
  ServiceAccountName :: string

text \<open>A workload: a pod, an object with a pod template, or a cron job. A container is its image.\<close>

record workload =
  DeletionTimestamp :: "time option"
  Namespace :: string
  podSpec :: PodSpec

definition image_error :: "'e apis_lib \<Rightarrow> string \<Rightarrow> nat \<Rightarrow> string \<Rightarrow> gerror \<Rightarrow> 'e option" where
  "image_error A field i img err =
     Some (fe_Details A img (fe_ViaFieldIndex A field i (ErrGeneric A err [''image''])))"

definition check_container ::
  "libs \<Rightarrow> host \<Rightarrow> 'e apis_lib \<Rightarrow> cluster \<Rightarrow> registry \<Rightarrow> ImagePolicyConfig option option \<Rightarrow> ropt \<Rightarrow> pubkey list
   \<Rightarrow> string \<Rightarrow> nat \<Rightarrow> string \<Rightarrow> 'e option \<Rightarrow> 'e option res" where
  "check_container L H A E R config kc keys field i img errs =
     handler (ParseReference E img)
       (\<lambda>err. Ok (Also A errs (ViaFieldIndex A field i (Some (ErrGeneric A err [''image'']))))) (\<lambda>ref.
     case ref of
       Tag _ _ \<Rightarrow> Ok (Also A errs (ViaFieldIndex A field i
         (Some (ErrInvalidValue A (img @ '' must be an image digest'') ''image'' []))))
     | DigestRef _ _ \<Rightarrow>
         (let legacy = handler (valid L H E R ref keys [WithRemoteOptions kc])
                       (\<lambda>err. Ok (Also A errs (image_error A field i img err))) (\<lambda>_. Ok errs)
          in case config of
               None \<Rightarrow> legacy
             | Some imagePolicyConfig \<Rightarrow>
                 handler (GetMatchingPolicies L imagePolicyConfig (reference_String ref))
                   (\<lambda>err. Ok (Also A errs (image_error A field i img err))) (\<lambda>policies.
                 if policies = [] then legacy
                 else bindr (validatePolicies L H E R ref kc policies) (\<lambda>(signatures, fieldErrors).
                      if length signatures \<noteq> length policies
                      then Ok (foldl (\<lambda>errs (failingPolicy, _). Also A errs
                                 (image_error A field i img (ErrorString (''failed policy: '' @ failingPolicy)))) errs fieldErrors)
                      else if signatures \<noteq> [] then Ok errs else legacy))))"

fun check_containers ::
  "(nat \<Rightarrow> string \<Rightarrow> 'e option \<Rightarrow> 'e option res) \<Rightarrow> nat \<Rightarrow> string list \<Rightarrow> 'e option \<Rightarrow> 'e option res" where
  "check_containers check i [] errs = Ok errs"
| "check_containers check i (c # cs) errs =
     bindr (check i c errs) (\<lambda>errs'. check_containers check (Suc i) cs errs')"

definition validatePodSpec ::
  "libs \<Rightarrow> host \<Rightarrow> 'e apis_lib \<Rightarrow> cluster \<Rightarrow> registry \<Rightarrow> ImagePolicyConfig option option \<Rightarrow> string \<Rightarrow> PodSpec \<Rightarrow> 'e option res" where
  "validatePodSpec L H A E R config ns ps =
     handler (k8schain_New E ns (ServiceAccountName ps) (ImagePullSecrets ps))
       (\<lambda>err. Ok (Some (ErrGeneric A err [CurrentField]))) (\<lambda>kc.
     handler (Secret_Data E) (\<lambda>err. Ok (Some (ErrGeneric A err [CurrentField]))) (\<lambda>data.
     bindr (getKeys L data) (\<lambda>keys.
     bindr (check_containers (check_container L H A E R config kc keys ''initContainers'') 0 (InitContainers ps) None) (\<lambda>errs.
     check_containers (check_container L H A E R config kc keys ''containers'') 0 (Containers ps) errs))))"

definition ValidatePodSpecable ::
  "libs \<Rightarrow> host \<Rightarrow> 'e apis_lib \<Rightarrow> cluster \<Rightarrow> registry \<Rightarrow> ImagePolicyConfig option option \<Rightarrow> workload \<Rightarrow> 'e option res" where
  "ValidatePodSpecable L H A E R config wp =
     (if DeletionTimestamp wp \<noteq> None then Ok None
      else bindr (validatePodSpec L H A E R config (Namespace wp) (podSpec wp)) (\<lambda>e. Ok (ViaField A ''spec.template.spec'' e)))"

definition ValidatePod ::
  "libs \<Rightarrow> host \<Rightarrow> 'e apis_lib \<Rightarrow> cluster \<Rightarrow> registry \<Rightarrow> ImagePolicyConfig option option \<Rightarrow> workload \<Rightarrow> 'e option res" where
  "ValidatePod L H A E R config p =
     (if DeletionTimestamp p \<noteq> None then Ok None
      else bindr (validatePodSpec L H A E R config (Namespace p) (podSpec p)) (\<lambda>e. Ok (ViaField A ''spec'' e)))"

definition ValidateCronJob ::
  "libs \<Rightarrow> host \<Rightarrow> 'e apis_lib \<Rightarrow> cluster \<Rightarrow> registry \<Rightarrow> ImagePolicyConfig option option \<Rightarrow> workload \<Rightarrow> 'e option res" where
  "ValidateCronJob L H A E R config c =
     (if DeletionTimestamp c \<noteq> None then Ok None
      else bindr (validatePodSpec L H A E R config (Namespace c) (podSpec c)) (\<lambda>e.
           Ok (ViaField A ''spec.jobTemplate.spec.template.spec'' e)))"

subsection \<open>Resolving tags\<close>

definition resolve_image :: "cluster \<Rightarrow> registry \<Rightarrow> bool \<Rightarrow> ropt \<Rightarrow> string \<Rightarrow> string res" where
  "resolve_image E R in_create_or_update kc img =
     handler (ParseReference E img) (\<lambda>_. Ok img) (\<lambda>ref.
     if in_create_or_update
     then handler (ResolveDigest R ref [WithRemoteOptions kc]) (\<lambda>_. Ok img) (\<lambda>digest. Ok (reference_String digest))
     else Ok img)"

definition resolvePodSpec :: "cluster \<Rightarrow> registry \<Rightarrow> bool \<Rightarrow> string \<Rightarrow> PodSpec \<Rightarrow> PodSpec res" where
  "resolvePodSpec E R in_create_or_update ns ps =
     handler (k8schain_New E ns (ServiceAccountName ps) (ImagePullSecrets ps)) (\<lambda>_. Ok ps) (\<lambda>kc.
     bindr (mapr (resolve_image E R in_create_or_update kc) (InitContainers ps)) (\<lambda>inits.
     bindr (mapr (resolve_image E R in_create_or_update kc) (Containers ps)) (\<lambda>cs.
     Ok (ps\<lparr>InitContainers := inits, Containers := cs\<rparr>))))"

text \<open>The three kinds resolve in the same way.\<close>

definition Resolve :: "cluster \<Rightarrow> registry \<Rightarrow> bool \<Rightarrow> workload \<Rightarrow> workload res" where
  "Resolve E R in_create_or_update w =
     (if DeletionTimestamp w \<noteq> None then Ok w
      else bindr (resolvePodSpec E R in_create_or_update (Namespace w) (podSpec w)) (\<lambda>ps. Ok (w\<lparr>podSpec := ps\<rparr>)))"

subsection \<open>What the keys and policies check\<close>

definition verified ::
  "libs \<Rightarrow> host \<Rightarrow> registry \<Rightarrow> reference \<Rightarrow> CheckOpts \<Rightarrow> oci_sig list \<Rightarrow> bool" where
  "verified L H R ref co sps \<longleftrightarrow> sps \<noteq> [] \<and> (\<exists>bv. fst (VerifyImageSignatures L H R ref co) = Ok (sps, bv))"

lemma VerifyImageSignatures_nonempty:
  assumes "fst (VerifyImageSignatures L H R ref co) = Ok (sps, bv)"
  shows "sps \<noteq> []"
  using assms by (auto simp: VerifyImageSignatures_def res_simps verifySignatures_Ok_iff checks_to_def split: if_splits)

lemma validSignatures_Ok_iff:
  "validSignatures L H R ref v opts = Ok sps \<longleftrightarrow> verified L H R ref (key_opts L v opts) sps"
  "validSignaturesWithFulcio L H R ref roots rc ids opts = Ok sps \<longleftrightarrow> verified L H R ref (fulcio_opts L roots rc ids opts) sps"
  by (auto simp: validSignatures_def validSignaturesWithFulcio_def verified_def bindr_Ok_iff
      dest: VerifyImageSignatures_nonempty)

text \<open>An image passes a list of keys: one of them verifies, or there is none and Fulcio's roots do.\<close>

definition keys_verify ::
  "libs \<Rightarrow> host \<Rightarrow> cluster \<Rightarrow> registry \<Rightarrow> reference \<Rightarrow> pubkey list \<Rightarrow> remote_option list \<Rightarrow> oci_sig list \<Rightarrow> bool" where
  "keys_verify L H E R ref keys opts sps \<longleftrightarrow>
     (if keys = [] then \<exists>roots. FulcioRoots L H E = Ok roots \<and> verified L H R ref (fulcio_opts L roots None None opts) sps
      else \<exists>k \<in> set keys. \<exists>v. LoadVerifier L k = Ok v \<and> verified L H R ref (key_opts L v opts) sps)"

lemma valid_any_Ok:
  assumes "valid_any L H R ref opts keys lastErr = Ok sps" and "keys \<noteq> [] \<or> lastErr \<noteq> None"
  shows "\<exists>k \<in> set keys. \<exists>v. LoadVerifier L k = Ok v \<and> verified L H R ref (key_opts L v opts) sps"
  using assms
proof (induction keys arbitrary: lastErr)
  case (Cons k keys)
  show ?case
  proof (cases "LoadVerifier L k")
    case (Ok v)
    show ?thesis
    proof (cases "validSignatures L H R ref v opts")
      case v: (Ok sps')
      then have "sps' \<noteq> []"
        by (simp add: validSignatures_Ok_iff verified_def)
      then show ?thesis
        using Cons.prems Ok v by (auto simp: validSignatures_Ok_iff)
    next
      case (Err e)
      then show ?thesis
        using Cons.prems Ok Cons.IH [of "Some e"] by auto
    qed (use Cons.prems Ok in auto)
  next
    case (Err e)
    then show ?thesis
      using Cons.prems Cons.IH [of "Some e"] by auto
  qed (use Cons.prems in auto)
qed auto

lemma valid_Ok: "valid L H E R ref keys opts = Ok sps \<Longrightarrow> keys_verify L H E R ref keys opts sps"
  using valid_any_Ok [of L H R ref opts keys None sps]
  by (auto simp: valid_def keys_verify_def bindr_Ok_iff validSignatures_Ok_iff split: if_splits)

text \<open>An authority that can be checked at all, and what it takes for it to vouch for an image.\<close>

definition usable :: "WAuthority \<Rightarrow> bool" where
  "usable a \<longleftrightarrow> (\<exists>k. WKey a = Some k \<and> PublicKeys k \<noteq> []) \<or> (\<exists>k. WKeyless a = Some k \<and> WURL k \<noteq> None)"

definition vouches ::
  "libs \<Rightarrow> host \<Rightarrow> cluster \<Rightarrow> registry \<Rightarrow> reference \<Rightarrow> ropt \<Rightarrow> WAuthority \<Rightarrow> oci_sig list \<Rightarrow> bool" where
  "vouches L H E R ref kc a sps \<longleftrightarrow>
     (let opts = WithRemoteOptions kc # RemoteOpts a
      in (\<exists>k. WKey a = Some k \<and> PublicKeys k \<noteq> [] \<and> keys_verify L H E R ref (PublicKeys k) opts sps) \<or>
         (\<exists>k url pool rc. WKeyless a = Some k \<and> WURL k = Some url \<and> getFulcioCert L E url = Ok pool \<and>
            verified L H R ref (fulcio_opts L (Some pool) rc (WIdentities k) opts) sps \<and>
            (\<forall>t u. WCTLog a = Some t \<longrightarrow> TLog_URL t = Some u \<longrightarrow> (\<exists>c. rc = Some c \<and> GetRekorClient E u = Ok c))))"

lemma keyless_check_Passed:
  assumes "keyless_check L H E R ref opts a k url = Ok (Passed sps)"
  shows "\<exists>pool rc. getFulcioCert L E url = Ok pool \<and> verified L H R ref (fulcio_opts L (Some pool) rc (WIdentities k) opts) sps \<and>
    (\<forall>t u. WCTLog a = Some t \<longrightarrow> TLog_URL t = Some u \<longrightarrow> (\<exists>c. rc = Some c \<and> GetRekorClient E u = Ok c))"
proof -
  obtain pool rc sps' where pool: "getFulcioCert L E url = Ok pool"
    and rc: "(case WCTLog a of Some ctlog \<Rightarrow> (case TLog_URL ctlog of Some u \<Rightarrow> bindr (GetRekorClient E u) (\<lambda>c. Ok (Some c))
      | None \<Rightarrow> Ok None) | None \<Rightarrow> Ok None) = Ok rc"
    and sps: "validSignaturesWithFulcio L H R ref (Some pool) rc (WIdentities k) opts = Ok sps'" "sps' = sps"
    using assms by (auto simp: keyless_check_def handler_Ok_iff split: if_splits)
  then show ?thesis
    by (auto simp: validSignatures_Ok_iff bindr_Ok_iff split: option.splits)
qed

lemma keyless_check_not_Skipped: "keyless_check L H E R ref opts a k url \<noteq> Ok Skipped"
  by (auto simp: keyless_check_def handler_Ok_iff split: if_splits)

lemma check_authority_Passed:
  assumes "check_authority L H E R ref [WithRemoteOptions kc] a = Ok (Passed sps)"
  shows "vouches L H E R ref kc a sps"
proof (cases "\<exists>k. WKey a = Some k \<and> PublicKeys k \<noteq> []")
  case True
  then show ?thesis
    using assms valid_Ok by (auto simp: check_authority_def vouches_def handler_Ok_iff Let_def split: if_splits)
next
  case False
  then obtain k url where k: "WKeyless a = Some k" "WURL k = Some url"
    "keyless_check L H E R ref ([WithRemoteOptions kc] @ RemoteOpts a) a k url = Ok (Passed sps)"
    using assms by (auto simp: check_authority_def Let_def split: option.splits if_splits)
  show ?thesis
    using keyless_check_Passed [OF k(3)] k(1,2) by (auto simp: vouches_def Let_def)
qed

lemma check_authority_Skipped:
  "check_authority L H E R ref opts a = Ok Skipped \<longleftrightarrow> \<not> usable a"
  using keyless_check_not_Skipped [of L H E R ref]
  by (auto simp: check_authority_def usable_def handler_Ok_iff Let_def split: option.splits if_splits)

lemma try_authorities_passed:
  assumes "try_authorities check as errs = Ok (sps, [])"
  shows "(\<exists>a \<in> set as. check a = Ok (Passed sps)) \<or> errs = [] \<and> (\<forall>a \<in> set as. check a = Ok Skipped)"
  using assms
proof (induction as arbitrary: errs)
  case (Cons a as)
  then obtain r where r: "check a = Ok r"
    by (auto simp: bindr_Ok_iff)
  show ?case
  proof (cases r)
    case (Failed e)
    then show ?thesis
      using Cons.IH [of "errs @ [e]"] Cons.prems r by auto
  next
    case Skipped
    then show ?thesis
      using Cons.IH [of errs] Cons.prems r by auto
  qed (use Cons.prems r in auto)
qed auto

lemma ValidatePolicy_passed:
  assumes "ValidatePolicy L H E R ref kc as [] = Ok (sps, [])"
  shows "(\<exists>a \<in> set as. vouches L H E R ref kc a sps) \<or> (\<forall>a \<in> set as. \<not> usable a)"
  using try_authorities_passed [OF assms [unfolded ValidatePolicy_def]] check_authority_Passed [of L H E R ref kc _ sps]
  by (simp add: check_authority_Skipped) blast

lemma ValidatePolicy_unusable:
  assumes "\<forall>a \<in> set as. \<not> usable a"
  shows "ValidatePolicy L H E R ref kc as [] = Ok ([], [])"
proof -
  have "try_authorities (check_authority L H E R ref opts) as [] = Ok ([], [])" for opts
    using assms by (induction as) (auto simp: check_authority_Skipped [THEN iffD2])
  then show ?thesis
    by (simp add: ValidatePolicy_def)
qed

lemma validatePolicies_counts:
  assumes "validatePolicies L H E R ref kc ps = Ok (sg, er)"
  shows "length sg + length er = length ps \<and>
    (er = [] \<longrightarrow> (\<forall>(p, as) \<in> set ps. \<exists>sps. ValidatePolicy L H E R ref kc as [] = Ok (sps, [])))"
  using assms
proof (induction ps arbitrary: sg er)
  case (Cons q ps)
  obtain p as where q: "q = (p, as)"
    by (cases q)
  obtain sps errs sg' er' where step: "ValidatePolicy L H E R ref kc as [] = Ok (sps, errs)"
    "validatePolicies L H E R ref kc ps = Ok (sg', er')"
    "(sg, er) = (if errs \<noteq> [] then (sg', (p, []) # er') else ((p, sps) # sg', er'))"
    using Cons.prems by (auto simp: q bindr_Ok_iff split: if_splits)
  show ?case
    using Cons.IH [OF step(2)] step(1,3) by (auto simp: q split: if_splits)
qed simp

subsection \<open>What admission means\<close>

definition satisfied :: "libs \<Rightarrow> host \<Rightarrow> cluster \<Rightarrow> registry \<Rightarrow> reference \<Rightarrow> ropt \<Rightarrow> WAuthority list \<Rightarrow> bool" where
  "satisfied L H E R ref kc as \<longleftrightarrow>
     (\<exists>a \<in> set as. \<exists>sps. vouches L H E R ref kc a sps) \<or> (\<forall>a \<in> set as. \<not> usable a)"

definition admissible ::
  "libs \<Rightarrow> host \<Rightarrow> cluster \<Rightarrow> registry \<Rightarrow> ImagePolicyConfig option option \<Rightarrow> ropt \<Rightarrow> pubkey list \<Rightarrow> reference \<Rightarrow> bool" where
  "admissible L H E R config kc keys ref \<longleftrightarrow>
     (\<exists>policies. (case config of None \<Rightarrow> policies = []
                  | Some c \<Rightarrow> GetMatchingPolicies L c (reference_String ref) = Ok policies) \<and>
        (if policies = [] then \<exists>sps. keys_verify L H E R ref keys [WithRemoteOptions kc] sps
         else \<forall>(p, as) \<in> set policies. satisfied L H E R ref kc as))"

lemma handler_Also_None:
  assumes "also_collects A" and "handler m (\<lambda>err. Ok (Also A errs (image_error A field i img err))) f = Ok None"
  shows "\<exists>a. m = Ok a \<and> f a = Ok None"
  using assms(2) by (cases m) (auto simp: also_None [OF assms(1)] image_error_def)

lemma failing_policies_not_None:
  assumes "also_collects A"
  shows "foldl (\<lambda>errs (failingPolicy, _). Also A errs (image_error A field i img (msg failingPolicy))) errs er = None
    \<Longrightarrow> errs = None \<and> er = []"
proof (induction er arbitrary: errs)
  case (Cons e er)
  have "Also A errs (image_error A field i img (msg (fst e))) = None"
    using Cons.IH [of "Also A errs (image_error A field i img (msg (fst e)))"] Cons.prems by (simp add: split_beta)
  then show ?case
    by (simp add: also_None [OF assms] image_error_def)
qed simp

lemma check_container_policies:
  assumes A: "also_collects A" and ne: "policies \<noteq> []"
    and ok: "bindr (validatePolicies L H E R ref kc policies) (\<lambda>(signatures, fieldErrors).
               if length signatures \<noteq> length policies
               then Ok (foldl (\<lambda>errs (failingPolicy, _). Also A errs
                      (image_error A field i img (ErrorString (''failed policy: '' @ failingPolicy)))) errs fieldErrors)
               else if signatures \<noteq> [] then Ok errs else legacy) = Ok None"
  shows "errs = None \<and> (\<forall>(p, as) \<in> set policies. satisfied L H E R ref kc as)"
proof -
  obtain sg er where v: "validatePolicies L H E R ref kc policies = Ok (sg, er)"
    using ok by (auto simp: bindr_Ok_iff)
  note counts = validatePolicies_counts [OF v]
  have "er = []"
  proof (rule ccontr)
    assume "er \<noteq> []"
    then have "length sg \<noteq> length policies"
      using counts by auto
    then show False
      using ok v \<open>er \<noteq> []\<close> 
        failing_policies_not_None [OF A, where msg = "\<lambda>p. ErrorString (''failed policy: '' @ p)" and errs = errs and er = er]
      by fastforce
  qed
  then have sg: "length sg = length policies"
    using counts by simp
  then have "sg \<noteq> []"
    using ne by auto
  then have "errs = None"
    using ok v sg by simp
  moreover have "satisfied L H E R ref kc as" if "(p, as) \<in> set policies" for p as
    using counts \<open>er = []\<close> that ValidatePolicy_passed [of L H E R ref kc as] by (fastforce simp: satisfied_def)
  ultimately show ?thesis
    by auto
qed

lemma check_container_None:
  assumes A: "also_collects A" and ok: "check_container L H A E R config kc keys field i img errs = Ok None"
  shows "errs = None \<and> (\<exists>repo d. ParseReference E img = Ok (DigestRef repo d) \<and>
    admissible L H E R config kc keys (DigestRef repo d))"
proof -
  obtain repo d where p: "ParseReference E img = Ok (DigestRef repo d)"
    using ok by (cases "ParseReference E img")
      (auto simp: check_container_def also_None [OF A] ViaFieldIndex_def split: reference.splits)
  let ?ref = "DigestRef repo d"
  let ?last = "handler (valid L H E R ?ref keys [WithRemoteOptions kc])
     (\<lambda>err. Ok (Also A errs (image_error A field i img err))) (\<lambda>_. Ok errs)"
  have last: "errs = None \<and> (\<exists>sps. keys_verify L H E R ?ref keys [WithRemoteOptions kc] sps)" if "?last = Ok None"
    using handler_Also_None [OF A that] by (blast intro: valid_Ok dest: res.inject(1) [THEN iffD1])
  show ?thesis
  proof (cases config)
    case None
    then have "?last = Ok None"
      using ok p by (simp add: check_container_def Let_def)
    then show ?thesis
      using last p None by (auto simp: admissible_def)
  next
    case (Some c)
    let ?rest = "\<lambda>policies. if policies = [] then ?last
       else bindr (validatePolicies L H E R ?ref kc policies) (\<lambda>(signatures, fieldErrors).
           if length signatures \<noteq> length policies
           then Ok (foldl (\<lambda>errs (failingPolicy, _). Also A errs
                  (image_error A field i img (ErrorString (''failed policy: '' @ failingPolicy)))) errs fieldErrors)
           else if signatures \<noteq> [] then Ok errs else ?last)"
    have "handler (GetMatchingPolicies L c (reference_String ?ref))
        (\<lambda>err. Ok (Also A errs (image_error A field i img err))) ?rest = Ok None"
      using ok p Some by (simp only: check_container_def Let_def handler.simps reference.case option.case)
    from handler_Also_None [OF A this] obtain policies
      where pol: "GetMatchingPolicies L c (reference_String ?ref) = Ok policies" and rest: "?rest policies = Ok None"
      by blast
    show ?thesis
    proof (cases "policies = []")
      case True
      then show ?thesis
        using last rest p pol Some by (auto simp: admissible_def)
    next
      case False
      then show ?thesis
        using check_container_policies [OF A False, where errs = errs and legacy = ?last] rest p pol Some
        by (auto simp: admissible_def)
    qed
  qed
qed

lemma check_containers_None:
  assumes "\<And>i img errs. check i img errs = Ok None \<Longrightarrow> errs = None \<and> P img"
    and "check_containers check i imgs errs = Ok None"
  shows "errs = None \<and> (\<forall>img \<in> set imgs. P img)"
  using assms(2)
  by (induction imgs arbitrary: i errs) (auto simp: bindr_Ok_iff dest!: assms(1))

lemma check_field_None:
  assumes "also_collects A"
    and "check_containers (check_container L H A E R config kc keys field) i imgs errs = Ok None"
  shows "errs = None \<and> (\<forall>img \<in> set imgs. \<exists>repo d. ParseReference E img = Ok (DigestRef repo d) \<and>
    admissible L H E R config kc keys (DigestRef repo d))"
  using assms(2) by (rule check_containers_None [rotated]) (rule check_container_None [OF assms(1)])

lemma admitted:
  assumes A: "also_collects A" and ok: "validatePodSpec L H A E R config ns ps = Ok None"
  shows "\<exists>kc data keys. k8schain_New E ns (ServiceAccountName ps) (ImagePullSecrets ps) = Ok kc \<and>
    Secret_Data E = Ok data \<and> getKeys L data = Ok keys \<and>
    (\<forall>img \<in> set (InitContainers ps @ Containers ps). \<exists>repo d. ParseReference E img = Ok (DigestRef repo d) \<and>
       admissible L H E R config kc keys (DigestRef repo d))"
proof -
  obtain kc data keys errs where env: "k8schain_New E ns (ServiceAccountName ps) (ImagePullSecrets ps) = Ok kc"
    "Secret_Data E = Ok data" "getKeys L data = Ok keys"
    and inits: "check_containers (check_container L H A E R config kc keys ''initContainers'') 0 (InitContainers ps) None = Ok errs"
    and cs: "check_containers (check_container L H A E R config kc keys ''containers'') 0 (Containers ps) errs = Ok None"
    using ok by (auto simp: validatePodSpec_def res_simps)
  note cs = check_field_None [OF A cs]
  moreover note check_field_None [OF A inits [unfolded conjunct1 [OF cs]]]
  ultimately show ?thesis
    using env by auto
qed


definition sample_cluster :: cluster where
  "sample_cluster =
     \<lparr>k8schain_New = (\<lambda>_ _ _. Ok []), Secret_Data = Ok [(''cosign.pub'', ''k'')],
      ParseReference = (\<lambda>s. if s = ''app'' then Ok (DigestRef ''registry/app'' ''sha256:ab'') else Ok (Tag s ''latest'')),
      fulcio_RootCert = (\<lambda>_. Ok ''root''), GetRekorClient = (\<lambda>_. Err (LibError ''no rekor'')), roots_state = once_init\<rparr>"

definition sample_pod :: PodSpec where
  "sample_pod = \<lparr>InitContainers = [], Containers = [''app''], ImagePullSecrets = [], ServiceAccountName = ''sa''\<rparr>"

abbreviation sample_claim :: oci_sig where
  "sample_claim \<equiv> sample_stored ''sha256:ab''"

abbreviation sample_pod_opts :: "remote_option list \<Rightarrow> CheckOpts" where
  "sample_pod_opts opts \<equiv> key_opts sample_libs (sample_verifier (ECDSAKey ''k'')) opts"

lemma sample_claim_accepted:
  "accepted sample_libs H verifyOCISignature (sample_pod_opts opts) \<lparr>Algorithm = ''sha256'', Hex = ''ab''\<rparr> sample_claim"
proof -
  have "verifyOCISignature (sample_verifier (ECDSAKey ''k'')) sample_claim = Ok ()"
    by (simp add: verifyOCISignature_def sample_verifier_def)
  moreover have "SimpleClaimVerifier sample_libs sample_claim \<lparr>Algorithm = ''sha256'', Hex = ''ab''\<rparr> None = Ok ()"
    by (simp add: SimpleClaimVerifier_Ok_iff) (simp add: sample_libs_def hash_String_def)
  moreover have "VerifyBundle sample_libs H sample_claim = Ok False"
    by (simp add: VerifyBundle_def)
  ultimately show ?thesis
    by (simp add: accepted_def verifier_for_def transparent_def key_opts_def zero_CheckOpts_def)
qed

lemma sample_claim_verified:
  "fst (VerifyImageSignatures sample_libs H (published ''sha256:ab'') ref (sample_pod_opts opts)) = Ok ([sample_claim], False)"
proof -
  have co: "SignatureRef (sample_pod_opts opts) = []" "SigVerifier (sample_pod_opts opts) \<noteq> None"
    "RegistryClientOpts (sample_pod_opts opts) = opts"
    by (simp_all add: key_opts_def zero_CheckOpts_def)
  have "fst (VerifyImageSignature sample_libs H sample_claim \<lparr>Algorithm = ''sha256'', Hex = ''ab''\<rparr> (sample_pod_opts opts)) \<noteq> Panic p" for p
    by (simp add: verify_one_eqs verify_one_Ok_iff [THEN iffD2, OF conjI [OF _ refl]] sample_claim_accepted)
  moreover have "checks_to sample_libs H verifyOCISignature (sample_pod_opts opts) \<lparr>Algorithm = ''sha256'', Hex = ''ab''\<rparr>
      [sample_claim] ([sample_claim], False)"
    by (simp add: checks_to_def sample_claim_accepted) (simp add: VerifyBundle_def)
  ultimately show ?thesis
    using sample_published [of "''sha256:ab''" ref opts] co
    by (auto simp: VerifyImageSignatures_def res_simps verifySignatures_Ok_iff nil_list_def)
qed

lemma sample_keys: "getKeys sample_libs [(''cosign.pub'', ''k'')] = Ok [ECDSAKey ''k'']"
  by (simp add: getKeys_def parsePems_def mget_def sample_libs_def)

lemma sample_pod_admitted:
  "validatePodSpec sample_libs sample_host sample_apis sample_cluster (published ''sha256:ab'') None ''ns'' sample_pod = Ok None"
proof -
  have "LoadVerifier sample_libs (ECDSAKey ''k'') = Ok (sample_verifier (ECDSAKey ''k''))"
    by (simp add: sample_libs_def)
  then have "valid sample_libs sample_host sample_cluster (published ''sha256:ab'') ref [ECDSAKey ''k''] opts = Ok [sample_claim]" for ref opts
    by (simp add: valid_def validSignatures_def sample_claim_verified)
  then have "check_container sample_libs sample_host sample_apis sample_cluster (published ''sha256:ab'') None [] [ECDSAKey ''k''] field i ''app'' None = Ok None" for field i
    by (simp add: check_container_def sample_cluster_def Let_def)
  then show ?thesis
    by (simp add: validatePodSpec_def sample_pod_def) (simp add: sample_cluster_def sample_keys)
qed


lemma unusable_policies_admit:
  assumes "ParseReference E img = Ok (DigestRef repo d)"
    and "GetMatchingPolicies L c (reference_String (DigestRef repo d)) = Ok policies" and "policies \<noteq> []"
    and "\<forall>(p, as) \<in> set policies. \<forall>a \<in> set as. \<not> usable a"
  shows "check_container L H A E R (Some c) kc keys field i img errs = Ok errs"
proof -
  have "validatePolicies L H E R ref kc ps = Ok (map (\<lambda>(p, _). (p, [])) ps, [])"
    if "\<forall>(p, as) \<in> set ps. \<forall>a \<in> set as. \<not> usable a" for ps ref
    using that by (induction ps) (auto simp: ValidatePolicy_unusable)
  from this [OF assms(4)] show ?thesis
    using assms(1-3) by (simp add: check_container_def Let_def del: reference_String.simps)
qed

text \<open>C36. A policy without a usable authority admits everything. If the image is given by digest, some
  policy matches it, and no authority of a matching policy has a parsed key or a Fulcio URL, then the
  container is accepted without any look at the registry and whatever the secret's keys are.\<close>

theorem unusable_authorities_admit:
  assumes "ParseReference E img = Ok (DigestRef repo d)"
    and "GetMatchingPolicies L c (reference_String (DigestRef repo d)) = Ok policies" and "policies \<noteq> []"
    and "\<forall>(p, as) \<in> set policies. \<forall>a \<in> set as. \<not> usable a"
  shows "check_container L H A E R (Some c) kc keys field i img errs = Ok errs"
  using assms by (rule unusable_policies_admit)

lemma sample_parse: "ParseReference sample_cluster ''app'' = Ok (DigestRef ''registry/app'' ''sha256:ab'')"
  by (simp add: sample_cluster_def)

theorem unusable_authorities_admit_witness:
  "check_container sample_libs sample_host sample_apis sample_cluster sample_registry
     (Some (Some [(''p'', \<lparr>WImages = [\<lparr>Glob = ''registry/*'', Regex = []\<rparr>], WAuthorities = []\<rparr>)])) [] [] ''containers'' 0 ''app'' None
    = Ok None"
proof -
  let ?w = "\<lparr>WImages = [\<lparr>Glob = ''registry/*'', Regex = []\<rparr>], WAuthorities = []\<rparr> :: WClusterImagePolicy"
  have "GetMatchingPolicies sample_libs (Some [(''p'', ?w)]) (reference_String (DigestRef ''registry/app'' ''sha256:ab'')) = Ok [(''p'', [])]"
    using matching_policies [of "[(''p'', ?w)]" sample_libs]
    by (simp add: pattern_error_def matched_entry_def pattern_matches_def map_filter_simps has_suffix_def)
  then show ?thesis
    by (rule unusable_authorities_admit [OF sample_parse]) simp_all
qed

text \<open>A policy that passes validation may check nothing. If a policy's only authorities are keyless
  ones without a URL (validation accepts a certificate or identities instead), then every image
  given by digest that a pattern of the policy matches is admitted, signed or not.\<close>

theorem keyless_without_URL_admits:
  assumes "also_collects A'" and "ClusterImagePolicy_Validate L A' spec = Ok None"
    and "\<forall>a \<in> set (Authorities spec). \<exists>k. Keyless a = Some k \<and> URL k = None"
    and "ParseReference E img = Ok (DigestRef repo d)"
    and "q \<in> set (Images spec)" and "pattern_matches L (reference_String (DigestRef repo d)) q"
  shows "check_container L H A E R (Some (Some [(name, ConvertClusterImagePolicyV1alpha1ToWebhook spec)])) kc keys field i img errs
    = Ok errs"
proof -
  let ?w = "ConvertClusterImagePolicyV1alpha1ToWebhook spec" and ?n = "reference_String (DigestRef repo d)"
  have wf: "wf_policy L spec"
    using Spec_wf [OF assms(1,2)] .
  have none: "\<not> usable a" if "a \<in> set (WAuthorities ?w)" for a
    using assms(3) wf that
    by (fastforce simp: ConvertClusterImagePolicyV1alpha1ToWebhook_def convertAuthority_def convertKeylessRef_def
        convertKeyRef_def usable_def wf_policy_def wf_authority_def)
  have patterns: "\<not> pattern_error L x" if "x \<in> set (WImages ?w)" for x
    using wf that by (auto simp: ConvertClusterImagePolicyV1alpha1ToWebhook_def wf_policy_def wf_pattern_def pattern_error_def)
  have "filter (pattern_matches L ?n) (WImages ?w) \<noteq> []"
    using assms(5,6) by (auto simp: ConvertClusterImagePolicyV1alpha1ToWebhook_def filter_empty_conv)
  then obtain as where as: "matched_entry L ?n ?w = Some as" "set as \<subseteq> set (WAuthorities ?w)"
    by (auto simp: matched_entry_def Let_def set_replicate_conv_if)
  have "GetMatchingPolicies L (Some [(name, ?w)]) ?n = Ok [(name, as)]"
    using matching_policies [of "[(name, ?w)]" L ?n] patterns as(1) by (simp add: map_filter_simps)
  then show ?thesis
    using as(2) none by (intro unusable_policies_admit [OF assms(4)]) auto
qed

theorem keyless_without_URL_admits_witness:
  "check_container sample_libs sample_host sample_apis sample_cluster sample_registry
     (Some (Some [(''p'', ConvertClusterImagePolicyV1alpha1ToWebhook sample_keyless_spec)])) [] [] ''containers'' 0 ''app'' None = Ok None"
proof -
  have wf: "wf_policy sample_libs sample_keyless_spec"
    by (simp add: wf_policy_def wf_pattern_def wf_glob_iff wf_authority_def wf_keyless_def sample_keyless_spec_def
        has_suffix_def)
  then have "ClusterImagePolicy_Validate sample_libs sample_apis sample_keyless_spec = Ok None"
    using Validate_None_iff [OF sample_also] by blast
  then show ?thesis
    by (rule keyless_without_URL_admits [OF sample_also _ _ sample_parse, where q = "\<lparr>Glob = ''registry/*'', Regex = []\<rparr>"])
       (simp_all add: sample_keyless_spec_def pattern_matches_def has_suffix_def)
qed

end
