(* ===== verification/GoState.thy ===== *)
theory GoState
  imports GoLib
begin

section \<open>Prelude: functions with effects\<close>

text \<open>
  A function that reads and changes a state returns its result and the new state. The state is also
  there after an error or a panic: what was written before stays written. The combinators follow
  the sources: a call whose error is returned (\<open>bindS\<close>), one whose error the code looks at
  (\<open>handleS\<close>), a loop that stops at the first error (\<open>mapS\<close>). \<open>hoare P m Q R\<close> says that \<open>m\<close>,
  started in a state with \<open>P\<close>, ends in \<open>Q\<close> of the value and the state if it succeeds, else in \<open>R\<close>.
\<close>

type_synonym ('s, 'a) stm = "'s \<Rightarrow> 'a res \<times> 's"

named_theorems stm_simps \<open>outcomes of functions with effects\<close>
named_theorems hoare_rules \<open>rules of the program logic, one for each combinator\<close>

definition retS :: "'a \<Rightarrow> ('s, 'a) stm" where
  "retS a s = (Ok a, s)"

definition failS :: "gerror \<Rightarrow> ('s, 'a) stm" where
  "failS e s = (Err e, s)"

definition liftS :: "'a res \<Rightarrow> ('s, 'a) stm" where
  "liftS r s = (r, s)"

definition readS :: "('s \<Rightarrow> 'a res) \<Rightarrow> ('s, 'a) stm" where
  "readS f s = (f s, s)"

definition bindS :: "('s, 'a) stm \<Rightarrow> ('a \<Rightarrow> ('s, 'b) stm) \<Rightarrow> ('s, 'b) stm" where
  "bindS m f s = (case m s of (Ok a, s') \<Rightarrow> f a s' | (Err e, s') \<Rightarrow> (Err e, s') | (Panic p, s') \<Rightarrow> (Panic p, s'))"

definition handleS :: "('s, 'a) stm \<Rightarrow> (gerror \<Rightarrow> ('s, 'b) stm) \<Rightarrow> ('a \<Rightarrow> ('s, 'b) stm) \<Rightarrow> ('s, 'b) stm" where
  "handleS m h f s = (case m s of (Ok a, s') \<Rightarrow> f a s' | (Err e, s') \<Rightarrow> h e s' | (Panic p, s') \<Rightarrow> (Panic p, s'))"

fun mapS :: "('a \<Rightarrow> ('s, 'b) stm) \<Rightarrow> 'a list \<Rightarrow> ('s, 'b list) stm" where
  "mapS f [] = retS []"
| "mapS f (x # xs) = bindS (f x) (\<lambda>y. bindS (mapS f xs) (\<lambda>ys. retS (y # ys)))"

subsection \<open>Outcomes\<close>

lemma retS_simps [simp]: "retS a s = (Ok a, s)" "failS e s = (Err e, s)" "liftS r s = (r, s)" "readS f s = (f s, s)"
  by (simp_all add: retS_def failS_def liftS_def readS_def)

lemma bindS_Ok [simp]: "m s = (Ok a, s') \<Longrightarrow> bindS m f s = f a s'"
  by (simp add: bindS_def)

lemma bindS_Err [simp]: "m s = (Err e, s') \<Longrightarrow> bindS m f s = (Err e, s')"
  by (simp add: bindS_def)

lemma handleS_Ok [simp]: "m s = (Ok a, s') \<Longrightarrow> handleS m h f s = f a s'"
  by (simp add: handleS_def)

lemma handleS_Err [simp]: "m s = (Err e, s') \<Longrightarrow> handleS m h f s = h e s'"
  by (simp add: handleS_def)

lemma bindS_Ok_iff [stm_simps]:
  "bindS m f s = (Ok b, t) \<longleftrightarrow> (\<exists>a s'. m s = (Ok a, s') \<and> f a s' = (Ok b, t))"
  by (auto simp: bindS_def split: prod.splits res.splits)

lemma handleS_Ok_iff [stm_simps]:
  "handleS m h f s = (Ok b, t) \<longleftrightarrow>
     (\<exists>a s'. m s = (Ok a, s') \<and> f a s' = (Ok b, t)) \<or> (\<exists>e s'. m s = (Err e, s') \<and> h e s' = (Ok b, t))"
  by (auto simp: handleS_def split: prod.splits res.splits)

lemma bindS_cong [fundef_cong]:
  assumes "m s = m' s'" and "\<And>a t. m' s' = (Ok a, t) \<Longrightarrow> f a t = g a t"
  shows "bindS m f s = bindS m' g s'"
  using assms by (auto simp: bindS_def split: prod.splits res.splits)

lemma mapS_Ok:
  assumes "mapS f xs s = (Ok ys, t)"
  shows "list_all2 (\<lambda>x y. \<exists>s t. f x s = (Ok y, t)) xs ys"
  using assms by (induction xs arbitrary: ys s) (fastforce simp: stm_simps)+

subsection \<open>A program logic\<close>

definition hoare :: "('s \<Rightarrow> bool) \<Rightarrow> ('s, 'a) stm \<Rightarrow> ('a \<Rightarrow> 's \<Rightarrow> bool) \<Rightarrow> ('s \<Rightarrow> bool) \<Rightarrow> bool" where
  "hoare P m Q R \<longleftrightarrow> (\<forall>s. P s \<longrightarrow> (case m s of (Ok a, s') \<Rightarrow> Q a s' | (_, s') \<Rightarrow> R s'))"

lemma hoareI:
  assumes "\<And>s a s'. P s \<Longrightarrow> m s = (Ok a, s') \<Longrightarrow> Q a s'"
    and "\<And>s r s'. P s \<Longrightarrow> m s = (r, s') \<Longrightarrow> \<not> is_ok r \<Longrightarrow> R s'"
  shows "hoare P m Q R"
  unfolding hoare_def
proof (intro allI impI)
  fix s assume P: "P s"
  obtain r s' where m: "m s = (r, s')"
    by (cases "m s")
  show "case m s of (Ok a, s') \<Rightarrow> Q a s' | (_, s') \<Rightarrow> R s'"
    using assms(1) [OF P, of _ s'] assms(2) [OF P m] m by (cases r) auto
qed

lemma hoareD:
  assumes "hoare P m Q R" and "P s"
  shows "m s = (Ok a, s') \<Longrightarrow> Q a s'" and "m s = (r, s') \<Longrightarrow> \<not> is_ok r \<Longrightarrow> R s'"
  using assms by (cases r; fastforce simp: hoare_def)+

lemma hoare_ends:
  assumes "hoare P m (\<lambda>_. R) R" and "P s"
  shows "R (snd (m s))"
  using assms unfolding hoare_def by (cases "m s"; cases "fst (m s)") auto

lemma hoare_return [hoare_rules]:
  "hoare (Q a) (retS a) Q R" "hoare R (failS e) Q R"
  by (simp_all add: hoare_def)

lemma hoare_simps:
  "hoare P (retS a) Q R \<longleftrightarrow> (\<forall>s. P s \<longrightarrow> Q a s)" "hoare P (failS e) Q R \<longleftrightarrow> (\<forall>s. P s \<longrightarrow> R s)"
  by (simp_all add: hoare_def)

lemma hoare_lift [hoare_rules]: "hoare (\<lambda>s. (\<forall>a. r = Ok a \<longrightarrow> Q a s) \<and> R s) (liftS r) Q R"
  by (auto simp: hoare_def split: res.splits)

lemma hoare_read [hoare_rules]: "hoare (\<lambda>s. (\<forall>a. f s = Ok a \<longrightarrow> Q a s) \<and> R s) (readS f) Q R"
  by (auto simp: hoare_def split: res.splits)

lemma hoare_bind [hoare_rules]:
  assumes "hoare P m Q R" and "\<And>a. hoare (Q a) (f a) Q' R"
  shows "hoare P (bindS m f) Q' R"
proof (rule hoareI)
  fix s b t assume "P s" "bindS m f s = (Ok b, t)"
  then show "Q' b t"
    using hoareD(1) [OF assms(1)] hoareD(1) [OF assms(2)] by (auto simp: stm_simps) blast
next
  fix s r t assume *: "P s" "bindS m f s = (r, t)" "\<not> is_ok r"
  obtain x s' where m: "m s = (x, s')"
    by (cases "m s")
  show "R t"
    using * m hoareD [OF assms(1) \<open>P s\<close>] hoareD(2) [OF assms(2), of _ s' r t] by (cases x) (auto simp: bindS_def)
qed

lemma hoare_handle [hoare_rules]:
  assumes "hoare P m Q R" and "\<And>e. hoare R (h e) Q' R'" and "\<And>a. hoare (Q a) (f a) Q' R'" and "\<And>s. R s \<Longrightarrow> R' s"
  shows "hoare P (handleS m h f) Q' R'"
proof (rule hoareI)
  fix s b t assume *: "P s" "handleS m h f s = (Ok b, t)"
  then show "Q' b t"
    using hoareD [OF assms(1) \<open>P s\<close>] hoareD(1) [OF assms(2)] hoareD(1) [OF assms(3)]
    by (fastforce simp: stm_simps)
next
  fix s r t assume *: "P s" "handleS m h f s = (r, t)" "\<not> is_ok r"
  obtain x s' where m: "m s = (x, s')"
    by (cases "m s")
  show "R' t"
    using * m hoareD [OF assms(1) \<open>P s\<close>] hoareD(2) [OF assms(2), of s' _ r t] hoareD(2) [OF assms(3), of _ s' r t] assms(4)
    by (cases x) (auto simp: handleS_def)
qed

lemma hoare_weaken:
  assumes "hoare P m Q R" and "\<And>s. P' s \<Longrightarrow> P s" and "\<And>a s. Q a s \<Longrightarrow> Q' a s" and "\<And>s. R s \<Longrightarrow> R' s"
  shows "hoare P' m Q' R'"
  using assms unfolding hoare_def by (fastforce split: prod.splits res.splits)

lemma hoare_map [hoare_rules]:
  assumes "\<And>x. hoare P (f x) (\<lambda>_. P) P"
  shows "hoare P (mapS f xs) (\<lambda>_. P) P"
proof (induction xs)
  case (Cons x xs)
  show ?case
    using assms Cons by (auto intro!: hoare_bind hoare_return)
qed (simp add: hoare_def)

lemma hoare_cases [hoare_rules]:
  "(b \<Longrightarrow> hoare P m Q R) \<Longrightarrow> (\<not> b \<Longrightarrow> hoare P m' Q R) \<Longrightarrow> hoare P (if b then m else m') Q R"
  "(\<And>a. x = Some a \<Longrightarrow> hoare P (f a) Q R) \<Longrightarrow> (x = None \<Longrightarrow> hoare P m Q R) \<Longrightarrow>
     hoare P (case x of None \<Rightarrow> m | Some a \<Rightarrow> f a) Q R"
  by (auto split: option.splits)

end
