(* ===== verification/Reconciler.thy ===== *)
theory Reconciler
  imports Policy_Config GoState "HOL-Library.List_Lexorder" "HOL-Library.Char_ord"
begin

section \<open>The reconciler of cluster image policies\<close>

text \<open>
  \<open>pkg/reconciler/clusterimagepolicy\<close>: from a policy resource to its entry in the config map that the
  webhook reads; \<open>resources/configmap.go\<close>; and the generated reconciler that calls it and
  manages the finalizer. The state is that of the cluster, of any type; the API server, the listers
  and the tracker are the parameter \<open>kube\<close>. The listers may lag behind the server. Events for the recorder
  and log lines are not modelled.
\<close>

subsection \<open>Resources\<close>

record ConfigMap =
  cm_Data :: "(string, string) gomap option"

record cip_object =
  cip_Spec :: ClusterImagePolicySpec
  cip_DeletionTimestamp :: "time option"
  cip_Finalizers :: "string list"
  cip_ResourceVersion :: string

datatype EventType = EventTypeNormal | EventTypeWarning

text \<open>
  \<open>duck_CreatePatch\<close> gives the operations of a JSON patch, each as its text. \<open>EventAs\<close> finds an event
  in an error; \<open>is_event\<close> says that the error itself is one.
\<close>

record 's kube =
  TrackReference :: "string \<Rightarrow> string \<Rightarrow> ('s, unit) stm"
  Secrets_Get :: "string \<Rightarrow> 's \<Rightarrow> (string, bytes) gomap res"
  ConfigMaps_Get :: "'s \<Rightarrow> ConfigMap res"
  ConfigMaps_Create :: "ConfigMap \<Rightarrow> ('s, unit) stm"
  ConfigMaps_Patch :: "bytes \<Rightarrow> ('s, unit) stm"
  Policies_Get :: "string \<Rightarrow> 's \<Rightarrow> cip_object res"
  Policies_Patch :: "string \<Rightarrow> string list \<Rightarrow> string \<Rightarrow> ('s, cip_object) stm"
  duck_CreatePatch :: "ConfigMap \<Rightarrow> ConfigMap \<Rightarrow> bytes list res"
  patch_MarshalJSON :: "bytes list \<Rightarrow> bytes res"
  Marshal_policy :: "WClusterImagePolicy \<Rightarrow> string res"
  kms_Get :: "string \<Rightarrow> verifier res"
  SplitMetaNamespaceKey :: "string \<Rightarrow> (string \<times> string) res"
  IsLeaderFor :: "string \<Rightarrow> string \<Rightarrow> bool"
  EventAs :: "gerror \<Rightarrow> EventType option"
  is_event :: "gerror \<Rightarrow> bool"

subsection \<open>The config map\<close>

definition marshal :: "'s kube \<Rightarrow> WClusterImagePolicy \<Rightarrow> string res" where
  "marshal K spec = Marshal_policy K spec"

definition NewConfigMap :: "'s kube \<Rightarrow> string \<Rightarrow> WClusterImagePolicy \<Rightarrow> ConfigMap res" where
  "NewConfigMap K cipName cip =
     bindr (marshal K cip) (\<lambda>entry. Ok \<lparr>cm_Data = Some [(cipName, entry)]\<rparr>)"

definition patch_bytes :: "'s kube \<Rightarrow> ConfigMap \<Rightarrow> ConfigMap \<Rightarrow> bytes res" where
  "patch_bytes K cm after =
     bindr (wrapr ''creating JSON patch'' (duck_CreatePatch K cm after)) (\<lambda>jsonPatch.
     if jsonPatch = [] then Ok [] else patch_MarshalJSON K jsonPatch)"

definition CreatePatch :: "'s kube \<Rightarrow> string \<Rightarrow> ConfigMap \<Rightarrow> WClusterImagePolicy \<Rightarrow> bytes res" where
  "CreatePatch K cipName cm cip =
     bindr (marshal K cip) (\<lambda>entry.
     patch_bytes K cm \<lparr>cm_Data = Some (mset_key cipName entry (nil_list (cm_Data cm)))\<rparr>)"

definition CreateRemovePatch :: "'s kube \<Rightarrow> ConfigMap \<Rightarrow> string \<Rightarrow> bytes res" where
  "CreateRemovePatch K cm cipName =
     patch_bytes K cm \<lparr>cm_Data = map_option (mdelete cipName) (cm_Data cm)\<rparr>"

subsection \<open>Keys\<close>

definition getKMSPublicKey :: "libs \<Rightarrow> 's kube \<Rightarrow> string \<Rightarrow> string res" where
  "getKMSPublicKey L K keyID = bindr (kms_Get K keyID) (PublicKeyPem L)"

definition inlineAndTrackSecret :: "libs \<Rightarrow> 's kube \<Rightarrow> string \<Rightarrow> string \<Rightarrow> KeyRef \<Rightarrow> ('s, KeyRef) stm" where
  "inlineAndTrackSecret L K cip secretName keyref =
     handleS (TrackReference K secretName cip)
       (\<lambda>err. failS (Wrapped err (''failed to track changes to secret '' @ secretName))) (\<lambda>_.
     bindS (readS (Secrets_Get K secretName)) (\<lambda>data.
     case data of
       [] \<Rightarrow> failS (ErrorString (''secret '' @ secretName @ '' contains no data''))
     | [(k, v)] \<Rightarrow>
         bindS (liftS (IsValidKey L v)) (\<lambda>valid.
         if \<not> valid then failS (ErrorString (''secret '' @ secretName @ '' contains an invalid public key''))
         else retS (keyref\<lparr>Data := v, SecretRef := None\<rparr>))
     | _ \<Rightarrow> failS (ErrorString (''secret '' @ secretName @ '' contains multiple data entries, only one is supported''))))"

text \<open>The three steps of the loop body; the pointers of the deep copy are not shared.\<close>

definition inline_secret :: "libs \<Rightarrow> 's kube \<Rightarrow> string \<Rightarrow> KeyRef option \<Rightarrow> ('s, KeyRef option) stm" where
  "inline_secret L K cip key =
     (case key of
        None \<Rightarrow> retS key
      | Some k \<Rightarrow> (case SecretRef k of
          None \<Rightarrow> retS key
        | Some secretName \<Rightarrow> bindS (inlineAndTrackSecret L K cip secretName k) (\<lambda>k'. retS (Some k'))))"

definition inline_KMS :: "libs \<Rightarrow> 's kube \<Rightarrow> KeyRef option \<Rightarrow> ('s, KeyRef option) stm" where
  "inline_KMS L K key =
     (case key of
        None \<Rightarrow> retS key
      | Some k \<Rightarrow>
          if KMS k \<noteq> [] \<and> contains (KMS k) ''://''
          then bindS (liftS (getKMSPublicKey L K (KMS k))) (\<lambda>pubKeyString. retS (Some (k\<lparr>Data := pubKeyString, KMS := []\<rparr>)))
          else retS key)"

definition inline_authority :: "libs \<Rightarrow> 's kube \<Rightarrow> string \<Rightarrow> Authority \<Rightarrow> ('s, Authority) stm" where
  "inline_authority L K cip a =
     bindS (inline_secret L K cip (Key a)) (\<lambda>key.
     bindS (case Keyless a of
              None \<Rightarrow> retS None
            | Some k \<Rightarrow> bindS (inline_secret L K cip (CACert k)) (\<lambda>ca. retS (Some (k\<lparr>CACert := ca\<rparr>)))) (\<lambda>keyless.
     bindS (inline_KMS L K key) (\<lambda>key'.
     retS (a\<lparr>Key := key', Keyless := keyless\<rparr>))))"

definition inlinePublicKeys :: "libs \<Rightarrow> 's kube \<Rightarrow> string \<Rightarrow> ClusterImagePolicySpec \<Rightarrow> ('s, ClusterImagePolicySpec) stm" where
  "inlinePublicKeys L K cip spec =
     bindS (mapS (inline_authority L K cip) (Authorities spec)) (\<lambda>as. retS (spec\<lparr>Authorities := as\<rparr>))"

subsection \<open>Reconciling a policy\<close>

definition patch_if_any :: "'s kube \<Rightarrow> bytes res \<Rightarrow> ('s, unit) stm" where
  "patch_if_any K patch =
     bindS (liftS patch) (\<lambda>patchBytes. if patchBytes \<noteq> [] then ConfigMaps_Patch K patchBytes else retS ())"

definition removeCIPEntry :: "'s kube \<Rightarrow> ConfigMap \<Rightarrow> string \<Rightarrow> ('s, unit) stm" where
  "removeCIPEntry K cm cipName = patch_if_any K (CreateRemovePatch K cm cipName)"

definition handleCIPError :: "'s kube \<Rightarrow> string \<Rightarrow> ('s, unit) stm" where
  "handleCIPError K cipName =
     handleS (readS (ConfigMaps_Get K)) (\<lambda>_. retS ()) (\<lambda>existing.
     handleS (removeCIPEntry K existing cipName) (\<lambda>_. retS ()) retS)"

definition write_entry :: "'s kube \<Rightarrow> string \<Rightarrow> WClusterImagePolicy \<Rightarrow> ('s, unit) stm" where
  "write_entry K cipName webhookCIP =
     handleS (readS (ConfigMaps_Get K))
       (\<lambda>err. if \<not> IsNotFound err then failS err
              else bindS (liftS (NewConfigMap K cipName webhookCIP)) (ConfigMaps_Create K))
       (\<lambda>existing. patch_if_any K (CreatePatch K cipName existing webhookCIP))"

definition ReconcileKind :: "libs \<Rightarrow> 's kube \<Rightarrow> string \<Rightarrow> ClusterImagePolicySpec \<Rightarrow> ('s, unit) stm" where
  "ReconcileKind L K cipName spec =
     handleS (inlinePublicKeys L K cipName spec)
       (\<lambda>cipErr. bindS (handleCIPError K cipName) (\<lambda>_. failS cipErr))
       (\<lambda>cipCopy. write_entry K cipName (ConvertClusterImagePolicyV1alpha1ToWebhook cipCopy))"

definition FinalizeKind :: "'s kube \<Rightarrow> string \<Rightarrow> ('s, unit) stm" where
  "FinalizeKind K cipName =
     handleS (readS (ConfigMaps_Get K))
       (\<lambda>err. if \<not> IsNotFound err then failS err else retS ())
       (\<lambda>existing. removeCIPEntry K existing cipName)"

subsection \<open>The generated reconciler\<close>

definition finalizerName :: string where
  "finalizerName = ''clusterimagepolicies.cosigned.sigstore.dev''"

text \<open>\<open>sets.NewString(xs...).List()\<close>\<close>

definition sorted_set :: "string list \<Rightarrow> string list" where
  "sorted_set xs = sort (remdups xs)"

definition updateFinalizersFiltered :: "'s kube \<Rightarrow> string \<Rightarrow> cip_object \<Rightarrow> ('s, cip_object) stm" where
  "updateFinalizersFiltered K name resource =
     bindS (readS (Policies_Get K name)) (\<lambda>existing.
     if finalizerName \<in> set (cip_Finalizers resource) \<longleftrightarrow> finalizerName \<in> set (cip_Finalizers existing) then retS resource
     else Policies_Patch K name
       (if finalizerName \<in> set (cip_Finalizers resource) then cip_Finalizers existing @ [finalizerName]
        else sorted_set (removeAll finalizerName (cip_Finalizers existing)))
       (cip_ResourceVersion existing))"

definition setFinalizerIfFinalizer :: "'s kube \<Rightarrow> string \<Rightarrow> cip_object \<Rightarrow> ('s, cip_object) stm" where
  "setFinalizerIfFinalizer K name resource =
     updateFinalizersFiltered K name (resource\<lparr>cip_Finalizers :=
       sorted_set (if cip_DeletionTimestamp resource = None then finalizerName # cip_Finalizers resource
                   else cip_Finalizers resource)\<rparr>)"

definition clearFinalizer :: "'s kube \<Rightarrow> string \<Rightarrow> cip_object \<Rightarrow> gerror option \<Rightarrow> ('s, cip_object) stm" where
  "clearFinalizer K name resource reconcileEvent =
     (if cip_DeletionTimestamp resource = None then retS resource
      else let cleared = (case reconcileEvent of None \<Rightarrow> True | Some e \<Rightarrow> EventAs K e = Some EventTypeNormal)
           in updateFinalizersFiltered K name (resource\<lparr>cip_Finalizers :=
                sorted_set (if cleared then removeAll finalizerName (cip_Finalizers resource) else cip_Finalizers resource)\<rparr>))"

text \<open>What \<open>Reconcile\<close> returns for the event: an event is recorded and swallowed, an error is returned.\<close>

definition report :: "'s kube \<Rightarrow> gerror option \<Rightarrow> ('s, unit) stm" where
  "report K reconcileEvent =
     (case reconcileEvent of
        None \<Rightarrow> retS ()
      | Some e \<Rightarrow> if EventAs K e \<noteq> None \<and> is_event K e then retS () else failS e)"

text \<open>The result of a call that is kept as a value, \<open>nil\<close> or an error.\<close>

definition eventS :: "('s, unit) stm \<Rightarrow> ('s, gerror option) stm" where
  "eventS m = handleS m (\<lambda>e. retS (Some e)) (\<lambda>_. retS None)"

definition Reconcile :: "libs \<Rightarrow> 's kube \<Rightarrow> string \<Rightarrow> ('s, unit) stm" where
  "Reconcile L K key =
     handleS (liftS (SplitMetaNamespaceKey K key)) (\<lambda>_. retS ()) (\<lambda>(namespace, name).
     if \<not> IsLeaderFor K namespace name then failS (LibError (''skip key '' @ key))
     else handleS (readS (Policies_Get K name)) (\<lambda>err. if IsNotFound err then retS () else failS err) (\<lambda>resource.
       if cip_DeletionTimestamp resource = None
       then handleS (setFinalizerIfFinalizer K name resource)
              (\<lambda>err. failS (Wrapped err ''failed to set finalizers'')) (\<lambda>resource'.
            bindS (eventS (ReconcileKind L K name (cip_Spec resource'))) (report K))
       else bindS (eventS (FinalizeKind K name)) (\<lambda>reconcileEvent.
            handleS (clearFinalizer K name resource reconcileEvent)
              (\<lambda>err. failS (Wrapped err ''failed to clear finalizers'')) (\<lambda>_.
            report K reconcileEvent))))"

subsection \<open>What the API documents\<close>

text \<open>
  The laws are about two views of the state: the entries of the config map on the server (none, if
  there is no config map) and the policies on the server. A call that fails may still have had its
  effect, as after a timeout.
\<close>

definition entries :: "ConfigMap \<Rightarrow> string \<rightharpoonup> string" where
  "entries c = map_of (nil_list (cm_Data c))"

type_synonym 's config_view = "'s \<Rightarrow> string \<rightharpoonup> string"
type_synonym 's policy_view = "'s \<Rightarrow> string \<rightharpoonup> cip_object"

definition tracker_documented :: "'s kube \<Rightarrow> 's config_view \<Rightarrow> 's policy_view \<Rightarrow> bool" where
  "tracker_documented K cfg pol \<longleftrightarrow>
     (\<forall>secret cip s r s'. TrackReference K secret cip s = (r, s') \<longrightarrow> cfg s' = cfg s \<and> pol s' = pol s)"

text \<open>Creating the config map fails if there is one.\<close>

definition create_documented :: "'s kube \<Rightarrow> 's config_view \<Rightarrow> 's policy_view \<Rightarrow> bool" where
  "create_documented K cfg pol \<longleftrightarrow>
     (\<forall>cm s r s'. ConfigMaps_Create K cm s = (r, s') \<longrightarrow>
        pol s' = pol s \<and> (cfg s' = cfg s \<and> \<not> is_ok r \<or> cfg s = Map.empty \<and> cfg s' = entries cm))"

text \<open>
  A JSON patch made from the entries \<open>a\<close> and \<open>b\<close>, applied to the entries \<open>m\<close>. It has an operation for each
  entry in which \<open>a\<close> and \<open>b\<close> differ; but where one of them has no entries, the field \<open>data\<close> is absent, and
  the patch adds or removes the whole field.
\<close>

definition patched :: "(string \<rightharpoonup> string) \<Rightarrow> (string \<rightharpoonup> string) \<Rightarrow> (string \<rightharpoonup> string) \<Rightarrow> (string \<rightharpoonup> string)" where
  "patched a b m =
     (if a = b then m else if a = Map.empty \<or> b = Map.empty then b else (\<lambda>k. if a k = b k then m k else b k))"

text \<open>The patch is empty only if the two versions agree. The server may be at any version when it arrives.\<close>

definition patch_documented :: "'s kube \<Rightarrow> 's config_view \<Rightarrow> 's policy_view \<Rightarrow> bool" where
  "patch_documented K cfg pol \<longleftrightarrow>
     (\<forall>a b. duck_CreatePatch K a b = Ok [] \<longrightarrow> entries a = entries b) \<and>
     (\<forall>ops p. patch_MarshalJSON K ops = Ok p \<longrightarrow> p \<noteq> []) \<and>
     (\<forall>a b ops p s r s'. duck_CreatePatch K a b = Ok ops \<and> ops \<noteq> [] \<and> patch_MarshalJSON K ops = Ok p \<and>
        ConfigMaps_Patch K p s = (r, s') \<longrightarrow>
        pol s' = pol s \<and> (cfg s' = cfg s \<and> \<not> is_ok r \<or> cfg s' = patched (entries a) (entries b) (cfg s)))"

text \<open>A merge patch of the finalizers; an object that is being deleted goes with its last finalizer.\<close>

definition with_finalizers :: "cip_object \<Rightarrow> string list \<Rightarrow> string \<Rightarrow> cip_object" where
  "with_finalizers c fins version = c\<lparr>cip_Finalizers := fins, cip_ResourceVersion := version\<rparr>"

definition finalizers_documented :: "'s kube \<Rightarrow> 's config_view \<Rightarrow> 's policy_view \<Rightarrow> bool" where
  "finalizers_documented K cfg pol \<longleftrightarrow>
     (\<forall>name fins version s r s'. Policies_Patch K name fins version s = (r, s') \<longrightarrow>
        cfg s' = cfg s \<and>
        (pol s' = pol s \<and> \<not> is_ok r \<or>
         (\<exists>c v. pol s name = Some c \<and> (is_ok r \<longrightarrow> r = Ok (with_finalizers c fins v)) \<and>
            pol s' = (pol s)(name := if fins = [] \<and> cip_DeletionTimestamp c \<noteq> None then None
                                     else Some (with_finalizers c fins v)))))"

text \<open>The errors of the calls that remove an entry are no events for the recorder.\<close>

definition errors_no_events :: "'s kube \<Rightarrow> bool" where
  "errors_no_events K \<longleftrightarrow>
     (\<forall>s e. ConfigMaps_Get K s = Err e \<longrightarrow> EventAs K e = None) \<and>
     (\<forall>a b e m. duck_CreatePatch K a b = Err e \<longrightarrow> EventAs K (Wrapped e m) = None) \<and>
     (\<forall>ops e. patch_MarshalJSON K ops = Err e \<longrightarrow> EventAs K e = None) \<and>
     (\<forall>p s e s'. ConfigMaps_Patch K p s = (Err e, s') \<longrightarrow> EventAs K e = None)"

definition cluster_documented :: "'s kube \<Rightarrow> 's config_view \<Rightarrow> 's policy_view \<Rightarrow> bool" where
  "cluster_documented K cfg pol \<longleftrightarrow>
     tracker_documented K cfg pol \<and> create_documented K cfg pol \<and> patch_documented K cfg pol \<and>
     finalizers_documented K cfg pol \<and> errors_no_events K"

text \<open>
  The listers read a cache, which may be behind the server; nothing is assumed of it. It is current if it
  shows what is on the server.
\<close>

definition config_current :: "'s kube \<Rightarrow> 's config_view \<Rightarrow> 's \<Rightarrow> bool" where
  "config_current K cfg s \<longleftrightarrow>
     (\<forall>c. ConfigMaps_Get K s = Ok c \<longrightarrow> entries c = cfg s) \<and>
     (\<forall>x. ConfigMaps_Get K s = Err (APINotFound x) \<longrightarrow> cfg s = Map.empty)"

definition listers_in_sync :: "'s kube \<Rightarrow> 's config_view \<Rightarrow> 's policy_view \<Rightarrow> bool" where
  "listers_in_sync K cfg pol \<longleftrightarrow>
     (\<forall>s. config_current K cfg s) \<and> (\<forall>s name c. Policies_Get K name s = Ok c \<longrightarrow> pol s name = Some c)"

lemma IsNotFound_iff: "IsNotFound e \<longleftrightarrow> (\<exists>x. e = APINotFound x)"
  by (cases e) auto

lemma set_sorted_set [simp]: "set (sorted_set xs) = set xs"
  by (simp add: sorted_set_def)

lemma entries_set [simp]:
  "entries \<lparr>cm_Data = Some (mset_key k v (nil_list (cm_Data c)))\<rparr> = (entries c)(k \<mapsto> v)"
  "entries \<lparr>cm_Data = map_option (mdelete k) (cm_Data c)\<rparr> = (entries c)(k := None)"
  "entries \<lparr>cm_Data = Some [(k, v)]\<rparr> = [k \<mapsto> v]"
  by (cases "cm_Data c"; auto simp: entries_def)+

subsection \<open>The effect of each step\<close>

text \<open>
  The effect of writing and of removing an entry depends on what the lister shows: from a cached config map
  the patch has one operation, or none if the cached entry is already as wanted, or it is about the whole
  field, if the cached config map has no entries, or only the one that is removed.
\<close>

definition stored :: "ConfigMap res \<Rightarrow> string \<Rightarrow> string \<Rightarrow> (string \<rightharpoonup> string) \<Rightarrow> (string \<rightharpoonup> string)" where
  "stored cached n e m =
     (case cached of
        Ok c \<Rightarrow> if entries c n = Some e then m else if entries c = Map.empty then [n \<mapsto> e] else m(n \<mapsto> e)
      | _ \<Rightarrow> m(n \<mapsto> e))"

definition dropped :: "ConfigMap res \<Rightarrow> string \<Rightarrow> (string \<rightharpoonup> string) \<Rightarrow> (string \<rightharpoonup> string)" where
  "dropped cached n m =
     (case cached of
        Ok c \<Rightarrow> if entries c n = None then m else if dom (entries c) = {n} then Map.empty else m(n := None)
      | _ \<Rightarrow> m)"

lemma patched_self: "patched a b a = b"
  by (auto simp: patched_def)

lemma patched_put:
  "patched a (a(n \<mapsto> e)) m = (if a n = Some e then m else if a = Map.empty then [n \<mapsto> e] else m(n \<mapsto> e))"
proof -
  have "a = a(n \<mapsto> e) \<longleftrightarrow> a n = Some e"
    by (metis fun_upd_same fun_upd_triv)
  then show ?thesis
    by (auto simp: patched_def fun_eq_iff)
qed

lemma patched_del:
  "patched a (a(n := None)) m = (if a n = None then m else if dom a = {n} then Map.empty else m(n := None))"
proof -
  have "a = a(n := None) \<longleftrightarrow> a n = None"
    by (metis fun_upd_same fun_upd_triv)
  moreover have "a(n := None) = Map.empty \<longleftrightarrow> dom a = {n}" if "a n \<noteq> None"
    using that by (auto simp: fun_eq_iff dom_def split: if_splits)
  ultimately show ?thesis
    by (auto simp: patched_def fun_eq_iff)
qed

text \<open>With a current cache the entry of the policy is set or removed, and nothing else.\<close>

lemma current_effects:
  assumes "config_current K cfg s"
  shows "stored (ConfigMaps_Get K s) n e (cfg s) = (cfg s)(n \<mapsto> e)"
    and "dropped (ConfigMaps_Get K s) n (cfg s) \<in> {cfg s, (cfg s)(n := None)}"
    and "ConfigMaps_Get K s = Ok c \<Longrightarrow> dropped (ConfigMaps_Get K s) n (cfg s) = (cfg s)(n := None)"
proof -
  have c: "entries c = cfg s" if "ConfigMaps_Get K s = Ok c" for c
    using assms that by (simp add: config_current_def)
  show "stored (ConfigMaps_Get K s) n e (cfg s) = (cfg s)(n \<mapsto> e)"
    by (cases "ConfigMaps_Get K s") (auto simp: stored_def c fun_upd_idem)
  have drop: "dropped (ConfigMaps_Get K s) n (cfg s) = (cfg s)(n := None)" if "ConfigMaps_Get K s = Ok c" for c
    unfolding dropped_def that by (simp only: res.case c [OF that] patched_del [symmetric] patched_self)
  then show "ConfigMaps_Get K s = Ok c \<Longrightarrow> dropped (ConfigMaps_Get K s) n (cfg s) = (cfg s)(n := None)" .
  show "dropped (ConfigMaps_Get K s) n (cfg s) \<in> {cfg s, (cfg s)(n := None)}"
    using drop by (cases "ConfigMaps_Get K s") (simp_all add: dropped_def)
qed

lemma patch_if_any_effect:
  assumes doc: "patch_documented K cfg pol" and run: "patch_if_any K (patch_bytes K a b) s = (r, s')"
  shows "pol s' = pol s \<and> (cfg s' = cfg s \<and> \<not> is_ok r \<or> cfg s' = patched (entries a) (entries b) (cfg s))"
proof (cases "s' = s \<and> \<not> is_ok r")
  case False
  then obtain q where q: "patch_bytes K a b = Ok q" "(if q \<noteq> [] then ConfigMaps_Patch K q else retS ()) s = (r, s')"
    using run by (cases "patch_bytes K a b") (auto simp: patch_if_any_def bindS_def)
  then obtain ops where ops: "duck_CreatePatch K a b = Ok ops" "(if ops = [] then Ok [] else patch_MarshalJSON K ops) = Ok q"
    by (auto simp: patch_bytes_def res_simps)
  show ?thesis
  proof (cases "ops = []")
    case True
    then show ?thesis
      using doc ops q by (auto simp: patch_documented_def patched_def)
  next
    case False
    then have "patch_MarshalJSON K ops = Ok q" "ConfigMaps_Patch K q s = (r, s')"
      using ops q doc by (auto simp: patch_documented_def)
    then show ?thesis
      using doc ops(1) False unfolding patch_documented_def by blast
  qed
qed auto

lemma removeCIPEntry_effect:
  assumes "patch_documented K cfg pol" and "removeCIPEntry K c n s = (r, s')"
  shows "pol s' = pol s \<and> (cfg s' = cfg s \<and> \<not> is_ok r \<or> cfg s' = dropped (Ok c) n (cfg s))"
  using patch_if_any_effect [OF assms(1) assms(2) [unfolded removeCIPEntry_def CreateRemovePatch_def]]
  by (simp add: patched_del dropped_def)

lemma FinalizeKind_effect:
  assumes "patch_documented K cfg pol" and "FinalizeKind K n s = (r, s')"
  shows "pol s' = pol s \<and> (cfg s' = cfg s \<and> \<not> is_ok r \<or> cfg s' = dropped (ConfigMaps_Get K s) n (cfg s))"
  using assms(2) removeCIPEntry_effect [OF assms(1), of _ n s r s']
  by (cases "ConfigMaps_Get K s") (auto simp: FinalizeKind_def handleS_def dropped_def split: if_splits)

lemma handleCIPError_effect:
  assumes "patch_documented K cfg pol" and "handleCIPError K n s = (r, s')"
  shows "pol s' = pol s \<and> cfg s' \<in> {cfg s, dropped (ConfigMaps_Get K s) n (cfg s)}"
proof (cases "ConfigMaps_Get K s")
  case (Ok c)
  obtain x t where "removeCIPEntry K c n s = (x, t)"
    by (cases "removeCIPEntry K c n s")
  then show ?thesis
    using removeCIPEntry_effect [OF assms(1)] assms(2) Ok by (cases x) (fastforce simp: handleCIPError_def handleS_def)+
qed (use assms(2) in \<open>auto simp: handleCIPError_def handleS_def\<close>)

lemma write_entry_effect:
  assumes "create_documented K cfg pol" and "patch_documented K cfg pol" and "write_entry K n w s = (r, s')"
  shows "pol s' = pol s \<and> (cfg s' = cfg s \<and> \<not> is_ok r \<or>
    (\<exists>e. Marshal_policy K w = Ok e \<and> cfg s' = stored (ConfigMaps_Get K s) n e (cfg s)))"
proof (cases "Marshal_policy K w")
  case e: (Ok e)
  show ?thesis
  proof (cases "ConfigMaps_Get K s")
    case (Ok c)
    then have "patch_if_any K (patch_bytes K c \<lparr>cm_Data = Some (mset_key n e (nil_list (cm_Data c)))\<rparr>) s = (r, s')"
      using assms(3) e by (simp add: write_entry_def CreatePatch_def marshal_def)
    from patch_if_any_effect [OF assms(2) this] show ?thesis
      using Ok e by (simp add: patched_put stored_def)
  next
    case (Err x)
    show ?thesis
    proof (cases "IsNotFound x")
      case True
      then have "ConfigMaps_Create K \<lparr>cm_Data = Some [(n, e)]\<rparr> s = (r, s')"
        using assms(3) e Err by (simp add: write_entry_def NewConfigMap_def marshal_def bindS_def)
      then have "pol s' = pol s \<and> (cfg s' = cfg s \<and> \<not> is_ok r \<or> cfg s = Map.empty \<and> cfg s' = [n \<mapsto> e])"
        using assms(1) unfolding create_documented_def by (metis entries_set(3))
      then show ?thesis
        using Err e by (auto simp: stored_def)
    qed (use assms(3) Err in \<open>auto simp: write_entry_def\<close>)
  qed (use assms(3) in \<open>auto simp: write_entry_def handleS_def\<close>)
qed (use assms(3) in \<open>auto simp: write_entry_def handleS_def CreatePatch_def NewConfigMap_def marshal_def patch_if_any_def
       bindS_def split: res.splits if_splits\<close>)

lemma inlinePublicKeys_frames:
  assumes "tracker_documented K cfg pol"
  shows "hoare (\<lambda>s. cfg s = m \<and> pol s = p) (inlinePublicKeys L K n spec) (\<lambda>_ s. cfg s = m \<and> pol s = p) (\<lambda>s. cfg s = m \<and> pol s = p)"
proof -
  let ?P = "\<lambda>s. cfg s = m \<and> pol s = p"
  have ret: "hoare ?P (retS x) (\<lambda>_. ?P) ?P" "hoare ?P (failS e) (\<lambda>_. ?P) ?P" "hoare ?P (liftS r) (\<lambda>_. ?P) ?P"
    "hoare ?P (readS f) (\<lambda>_. ?P) ?P" for x :: 'x and e and r :: "'y res" and f :: "'a \<Rightarrow> 'z res"
    by (auto simp: hoare_def split: res.splits)
  have track: "hoare ?P (TrackReference K x n) (\<lambda>_. ?P) ?P" for x
    using assms by (auto simp: hoare_def tracker_documented_def split: prod.splits res.splits)
  have secret: "hoare ?P (inlineAndTrackSecret L K n x k) (\<lambda>_. ?P) ?P" for x k
    unfolding inlineAndTrackSecret_def
    by (auto intro!: hoare_handle [OF track] hoare_bind [where Q = "\<lambda>_. ?P"] ret split: list.splits if_splits)
  have inline: "hoare ?P (inline_secret L K n k) (\<lambda>_. ?P) ?P" for k
    unfolding inline_secret_def by (auto intro!: hoare_bind [OF secret] ret split: option.splits)
  have kms: "hoare ?P (inline_KMS L K k) (\<lambda>_. ?P) ?P" for k
    unfolding inline_KMS_def by (auto intro!: hoare_bind [where Q = "\<lambda>_. ?P"] ret split: option.splits if_splits)
  have "hoare ?P (inline_authority L K n a) (\<lambda>_. ?P) ?P" for a
    unfolding inline_authority_def
    by (auto intro!: hoare_bind [OF inline] hoare_bind [OF kms] hoare_bind [where Q = "\<lambda>_. ?P"] ret split: option.splits)
  then show ?thesis
    unfolding inlinePublicKeys_def by (auto intro!: hoare_bind [OF hoare_map] ret)
qed

lemma inlinePublicKeys_same:
  assumes "tracker_documented K cfg pol" and "inlinePublicKeys L K n spec s = (r, s1)"
  shows "cfg s1 = cfg s \<and> pol s1 = pol s"
  using hoare_ends [OF inlinePublicKeys_frames [OF assms(1), where m = "cfg s" and p = "pol s"], of s L n spec] assms(2) by simp

text \<open>What a reconciliation may do to the config map: it writes the inlined policy, or removes its entry.\<close>

lemma ReconcileKind_effect:
  assumes doc: "cluster_documented K cfg pol" and run: "ReconcileKind L K n spec s = (r, s')"
    and inl: "inlinePublicKeys L K n spec s = (x, s1)"
  shows "pol s' = pol s" and "is_ok r \<Longrightarrow> is_ok x"
    and "x = Ok spec' \<Longrightarrow> cfg s' = cfg s \<and> \<not> is_ok r \<or>
      (\<exists>e. Marshal_policy K (ConvertClusterImagePolicyV1alpha1ToWebhook spec') = Ok e \<and>
         cfg s' = stored (ConfigMaps_Get K s1) n e (cfg s))"
    and "\<not> is_ok x \<Longrightarrow> cfg s' \<in> {cfg s, dropped (ConfigMaps_Get K s1) n (cfg s)}"
proof -
  have laws: "tracker_documented K cfg pol" "create_documented K cfg pol" "patch_documented K cfg pol"
    using doc by (simp_all add: cluster_documented_def)
  note s1 = inlinePublicKeys_same [OF laws(1) inl]
  have wr: "write_entry K n (ConvertClusterImagePolicyV1alpha1ToWebhook y) s1 = (r, s')" if "x = Ok y" for y
    using run inl that by (simp add: ReconcileKind_def handleS_def)
  have fail: "\<exists>y. handleCIPError K n s1 = (y, s') \<and> \<not> is_ok r" if "x = Err z" for z
    using run inl that
    by (cases "handleCIPError K n s1"; cases "fst (handleCIPError K n s1)") (auto simp: ReconcileKind_def handleS_def bindS_def)
  have panic: "s' = s1 \<and> \<not> is_ok r" if "x = Panic z" for z
    using run inl that by (auto simp: ReconcileKind_def handleS_def)
  show "x = Ok spec' \<Longrightarrow> cfg s' = cfg s \<and> \<not> is_ok r \<or>
      (\<exists>e. Marshal_policy K (ConvertClusterImagePolicyV1alpha1ToWebhook spec') = Ok e \<and>
         cfg s' = stored (ConfigMaps_Get K s1) n e (cfg s))"
    using write_entry_effect [OF laws(2,3) wr] s1 by simp
  show "is_ok r \<Longrightarrow> is_ok x"
    using fail panic by (cases x) auto
  show "pol s' = pol s"
    using write_entry_effect [OF laws(2,3) wr] fail panic handleCIPError_effect [OF laws(3), of n s1] s1 by (cases x) fastforce+
  show "\<not> is_ok x \<Longrightarrow> cfg s' \<in> {cfg s, dropped (ConfigMaps_Get K s1) n (cfg s)}"
    using fail panic handleCIPError_effect [OF laws(3), of n s1] s1 by (cases x) fastforce+
qed

lemma ReconcileKind_Ok:
  assumes "cluster_documented K cfg pol" and "ReconcileKind L K n spec s = (Ok (), s')"
  shows "\<exists>spec' s1 e. inlinePublicKeys L K n spec s = (Ok spec', s1) \<and>
    Marshal_policy K (ConvertClusterImagePolicyV1alpha1ToWebhook spec') = Ok e \<and>
    cfg s' = stored (ConfigMaps_Get K s1) n e (cfg s)"
proof -
  obtain x s1 where inl: "inlinePublicKeys L K n spec s = (x, s1)"
    by (cases "inlinePublicKeys L K n spec s")
  note effect = ReconcileKind_effect [OF assms inl]
  then show ?thesis
    using inl by (auto simp: is_ok_iff)
qed

lemma ReconcileKind_current:
  assumes "cluster_documented K cfg pol" and "inlinePublicKeys L K n spec s = (x, s1)" and "config_current K cfg s1"
  shows "stored (ConfigMaps_Get K s1) n e (cfg s) = (cfg s)(n \<mapsto> e)"
    and "dropped (ConfigMaps_Get K s1) n (cfg s) \<in> {cfg s, (cfg s)(n := None)}"
proof -
  have "cfg s1 = cfg s"
    using inlinePublicKeys_same [OF _ assms(2)] assms(1) unfolding cluster_documented_def by blast
  then show "stored (ConfigMaps_Get K s1) n e (cfg s) = (cfg s)(n \<mapsto> e)"
    "dropped (ConfigMaps_Get K s1) n (cfg s) \<in> {cfg s, (cfg s)(n := None)}"
    using current_effects(1,2) [OF assms(3)] by simp_all
qed

text \<open>C33. What a reconciliation writes, whatever the lister's cache shows. If \<open>ReconcileKind\<close> succeeds, the
  secrets and KMS keys of the policy were inlined and its text was written: the entry of the policy
  is set to it, except that nothing is sent if the cached config map has the same text already, and
  that all other entries are lost if the cached config map has no entries. If it fails after the keys
  were inlined, the config map is as it was or as after a success. If a secret or key cannot be read, it
  fails, and the config map is as it was or the entry of the policy is removed, if the cache shows it;
  all entries are lost if the cache shows no other. With a cache that is current when it is read, only the entry
  of the policy changes. Policies never change.\<close>

theorem ReconcileKind_correct:
  assumes doc: "cluster_documented K cfg pol" and run: "ReconcileKind L K n spec s = (r, s')"
    and inl: "inlinePublicKeys L K n spec s = (x, s1)"
  shows "(r = Ok () \<longrightarrow> (\<exists>spec' e. x = Ok spec' \<and> Marshal_policy K (ConvertClusterImagePolicyV1alpha1ToWebhook spec') = Ok e \<and>
      cfg s' = stored (ConfigMaps_Get K s1) n e (cfg s) \<and> (config_current K cfg s1 \<longrightarrow> cfg s' = (cfg s)(n \<mapsto> e)))) \<and>
    (\<forall>spec'. x = Ok spec' \<longrightarrow> cfg s' = cfg s \<or>
      (\<exists>e. Marshal_policy K (ConvertClusterImagePolicyV1alpha1ToWebhook spec') = Ok e \<and>
         cfg s' = stored (ConfigMaps_Get K s1) n e (cfg s))) \<and>
    (\<not> is_ok x \<longrightarrow> \<not> is_ok r \<and> cfg s' \<in> {cfg s, dropped (ConfigMaps_Get K s1) n (cfg s)} \<and>
      (config_current K cfg s1 \<longrightarrow> cfg s' \<in> {cfg s, (cfg s)(n := None)})) \<and>
    pol s' = pol s"
proof -
  note effect = ReconcileKind_effect [OF doc run inl] and current = ReconcileKind_current [OF doc inl]
  have "\<exists>spec' e. x = Ok spec' \<and> Marshal_policy K (ConvertClusterImagePolicyV1alpha1ToWebhook spec') = Ok e \<and>
      cfg s' = stored (ConfigMaps_Get K s1) n e (cfg s)" if "r = Ok ()"
    using effect(2,3) that by (auto simp: is_ok_iff)
  then show ?thesis
    using effect current by auto
qed

subsection \<open>No policy is left behind\<close>

text \<open>
  The finalizer protects the entry: whatever has an entry in the config map is a policy that
  exists and carries the finalizer, so it cannot go away before the entry is removed.
\<close>

definition has_finalizer :: "'s policy_view \<Rightarrow> string \<Rightarrow> 's \<Rightarrow> bool" where
  "has_finalizer pol n s \<longleftrightarrow> (\<exists>c. pol s n = Some c \<and> finalizerName \<in> set (cip_Finalizers c))"

definition no_orphans :: "'s config_view \<Rightarrow> 's policy_view \<Rightarrow> 's \<Rightarrow> bool" where
  "no_orphans cfg pol s \<longleftrightarrow> (\<forall>n \<in> dom (cfg s). has_finalizer pol n s)"

lemma no_orphans_step:
  assumes "no_orphans cfg pol s" and "pol s' = pol s"
  shows "cfg s' \<in> {cfg s, (cfg s)(n := None)} \<Longrightarrow> no_orphans cfg pol s'"
    and "has_finalizer pol n s \<Longrightarrow> cfg s' = (cfg s)(n \<mapsto> e) \<Longrightarrow> no_orphans cfg pol s'"
  using assms by (auto simp: no_orphans_def has_finalizer_def split: if_splits)

text \<open>These lemmas are about listers that are in sync.\<close>

lemma ReconcileKind_no_orphans:
  assumes "cluster_documented K cfg pol" and "listers_in_sync K cfg pol"
  shows "hoare (\<lambda>s. no_orphans cfg pol s \<and> has_finalizer pol n s) (ReconcileKind L K n spec)
    (\<lambda>_. no_orphans cfg pol) (no_orphans cfg pol)"
proof (rule hoareI)
  fix s r t assume s: "no_orphans cfg pol s \<and> has_finalizer pol n s" and run: "ReconcileKind L K n spec s = (r, t)"
  obtain x s1 where inl: "inlinePublicKeys L K n spec s = (x, s1)"
    by (cases "inlinePublicKeys L K n spec s")
  have "config_current K cfg s1"
    using assms(2) by (simp add: listers_in_sync_def)
  note current = ReconcileKind_current [OF assms(1) inl this] and effect = ReconcileKind_effect [OF assms(1) run inl]
  have "cfg t \<in> {cfg s, (cfg s)(n := None)} \<or> (\<exists>e. cfg t = (cfg s)(n \<mapsto> e))"
    using effect(3,4) current by (cases "is_ok x") (auto simp: is_ok_iff)
  then show *: "no_orphans cfg pol t"
    using s effect(1) no_orphans_step [of cfg pol s t n] by auto
  show "no_orphans cfg pol t" by (rule *)
qed

lemma FinalizeKind_no_orphans:
  assumes "cluster_documented K cfg pol" and "listers_in_sync K cfg pol"
  shows "hoare (\<lambda>s. no_orphans cfg pol s \<and> pol s n = Some c) (FinalizeKind K n)
    (\<lambda>_ s. no_orphans cfg pol s \<and> pol s n = Some c \<and> cfg s n = None) (\<lambda>s. no_orphans cfg pol s \<and> pol s n = Some c)"
proof -
  have current: "config_current K cfg s" for s
    using assms(2) by (simp add: listers_in_sync_def)
  have patch: "patch_documented K cfg pol"
    using assms(1) by (simp add: cluster_documented_def)
  have keep: "no_orphans cfg pol t \<and> pol t n = Some c"
    if "no_orphans cfg pol s \<and> pol s n = Some c" "FinalizeKind K n s = (r, t)" for s r t
    using FinalizeKind_effect [OF patch that(2)] current_effects(2) [OF current, where n = n] that(1)
      no_orphans_step(1) [of cfg pol s t n] by auto
  have "cfg t n = None" if "FinalizeKind K n s = (Ok u, t)" for s u t
  proof (cases "ConfigMaps_Get K s")
    case (Ok d)
    then show ?thesis
      using FinalizeKind_effect [OF patch that] current_effects(3) [OF current Ok] by auto
  next
    case (Err e)
    then have "t = s \<and> IsNotFound e"
      using that by (auto simp: FinalizeKind_def split: if_splits)
    then show ?thesis
      using current [of s] Err by (auto simp: config_current_def IsNotFound_iff)
  qed (use that in \<open>simp add: FinalizeKind_def handleS_def\<close>)
  then show ?thesis
    using keep by (intro hoareI) blast+
qed

lemma FinalizeKind_error:
  assumes "errors_no_events K" and "FinalizeKind K n s = (Err e, t)"
  shows "EventAs K e = None"
proof (cases "ConfigMaps_Get K s")
  case (Ok c)
  let ?b = "\<lparr>cm_Data = map_option (mdelete n) (cm_Data c)\<rparr>"
  have "patch_if_any K (patch_bytes K c ?b) s = (Err e, t)"
    using assms(2) Ok by (simp add: FinalizeKind_def removeCIPEntry_def CreateRemovePatch_def)
  then consider "patch_bytes K c ?b = Err e" | q where "ConfigMaps_Patch K q s = (Err e, t)"
    by (cases "patch_bytes K c ?b") (auto simp: patch_if_any_def bindS_def split: if_splits)
  then show ?thesis
  proof cases
    case 1
    then show ?thesis
      using assms(1) by (cases "duck_CreatePatch K c ?b") (auto simp: patch_bytes_def errors_no_events_def split: if_splits)
  next
    case 2
    then show ?thesis
      using assms(1) unfolding errors_no_events_def by blast
  qed
qed (use assms in \<open>auto simp: FinalizeKind_def handleS_def errors_no_events_def split: if_splits\<close>)

lemma Policies_Patch_cases:
  assumes "finalizers_documented K cfg pol" and "Policies_Patch K n fins v s = (r, t)"
  obtains "cfg t = cfg s" "pol t = pol s" "\<not> is_ok r"
  | c v where "cfg t = cfg s" "pol s n = Some c"
      "pol t = (pol s)(n := if fins = [] \<and> cip_DeletionTimestamp c \<noteq> None then None else Some (with_finalizers c fins v))"
  using assms unfolding finalizers_documented_def by blast

lemma updateFinalizersFiltered_adds:
  assumes "finalizers_documented K cfg pol" and "listers_in_sync K cfg pol" and "finalizerName \<in> set (cip_Finalizers r)"
  shows "hoare (no_orphans cfg pol) (updateFinalizersFiltered K n r)
    (\<lambda>_ s. no_orphans cfg pol s \<and> has_finalizer pol n s) (no_orphans cfg pol)"
proof -
  have patch: "hoare (no_orphans cfg pol) (Policies_Patch K n (fins @ [finalizerName]) v)
    (\<lambda>_ s. no_orphans cfg pol s \<and> has_finalizer pol n s) (no_orphans cfg pol)" for fins v
  proof (rule hoareI)
    fix s c t assume s: "no_orphans cfg pol s" and p: "Policies_Patch K n (fins @ [finalizerName]) v s = (Ok c, t)"
    show "no_orphans cfg pol t \<and> has_finalizer pol n t"
      using s by (cases rule: Policies_Patch_cases [OF assms(1) p])
        (auto simp: no_orphans_def has_finalizer_def with_finalizers_def)
  next
    fix s x t assume s: "no_orphans cfg pol s" and p: "Policies_Patch K n (fins @ [finalizerName]) v s = (x, t)"
    show "no_orphans cfg pol t"
      using s by (cases rule: Policies_Patch_cases [OF assms(1) p])
        (auto simp: no_orphans_def has_finalizer_def with_finalizers_def)
  qed
  show ?thesis
    unfolding updateFinalizersFiltered_def
  proof (rule hoare_bind)
    show "hoare (no_orphans cfg pol) (readS (Policies_Get K n)) (\<lambda>c s. no_orphans cfg pol s \<and> pol s n = Some c) (no_orphans cfg pol)"
      using assms(2) by (auto simp: hoare_def listers_in_sync_def split: res.splits)
    show "hoare (\<lambda>s. no_orphans cfg pol s \<and> pol s n = Some c)
      (if finalizerName \<in> set (cip_Finalizers r) \<longleftrightarrow> finalizerName \<in> set (cip_Finalizers c) then retS r
       else Policies_Patch K n (if finalizerName \<in> set (cip_Finalizers r) then cip_Finalizers c @ [finalizerName]
         else sorted_set (removeAll finalizerName (cip_Finalizers c))) (cip_ResourceVersion c))
      (\<lambda>_ s. no_orphans cfg pol s \<and> has_finalizer pol n s) (no_orphans cfg pol)" for c
      using assms(3) by (auto intro!: hoare_weaken [OF patch] simp: hoare_simps has_finalizer_def)
  qed
qed

lemma updateFinalizersFiltered_removes:
  assumes "finalizers_documented K cfg pol" and "finalizerName \<notin> set (cip_Finalizers r)"
  shows "hoare (\<lambda>s. no_orphans cfg pol s \<and> cfg s n = None) (updateFinalizersFiltered K n r)
    (\<lambda>_. no_orphans cfg pol) (no_orphans cfg pol)"
proof -
  let ?P = "\<lambda>s. no_orphans cfg pol s \<and> cfg s n = None"
  have patch: "hoare ?P (Policies_Patch K n fins v) (\<lambda>_. no_orphans cfg pol) (no_orphans cfg pol)" for fins v
  proof (rule hoareI)
    fix s x t assume s: "?P s" and p: "Policies_Patch K n fins v s = (x, t)"
    show *: "no_orphans cfg pol t"
      using s by (cases rule: Policies_Patch_cases [OF assms(1) p]) (auto simp: no_orphans_def has_finalizer_def)
    show "no_orphans cfg pol t" by (rule *)
  qed
  show ?thesis
    unfolding updateFinalizersFiltered_def
    by (rule hoare_bind [where Q = "\<lambda>_. ?P"])
       (use assms(2) in \<open>auto intro: patch simp: hoare_simps hoare_def [of _ "readS _"] split: res.splits\<close>)
qed

text \<open>The result of the removal: no error and no entry, or an error that is no event.\<close>

definition removed_or_error :: "'s kube \<Rightarrow> 's config_view \<Rightarrow> string \<Rightarrow> gerror option \<Rightarrow> 's \<Rightarrow> bool" where
  "removed_or_error K cfg n e s \<longleftrightarrow> (case e of None \<Rightarrow> cfg s n = None | Some x \<Rightarrow> EventAs K x = None)"

lemma clearFinalizer_no_orphans:
  assumes "finalizers_documented K cfg pol" and "listers_in_sync K cfg pol"
  shows "hoare (\<lambda>s. no_orphans cfg pol s \<and> pol s n = Some r \<and> removed_or_error K cfg n e s) (clearFinalizer K n r e)
    (\<lambda>_. no_orphans cfg pol) (no_orphans cfg pol)"
proof (cases "e \<noteq> None \<and> finalizerName \<in> set (cip_Finalizers r)")
  case True
  then obtain x where x: "e = Some x" "finalizerName \<in> set (cip_Finalizers r)"
    by auto
  show ?thesis
  proof (cases "EventAs K x = None")
    case True
    then show ?thesis
      using x by (auto simp: clearFinalizer_def hoare_simps Let_def intro!: hoare_weaken [OF updateFinalizersFiltered_adds [OF assms]])
  qed (auto simp: x removed_or_error_def hoare_def)
next
  case False
  then have none: "cfg s n = None" if "no_orphans cfg pol s \<and> pol s n = Some r \<and> removed_or_error K cfg n e s" for s
    using that by (cases "cfg s n") (auto simp: no_orphans_def has_finalizer_def removed_or_error_def dest: bspec [OF _ domI])
  show ?thesis
    using False
    by (auto simp: clearFinalizer_def hoare_simps Let_def split: option.splits
        intro!: hoare_weaken [OF updateFinalizersFiltered_removes [OF assms(1)]] none)
qed

lemma FinalizeKind_event:
  assumes "cluster_documented K cfg pol" and "listers_in_sync K cfg pol"
  shows "hoare (\<lambda>s. no_orphans cfg pol s \<and> pol s n = Some r) (eventS (FinalizeKind K n))
    (\<lambda>e s. no_orphans cfg pol s \<and> pol s n = Some r \<and> removed_or_error K cfg n e s) (no_orphans cfg pol)"
proof (rule hoareI)
  note keep = hoareD [OF FinalizeKind_no_orphans [OF assms, of n r]]
  fix s assume s: "no_orphans cfg pol s \<and> pol s n = Some r"
  obtain x t where run: "FinalizeKind K n s = (x, t)"
    by (cases "FinalizeKind K n s")
  have err: "EventAs K e = None" if "x = Err e" for e
    using FinalizeKind_error [of K n s e t] run that assms(1) by (simp add: cluster_documented_def)
  show "no_orphans cfg pol t' \<and> pol t' n = Some r \<and> removed_or_error K cfg n e t'"
    if "eventS (FinalizeKind K n) s = (Ok e, t')" for e t'
    using that run err keep [OF s] by (cases x) (auto simp: eventS_def handleS_def removed_or_error_def)
  show "no_orphans cfg pol t'" if "eventS (FinalizeKind K n) s = (y, t')" "\<not> is_ok y" for y t'
    using that run keep(2) [OF s] by (cases x) (auto simp: eventS_def handleS_def)
qed

lemma Reconcile_no_orphans:
  assumes "cluster_documented K cfg pol" and "listers_in_sync K cfg pol"
  shows "hoare (no_orphans cfg pol) (Reconcile L K key) (\<lambda>_. no_orphans cfg pol) (no_orphans cfg pol)"
proof -
  let ?I = "no_orphans cfg pol"
  have doc: "finalizers_documented K cfg pol" "listers_in_sync K cfg pol"
    using assms by (simp_all add: cluster_documented_def)
  have report: "hoare ?I (report K e) (\<lambda>_. ?I) ?I" for e
    by (auto simp: report_def hoare_simps split: option.splits)
  have event: "hoare (\<lambda>s. ?I s \<and> has_finalizer pol n s) (eventS (ReconcileKind L K n spec)) (\<lambda>_. ?I) ?I" for n spec
    unfolding eventS_def by (rule hoare_handle [OF ReconcileKind_no_orphans [OF assms]]) (auto simp: hoare_simps)
  have live: "hoare ?I (handleS (setFinalizerIfFinalizer K n r) (\<lambda>err. failS (Wrapped err ''failed to set finalizers''))
      (\<lambda>r'. bindS (eventS (ReconcileKind L K n (cip_Spec r'))) (report K))) (\<lambda>_. ?I) ?I"
    if "cip_DeletionTimestamp r = None" for n r
    unfolding setFinalizerIfFinalizer_def using that
    by (intro hoare_handle [OF updateFinalizersFiltered_adds [OF doc]] hoare_bind [OF event report]) (auto simp: hoare_simps)
  have dying: "hoare (\<lambda>s. ?I s \<and> pol s n = Some r) (bindS (eventS (FinalizeKind K n)) (\<lambda>e.
      handleS (clearFinalizer K n r e) (\<lambda>err. failS (Wrapped err ''failed to clear finalizers'')) (\<lambda>_. report K e))) (\<lambda>_. ?I) ?I" for n r
    by (intro hoare_bind [OF FinalizeKind_event [OF assms]] hoare_handle [OF clearFinalizer_no_orphans [OF doc]])
       (auto simp: hoare_simps report)
  have "hoare ?I (handleS (readS (Policies_Get K n)) (\<lambda>err. if IsNotFound err then retS () else failS err) (\<lambda>r.
      if cip_DeletionTimestamp r = None
      then handleS (setFinalizerIfFinalizer K n r) (\<lambda>err. failS (Wrapped err ''failed to set finalizers''))
             (\<lambda>r'. bindS (eventS (ReconcileKind L K n (cip_Spec r'))) (report K))
      else bindS (eventS (FinalizeKind K n)) (\<lambda>e.
             handleS (clearFinalizer K n r e) (\<lambda>err. failS (Wrapped err ''failed to clear finalizers'')) (\<lambda>_. report K e)))) (\<lambda>_. ?I) ?I" for n
  proof (rule hoare_handle)
    show "hoare ?I (readS (Policies_Get K n)) (\<lambda>r s. ?I s \<and> pol s n = Some r) ?I"
      using doc(2) by (auto simp: hoare_def listers_in_sync_def split: res.splits)
  qed (auto simp: hoare_simps intro!: dying hoare_weaken [OF live])
  then show ?thesis
    unfolding Reconcile_def
    by (intro hoare_handle [where Q = "\<lambda>_. ?I" and R = ?I])
       (auto simp: hoare_simps hoare_def [of _ "liftS _"] split: res.splits)
qed

subsection \<open>Where the entries come from\<close>

text \<open>
  Without any assumption on the caches: each entry is the text of a version of the policy that was once on
  the server, with its keys inlined. The versions are the set \<open>seen\<close>.
\<close>

definition specs :: "(string \<rightharpoonup> cip_object) \<Rightarrow> (string \<times> ClusterImagePolicySpec) set" where
  "specs p = {(n, cip_Spec c) | n c. p n = Some c}"

definition text_of :: "libs \<Rightarrow> 's kube \<Rightarrow> (string \<times> ClusterImagePolicySpec) set \<Rightarrow> string \<Rightarrow> string \<Rightarrow> bool" where
  "text_of L K seen n e \<longleftrightarrow>
     (\<exists>spec s0 spec' s1. (n, spec) \<in> seen \<and> inlinePublicKeys L K n spec s0 = (Ok spec', s1) \<and>
        Marshal_policy K (ConvertClusterImagePolicyV1alpha1ToWebhook spec') = Ok e)"

definition traced ::
  "libs \<Rightarrow> 's kube \<Rightarrow> 's config_view \<Rightarrow> 's policy_view \<Rightarrow> (string \<times> ClusterImagePolicySpec) set \<Rightarrow> 's \<Rightarrow> bool" where
  "traced L K cfg pol seen s \<longleftrightarrow> (\<forall>n e. cfg s n = Some e \<longrightarrow> text_of L K seen n e) \<and> specs (pol s) \<subseteq> seen"

text \<open>The lister of policies shows versions that were on the server.\<close>

definition lists_seen :: "'s kube \<Rightarrow> (string \<times> ClusterImagePolicySpec) set \<Rightarrow> 's \<Rightarrow> bool" where
  "lists_seen K seen s \<longleftrightarrow> (\<forall>n c. Policies_Get K n s = Ok c \<longrightarrow> (n, cip_Spec c) \<in> seen)"

lemma in_specs: "(n, x) \<in> specs p \<longleftrightarrow> (\<exists>c. p n = Some c \<and> x = cip_Spec c)"
  by (auto simp: specs_def)

lemma dropped_Some: "dropped cached n m k = Some e \<Longrightarrow> m k = Some e"
  by (auto simp: dropped_def split: res.splits if_splits)

lemma stored_Some: "stored cached n e m k = Some e' \<Longrightarrow> m k = Some e' \<or> k = n \<and> e' = e"
  by (auto simp: stored_def split: res.splits if_splits)

lemma ReconcileKind_traced:
  assumes "cluster_documented K cfg pol" and "(n, spec) \<in> seen"
  shows "hoare (traced L K cfg pol seen) (ReconcileKind L K n spec) (\<lambda>_. traced L K cfg pol seen) (traced L K cfg pol seen)"
proof (rule hoareI)
  fix s r t assume s: "traced L K cfg pol seen s" and run: "ReconcileKind L K n spec s = (r, t)"
  obtain x s1 where inl: "inlinePublicKeys L K n spec s = (x, s1)"
    by (cases "inlinePublicKeys L K n spec s")
  note effect = ReconcileKind_effect [OF assms(1) run inl]
  have "text_of L K seen k e" if k: "cfg t k = Some e" for k e
  proof (cases "cfg s k = Some e")
    case False
    have "is_ok x"
    proof (rule ccontr)
      assume "\<not> is_ok x"
      then have "cfg t = cfg s \<or> cfg t = dropped (ConfigMaps_Get K s1) n (cfg s)"
        using effect(4) by blast
      then show False
        using k False dropped_Some by metis
    qed
    then obtain spec' where x: "x = Ok spec'"
      by (auto simp: is_ok_iff)
    then obtain e' where e': "Marshal_policy K (ConvertClusterImagePolicyV1alpha1ToWebhook spec') = Ok e'"
      "cfg t = stored (ConfigMaps_Get K s1) n e' (cfg s)"
      using effect(3) [OF x] k False by auto
    then have "k = n" "e = e'"
      using stored_Some k False by (metis, metis)
    then show ?thesis
      using inl x e' assms(2) unfolding text_of_def by blast
  qed (use s in \<open>simp add: traced_def\<close>)
  then show *: "traced L K cfg pol seen t"
    using s effect(1) by (simp add: traced_def)
  show "traced L K cfg pol seen t" by (rule *)
qed

lemma FinalizeKind_traced:
  assumes "patch_documented K cfg pol"
  shows "hoare (traced L K cfg pol seen) (FinalizeKind K n) (\<lambda>_. traced L K cfg pol seen) (traced L K cfg pol seen)"
proof (rule hoareI)
  fix s r t assume s: "traced L K cfg pol seen s" and run: "FinalizeKind K n s = (r, t)"
  show *: "traced L K cfg pol seen t"
    using s FinalizeKind_effect [OF assms run] dropped_Some [of _ n "cfg s"] by (auto simp: traced_def)
  show "traced L K cfg pol seen t" by (rule *)
qed

lemma updateFinalizersFiltered_traced:
  assumes "finalizers_documented K cfg pol" and "(n, cip_Spec r) \<in> seen"
  shows "hoare (traced L K cfg pol seen) (updateFinalizersFiltered K n r)
    (\<lambda>r' s. traced L K cfg pol seen s \<and> (n, cip_Spec r') \<in> seen) (traced L K cfg pol seen)"
proof -
  let ?T = "traced L K cfg pol seen"
  have patch: "?T t \<and> (\<forall>c. x = Ok c \<longrightarrow> (n, cip_Spec c) \<in> seen)" if "?T s" "Policies_Patch K n fins v s = (x, t)" for s fins v x t
  proof -
    have "cfg t = cfg s \<and> (pol t = pol s \<and> \<not> is_ok x \<or> (\<exists>c v. pol s n = Some c \<and> (is_ok x \<longrightarrow> x = Ok (with_finalizers c fins v)) \<and>
        pol t = (pol s)(n := if fins = [] \<and> cip_DeletionTimestamp c \<noteq> None then None else Some (with_finalizers c fins v))))"
      using assms(1) that(2) unfolding finalizers_documented_def by blast
    then show ?thesis
      using that(1) by (auto simp: traced_def in_specs with_finalizers_def subset_eq split: if_splits)
  qed
  have "hoare ?T (Policies_Patch K n fins v) (\<lambda>r' s. ?T s \<and> (n, cip_Spec r') \<in> seen) ?T" for fins v
    using patch by (intro hoareI) blast+
  then show ?thesis
    unfolding updateFinalizersFiltered_def
    by (intro hoare_bind [where Q = "\<lambda>_. ?T"])
       (use assms(2) in \<open>auto simp: hoare_simps hoare_def [of _ "readS _"] split: res.splits\<close>)
qed

lemma hoare_pure: "(b \<Longrightarrow> hoare P m Q R) \<Longrightarrow> hoare (\<lambda>s. P s \<and> b) m Q R"
  by (simp add: hoare_def)

lemma report_traced: "hoare (traced L K cfg pol seen) (report K' e) (\<lambda>_. traced L K cfg pol seen) (traced L K cfg pol seen)"
  by (auto simp: report_def hoare_simps split: option.splits)

lemma live_traced:
  assumes "cluster_documented K cfg pol" and "(n, cip_Spec r) \<in> seen"
  shows "hoare (traced L K cfg pol seen)
    (handleS (setFinalizerIfFinalizer K n r) (\<lambda>err. failS (Wrapped err ''failed to set finalizers''))
       (\<lambda>r'. bindS (eventS (ReconcileKind L K n (cip_Spec r'))) (report K)))
    (\<lambda>_. traced L K cfg pol seen) (traced L K cfg pol seen)"
proof -
  let ?T = "traced L K cfg pol seen"
  have fin: "finalizers_documented K cfg pol"
    using assms(1) by (simp add: cluster_documented_def)
  have event: "hoare ?T (eventS (ReconcileKind L K n spec)) (\<lambda>_. ?T) ?T" if "(n, spec) \<in> seen" for spec
    unfolding eventS_def by (rule hoare_handle [OF ReconcileKind_traced [OF assms(1) that]]) (auto simp: hoare_simps)
  have "hoare (\<lambda>s. ?T s \<and> (n, cip_Spec r') \<in> seen) (bindS (eventS (ReconcileKind L K n (cip_Spec r'))) (report K)) (\<lambda>_. ?T) ?T" for r'
    by (rule hoare_pure) (rule hoare_bind [OF event report_traced])
  then show ?thesis
    unfolding setFinalizerIfFinalizer_def using assms(2)
    by (intro hoare_handle [OF updateFinalizersFiltered_traced [OF fin]]) (auto simp: hoare_simps)
qed

lemma dying_traced:
  assumes "cluster_documented K cfg pol" and "(n, cip_Spec r) \<in> seen"
  shows "hoare (traced L K cfg pol seen) (bindS (eventS (FinalizeKind K n)) (\<lambda>e.
      handleS (clearFinalizer K n r e) (\<lambda>err. failS (Wrapped err ''failed to clear finalizers'')) (\<lambda>_. report K e)))
    (\<lambda>_. traced L K cfg pol seen) (traced L K cfg pol seen)"
proof (rule hoare_bind)
  let ?T = "traced L K cfg pol seen"
  have laws: "patch_documented K cfg pol" "finalizers_documented K cfg pol"
    using assms(1) by (simp_all add: cluster_documented_def)
  show "hoare ?T (eventS (FinalizeKind K n)) (\<lambda>_. ?T) ?T"
    unfolding eventS_def by (rule hoare_handle [OF FinalizeKind_traced [OF laws(1)]]) (auto simp: hoare_simps)
  have "hoare ?T (clearFinalizer K n r e) (\<lambda>_. ?T) ?T" for e
    using assms(2)
    by (auto simp: clearFinalizer_def hoare_simps Let_def intro!: hoare_weaken [OF updateFinalizersFiltered_traced [OF laws(2), where seen = seen and L = L]])
  then show "hoare ?T (handleS (clearFinalizer K n r e) (\<lambda>err. failS (Wrapped err ''failed to clear finalizers'')) (\<lambda>_. report K e))
      (\<lambda>_. ?T) ?T" for e
    by (rule hoare_handle) (auto simp: hoare_simps report_traced)
qed

lemma Reconcile_traced:
  assumes "cluster_documented K cfg pol"
  shows "hoare (\<lambda>s. traced L K cfg pol seen s \<and> lists_seen K seen s) (Reconcile L K key)
    (\<lambda>_. traced L K cfg pol seen) (traced L K cfg pol seen)"
proof -
  let ?T = "traced L K cfg pol seen"
  let ?rest = "\<lambda>n r. if cip_DeletionTimestamp r = None
      then handleS (setFinalizerIfFinalizer K n r) (\<lambda>err. failS (Wrapped err ''failed to set finalizers''))
             (\<lambda>r'. bindS (eventS (ReconcileKind L K n (cip_Spec r'))) (report K))
      else bindS (eventS (FinalizeKind K n)) (\<lambda>e.
             handleS (clearFinalizer K n r e) (\<lambda>err. failS (Wrapped err ''failed to clear finalizers'')) (\<lambda>_. report K e))"
  have rest: "hoare (\<lambda>s. ?T s \<and> (n, cip_Spec r) \<in> seen) (?rest n r) (\<lambda>_. ?T) ?T" for n r
    by (rule hoare_pure) (simp add: live_traced [OF assms] dying_traced [OF assms])
  have "hoare (\<lambda>s. ?T s \<and> lists_seen K seen s)
      (handleS (readS (Policies_Get K n)) (\<lambda>err. if IsNotFound err then retS () else failS err) (?rest n)) (\<lambda>_. ?T) ?T" for n
  proof (rule hoare_handle [OF _ _ rest])
    show "hoare (\<lambda>s. ?T s \<and> lists_seen K seen s) (readS (Policies_Get K n)) (\<lambda>r s. ?T s \<and> (n, cip_Spec r) \<in> seen) ?T"
      by (auto simp: hoare_def lists_seen_def split: res.splits)
  qed (auto simp: hoare_simps)
  then show ?thesis
    unfolding Reconcile_def
    by (intro hoare_handle [where Q = "\<lambda>_ s. ?T s \<and> lists_seen K seen s" and R = ?T])
       (auto simp: hoare_simps hoare_def [of _ "liftS _"] split: res.splits)
qed

subsection \<open>Runs of the controller\<close>

text \<open>
  What may happen: a policy is reconciled, or users and other controllers change policies, but
  not our finalizer, and an object with finalizers does not go away. One reconciliation is one step.
  The caches of the listers may change in any way in each step. Along with the state go the versions of
  policies that were on the server, and whether all reconciliations so far went as they do with
  listers that are in sync.
\<close>

fun user_change :: "cip_object option \<Rightarrow> cip_object option \<Rightarrow> bool" where
  "user_change None new = True"
| "user_change (Some c) None = (cip_Finalizers c = [])"
| "user_change (Some c) (Some c') =
     (finalizerName \<in> set (cip_Finalizers c) \<longrightarrow> finalizerName \<in> set (cip_Finalizers c'))"

definition as_in_sync :: "libs \<Rightarrow> 's kube \<Rightarrow> 's config_view \<Rightarrow> 's policy_view \<Rightarrow> string \<Rightarrow> 's \<Rightarrow> bool" where
  "as_in_sync L K cfg pol key s \<longleftrightarrow>
     (\<exists>cms pols. let K' = K\<lparr>ConfigMaps_Get := cms, Policies_Get := pols\<rparr>
        in cluster_documented K' cfg pol \<and> listers_in_sync K' cfg pol \<and> Reconcile L K' key s = Reconcile L K key s)"

inductive reachable ::
  "libs \<Rightarrow> 's kube \<Rightarrow> 's config_view \<Rightarrow> 's policy_view \<Rightarrow> (string \<times> ClusterImagePolicySpec) set \<Rightarrow> bool \<Rightarrow> 's \<Rightarrow> bool"
  for L K cfg pol where
  start: "cfg s = Map.empty \<Longrightarrow> reachable L K cfg pol (specs (pol s)) True s"
| reconcile: "reachable L K cfg pol seen fresh s \<Longrightarrow> lists_seen K seen s \<Longrightarrow> Reconcile L K key s = (r, s') \<Longrightarrow>
     reachable L K cfg pol seen (fresh \<and> as_in_sync L K cfg pol key s) s'"
| users: "reachable L K cfg pol seen fresh s \<Longrightarrow> cfg s' = cfg s \<Longrightarrow> (\<And>n. user_change (pol s n) (pol s' n)) \<Longrightarrow>
     reachable L K cfg pol (seen \<union> specs (pol s')) fresh s'"

lemma in_sync_as_in_sync:
  assumes "cluster_documented K cfg pol" and "listers_in_sync K cfg pol"
  shows "as_in_sync L K cfg pol key s"
  unfolding as_in_sync_def Let_def
  by (intro exI [of _ "ConfigMaps_Get K"] exI [of _ "Policies_Get K"]) (use assms in simp)

lemma user_change_finalizer:
  assumes "user_change (pol s n) (pol s' n)" and "has_finalizer pol n s"
  shows "has_finalizer pol n s'"
  using assms by (cases "pol s' n") (auto simp: has_finalizer_def)

lemma text_of_mono: "text_of L K seen n e \<Longrightarrow> text_of L K (seen \<union> new) n e"
  by (auto simp: text_of_def)

lemma reachable_traced:
  assumes "cluster_documented K cfg pol" and "reachable L K cfg pol seen fresh s"
  shows "traced L K cfg pol seen s"
  using assms(2)
proof (induction rule: reachable.induct)
  case (reconcile seen fresh s key r s')
  then show ?case
    using hoare_ends [OF Reconcile_traced [OF assms(1)], of L seen s key] by simp
next
  case (users seen fresh s s')
  then show ?case
    using text_of_mono by (fastforce simp: traced_def)
qed (simp add: traced_def)

lemma reachable_fresh:
  assumes "reachable L K cfg pol seen fresh s"
  shows "fresh \<longrightarrow> no_orphans cfg pol s"
  using assms
proof (induction rule: reachable.induct)
  case (reconcile seen fresh s key r s')
  show ?case
  proof
    assume fresh: "fresh \<and> as_in_sync L K cfg pol key s"
    then obtain K' where "cluster_documented K' cfg pol" "listers_in_sync K' cfg pol" and run: "Reconcile L K' key s = (r, s')"
      using reconcile.hyps(3) by (auto simp: as_in_sync_def Let_def)
    from Reconcile_no_orphans [OF this(1,2)] show "no_orphans cfg pol s'"
      using hoare_ends [of "no_orphans cfg pol" "Reconcile L K' key"] fresh reconcile.IH run by fastforce
  qed
next
  case (users seen fresh s s')
  then show ?case
    using user_change_finalizer [of pol s _ s'] by (auto simp: no_orphans_def)
qed (simp add: no_orphans_def)


subsection \<open>With a lister that lags behind\<close>

text \<open>C40. A lister that has not seen the config map leaves an orphan. If a policy is being deleted while the
  lister of config maps does not yet have the config map in which the policy has its entry, the
  finalizer is cleared, the policy is gone, and the entry stays.\<close>

theorem stale_lister_orphans:
  assumes "finalizers_documented K cfg pol"
    and "SplitMetaNamespaceKey K key = Ok (namespace, n)" and "IsLeaderFor K namespace n"
    and "Policies_Get K n s = Ok c" and "pol s n = Some c" and "cip_DeletionTimestamp c \<noteq> None"
    and "cip_Finalizers c = [finalizerName]" and "ConfigMaps_Get K s = Err (APINotFound x)"
    and "Policies_Patch K n [] (cip_ResourceVersion c) s = (Ok d, s')" and "cfg s n = Some e"
  shows "Reconcile L K key s = (Ok (), s') \<and> pol s' n = None \<and> cfg s' n = Some e"
proof -
  have "FinalizeKind K n s = (Ok (), s)"
    using assms(8) by (simp add: FinalizeKind_def)
  then have event: "eventS (FinalizeKind K n) s = (Ok None, s)"
    by (simp add: eventS_def)
  have "clearFinalizer K n c None s = (Ok d, s')"
    using assms(4,6,7,9) by (auto simp: clearFinalizer_def updateFinalizersFiltered_def sorted_set_def)
  then have "Reconcile L K key s = (Ok (), s')"
    using assms(2-4,6) event by (auto simp: Reconcile_def report_def)
  moreover have "pol s' n = None \<and> cfg s' n = Some e"
    using assms(5,6,10) by (cases rule: Policies_Patch_cases [OF assms(1,9)]) auto
  ultimately show ?thesis
    by simp
qed

subsection \<open>A small API server\<close>

text \<open>An API server that keeps one config map and the policies, with listers that are in sync; the text of a
  patch has the old and the new version.\<close>

record world =
  w_cm :: "ConfigMap option"
  w_policies :: "string \<rightharpoonup> cip_object"

fun enc_str :: "string \<Rightarrow> bytes" where
  "enc_str [] = ''.''"
| "enc_str (c # s) = CHR ''x'' # c # enc_str s"

fun dec_str :: "bytes \<Rightarrow> string \<times> bytes" where
  "dec_str (d # c # r) = (if d = CHR ''x'' then (let (s, r') = dec_str r in (c # s, r')) else ([], c # r))"
| "dec_str _ = ([], [])"

fun enc_entries :: "(string, string) gomap \<Rightarrow> bytes" where
  "enc_entries [] = []"
| "enc_entries ((k, v) # m) = enc_str k @ enc_str v @ enc_entries m"

fun dec_entries :: "nat \<Rightarrow> bytes \<Rightarrow> (string, string) gomap" where
  "dec_entries 0 b = []"
| "dec_entries (Suc n) b =
     (if b = [] then []
      else (let (k, r) = dec_str b; (v, r') = dec_str r in (k, v) # dec_entries n r'))"

definition enc_cm :: "ConfigMap \<Rightarrow> bytes" where
  "enc_cm c = (case cm_Data c of None \<Rightarrow> ''n'' | Some m \<Rightarrow> CHR ''s'' # enc_entries m)"

definition dec_cm :: "bytes \<Rightarrow> ConfigMap" where
  "dec_cm b = \<lparr>cm_Data = (if hd b = CHR ''s'' then Some (dec_entries (length (tl b)) (tl b)) else None)\<rparr>"

lemma dec_enc_str [simp]: "dec_str (enc_str s @ r) = (s, r)"
proof (induction s)
  case Nil
  show ?case by (cases r) auto
qed simp

lemma enc_str_nonempty [simp]: "enc_str s \<noteq> []"
  by (cases s) auto

lemma dec_enc_entries: "length m \<le> n \<Longrightarrow> dec_entries n (enc_entries m) = m"
proof (induction m arbitrary: n)
  case Nil
  show ?case by (cases n) auto
next
  case (Cons x m)
  then show ?case by (cases n; cases x) auto
qed

lemma length_enc_entries: "length m \<le> length (enc_entries m)"
proof (induction m)
  case (Cons x m)
  obtain k v where "x = (k, v)" by (cases x)
  then show ?case
    using Cons by (cases "enc_str k") auto
qed simp

lemma dec_enc_cm [simp]: "dec_cm (enc_cm c) = c"
  by (cases c; cases "cm_Data c") (auto simp: enc_cm_def dec_cm_def dec_enc_entries length_enc_entries)

definition patch_data :: "(string, string) gomap \<Rightarrow> (string, string) gomap \<Rightarrow> (string, string) gomap \<Rightarrow> (string, string) gomap" where
  "patch_data a b m =
     (if \<forall>k \<in> set (map fst (a @ b)). map_of a k = map_of b k then m
      else if a = [] \<or> b = [] then b
      else List.map_filter (\<lambda>k. map_option (Pair k) (if map_of a k = map_of b k then map_of m k else map_of b k))
             (remdups (map fst (b @ m))))"

lemma map_of_map_filter: "map_of (List.map_filter (\<lambda>k. map_option (Pair k) (f k)) ks) k = (if k \<in> set ks then f k else None)"
  by (induction ks) (auto simp: map_filter_simps split: option.splits)

lemma map_of_patch_data: "map_of (patch_data a b m) = patched (map_of a) (map_of b) (map_of m)"
proof -
  have "map_of a = map_of b \<longleftrightarrow> (\<forall>k \<in> set (map fst (a @ b)). map_of a k = map_of b k)"
    by (auto simp: fun_eq_iff) (metis UnCI map_of_eq_None_iff)
  moreover have "map_of (List.map_filter (\<lambda>k. map_option (Pair k) (if map_of a k = map_of b k then map_of m k else map_of b k))
       (remdups (map fst (b @ m)))) = (\<lambda>k. if map_of a k = map_of b k then map_of m k else map_of b k)"
    by (rule ext) (auto simp: map_of_map_filter map_of_eq_None_iff eq_commute [of None])
  ultimately show ?thesis
    by (auto simp: patch_data_def patched_def)
qed

definition patch_cm :: "bytes \<Rightarrow> ConfigMap \<Rightarrow> ConfigMap" where
  "patch_cm p c =
     (let (a, b) = dec_str p
      in \<lparr>cm_Data = Some (patch_data (nil_list (cm_Data (dec_cm a))) (nil_list (cm_Data (dec_cm b))) (nil_list (cm_Data c)))\<rparr>)"

lemma entries_patch_cm: "entries (patch_cm (enc_str (enc_cm a) @ enc_cm b) c) = patched (entries a) (entries b) (entries c)"
  by (simp add: patch_cm_def entries_def map_of_patch_data)

definition sample_kube :: "world kube" where
  "sample_kube = \<lparr>
     TrackReference = (\<lambda>_ _. retS ()),
     Secrets_Get = (\<lambda>_ _. Ok [(''cosign.pub'', ''k'')]),
     ConfigMaps_Get = (\<lambda>s. case w_cm s of None \<Rightarrow> Err (APINotFound ''config-image-policies'') | Some c \<Rightarrow> Ok c),
     ConfigMaps_Create = (\<lambda>cm s. if w_cm s = None then (Ok (), s\<lparr>w_cm := Some cm\<rparr>) else (Err (LibError ''exists''), s)),
     ConfigMaps_Patch = (\<lambda>p s. case w_cm s of
        None \<Rightarrow> (Err (APINotFound ''config-image-policies''), s)
      | Some c \<Rightarrow> (Ok (), s\<lparr>w_cm := Some (patch_cm (tl p) c)\<rparr>)),
     Policies_Get = (\<lambda>n s. case w_policies s n of None \<Rightarrow> Err (APINotFound n) | Some c \<Rightarrow> Ok c),
     Policies_Patch = (\<lambda>n fins v s. case w_policies s n of
        None \<Rightarrow> (Err (APINotFound n), s)
      | Some c \<Rightarrow> (Ok (with_finalizers c fins v),
          s\<lparr>w_policies := (w_policies s)(n := if fins = [] \<and> cip_DeletionTimestamp c \<noteq> None then None
                                             else Some (with_finalizers c fins v))\<rparr>)),
     duck_CreatePatch = (\<lambda>a b. Ok (if a = b then [] else [enc_str (enc_cm a) @ enc_cm b])),
     patch_MarshalJSON = (\<lambda>ops. Ok (CHR ''['' # concat ops)),
     Marshal_policy = (\<lambda>_. Ok ''policy''),
     kms_Get = (\<lambda>_. Err (LibError ''no kms'')),
     SplitMetaNamespaceKey = (\<lambda>key. Ok ([], key)),
     IsLeaderFor = (\<lambda>_ _. True),
     EventAs = (\<lambda>_. None),
     is_event = (\<lambda>_. False)\<rparr>"

definition w_entries :: "world config_view" where
  "w_entries s = (case w_cm s of None \<Rightarrow> Map.empty | Some c \<Rightarrow> entries c)"

lemma finalizers_documented_cong:
  "Policies_Patch K = Policies_Patch K' \<Longrightarrow> finalizers_documented K cfg pol \<longleftrightarrow> finalizers_documented K' cfg pol"
  by (simp only: finalizers_documented_def)

lemma cluster_documented_marshal:
  "cluster_documented (K\<lparr>Marshal_policy := f\<rparr>) cfg pol \<longleftrightarrow> cluster_documented K cfg pol"
  by (simp add: cluster_documented_def tracker_documented_def create_documented_def patch_documented_def
      finalizers_documented_def errors_no_events_def)

lemma sample_kube_documented: "cluster_documented sample_kube w_entries w_policies"
proof -
  have "tracker_documented sample_kube w_entries w_policies" "create_documented sample_kube w_entries w_policies"
    by (auto simp: tracker_documented_def create_documented_def sample_kube_def w_entries_def split: if_splits)
  moreover have "patch_documented sample_kube w_entries w_policies"
    by (auto simp: patch_documented_def sample_kube_def w_entries_def entries_patch_cm split: if_splits option.splits)
  moreover have "finalizers_documented sample_kube w_entries w_policies"
    unfolding finalizers_documented_def
    by (intro allI impI) (auto simp: sample_kube_def w_entries_def split: option.splits)
  moreover have "errors_no_events sample_kube"
    by (simp add: errors_no_events_def sample_kube_def)
  ultimately show ?thesis
    by (simp add: cluster_documented_def)
qed

lemma sample_kube_in_sync: "listers_in_sync sample_kube w_entries w_policies"
  by (auto simp: listers_in_sync_def config_current_def sample_kube_def w_entries_def split: option.splits)

definition sample_policy :: cip_object where
  "sample_policy =
     \<lparr>cip_Spec = \<lparr>Images = [\<lparr>Glob = ''registry/*'', Regex = []\<rparr>],
        Authorities = [\<lparr>Key = Some \<lparr>SecretRef = Some ''secret'', Data = [], KMS = []\<rparr>, Keyless = None, Sources = [], CTLog = None\<rparr>]\<rparr>,
      cip_DeletionTimestamp = None, cip_Finalizers = [], cip_ResourceVersion = ''1''\<rparr>"

definition sample_world :: world where
  "sample_world = \<lparr>w_cm = None, w_policies = [''p'' \<mapsto> sample_policy]\<rparr>"

lemma sample_inline:
  "inlinePublicKeys sample_libs sample_kube ''p'' (cip_Spec sample_policy) s =
     (Ok \<lparr>Images = [\<lparr>Glob = ''registry/*'', Regex = []\<rparr>],
        Authorities = [\<lparr>Key = Some \<lparr>SecretRef = None, Data = ''k'', KMS = []\<rparr>, Keyless = None, Sources = [], CTLog = None\<rparr>]\<rparr>, s)"
proof -
  have "IsValidKey sample_libs ''k'' = Ok True"
    by (simp add: IsValidKey_def parsePEMKey_def sample_libs_def)
  then show ?thesis
    by (simp add: inlinePublicKeys_def inline_authority_def inline_secret_def inlineAndTrackSecret_def inline_KMS_def
        sample_policy_def sample_kube_def bindS_def handleS_def)
qed

lemma sample_ReconcileKind:
  assumes "w_cm s = None"
  shows "ReconcileKind sample_libs sample_kube ''p'' (cip_Spec sample_policy) s =
    (Ok (), s\<lparr>w_cm := Some \<lparr>cm_Data = Some [(''p'', ''policy'')]\<rparr>\<rparr>)"
  unfolding ReconcileKind_def handleS_Ok [OF sample_inline]
  using assms by (simp add: write_entry_def sample_kube_def NewConfigMap_def marshal_def bindS_def handleS_def)

theorem ReconcileKind_correct_witness:
  "ReconcileKind sample_libs sample_kube ''p'' (cip_Spec sample_policy) sample_world =
     (Ok (), sample_world\<lparr>w_cm := Some \<lparr>cm_Data = Some [(''p'', ''policy'')]\<rparr>\<rparr>) \<and>
   w_entries (sample_world\<lparr>w_cm := Some \<lparr>cm_Data = Some [(''p'', ''policy'')]\<rparr>\<rparr>) = (w_entries sample_world)(''p'' \<mapsto> ''policy'')"
proof -
  have "w_cm sample_world = None"
    by (simp add: sample_world_def)
  note run = sample_ReconcileKind [OF this]
  moreover have "config_current sample_kube w_entries sample_world"
    using sample_kube_in_sync by (simp add: listers_in_sync_def)
  moreover have "Marshal_policy sample_kube w = Ok ''policy''" for w
    by (simp add: sample_kube_def)
  ultimately show ?thesis
    using ReconcileKind_correct [OF sample_kube_documented run sample_inline] by auto
qed


definition sample_dying :: world where
  "sample_dying =
     \<lparr>w_cm = Some \<lparr>cm_Data = Some [(''p'', ''policy'')]\<rparr>,
      w_policies = [''p'' \<mapsto> sample_policy\<lparr>cip_DeletionTimestamp := Some 0, cip_Finalizers := [finalizerName]\<rparr>]\<rparr>"

definition stale_kube :: "world kube" where
  "stale_kube = sample_kube\<lparr>ConfigMaps_Get := (\<lambda>_. Err (APINotFound []))\<rparr>"

theorem stale_lister_orphans_witness:
  "Reconcile sample_libs stale_kube ''p'' sample_dying = (Ok (), sample_dying\<lparr>w_policies := (w_policies sample_dying)(''p'' := None)\<rparr>) \<and>
   w_entries (sample_dying\<lparr>w_policies := (w_policies sample_dying)(''p'' := None)\<rparr>) ''p'' = Some ''policy''"
proof -
  let ?c = "sample_policy\<lparr>cip_DeletionTimestamp := Some 0, cip_Finalizers := [finalizerName]\<rparr>"
  let ?t = "sample_dying\<lparr>w_policies := (w_policies sample_dying)(''p'' := None)\<rparr>"
  have f: "finalizers_documented stale_kube w_entries w_policies"
    using sample_kube_documented finalizers_documented_cong [of stale_kube sample_kube]
    by (simp add: cluster_documented_def stale_kube_def)
  have calls: "SplitMetaNamespaceKey stale_kube ''p'' = Ok ([], ''p'')" "IsLeaderFor stale_kube [] ''p''"
    "Policies_Get stale_kube ''p'' sample_dying = Ok ?c" "w_policies sample_dying ''p'' = Some ?c"
    "cip_DeletionTimestamp ?c \<noteq> None" "cip_Finalizers ?c = [finalizerName]"
    "ConfigMaps_Get stale_kube sample_dying = Err (APINotFound [])"
    "Policies_Patch stale_kube ''p'' [] (cip_ResourceVersion ?c) sample_dying =
       (Ok (with_finalizers ?c [] (cip_ResourceVersion ?c)), ?t)"
    "w_entries sample_dying ''p'' = Some ''policy''"
    by (simp_all add: stale_kube_def sample_kube_def sample_dying_def w_entries_def entries_def)
  show ?thesis
    using stale_lister_orphans [OF f calls, of sample_libs] by simp
qed

end
