(* ===== verification/Policy_Enforced.thy ===== *)
theory Policy_Enforced
  imports Admission Reconciler
begin

section \<open>From the policy resource to the admission of a pod\<close>

text \<open>
  The reconciler and the webhook together. The reconciler writes a policy with its keys inlined as
  JSON text into the config map; the webhook reads the text back, parses the keys, and admits a pod
  only if the policy is satisfied. What ties the two is the text, so the laws here are those of
  \<open>encoding/json\<close> on the two structures, as their tags say.
\<close>

subsection \<open>The text of a policy\<close>

definition json_key :: "WKeyRef \<Rightarrow> (string, string) gomap" where
  "json_key k = (if WData k = [] then [] else [(''data'', WData k)])"

definition json_keyless :: "WKeylessRef \<Rightarrow> raw_keyless" where
  "json_keyless k =
     \<lparr>raw_URL = WURL k, raw_Identities = (if nil_list (WIdentities k) = [] then None else WIdentities k),
      raw_CACert = map_option json_key (WCACert k)\<rparr>"

definition json_authority :: "WAuthority \<Rightarrow> raw_authority" where
  "json_authority a =
     \<lparr>raw_Key = map_option json_key (WKey a), raw_Keyless = map_option json_keyless (WKeyless a),
      raw_Sources = WSources a, raw_CTLog = WCTLog a\<rparr>"

text \<open>JSON text is YAML, and reading what was written gives the fields that are not left out.\<close>

definition json_documented :: "'s kube \<Rightarrow> config_lib \<Rightarrow> bool" where
  "json_documented K C \<longleftrightarrow>
     (\<forall>w e. Marshal_policy K w = Ok e \<longrightarrow> e \<noteq> [] \<and>
        (\<exists>j. YAMLToJSON C e = Ok j \<and>
           json_policy C j = Ok \<lparr>raw_Images = WImages w, raw_Authorities = map json_authority (WAuthorities w)\<rparr>))"

text \<open>A public key that is written as PEM is read back as a valid key.\<close>

definition pem_documented :: "libs \<Rightarrow> bool" where
  "pem_documented L \<longleftrightarrow> (\<forall>k b. MarshalPublicKeyToPEM L k = Ok b \<longrightarrow> b \<noteq> [] \<and> IsValidKey L b = Ok True)"

lemma parseEntry_written:
  assumes "json_documented K C" and "Marshal_policy K w = Ok e" and "parseEntry L C e = Ok w'"
  shows "WImages w' = WImages w \<and>
    list_all2 (\<lambda>a a'. Authority_UnmarshalJSON L (NewRepository C) (json_authority a) = Ok a') (WAuthorities w) (WAuthorities w')"
  using assms
  by (fastforce simp: json_documented_def parseEntry_def unmarshal_policy_def res_simps mapr_Ok_iff list.rel_map)

lemma policies_from_keep:
  "policies_from L C data ret = Ok config \<Longrightarrow> n \<notin> fst ` set data \<Longrightarrow> map_of config n = map_of ret n"
  by (induction data arbitrary: ret) (auto simp: res_simps split: if_splits)

lemma policies_from_entry:
  assumes "policies_from L C data ret = Ok config" and "distinct (map fst data)" and "map_of data n = Some e"
    and "n \<noteq> ''_example''"
  shows "\<exists>w. parseEntry L C e = Ok w \<and> map_of config n = Some w"
  using assms
proof (induction data arbitrary: ret)
  case (Cons x data)
  obtain k v where x: "x = (k, v)" by (cases x)
  show ?case
  proof (cases "k = n")
    case True
    then obtain w where w: "parseEntry L C e = Ok w" "policies_from L C data (mset_key n w ret) = Ok config"
      using Cons.prems x by (auto simp: res_simps split: if_splits)
    moreover have "n \<notin> fst ` set data"
      using Cons.prems(2) x True by auto
    ultimately show ?thesis
      using policies_from_keep [OF w(2)] by auto
  next
    case False
    then obtain ret' where "policies_from L C data ret' = Ok config"
      using Cons.prems(1) x by (auto simp: res_simps split: if_splits)
    then show ?thesis
      using Cons.IH Cons.prems(2-4) x False by auto
  qed
qed simp

subsection \<open>Keys that are inlined are usable\<close>

lemma parsePEMKey_valid_nonempty: "parsePEMKey_fuel L n b = Ok (pems, True) \<Longrightarrow> pems \<noteq> []"
  by (induction n arbitrary: b pems) (auto simp: res_simps split: option.splits if_splits)

lemma IsValidKey_keys:
  assumes "IsValidKey L d = Ok True"
  shows "\<exists>ks. ConvertKeyDataToPublicKeys L d = Ok ks \<and> ks \<noteq> []"
proof -
  obtain pems ks where p: "parsePEMKey L d = Ok (pems, True)" "mapr (ParsePKIXPublicKey L) pems = Ok ks"
    using assms by (auto simp: IsValidKey_def res_simps split: if_splits)
  moreover have "ks \<noteq> []"
    using mapr_Ok_length [OF p(2)] parsePEMKey_valid_nonempty [OF p(1) [unfolded parsePEMKey_def]] by auto
  ultimately show ?thesis
    by (simp add: ConvertKeyDataToPublicKeys_def)
qed

text \<open>An authority with a key that the reconciler can inline: given as data, by a secret, or by the KMS.\<close>

definition inlinable :: "libs \<Rightarrow> Authority \<Rightarrow> bool" where
  "inlinable L a \<longleftrightarrow> Keyless a = None \<and>
     (\<exists>k. Key a = Some k \<and> wf_key L k \<and> (KMS k = [] \<or> contains (KMS k) ''://''))"

definition inlined :: "libs \<Rightarrow> Authority \<Rightarrow> bool" where
  "inlined L a \<longleftrightarrow> Keyless a = None \<and> (\<exists>k. Key a = Some k \<and> Data k \<noteq> [] \<and> IsValidKey L (Data k) = Ok True)"

lemma IsValidKey_nonempty: "pem_Decode L [] = None \<Longrightarrow> IsValidKey L d = Ok True \<Longrightarrow> d \<noteq> []"
  by (auto simp: IsValidKey_def parsePEMKey_def)

lemma inlineAndTrackSecret_Ok:
  assumes "inlineAndTrackSecret L K n x k s = (Ok k', s')"
  shows "\<exists>v. k' = k\<lparr>Data := v, SecretRef := None\<rparr> \<and> IsValidKey L v = Ok True"
proof -
  obtain s1 data where data: "TrackReference K x n s = (Ok (), s1)" "Secrets_Get K x s1 = Ok data"
    using assms by (auto simp: inlineAndTrackSecret_def stm_simps)
  consider "data = []" | key v where "data = [(key, v)]" | y z zs where "data = y # z # zs"
    by (metis list.exhaust surj_pair)
  then show ?thesis
    using assms data
    by cases (auto simp: inlineAndTrackSecret_def stm_simps split: if_splits prod.splits)
qed

lemma inline_authority_inlined:
  assumes "pem_documented L" and "pem_Decode L [] = None" and "inlinable L a"
    and "inline_authority L K n a s = (Ok a', s')"
  shows "inlined L a'"
proof -
  obtain k where k: "Keyless a = None" "Key a = Some k" "wf_key L k" "KMS k = [] \<or> contains (KMS k) ''://''"
    using assms(3) by (auto simp: inlinable_def)
  consider "Data k \<noteq> []" "KMS k = []" "SecretRef k = None" "IsValidKey L (Data k) = Ok True"
    | "KMS k \<noteq> []" "SecretRef k = None" "contains (KMS k) ''://''"
    | x where "KMS k = []" "SecretRef k = Some x"
    using k(3,4) by (auto simp: wf_key_def)
  then show ?thesis
  proof cases
    case 1
    then show ?thesis
      using assms(4) k by (auto simp: inline_authority_def inline_secret_def inline_KMS_def inlined_def stm_simps)
  next
    case 2
    then show ?thesis
      using assms(1,4) k
      by (auto simp: inline_authority_def inline_secret_def inline_KMS_def inlined_def stm_simps getKMSPublicKey_def
          PublicKeyPem_def pem_documented_def res_simps)
  next
    case 3
    then obtain k' s1 where k': "inlineAndTrackSecret L K n x k s = (Ok k', s1)"
      "inline_KMS L K (Some k') s1 = (Ok (Key a'), s')" "Keyless a' = None"
      using assms(4) k by (auto simp: inline_authority_def inline_secret_def stm_simps)
    from inlineAndTrackSecret_Ok [OF k'(1)] obtain v where v: "k' = k\<lparr>Data := v, SecretRef := None\<rparr>" "IsValidKey L v = Ok True"
      by blast
    then have "Key a' = Some k'"
      using k'(2) 3 by (simp add: inline_KMS_def)
    then show ?thesis
      using IsValidKey_nonempty [OF assms(2) v(2)] v k'(3) by (simp add: inlined_def)
  qed
qed

lemma inlinePublicKeys_inlined:
  assumes "pem_documented L" and "pem_Decode L [] = None" and "\<forall>a \<in> set (Authorities spec). inlinable L a"
    and "inlinePublicKeys L K n spec s = (Ok spec', s')"
  shows "Images spec' = Images spec \<and> length (Authorities spec') = length (Authorities spec) \<and>
    (\<forall>a \<in> set (Authorities spec'). inlined L a)"
proof -
  obtain as where m: "mapS (inline_authority L K n) (Authorities spec) s = (Ok as, s')" and spec': "spec' = spec\<lparr>Authorities := as\<rparr>"
    using assms(4) by (auto simp: inlinePublicKeys_def stm_simps)
  have "list_all2 (\<lambda>a a'. inlined L a') (Authorities spec) as"
    by (rule list.rel_mono_strong [OF mapS_Ok [OF m]]) (use assms(3) in \<open>auto intro: inline_authority_inlined [OF assms(1,2)]\<close>)
  then show ?thesis
    by (auto simp: spec' list_all2_conv_all_nth in_set_conv_nth)
qed

lemma written_authority:
  assumes "inlined L a" and "Authority_UnmarshalJSON L NR (json_authority (convertAuthority a)) = Ok a'"
  shows "WKeyless a' = None \<and> (\<exists>k wk. Key a = Some k \<and> WKey a' = Some wk \<and> PublicKeys wk \<noteq> [] \<and>
    ConvertKeyDataToPublicKeys L (Data k) = Ok (PublicKeys wk))"
  using assms IsValidKey_keys [of L]
  by (fastforce simp: inlined_def json_authority_def convertAuthority_def convertKeyRef_def convertKeylessRef_def json_key_def
      Authority_UnmarshalJSON_def opt_res_def KeyRef_UnmarshalJSON_def mget_def res_simps)

subsection \<open>What the webhook reads\<close>

text \<open>The keys of a policy, as the webhook parses them from the inlined data.\<close>

definition policy_keys :: "libs \<Rightarrow> ClusterImagePolicySpec \<Rightarrow> pubkey set" where
  "policy_keys L spec =
     {key. \<exists>a \<in> set (Authorities spec). \<exists>k ks. Key a = Some k \<and> ConvertKeyDataToPublicKeys L (Data k) = Ok ks \<and> key \<in> set ks}"

lemma read_policy:
  assumes "json_documented K C" and "Marshal_policy K (ConvertClusterImagePolicyV1alpha1ToWebhook spec) = Ok e"
    and "parseEntry L C e = Ok w" and "\<forall>a \<in> set (Authorities spec). inlined L a"
  shows "WImages w = Images spec \<and> length (WAuthorities w) = length (Authorities spec) \<and>
    (\<forall>a \<in> set (WAuthorities w). WKeyless a = None \<and>
       (\<exists>wk. WKey a = Some wk \<and> PublicKeys wk \<noteq> [] \<and> set (PublicKeys wk) \<subseteq> policy_keys L spec))"
proof -
  from parseEntry_written [OF assms(1-3)] have w: "WImages w = Images spec"
    and all: "list_all2 (\<lambda>a a'. Authority_UnmarshalJSON L (NewRepository C) (json_authority (convertAuthority a)) = Ok a')
      (Authorities spec) (WAuthorities w)"
    by (simp_all add: ConvertClusterImagePolicyV1alpha1ToWebhook_def list.rel_map)
  have "list_all2 (\<lambda>a a'. WKeyless a' = None \<and>
      (\<exists>wk. WKey a' = Some wk \<and> PublicKeys wk \<noteq> [] \<and> set (PublicKeys wk) \<subseteq> policy_keys L spec))
      (Authorities spec) (WAuthorities w)"
    by (rule list.rel_mono_strong [OF all]) (use assms(4) written_authority in \<open>fastforce simp: policy_keys_def\<close>)
  then show ?thesis
    using w by (auto simp: list_all2_conv_all_nth in_set_conv_nth)
qed

lemma in_map_filter: "y \<in> set (List.map_filter f xs) \<longleftrightarrow> (\<exists>x \<in> set xs. f x = Some y)"
  by (induction xs) (auto simp: map_filter_simps split: option.splits)

lemma policy_admits:
  assumes "admissible L H E R (Some (Some config)) kc keys ref"
    and "map_of config n = Some w" and "WAuthorities w \<noteq> []"
    and "\<forall>a \<in> set (WAuthorities w). WKeyless a = None \<and> (\<exists>wk. WKey a = Some wk \<and> PublicKeys wk \<noteq> [] \<and> set (PublicKeys wk) \<subseteq> P)"
    and "q \<in> set (WImages w)" and "pattern_matches L (reference_String ref) q"
  shows "\<exists>key \<in> P. \<exists>v opts sps. LoadVerifier L key = Ok v \<and> verified L H R ref (key_opts L v opts) sps"
proof -
  have "filter (pattern_matches L (reference_String ref)) (WImages w) \<noteq> []"
    using assms(5,6) by (auto simp: filter_empty_conv)
  then obtain as where as: "matched_entry L (reference_String ref) w = Some as" "set as = set (WAuthorities w)"
    by (auto simp: matched_entry_def Let_def set_replicate_conv_if)
  obtain policies where pol: "GetMatchingPolicies L (Some config) (reference_String ref) = Ok policies"
    and sat: "if policies = [] then \<exists>sps. keys_verify L H E R ref keys [WithRemoteOptions kc] sps
      else \<forall>(p, as) \<in> set policies. satisfied L H E R ref kc as"
    using assms(1) by (auto simp: admissible_def)
  have "(n, as) \<in> set policies"
    using pol map_of_SomeD [OF assms(2)] as(1)
    by (auto simp: GetMatchingPolicies_Ok_iff in_map_filter intro!: bexI [of _ "(n, w)"])
  then have "satisfied L H E R ref kc as"
    using sat by (auto split: if_splits)
  moreover have "\<not> (\<forall>a \<in> set as. \<not> usable a)"
  proof -
    obtain a where "a \<in> set (WAuthorities w)"
      using assms(3) by (cases "WAuthorities w") auto
    then show ?thesis
      using assms(4) as(2) unfolding usable_def by blast
  qed
  ultimately obtain a sps where a: "a \<in> set (WAuthorities w)" "vouches L H E R ref kc a sps"
    unfolding satisfied_def as(2) by blast
  obtain wk where wk: "WKeyless a = None" "WKey a = Some wk" "PublicKeys wk \<noteq> []" "set (PublicKeys wk) \<subseteq> P"
    using assms(4) a(1) by blast
  then have "keys_verify L H E R ref (PublicKeys wk) (WithRemoteOptions kc # RemoteOpts a) sps"
    using a(2) by (auto simp: vouches_def Let_def)
  then show ?thesis
    using wk(3,4) by (auto simp: keys_verify_def)
qed

subsection \<open>The policy is enforced\<close>


subsection \<open>An example\<close>

definition sample_inlined :: ClusterImagePolicySpec where
  "sample_inlined = \<lparr>Images = [\<lparr>Glob = ''registry/*'', Regex = []\<rparr>],
     Authorities = [\<lparr>Key = Some \<lparr>SecretRef = None, Data = ''k'', KMS = []\<rparr>, Keyless = None, Sources = [], CTLog = None\<rparr>]\<rparr>"

abbreviation sample_written :: WClusterImagePolicy where
  "sample_written \<equiv> ConvertClusterImagePolicyV1alpha1ToWebhook sample_inlined"

definition marshal_kube :: "world kube" where
  "marshal_kube = sample_kube\<lparr>Marshal_policy :=
     (\<lambda>w. if w = sample_written then Ok ''policy'' else Err (LibError ''another policy''))\<rparr>"

definition sample_config_lib :: config_lib where
  "sample_config_lib =
     \<lparr>YAMLToJSON = Ok,
      json_policy = (\<lambda>_. Ok \<lparr>raw_Images = WImages sample_written, raw_Authorities = map json_authority (WAuthorities sample_written)\<rparr>),
      NewRepository = Ok\<rparr>"

definition sample_read :: WClusterImagePolicy where
  "sample_read = \<lparr>WImages = [\<lparr>Glob = ''registry/*'', Regex = []\<rparr>],
     WAuthorities = [\<lparr>WKey = Some \<lparr>WData = ''k'', PublicKeys = [ECDSAKey ''k'']\<rparr>, WKeyless = None, WSources = [],
       WCTLog = None, RemoteOpts = []\<rparr>]\<rparr>"

abbreviation sample_reconciled :: world where
  "sample_reconciled \<equiv> sample_world\<lparr>w_cm := Some \<lparr>cm_Data = Some [(''p'', ''policy'')]\<rparr>\<rparr>"

lemma sample_valid_key: "IsValidKey sample_libs (c # b) = Ok True"
  by (simp add: IsValidKey_def parsePEMKey_def sample_libs_def)

lemma sample_laws:
  "cluster_documented marshal_kube w_entries w_policies" "json_documented marshal_kube sample_config_lib"
  "pem_documented sample_libs" "pem_Decode sample_libs [] = None"
  "ClusterImagePolicy_Validate sample_libs sample_apis (cip_Spec sample_policy) = Ok None"
proof -
  show "cluster_documented marshal_kube w_entries w_policies"
    unfolding marshal_kube_def cluster_documented_marshal by (rule sample_kube_documented)
  show "json_documented marshal_kube sample_config_lib"
    by (auto simp: json_documented_def marshal_kube_def sample_config_lib_def split: if_splits)
  show pem: "pem_Decode sample_libs [] = None"
    by (simp add: sample_libs_def)
  have "MarshalPublicKeyToPEM sample_libs k = Ok b \<Longrightarrow> b \<noteq> []" for k b
    by (auto simp: sample_libs_def split: if_splits pubkey.splits)
  then show "pem_documented sample_libs"
    by (fastforce simp: pem_documented_def neq_Nil_conv sample_valid_key)
  have "wf_policy sample_libs (cip_Spec sample_policy)"
    by (simp add: wf_policy_def wf_pattern_def wf_glob_iff wf_authority_def wf_key_def sample_policy_def has_suffix_def)
  then show "ClusterImagePolicy_Validate sample_libs sample_apis (cip_Spec sample_policy) = Ok None"
    using Validate_None_iff [OF sample_also] by blast
qed

lemma sample_inlines:
  "inlinePublicKeys sample_libs marshal_kube ''p'' (cip_Spec sample_policy) sample_world = (Ok sample_inlined, sample_world)"
  by (simp add: inlinePublicKeys_def inline_authority_def inline_secret_def inlineAndTrackSecret_def inline_KMS_def
      sample_policy_def marshal_kube_def sample_kube_def bindS_def handleS_def sample_valid_key sample_inlined_def)

lemma sample_reconcile:
  "ReconcileKind sample_libs marshal_kube ''p'' (cip_Spec sample_policy) sample_world = (Ok (), sample_reconciled)"
  using sample_inlines
  by (simp add: ReconcileKind_def write_entry_def marshal_kube_def sample_kube_def NewConfigMap_def marshal_def
      bindS_def handleS_def sample_world_def)

lemma sample_shown:
  assumes "ConfigMaps_Get marshal_kube (snd (inlinePublicKeys sample_libs marshal_kube ''p'' (cip_Spec sample_policy) sample_world)) = Ok c"
  shows "entries c ''p'' = Some e \<Longrightarrow> w_entries sample_world ''p'' = Some e"
  using assms unfolding sample_inlines by (simp add: marshal_kube_def sample_kube_def sample_world_def)

lemma sample_config_read:
  "NewImagePoliciesConfigFromMap sample_libs sample_config_lib [(''p'', ''policy'')] = Ok [(''p'', sample_read)]"
proof -
  have "ConvertKeyDataToPublicKeys sample_libs ''k'' = Ok [ECDSAKey ''k'']"
    by (simp add: ConvertKeyDataToPublicKeys_def parsePEMKey_def sample_libs_def)
  then show ?thesis
    by (simp add: NewImagePoliciesConfigFromMap_def parseEntry_def sample_config_lib_def unmarshal_policy_def
        ConvertClusterImagePolicyV1alpha1ToWebhook_def sample_inlined_def convertAuthority_def convertKeyRef_def convertKeylessRef_def
        json_authority_def json_key_def Authority_UnmarshalJSON_def opt_res_def KeyRef_UnmarshalJSON_def mget_def sample_read_def)
qed

lemma sample_pod_by_policy:
  "validatePodSpec sample_libs sample_host sample_apis sample_cluster (published ''sha256:ab'') (Some (Some [(''p'', sample_read)])) ''ns'' sample_pod = Ok None"
proof -
  let ?ref = "DigestRef ''registry/app'' ''sha256:ab''"
  have "LoadVerifier sample_libs (ECDSAKey ''k'') = Ok (sample_verifier (ECDSAKey ''k''))"
    by (simp add: sample_libs_def)
  then have v: "valid sample_libs sample_host sample_cluster (published ''sha256:ab'') ref [ECDSAKey ''k''] opts = Ok [sample_claim]" for ref opts
    by (simp add: valid_def validSignatures_def sample_claim_verified)
  have "GetMatchingPolicies sample_libs (Some [(''p'', sample_read)]) (reference_String ?ref) = Ok [(''p'', WAuthorities sample_read)]"
    using matching_policies [of "[(''p'', sample_read)]" sample_libs]
    by (simp add: pattern_error_def matched_entry_def pattern_matches_def map_filter_simps has_suffix_def sample_read_def)
  moreover have "validatePolicies sample_libs sample_host sample_cluster (published ''sha256:ab'') ?ref kc [(''p'', WAuthorities sample_read)]
      = Ok ([(''p'', [sample_claim])], [])" for kc
    by (simp add: ValidatePolicy_def check_authority_def sample_read_def v)
  ultimately have "check_container sample_libs sample_host sample_apis sample_cluster (published ''sha256:ab'')
      (Some (Some [(''p'', sample_read)])) kc keys field i ''app'' None = Ok None" for kc keys field i
    by (simp add: check_container_def sample_parse Let_def del: reference_String.simps)
  then show ?thesis
    by (simp add: validatePodSpec_def sample_pod_def) (simp add: sample_cluster_def sample_keys)
qed


end
