(* ===== verification/TUF_Client.thy ===== *)
theory TUF_Client
  imports TUF GoState
begin

section \<open>The TUF client: cache, mirror and update\<close>

text \<open>
  The rest of \<open>pkg/cosign/tuf/client.go\<close> and \<open>store.go\<close>: where metadata and targets are kept, when
  they are updated, and which mirror is asked. The state is the file system under the cache
  directory, the database of metadata, and the object \<open>TUF\<close> under construction with its memory
  stores. The client of go-tuf, JSON, the embedded repository and the process environment are the
  parameter \<open>tuf_lib\<close>; the client works on the metadata of its local store.
\<close>

subsection \<open>State\<close>

type_synonym tuf_meta = "(string, bytes) gomap"

datatype remote = GcsStore string | HTTPStore string

datatype setImpl = MemoryCache "(string, bytes) gomap" | DiskCache string

datatype targetImpl = Embedded setImpl | File string setImpl

text \<open>A missing database is \<open>None\<close>. \<open>t_memory\<close> is the memory store of an embedded client.\<close>

record tuf_state =
  files :: "string \<rightharpoonup> bytes"
  tuf_db :: "tuf_meta option"
  t_embedded :: bool
  t_mirror :: string
  t_remote :: remote
  t_memory :: tuf_meta
  t_targets :: targetImpl

record tuf_lib =
  ReadEmbedded :: "string \<Rightarrow> bytes res"
  Unmarshal_Signed :: "bytes \<Rightarrow> bytes res"
  Unmarshal_signedMeta :: "bytes \<Rightarrow> (time \<times> int64) res"
  Format_RFC822 :: "time \<Rightarrow> string"
  Now :: time
  FileLocalStore :: "string \<Rightarrow> unit res"
  GetMeta :: "tuf_meta \<Rightarrow> tuf_meta res"
  Memory_SetMeta :: "string \<Rightarrow> bytes \<Rightarrow> (tuf_meta, unit) stm"
  InitLocal :: "bytes \<Rightarrow> (tuf_meta, unit) stm"
  Update :: "remote \<Rightarrow> (tuf_meta, (string, target_meta) gomap) stm"
  Download :: "remote \<Rightarrow> tuf_meta \<Rightarrow> string \<Rightarrow> bytes res"
  tc_Targets :: "tuf_meta \<Rightarrow> (string, target_meta) gomap res"
  tc_Target :: "tuf_meta \<Rightarrow> string \<Rightarrow> target_meta res"
  IsLatestSnapshot :: "gerror \<Rightarrow> bool"
  Remote_GetMeta :: "remote \<Rightarrow> string \<Rightarrow> bytes res"
  ParseRequestURI :: "string \<Rightarrow> unit res"
  storage_NewClient :: "unit res"
  HTTPRemoteStore :: "string \<Rightarrow> unit res"
  Marshal_remoteCache :: "string \<Rightarrow> bytes res"
  Unmarshal_remoteCache :: "bytes \<Rightarrow> string res"
  env :: "string \<Rightarrow> string"
  UserHomeDir :: "string res"
  GOOS :: string
  Stat_err :: "string \<Rightarrow> gerror option"
  ReadFile_err :: "string \<Rightarrow> gerror option"
  MkdirAll_err :: "string \<Rightarrow> gerror option"
  WriteFile_err :: "string \<Rightarrow> gerror option"

text \<open>Files: an error of the system, else the content.\<close>

definition os_ReadFile :: "tuf_lib \<Rightarrow> string \<Rightarrow> tuf_state \<Rightarrow> bytes res" where
  "os_ReadFile T p s =
     (case ReadFile_err T p of
        Some e \<Rightarrow> Err e
      | None \<Rightarrow> (case files s p of None \<Rightarrow> Err (NotExist p) | Some b \<Rightarrow> Ok b))"

definition os_WriteFile :: "tuf_lib \<Rightarrow> string \<Rightarrow> bytes \<Rightarrow> (tuf_state, unit) stm" where
  "os_WriteFile T p b s =
     (case WriteFile_err T p of Some e \<Rightarrow> (Err e, s) | None \<Rightarrow> (Ok (), s\<lparr>files := (files s)(p \<mapsto> b)\<rparr>))"

subsection \<open>Places\<close>

definition DefaultRemoteRoot :: string where "DefaultRemoteRoot = ''sigstore-tuf-root''"
definition TufRootEnv :: string where "TufRootEnv = ''TUF_ROOT''"
definition SigstoreNoCache :: string where "SigstoreNoCache = ''SIGSTORE_NO_CACHE''"

definition rootCacheDir :: "tuf_lib \<Rightarrow> string" where
  "rootCacheDir T =
     (let rootDir = env T TufRootEnv
      in if rootDir = []
         then filepath_Join [case UserHomeDir T of Ok home \<Rightarrow> home | _ \<Rightarrow> [], ''.sigstore'', ''root'']
         else rootDir)"

definition cachedRemote :: "string \<Rightarrow> string" where
  "cachedRemote cacheRoot = filepath_Join [cacheRoot, ''remote.json'']"

definition cachedTargetsDir :: "string \<Rightarrow> string" where
  "cachedTargetsDir cacheRoot = filepath_Join [cacheRoot, ''targets'']"

definition noCache :: "tuf_lib \<Rightarrow> bool" where
  "noCache T = (case strconv_ParseBool (env T SigstoreNoCache) of Ok b \<Rightarrow> b | _ \<Rightarrow> False)"

definition newEmbeddedImpl :: "tuf_lib \<Rightarrow> targetImpl" where
  "newEmbeddedImpl T =
     Embedded (if noCache T then MemoryCache [] else DiskCache (cachedTargetsDir (rootCacheDir T)))"

definition newFileImpl :: "tuf_lib \<Rightarrow> targetImpl" where
  "newFileImpl T =
     (let base = cachedTargetsDir (rootCacheDir T)
      in File base (if noCache T then MemoryCache [] else DiskCache base))"

subsection \<open>Targets on disk and in memory\<close>

fun replace_crlf :: "bytes \<Rightarrow> bytes" where
  "replace_crlf (a # b # r) =
     (if a = CHR 0x0D \<and> b = CHR 0x0A then CHR 0x0A # replace_crlf r else a # replace_crlf (b # r))"
| "replace_crlf r = r"

fun targetImpl_Get :: "tuf_lib \<Rightarrow> targetImpl \<Rightarrow> string \<Rightarrow> tuf_state \<Rightarrow> bytes res" where
  "targetImpl_Get T (Embedded _) p s =
     bindr (ReadEmbedded T (filepath_Join [''repository'', ''targets'', p])) (\<lambda>b.
     Ok (if GOOS T = ''windows'' then replace_crlf b else b))"
| "targetImpl_Get T (File base _) p s = os_ReadFile T (filepath_Join [base, p]) s"

fun setImpl_Set :: "tuf_lib \<Rightarrow> setImpl \<Rightarrow> string \<Rightarrow> bytes \<Rightarrow> (tuf_state, setImpl) stm" where
  "setImpl_Set T (MemoryCache targets) p b = retS (MemoryCache (mset_key p b targets))"
| "setImpl_Set T (DiskCache base) p b =
     (case MkdirAll_err T base of
        Some e \<Rightarrow> failS (Wrapped e ''creating targets dir'')
      | None \<Rightarrow> bindS (os_WriteFile T (filepath_Join [base, p]) b) (\<lambda>_. retS (DiskCache base)))"

fun set_impl :: "targetImpl \<Rightarrow> setImpl" where
  "set_impl (Embedded i) = i"
| "set_impl (File _ i) = i"

fun with_impl :: "targetImpl \<Rightarrow> setImpl \<Rightarrow> targetImpl" where
  "with_impl (Embedded _) i = Embedded i"
| "with_impl (File base _) i = File base i"

definition modifyS :: "('s \<Rightarrow> 's) \<Rightarrow> ('s, unit) stm" where
  "modifyS f s = (Ok (), f s)"

definition targets_Set :: "tuf_lib \<Rightarrow> string \<Rightarrow> bytes \<Rightarrow> (tuf_state, unit) stm" where
  "targets_Set T p b s =
     bindS (setImpl_Set T (set_impl (t_targets s)) p b)
       (\<lambda>i. modifyS (\<lambda>s. s\<lparr>t_targets := with_impl (t_targets s) i\<rparr>)) s"

subsection \<open>Metadata\<close>

definition getExpiration :: "tuf_lib \<Rightarrow> bytes \<Rightarrow> time res" where
  "getExpiration T metadata =
     bindr (Unmarshal_Signed T metadata) (\<lambda>signed.
     bindr (Unmarshal_signedMeta T signed) (\<lambda>(expires, version). Ok expires))"

definition getVersion :: "tuf_lib \<Rightarrow> bytes \<Rightarrow> int64 res" where
  "getVersion T metadata =
     bindr (Unmarshal_Signed T metadata) (\<lambda>signed.
     bindr (Unmarshal_signedMeta T signed) (\<lambda>(expires, version). Ok version))"

text \<open>\<open>time.Until(e) <= 0\<close> if \<open>e\<close> is not after the present.\<close>

definition isExpiredTimestamp :: "tuf_lib \<Rightarrow> bytes \<Rightarrow> bool" where
  "isExpiredTimestamp T metadata =
     (case getExpiration T metadata of Ok expiration \<Rightarrow> \<not> time_After expiration (Now T) | _ \<Rightarrow> True)"

record MetadataStatus =
  ms_Version :: int64
  ms_Size :: nat
  ms_Expiration :: string
  ms_Error :: "gerror option"

definition getMetadataStatus :: "tuf_lib \<Rightarrow> bytes \<Rightarrow> MetadataStatus res" where
  "getMetadataStatus T b =
     bindr (getExpiration T b) (\<lambda>expires.
     bindr (getVersion T b) (\<lambda>version.
     Ok \<lparr>ms_Version = version, ms_Size = length b, ms_Expiration = Format_RFC822 T expires, ms_Error = None\<rparr>))"

definition getRoot :: "tuf_lib \<Rightarrow> tuf_meta \<Rightarrow> bytes res" where
  "getRoot T m =
     (case mlookup m ''root.json'' of
        Some trustedRoot \<Rightarrow> Ok trustedRoot
      | None \<Rightarrow> ReadEmbedded T (filepath_Join [''repository'', ''root.json'']))"

text \<open>The metadata of the local store, and an operation of the client on them.\<close>

definition local_meta :: "tuf_state \<Rightarrow> tuf_meta" where
  "local_meta s = (if t_embedded s then t_memory s else nil_list (tuf_db s))"

definition client_op :: "(tuf_meta, 'a) stm \<Rightarrow> (tuf_state, 'a) stm" where
  "client_op f s =
     (let (r, m) = f (local_meta s)
      in (r, if t_embedded s then s\<lparr>t_memory := m\<rparr> else s\<lparr>tuf_db := Some m\<rparr>))"

definition localStore :: "tuf_lib \<Rightarrow> string \<Rightarrow> (tuf_state, unit) stm" where
  "localStore T cacheRoot =
     handleS (liftS (FileLocalStore T cacheRoot)) (\<lambda>err. failS (Wrapped err ''creating cached local store''))
       (\<lambda>_. modifyS (\<lambda>s. s\<lparr>tuf_db := Some (nil_list (tuf_db s))\<rparr>))"

fun embedded_metas :: "tuf_lib \<Rightarrow> string list \<Rightarrow> (tuf_meta, unit) stm" where
  "embedded_metas T [] = retS ()"
| "embedded_metas T (mdFilename # rest) =
     handleS (liftS (ReadEmbedded T (filepath_Join [''repository'', mdFilename])))
       (\<lambda>err. failS (Wrapped err ''reading embedded file'')) (\<lambda>b.
     handleS (Memory_SetMeta T mdFilename b) (\<lambda>err. failS (Wrapped err ''setting local meta'')) (\<lambda>_.
     embedded_metas T rest))"

definition metadata_files :: "string list" where
  "metadata_files = [''root.json'', ''targets.json'', ''snapshot.json'', ''timestamp.json'']"

definition embeddedLocalStore :: "tuf_lib \<Rightarrow> tuf_meta res" where
  "embeddedLocalStore T =
     (let (r, m) = embedded_metas T metadata_files [] in bindr r (\<lambda>_. Ok m))"

subsection \<open>The mirror\<close>

definition GcsRemoteStore :: "tuf_lib \<Rightarrow> string \<Rightarrow> remote res" where
  "GcsRemoteStore T bucket = bindr (storage_NewClient T) (\<lambda>_. Ok (GcsStore bucket))"

definition remoteFromMirror :: "tuf_lib \<Rightarrow> string \<Rightarrow> remote res" where
  "remoteFromMirror T mirror =
     handler (ParseRequestURI T mirror) (\<lambda>_. GcsRemoteStore T mirror)
       (\<lambda>_. bindr (HTTPRemoteStore T mirror) (\<lambda>_. Ok (HTTPStore mirror)))"

subsection \<open>Update\<close>

definition downloadRemoteTarget :: "tuf_lib \<Rightarrow> string \<Rightarrow> (tuf_state, bytes) stm" where
  "downloadRemoteTarget T name =
     readS (\<lambda>s. wrapr ''downloading target'' (Download T (t_remote s) (local_meta s) name))"

fun store_targets :: "tuf_lib \<Rightarrow> string list \<Rightarrow> (tuf_state, unit) stm" where
  "store_targets T [] = retS ()"
| "store_targets T (name # rest) =
     bindS (downloadRemoteTarget T name) (\<lambda>buf.
     bindS (targets_Set T name buf) (\<lambda>_.
     store_targets T rest))"

text \<open>The error text has the status of the remote metadata, as far as it can be read.\<close>

definition updateMetadataAndDownloadTargets :: "tuf_lib \<Rightarrow> (tuf_state, unit) stm" where
  "updateMetadataAndDownloadTargets T s =
     handleS (client_op (Update T (t_remote s)))
       (\<lambda>err. if \<not> IsLatestSnapshot T err then failS (Wrapped err ''error updating to TUF remote mirror'') else retS ())
       (\<lambda>targetFiles. store_targets T (map fst targetFiles)) s"

subsection \<open>Initialization\<close>

text \<open>
  Closing the local store has no effect on what is modelled. \<open>rootBytes\<close> is nil or the bytes of a root.
\<close>

definition setup_store :: "tuf_lib \<Rightarrow> bool \<Rightarrow> (tuf_state, unit) stm" where
  "setup_store T emb =
     (if emb
      then bindS (liftS (embeddedLocalStore T)) (\<lambda>m. modifyS (\<lambda>s. s\<lparr>t_memory := m, t_targets := newEmbeddedImpl T\<rparr>))
      else bindS (localStore T (filepath_Join [rootCacheDir T, ''tuf.db''])) (\<lambda>_.
           modifyS (\<lambda>s. s\<lparr>t_targets := newFileImpl T\<rparr>)))"

definition initializeTUF :: "tuf_lib \<Rightarrow> bool \<Rightarrow> string \<Rightarrow> bytes option \<Rightarrow> bool \<Rightarrow> (tuf_state, unit) stm" where
  "initializeTUF T emb mirror rootBytes forceUpdate =
     bindS (modifyS (\<lambda>s. s\<lparr>t_mirror := mirror, t_embedded := emb\<rparr>)) (\<lambda>_.
     bindS (setup_store T emb) (\<lambda>_.
     bindS (liftS (remoteFromMirror T mirror)) (\<lambda>r.
     bindS (modifyS (\<lambda>s. s\<lparr>t_remote := r\<rparr>)) (\<lambda>_.
     bindS (readS (\<lambda>s. wrapr ''getting trusted meta'' (GetMeta T (local_meta s)))) (\<lambda>trustedMeta.
     bindS (liftS (case rootBytes of Some b \<Rightarrow> Ok b | None \<Rightarrow> wrapr ''getting trusted root'' (getRoot T trustedMeta))) (\<lambda>root'.
     handleS (client_op (InitLocal T root'))
       (\<lambda>err. failS (Wrapped err ''unable to initialize client, local cache may be corrupt'')) (\<lambda>_.
     if (case mlookup trustedMeta ''timestamp.json'' of None \<Rightarrow> False | Some b \<Rightarrow> \<not> isExpiredTimestamp T b) \<and> \<not> forceUpdate
     then retS ()
     else handleS (updateMetadataAndDownloadTargets T)
            (\<lambda>err. failS (Wrapped err ''updating local metadata and targets'')) retS)))))))"

definition stat_db :: "tuf_lib \<Rightarrow> tuf_state \<Rightarrow> bool res" where
  "stat_db T s =
     (case Stat_err T (filepath_Join [rootCacheDir T, ''tuf.db'']) of
        Some e \<Rightarrow> Err e
      | None \<Rightarrow> Ok (tuf_db s \<noteq> None))"

definition NewFromEnv :: "tuf_lib \<Rightarrow> (tuf_state, unit) stm" where
  "NewFromEnv T =
     bindS (readS (stat_db T)) (\<lambda>exists.
     bindS (readS (\<lambda>s. handler (os_ReadFile T (cachedRemote (rootCacheDir T)) s) (\<lambda>_. Ok DefaultRemoteRoot)
              (\<lambda>b. handler (Unmarshal_remoteCache T b) (\<lambda>_. Ok DefaultRemoteRoot) Ok))) (\<lambda>mirror.
     initializeTUF T (\<not> exists) mirror None False))"

definition Initialize :: "tuf_lib \<Rightarrow> string \<Rightarrow> bytes option \<Rightarrow> (tuf_state, unit) stm" where
  "Initialize T mirror rootBytes =
     bindS (initializeTUF T False mirror rootBytes True) (\<lambda>_.
     bindS (liftS (Marshal_remoteCache T mirror)) (\<lambda>b.
     handleS (os_WriteFile T (cachedRemote (rootCacheDir T)) b) (\<lambda>err. failS (Wrapped err ''storing remote'')) retS))"

subsection \<open>Status\<close>

record RootStatus =
  rs_Local :: string
  rs_Remote :: string
  rs_Metadata :: "(string, MetadataStatus) gomap"
  rs_Targets :: "string list"

definition metadata_status :: "tuf_lib \<Rightarrow> bytes \<Rightarrow> MetadataStatus res" where
  "metadata_status T md =
     handler (getMetadataStatus T md)
       (\<lambda>err. Ok \<lparr>ms_Version = 0, ms_Size = 0, ms_Expiration = [], ms_Error = Some err\<rparr>) Ok"

definition getRootStatus :: "tuf_lib \<Rightarrow> tuf_state \<Rightarrow> RootStatus res" where
  "getRootStatus T s =
     bindr (tc_Targets T (local_meta s)) (\<lambda>targets.
     bindr (wrapr ''getting trusted meta'' (GetMeta T (local_meta s))) (\<lambda>trustedMeta.
     bindr (mapr (\<lambda>(role, md). bindr (metadata_status T md) (\<lambda>st. Ok (role, st))) trustedMeta) (\<lambda>metadata.
     Ok \<lparr>rs_Local = (if t_embedded s then ''embedded'' else rootCacheDir T), rs_Remote = t_mirror s,
         rs_Metadata = metadata, rs_Targets = map fst targets\<rparr>)))"

definition GetRootStatus :: "tuf_lib \<Rightarrow> (tuf_state, RootStatus) stm" where
  "GetRootStatus T = bindS (NewFromEnv T) (\<lambda>_. readS (getRootStatus T))"

definition DoInitialize :: "tuf_lib \<Rightarrow> host \<Rightarrow> string \<Rightarrow> string \<Rightarrow> (tuf_state, RootStatus) stm" where
  "DoInitialize T H rootRef mirror =
     bindS (liftS (if rootRef \<noteq> [] then bindr (LoadFileOrURL H rootRef) (\<lambda>b. Ok (Some b)) else Ok None)) (\<lambda>rootFileBytes.
     bindS (Initialize T mirror rootFileBytes) (\<lambda>_.
     GetRootStatus T))"

text \<open>The client as the lookup of targets sees it.\<close>

definition tuf_of :: "tuf_lib \<Rightarrow> tuf_state \<Rightarrow> tuf" where
  "tuf_of T s =
     \<lparr>client_Targets = tc_Targets T (local_meta s), client_Target = tc_Target T (local_meta s),
      targets_Get = (\<lambda>name. targetImpl_Get T (t_targets s) name s)\<rparr>"

text \<open>What \<open>NewFromEnv\<close> returns in a process: the field \<open>tuf_NewFromEnv\<close> of a \<open>host\<close> stands for it.\<close>

definition env_tuf :: "tuf_lib \<Rightarrow> tuf_state \<Rightarrow> tuf res" where
  "env_tuf T s = (let (r, s') = NewFromEnv T s in bindr r (\<lambda>_. Ok (tuf_of T s')))"

subsection \<open>What an update changes\<close>

lemma modifyS_simp [simp]: "modifyS f s = (Ok (), f s)"
  by (simp add: modifyS_def)

text \<open>Storing targets leaves the metadata and the settings alone.\<close>

definition same_client :: "tuf_state \<Rightarrow> tuf_state \<Rightarrow> bool" where
  "same_client s s' \<longleftrightarrow> tuf_db s' = tuf_db s \<and> t_embedded s' = t_embedded s \<and> t_mirror s' = t_mirror s \<and>
     t_remote s' = t_remote s \<and> t_memory s' = t_memory s"

lemma same_client_simps [simp]:
  "same_client s s" "same_client s s' \<Longrightarrow> local_meta s' = local_meta s"
  by (simp_all add: same_client_def local_meta_def)

lemma same_client_trans: "same_client s t \<Longrightarrow> same_client t u \<Longrightarrow> same_client s u"
  by (simp add: same_client_def)

lemma os_WriteFile_same: "same_client s (snd (os_WriteFile T p b s))"
  by (auto simp: os_WriteFile_def same_client_def split: option.splits)

lemma targets_Set_same: "same_client s (snd (targets_Set T p b s))"
proof (cases "set_impl (t_targets s)")
  case (DiskCache base)
  then show ?thesis
    by (auto simp: targets_Set_def bindS_def os_WriteFile_def same_client_def split: option.splits prod.splits res.splits)
qed (simp add: targets_Set_def bindS_def same_client_def)

lemma store_targets_same: "same_client s (snd (store_targets T names s))"
proof (induction names arbitrary: s)
  case (Cons name names)
  show ?case
  proof (cases "Download T (t_remote s) (local_meta s) name")
    case (Ok b)
    obtain r t where t: "targets_Set T name b s = (r, t)"
      by (cases "targets_Set T name b s")
    then have "same_client s t"
      using targets_Set_same [of s T name b] by simp
    then show ?thesis
      using same_client_trans [OF _ Cons.IH, of s t] Ok t
      by (cases r) (auto simp: downloadRemoteTarget_def bindS_def)
  qed (simp_all add: downloadRemoteTarget_def bindS_def)
qed simp

lemma local_meta_client_op:
  "client_op f s = (r, s') \<Longrightarrow> f (local_meta s) = (r, local_meta s') \<and> t_embedded s' = t_embedded s \<and>
     t_mirror s' = t_mirror s \<and> t_remote s' = t_remote s \<and> (tuf_db s \<noteq> None \<longrightarrow> tuf_db s' \<noteq> None)"
  by (auto simp: client_op_def local_meta_def split: prod.splits if_splits)

lemma update_Ok:
  assumes "updateMetadataAndDownloadTargets T s = (Ok (), s')"
  shows "\<exists>r m. Update T (t_remote s) (local_meta s) = (r, m) \<and> local_meta s' = m \<and>
    (is_ok r \<or> (\<exists>e. r = Err e \<and> IsLatestSnapshot T e)) \<and>
    t_embedded s' = t_embedded s \<and> t_mirror s' = t_mirror s \<and> (tuf_db s \<noteq> None \<longrightarrow> tuf_db s' \<noteq> None)"
proof -
  obtain r s1 where op: "client_op (Update T (t_remote s)) s = (r, s1)"
    by (cases "client_op (Update T (t_remote s)) s")
  note op' = local_meta_client_op [OF op]
  show ?thesis
  proof (cases r)
    case (Ok targets)
    then have "same_client s1 s'"
      using assms op store_targets_same [of s1 T "map fst targets"] by (simp add: updateMetadataAndDownloadTargets_def)
    then show ?thesis
      using op' Ok by (auto simp: same_client_def local_meta_def)
  next
    case (Err e)
    then show ?thesis
      using assms op op' by (auto simp: updateMetadataAndDownloadTargets_def split: if_splits)
  qed (use assms op in \<open>simp add: updateMetadataAndDownloadTargets_def handleS_def\<close>)
qed

subsection \<open>Initialization is fresh\<close>

lemma setup_store_Ok:
  assumes "setup_store T emb s = (Ok (), s')" and "t_embedded s = emb"
  shows "(if emb then embeddedLocalStore T = Ok (local_meta s') else local_meta s' = nil_list (tuf_db s) \<and> tuf_db s' \<noteq> None) \<and>
    t_embedded s' = emb \<and> t_mirror s' = t_mirror s"
  using assms by (auto simp: setup_store_def localStore_def local_meta_def stm_simps split: if_splits)

lemma initializeTUF_Ok:
  assumes "initializeTUF T emb mirror rootBytes force s = (Ok (), s')"
  shows "\<exists>m trusted r rt m1. (if emb then embeddedLocalStore T = Ok m else m = nil_list (tuf_db s) \<and> tuf_db s' \<noteq> None) \<and>
    GetMeta T m = Ok trusted \<and> (case rootBytes of Some b \<Rightarrow> rt = b | None \<Rightarrow> getRoot T trusted = Ok rt) \<and>
    remoteFromMirror T mirror = Ok r \<and> InitLocal T rt m = (Ok (), m1) \<and>
    (\<not> force \<and> (\<exists>b. mlookup trusted ''timestamp.json'' = Some b \<and> \<not> isExpiredTimestamp T b) \<and> local_meta s' = m1 \<or>
     (\<exists>u. Update T r m1 = (u, local_meta s') \<and> (is_ok u \<or> (\<exists>e. u = Err e \<and> IsLatestSnapshot T e)))) \<and>
    t_embedded s' = emb \<and> t_mirror s' = mirror"
proof -
  let ?s0 = "s\<lparr>t_mirror := mirror, t_embedded := emb\<rparr>"
  obtain s1 r trusted rt s2 where s1: "setup_store T emb ?s0 = (Ok (), s1)" and r: "remoteFromMirror T mirror = Ok r"
    and trusted: "GetMeta T (local_meta (s1\<lparr>t_remote := r\<rparr>)) = Ok trusted"
    and rt: "(case rootBytes of Some b \<Rightarrow> Ok b | None \<Rightarrow> wrapr ''getting trusted root'' (getRoot T trusted)) = Ok rt"
    and init: "client_op (InitLocal T rt) (s1\<lparr>t_remote := r\<rparr>) = (Ok (), s2)"
    and rest: "(if (case mlookup trusted ''timestamp.json'' of None \<Rightarrow> False | Some b \<Rightarrow> \<not> isExpiredTimestamp T b) \<and> \<not> force
       then retS () else handleS (updateMetadataAndDownloadTargets T) (\<lambda>err. failS (Wrapped err ''updating local metadata and targets'')) retS) s2
       = (Ok (), s')"
    using assms by (auto simp: initializeTUF_def stm_simps res_simps)
  note store = setup_store_Ok [OF s1, simplified]
  note init' = local_meta_client_op [OF init]
  have meta: "local_meta (s1\<lparr>t_remote := r\<rparr>) = local_meta s1"
    by (simp add: local_meta_def)
  have fin: "(\<not> force \<and> (\<exists>b. mlookup trusted ''timestamp.json'' = Some b \<and> \<not> isExpiredTimestamp T b) \<and> local_meta s' = local_meta s2 \<or>
     (\<exists>u. Update T r (local_meta s2) = (u, local_meta s') \<and> (is_ok u \<or> (\<exists>e. u = Err e \<and> IsLatestSnapshot T e)))) \<and>
    t_embedded s' = emb \<and> t_mirror s' = mirror \<and> (tuf_db s2 \<noteq> None \<longrightarrow> tuf_db s' \<noteq> None)"
  proof (cases "(case mlookup trusted ''timestamp.json'' of None \<Rightarrow> False | Some b \<Rightarrow> \<not> isExpiredTimestamp T b) \<and> \<not> force")
    case True
    then show ?thesis
      using rest init' store by (auto split: option.splits)
  next
    case False
    then have "updateMetadataAndDownloadTargets T s2 = (Ok (), s')"
      using rest by (auto simp: stm_simps)
    from update_Ok [OF this] show ?thesis
      using init' store by auto
  qed
  show ?thesis
  proof (intro exI conjI)
    show "if emb then embeddedLocalStore T = Ok (local_meta s1) else local_meta s1 = nil_list (tuf_db s) \<and> tuf_db s' \<noteq> None"
      using store init' fin by (auto split: if_splits)
    show "case rootBytes of Some b \<Rightarrow> rt = b | None \<Rightarrow> getRoot T trusted = Ok rt"
      using rt by (auto simp: res_simps split: option.splits)
  qed (use trusted r init' fin meta in auto)
qed

lemma NewFromEnv_Ok:
  assumes "NewFromEnv T s = (Ok (), s')"
  shows "\<exists>mirror. (handler (os_ReadFile T (cachedRemote (rootCacheDir T)) s) (\<lambda>_. Ok DefaultRemoteRoot)
      (\<lambda>b. handler (Unmarshal_remoteCache T b) (\<lambda>_. Ok DefaultRemoteRoot) Ok)) = Ok mirror \<and>
    initializeTUF T (tuf_db s = None) mirror None False s = (Ok (), s')"
  using assms by (auto simp: NewFromEnv_def stat_db_def stm_simps split: option.splits)

text \<open>C15. The trusted metadata are fresh. If \<open>NewFromEnv\<close> gives a client, its metadata start from the
  database, or from the embedded repository if there is no database, with the root found there;
  and either the timestamp was there and has not expired, or the client was updated from the
  mirror (or the mirror had nothing newer).\<close>

theorem NewFromEnv_fresh:
  assumes "NewFromEnv T s = (Ok (), s')"
  shows "\<exists>m trusted r rt m1.
    (case tuf_db s of None \<Rightarrow> embeddedLocalStore T = Ok m | Some db \<Rightarrow> m = db) \<and>
    GetMeta T m = Ok trusted \<and> getRoot T trusted = Ok rt \<and> InitLocal T rt m = (Ok (), m1) \<and>
    remoteFromMirror T (t_mirror s') = Ok r \<and>
    ((\<exists>b e. mlookup trusted ''timestamp.json'' = Some b \<and> getExpiration T b = Ok e \<and> time_After e (Now T) \<and> local_meta s' = m1) \<or>
     (\<exists>u. Update T r m1 = (u, local_meta s') \<and> (is_ok u \<or> (\<exists>e. u = Err e \<and> IsLatestSnapshot T e))))"
proof -
  have unexpired: "\<exists>e. getExpiration T b = Ok e \<and> time_After e (Now T)" if "\<not> isExpiredTimestamp T b" for b
    using that by (auto simp: isExpiredTimestamp_def split: res.splits)
  obtain mirror where "initializeTUF T (tuf_db s = None) mirror None False s = (Ok (), s')"
    using NewFromEnv_Ok [OF assms] by blast
  from initializeTUF_Ok [OF this, simplified] obtain m trusted r rt m1
    where m: "if tuf_db s = None then embeddedLocalStore T = Ok m else m = nil_list (tuf_db s) \<and> tuf_db s' \<noteq> None"
      and calls: "GetMeta T m = Ok trusted" "getRoot T trusted = Ok rt" "InitLocal T rt m = (Ok (), m1)" "remoteFromMirror T (t_mirror s') = Ok r"
      and fin: "(\<exists>b. mlookup trusted ''timestamp.json'' = Some b \<and> \<not> isExpiredTimestamp T b) \<and> local_meta s' = m1 \<or>
       (\<exists>u. Update T r m1 = (u, local_meta s') \<and> (is_ok u \<or> (\<exists>e. u = Err e \<and> IsLatestSnapshot T e)))"
    by blast
  show ?thesis
  proof (intro exI conjI)
    show "case tuf_db s of None \<Rightarrow> embeddedLocalStore T = Ok m | Some db \<Rightarrow> m = db"
      using m by (cases "tuf_db s") auto
    show "(\<exists>b e. mlookup trusted ''timestamp.json'' = Some b \<and> getExpiration T b = Ok e \<and> time_After e (Now T) \<and> local_meta s' = m1) \<or>
     (\<exists>u. Update T r m1 = (u, local_meta s') \<and> (is_ok u \<or> (\<exists>e. u = Err e \<and> IsLatestSnapshot T e)))"
      using fin unexpired by blast
  qed (fact calls)+
qed

text \<open>What is written for the mirror is read back.\<close>

definition mirror_documented :: "tuf_lib \<Rightarrow> bool" where
  "mirror_documented T \<longleftrightarrow> (\<forall>m b. Marshal_remoteCache T m = Ok b \<longrightarrow> Unmarshal_remoteCache T b = Ok m)"

text \<open>C25. \<open>cosign initialize\<close> is remembered. After a successful \<open>Initialize\<close> with a mirror, a later
  \<open>NewFromEnv\<close> uses the database in the cache directory, not the embedded repository, and the
  mirror that was given.\<close>

theorem Initialize_then_NewFromEnv:
  assumes "mirror_documented T" and "ReadFile_err T (cachedRemote (rootCacheDir T)) = None"
    and "Initialize T mirror rootBytes s = (Ok (), s')" and "NewFromEnv T s' = (Ok (), s'')"
  shows "t_mirror s'' = mirror \<and> \<not> t_embedded s'' \<and> 
    (\<exists>r u m. remoteFromMirror T mirror = Ok r \<and> Update T r m = (u, nil_list (tuf_db s')) \<and>
       (is_ok u \<or> (\<exists>e. u = Err e \<and> IsLatestSnapshot T e)))"
proof -
  obtain s1 b where s1: "initializeTUF T False mirror rootBytes True s = (Ok (), s1)"
    and b: "Marshal_remoteCache T mirror = Ok b" and s': "s' = s1\<lparr>files := (files s1)(cachedRemote (rootCacheDir T) \<mapsto> b)\<rparr>"
    using assms(3) by (auto simp: Initialize_def stm_simps os_WriteFile_def split: option.splits)
  note init = initializeTUF_Ok [OF s1, simplified]
  have db: "tuf_db s' \<noteq> None"
    using init s' by auto
  have "os_ReadFile T (cachedRemote (rootCacheDir T)) s' = Ok b" "Unmarshal_remoteCache T b = Ok mirror"
    using assms(1,2) b s' by (simp_all add: os_ReadFile_def mirror_documented_def)
  then have "initializeTUF T False mirror None False s' = (Ok (), s'')"
    using NewFromEnv_Ok [OF assms(4)] db by auto
  from initializeTUF_Ok [OF this] have "t_mirror s'' = mirror \<and> \<not> t_embedded s''"
    by auto
  moreover have "local_meta s1 = nil_list (tuf_db s')"
    using init s' by (auto simp: local_meta_def)
  ultimately show ?thesis
    using init by metis
qed

lemma update_keeps:
  assumes set: "\<And>p b t. P t \<Longrightarrow> P (snd (targets_Set T p b t))"
    and meta: "\<And>t m. P t \<Longrightarrow> P (t\<lparr>t_memory := m\<rparr>)" "\<And>t m. P t \<Longrightarrow> P (t\<lparr>tuf_db := Some m\<rparr>)"
    and "P s"
  shows "P (snd (updateMetadataAndDownloadTargets T s))"
proof -
  have set': "hoare P (targets_Set T p b) (\<lambda>_. P) P" for p b
    using set [of _ p b] by (intro hoareI) (metis snd_conv)+
  have store: "hoare P (store_targets T names) (\<lambda>_. P) P" for names
  proof (induction names)
    case (Cons name names)
    have "hoare P (downloadRemoteTarget T name) (\<lambda>_. P) P"
      by (auto simp: hoare_def downloadRemoteTarget_def split: res.splits)
    then show ?case
      unfolding store_targets.simps by (intro hoare_bind [OF _ hoare_bind [OF set' Cons]])
  qed (simp add: hoare_def)
  have op: "hoare P (client_op f) (\<lambda>_. P) P" for f :: "(tuf_meta, 'x) stm"
    using meta by (intro hoareI) (auto simp: client_op_def split: prod.splits if_splits)
  have "hoare P (handleS (client_op (Update T (t_remote s)))
      (\<lambda>err. if \<not> IsLatestSnapshot T err then failS (Wrapped err ''error updating to TUF remote mirror'') else retS ())
      (\<lambda>targetFiles. store_targets T (map fst targetFiles))) (\<lambda>_. P) P"
    by (rule hoare_handle [OF op _ store]) (auto simp: hoare_simps)
  from hoare_ends [OF this \<open>P s\<close>] show ?thesis
    by (simp add: updateMetadataAndDownloadTargets_def)
qed

lemma targets_Set_embedded: "t_targets s = Embedded i \<Longrightarrow> \<exists>i'. t_targets (snd (targets_Set T p b s)) = Embedded i'"
  by (cases i) (auto simp: targets_Set_def bindS_def os_WriteFile_def split: option.splits)

lemma targets_Set_memory:
  "t_targets s = File base (MemoryCache m) \<Longrightarrow>
     files (snd (targets_Set T p b s)) = files s \<and> (\<exists>m'. t_targets (snd (targets_Set T p b s)) = File base (MemoryCache m'))"
  by (auto simp: targets_Set_def bindS_def)

text \<open>C39. Updated targets are not always used. For a client on the embedded repository, and for any client
  with \<open>SIGSTORE_NO_CACHE\<close>, an update stores the downloaded targets where \<open>Get\<close> does not look: every
  target reads as before the update.\<close>

theorem update_not_read:
  assumes "updateMetadataAndDownloadTargets T s = (r, s')"
    and "(\<exists>i. t_targets s = Embedded i) \<or> (\<exists>base m. t_targets s = File base (MemoryCache m))"
  shows "targets_Get (tuf_of T s') = targets_Get (tuf_of T s)"
  using assms(2)
proof
  assume "\<exists>i. t_targets s = Embedded i"
  then have "\<exists>i. t_targets s' = Embedded i"
    using update_keeps [of "\<lambda>t. \<exists>i. t_targets t = Embedded i" T s] targets_Set_embedded assms(1) by fastforce
  then show ?thesis
    using \<open>\<exists>i. t_targets s = Embedded i\<close> by (auto simp: tuf_of_def fun_eq_iff)
next
  assume "\<exists>base m. t_targets s = File base (MemoryCache m)"
  then obtain base m where s: "t_targets s = File base (MemoryCache m)"
    by blast
  let ?P = "\<lambda>t. files t = files s \<and> (\<exists>m. t_targets t = File base (MemoryCache m))"
  have "?P (snd (updateMetadataAndDownloadTargets T s))"
    by (rule update_keeps) (use s targets_Set_memory in fastforce)+
  then have P: "?P s'"
    using assms(1) by simp
  then have "os_ReadFile T p s' = os_ReadFile T p s" for p
    by (simp add: os_ReadFile_def split: option.split)
  then show ?thesis
    using P s by (auto simp: tuf_of_def)
qed

subsection \<open>An example\<close>

text \<open>A mirror with one target; its metadata are one timestamp, which expires at second 200.\<close>

definition sample_tuf_lib :: tuf_lib where
  "sample_tuf_lib = \<lparr>
     ReadEmbedded = (\<lambda>p. Ok p),
     Unmarshal_Signed = Ok,
     Unmarshal_signedMeta = (\<lambda>b. if b = ''fresh'' then Ok (200, 1) else Ok (100, 1)),
     Format_RFC822 = (\<lambda>_. []),
     Now = 150,
     FileLocalStore = (\<lambda>_. Ok ()),
     GetMeta = Ok,
     Memory_SetMeta = (\<lambda>n b m. (Ok (), mset_key n b m)),
     InitLocal = (\<lambda>rt m. (Ok (), mset_key ''root.json'' rt m)),
     Update = (\<lambda>_ m. (Ok [(''t'', \<lparr>meta_Length = 1, meta_Hashes = [], meta_Custom = None\<rparr>)], mset_key ''timestamp.json'' ''fresh'' m)),
     Download = (\<lambda>_ _ _. Ok ''new''),
     tc_Targets = (\<lambda>_. Ok []),
     tc_Target = (\<lambda>_ n. Err (NotExist n)),
     IsLatestSnapshot = (\<lambda>_. False),
     Remote_GetMeta = (\<lambda>_ n. Err (NotExist n)),
     ParseRequestURI = (\<lambda>_. Ok ()),
     storage_NewClient = Ok (),
     HTTPRemoteStore = (\<lambda>_. Ok ()),
     Marshal_remoteCache = Ok,
     Unmarshal_remoteCache = Ok,
     env = (\<lambda>v. if v = TufRootEnv then ''cache'' else []),
     UserHomeDir = Err (LibError ''no home''),
     GOOS = ''linux'',
     Stat_err = (\<lambda>_. None),
     ReadFile_err = (\<lambda>_. None),
     MkdirAll_err = (\<lambda>_. None),
     WriteFile_err = (\<lambda>_. None)\<rparr>"

definition sample_tuf_state :: tuf_state where
  "sample_tuf_state = \<lparr>files = Map.empty, tuf_db = None, t_embedded = False, t_mirror = [], t_remote = HTTPStore [],
     t_memory = [], t_targets = Embedded (MemoryCache [])\<rparr>"

lemma sample_dirs:
  "rootCacheDir sample_tuf_lib = ''cache''" "cachedRemote ''cache'' = ''cache/remote.json''"
  "cachedTargetsDir ''cache'' = ''cache/targets''" "filepath_Join [''cache/targets'', ''t''] = ''cache/targets/t''"
  by (simp_all add: rootCacheDir_def sample_tuf_lib_def cachedRemote_def cachedTargetsDir_def filepath_Join_def filepath_Clean_def
      Let_def)

abbreviation sample_meta :: tuf_meta where
  "sample_meta \<equiv> [(''root.json'', ''root''), (''timestamp.json'', ''fresh'')]"

abbreviation sample_initialized :: tuf_state where
  "sample_initialized \<equiv>
     \<lparr>files = [''cache/targets/t'' \<mapsto> ''new'', ''cache/remote.json'' \<mapsto> ''mirror''], tuf_db = Some sample_meta,
      t_embedded = False, t_mirror = ''mirror'', t_remote = HTTPStore ''mirror'', t_memory = [],
      t_targets = File ''cache/targets'' (DiskCache ''cache/targets'')\<rparr>"

lemma sample_noCache: "noCache sample_tuf_lib = False"
  by (simp add: strconv_ParseBool_def noCache_def sample_tuf_lib_def)

lemma sample_Initialize: "Initialize sample_tuf_lib ''mirror'' (Some ''root'') sample_tuf_state = (Ok (), sample_initialized)"
  by (simp add: Initialize_def initializeTUF_def setup_store_def localStore_def sample_dirs sample_noCache newFileImpl_def Let_def)
     (simp add: sample_tuf_lib_def sample_tuf_state_def remoteFromMirror_def updateMetadataAndDownloadTargets_def client_op_def
      local_meta_def bindS_def handleS_def downloadRemoteTarget_def targets_Set_def os_WriteFile_def sample_dirs)

lemma sample_NewFromEnv: "NewFromEnv sample_tuf_lib sample_initialized = (Ok (), sample_initialized)"
proof -
  have "stat_db sample_tuf_lib sample_initialized = Ok True"
    by (simp add: stat_db_def sample_tuf_lib_def)
  moreover have "os_ReadFile sample_tuf_lib ''cache/remote.json'' sample_initialized = Ok ''mirror''"
    by (simp add: os_ReadFile_def sample_tuf_lib_def)
  moreover have "Unmarshal_remoteCache sample_tuf_lib ''mirror'' = Ok ''mirror''"
    by (simp add: sample_tuf_lib_def)
  moreover have "initializeTUF sample_tuf_lib False ''mirror'' None False sample_initialized = (Ok (), sample_initialized)"
    by (simp add: initializeTUF_def setup_store_def localStore_def sample_dirs sample_noCache newFileImpl_def Let_def)
       (simp add: sample_tuf_lib_def remoteFromMirror_def client_op_def local_meta_def bindS_def handleS_def getRoot_def
        isExpiredTimestamp_def getExpiration_def time_After_def)
  ultimately show ?thesis
    by (simp add: NewFromEnv_def bindS_def sample_dirs)
qed

theorem Initialize_then_NewFromEnv_witness:
  "NewFromEnv sample_tuf_lib (snd (Initialize sample_tuf_lib ''mirror'' (Some ''root'') sample_tuf_state)) = (Ok (), sample_initialized) \<and>
   t_mirror sample_initialized = ''mirror'' \<and> \<not> t_embedded sample_initialized"
proof -
  have "mirror_documented sample_tuf_lib"
    by (simp add: mirror_documented_def sample_tuf_lib_def)
  moreover have "ReadFile_err sample_tuf_lib p = None" for p
    by (simp add: sample_tuf_lib_def)
  ultimately show ?thesis
    using Initialize_then_NewFromEnv [OF _ _ sample_Initialize sample_NewFromEnv] sample_Initialize sample_NewFromEnv by simp
qed

theorem NewFromEnv_fresh_witness:
  "NewFromEnv sample_tuf_lib sample_initialized = (Ok (), sample_initialized) \<and>
   (\<exists>trusted rt m1. GetMeta sample_tuf_lib sample_meta = Ok trusted \<and> InitLocal sample_tuf_lib rt sample_meta = (Ok (), m1))"
  using NewFromEnv_fresh [OF sample_NewFromEnv] sample_NewFromEnv by auto

theorem update_not_read_witness:
  "\<exists>r s'. updateMetadataAndDownloadTargets sample_tuf_lib sample_tuf_state = (r, s') \<and>
     targets_Get (tuf_of sample_tuf_lib s') ''t'' = Ok ''repository/targets/t''"
proof -
  obtain r s' where u: "updateMetadataAndDownloadTargets sample_tuf_lib sample_tuf_state = (r, s')"
    by (cases "updateMetadataAndDownloadTargets sample_tuf_lib sample_tuf_state")
  have "targets_Get (tuf_of sample_tuf_lib s') = targets_Get (tuf_of sample_tuf_lib sample_tuf_state)"
    by (rule update_not_read [OF u]) (simp add: sample_tuf_state_def)
  moreover have "targets_Get (tuf_of sample_tuf_lib sample_tuf_state) ''t'' = Ok ''repository/targets/t''"
    by (simp add: tuf_of_def sample_tuf_state_def sample_tuf_lib_def filepath_Join_def filepath_Clean_def Let_def)
  ultimately show ?thesis
    using u by simp
qed

end
