(* ===== verification/Keys.thy ===== *)
theory Keys
  imports TUF GoState
begin

section \<open>Keys: made, stored, loaded\<close>

text \<open>
  \<open>pkg/cosign/keys.go\<close> and \<open>pkg/signature/keys.go\<close> with the stores of keys: files, Kubernetes secrets
  (\<open>pkg/cosign/kubernetes/secret.go\<close>) and GitLab variables (\<open>pkg/cosign/git/gitlab/gitlab.go\<close>), and
  the commands \<open>generate-key-pair\<close> and \<open>import-key-pair\<close>. The state is the file system and, as a
  type parameter, what the servers store. Cryptography, PEM, the clients of Kubernetes and GitLab,
  KMS plugins, PKCS11 tokens and the terminal are the parameter \<open>key_lib\<close>.
\<close>

subsection \<open>Types\<close>

datatype privkey = RSAPrivate bytes | ECDSAPrivate bytes | ED25519Private bytes | OtherPrivate bytes

text \<open>
  \<open>signature.SignerVerifier\<close>. The last field is for the type assertion to \<open>*pkcs11key.Key\<close>: if it
  succeeds, the certificate of the token, which may be nil.
\<close>

record signer_verifier = verifier +
  SignMessage :: "bytes \<Rightarrow> bytes res"
  as_pkcs11 :: "certificate option option"

record keys_bytes =
  PrivateBytes :: bytes
  PublicBytes :: bytes
  kb_password :: bytes

record secret =
  secret_Data :: "(string, bytes) gomap option"
  secret_Immutable :: bool

record 'c key_store =
  ks_files :: "string \<rightharpoonup> bytes"
  ks_servers :: 'c

record 'c key_lib =
  pem_Block :: "bytes \<Rightarrow> (string \<times> bytes) option"
  pem_EncodeToMemory :: "string \<Rightarrow> bytes \<Rightarrow> bytes"
  ParsePKCS1PrivateKey :: "bytes \<Rightarrow> privkey res"
  ParseECPrivateKey :: "bytes \<Rightarrow> privkey res"
  ParsePKCS8PrivateKey :: "bytes \<Rightarrow> privkey res"
  MarshalPKCS8PrivateKey :: "privkey \<Rightarrow> bytes res"
  Public :: "privkey \<Rightarrow> pubkey"
  ValidatePubKey :: "pubkey \<Rightarrow> unit res"
  ecdsa_GenerateKey :: "privkey res"
  Encrypt :: "bytes \<Rightarrow> bytes \<Rightarrow> bytes res"
  Decrypt :: "bytes \<Rightarrow> bytes \<Rightarrow> bytes res"
  LoadRSASignerVerifier :: "privkey \<Rightarrow> signer_verifier res"
  LoadECDSASignerVerifier :: "privkey \<Rightarrow> signer_verifier res"
  LoadED25519SignerVerifier :: "privkey \<Rightarrow> signer_verifier res"
  LoadVerifierWith :: "pubkey \<Rightarrow> nat \<Rightarrow> verifier res"
  LoadECDSAVerifier :: "pubkey \<Rightarrow> nat \<Rightarrow> verifier res"
  kms_Get :: "string \<Rightarrow> nat \<Rightarrow> signer_verifier res"
  kms_CreateKey :: "string \<Rightarrow> pubkey res"
  pkcs11_Parse :: "string \<Rightarrow> string res"
  pkcs11_GetKey :: "string \<Rightarrow> bool \<Rightarrow> string res"
  pkcs11_SignerVerifier :: "string \<Rightarrow> signer_verifier res"
  pkcs11_Verifier :: "string \<Rightarrow> verifier res"
  k8s_Client :: "unit res"
  k8s_Version :: "(nat \<times> nat) res"
  Secrets_Get :: "string \<Rightarrow> string \<Rightarrow> 'c \<Rightarrow> secret res"
  Secrets_Create :: "string \<Rightarrow> string \<Rightarrow> secret \<Rightarrow> ('c, unit) stm"
  Secrets_Update :: "string \<Rightarrow> string \<Rightarrow> secret \<Rightarrow> ('c, unit) stm"
  gitlab_NewClient :: "string \<Rightarrow> string option \<Rightarrow> unit res"
  CreateVariable :: "string \<Rightarrow> string \<Rightarrow> string \<Rightarrow> ('c, nat) stm"
  GetVariable :: "string \<Rightarrow> string \<Rightarrow> 'c \<Rightarrow> (string \<times> nat) res"
  github_PutSecret :: "string \<Rightarrow> ('c key_store, unit) stm"
  LookupEnv :: "string \<Rightarrow> string option"
  IsTerminal :: bool
  ReadPassword :: "nat \<Rightarrow> bytes res"
  ReadStdin :: "bytes res"
  Scan_answer :: string
  fs_WriteFile_err :: "string \<Rightarrow> gerror option"
  fs_Stat_err :: "string \<Rightarrow> gerror option"

type_synonym pass_func = "(bool \<Rightarrow> bytes res) option"

abbreviation SHA256 :: nat where "SHA256 \<equiv> 5"

definition fs_WriteFile :: "'c key_lib \<Rightarrow> string \<Rightarrow> bytes \<Rightarrow> ('c key_store, unit) stm" where
  "fs_WriteFile K p b s =
     (case fs_WriteFile_err K p of Some e \<Rightarrow> (Err e, s) | None \<Rightarrow> (Ok (), s\<lparr>ks_files := (ks_files s)(p \<mapsto> b)\<rparr>))"

definition on_servers :: "('c, 'a) stm \<Rightarrow> ('c key_store, 'a) stm" where
  "on_servers m s = (let (r, c) = m (ks_servers s) in (r, s\<lparr>ks_servers := c\<rparr>))"

subsection \<open>Key pairs\<close>

definition CosignPrivateKeyPemType :: string where "CosignPrivateKeyPemType = ''ENCRYPTED COSIGN PRIVATE KEY''"
definition RSAPrivateKeyPemType :: string where "RSAPrivateKeyPemType = ''RSA PRIVATE KEY''"
definition ECPrivateKeyPemType :: string where "ECPrivateKeyPemType = ''EC PRIVATE KEY''"
definition PrivateKeyPemType :: string where "PrivateKeyPemType = ''PRIVATE KEY''"

definition marshalKeyPair :: "libs \<Rightarrow> 'c key_lib \<Rightarrow> privkey \<Rightarrow> pass_func \<Rightarrow> keys_bytes res" where
  "marshalKeyPair L K private pf =
     bindr (wrapr ''x509 encoding private key'' (MarshalPKCS8PrivateKey K private)) (\<lambda>x509Encoded.
     bindr (case pf of None \<Rightarrow> Ok [] | Some f \<Rightarrow> f True) (\<lambda>password.
     bindr (Encrypt K x509Encoded password) (\<lambda>encBytes.
     bindr (MarshalPublicKeyToPEM L (Public K private)) (\<lambda>pubBytes.
     Ok \<lparr>PrivateBytes = pem_EncodeToMemory K CosignPrivateKeyPemType encBytes, PublicBytes = pubBytes,
         kb_password = password\<rparr>))))"

definition GenerateKeyPair :: "libs \<Rightarrow> 'c key_lib \<Rightarrow> pass_func \<Rightarrow> keys_bytes res" where
  "GenerateKeyPair L K pf = bindr (ecdsa_GenerateKey K) (\<lambda>priv. marshalKeyPair L K priv pf)"

definition validated :: "'c key_lib \<Rightarrow> string \<Rightarrow> privkey \<Rightarrow> privkey res" where
  "validated K msg pk = bindr (wrapr msg (ValidatePubKey K (Public K pk))) (\<lambda>_. Ok pk)"

definition parse_private :: "'c key_lib \<Rightarrow> string \<Rightarrow> bytes \<Rightarrow> privkey res" where
  "parse_private K type der =
     (if type = RSAPrivateKeyPemType
      then handler (ParsePKCS1PrivateKey K der) (\<lambda>_. Err (ErrorString ''error parsing rsa private key''))
             (validated K ''error validating rsa key'')
      else if type = ECPrivateKeyPemType
      then handler (ParseECPrivateKey K der) (\<lambda>_. Err (ErrorString ''error parsing ecdsa private key''))
             (validated K ''error validating ecdsa key'')
      else if type = PrivateKeyPemType
      then handler (ParsePKCS8PrivateKey K der) (\<lambda>_. Err (ErrorString ''error parsing pkcs #8 private key''))
             (\<lambda>k. case k of
                RSAPrivate _ \<Rightarrow> validated K ''error validating rsa key'' k
              | ECDSAPrivate _ \<Rightarrow> validated K ''error validating ecdsa key'' k
              | ED25519Private _ \<Rightarrow> validated K ''error validating ed25519 key'' k
              | OtherPrivate _ \<Rightarrow> Err (ErrorString ''unexpected private key''))
      else Err (ErrorString ''unsupported private key''))"

definition ImportKeyPair :: "libs \<Rightarrow> host \<Rightarrow> 'c key_lib \<Rightarrow> string \<Rightarrow> pass_func \<Rightarrow> keys_bytes res" where
  "ImportKeyPair L H K keyPath pf =
     bindr (ReadFile H (filepath_Clean keyPath)) (\<lambda>kb.
     case pem_Block K kb of
       None \<Rightarrow> Err (ErrorString ''invalid pem block'')
     | Some (type, der) \<Rightarrow> bindr (parse_private K type der) (\<lambda>pk. marshalKeyPair L K pk pf))"

definition load_signer :: "'c key_lib \<Rightarrow> privkey \<Rightarrow> signer_verifier res" where
  "load_signer K pk =
     (case pk of
        RSAPrivate _ \<Rightarrow> LoadRSASignerVerifier K pk
      | ECDSAPrivate _ \<Rightarrow> LoadECDSASignerVerifier K pk
      | ED25519Private _ \<Rightarrow> LoadED25519SignerVerifier K pk
      | OtherPrivate _ \<Rightarrow> Err (ErrorString ''unsupported key type''))"

definition LoadPrivateKey :: "'c key_lib \<Rightarrow> bytes \<Rightarrow> bytes \<Rightarrow> signer_verifier res" where
  "LoadPrivateKey K key pass =
     (case pem_Block K key of
        None \<Rightarrow> Err (ErrorString ''invalid pem block'')
      | Some (type, b) \<Rightarrow>
          if type \<noteq> CosignPrivateKeyPemType then Err (ErrorString (''unsupported pem type: '' @ type))
          else bindr (wrapr ''decrypt'' (Decrypt K b pass)) (\<lambda>x509Encoded.
               bindr (wrapr ''parsing private key'' (ParsePKCS8PrivateKey K x509Encoded)) (load_signer K)))"

subsection \<open>Kubernetes secrets\<close>

definition KeyReference :: string where "KeyReference = ''k8s://''"

definition parseRef :: "string \<Rightarrow> (string \<times> string) res" where
  "parseRef k8sRef =
     (case split_char CHR ''/'' (trim_prefix k8sRef KeyReference) of
        [namespace, name] \<Rightarrow> Ok (namespace, name)
      | _ \<Rightarrow> Err (ErrorString ''kubernetes specification should be in the format k8s://<namespace>/<secret>''))"

definition GetKeyPairSecret :: "'c key_lib \<Rightarrow> 'c \<Rightarrow> string \<Rightarrow> secret res" where
  "GetKeyPairSecret K c k8sRef =
     bindr (parseRef k8sRef) (\<lambda>(namespace, name).
     bindr (wrapr ''new for config'' (k8s_Client K)) (\<lambda>_.
     wrapr ''checking if secret exists'' (Secrets_Get K namespace name c)))"

definition new_secret :: "keys_bytes \<Rightarrow> (string, bytes) gomap option \<Rightarrow> bool \<Rightarrow> secret" where
  "new_secret keys data immutable =
     \<lparr>secret_Data = Some (mset_key ''cosign.password'' (kb_password keys) (mset_key ''cosign.pub'' (PublicBytes keys)
        (mset_key ''cosign.key'' (PrivateBytes keys) (nil_list data)))),
      secret_Immutable = immutable\<rparr>"

definition checkImmutableSecretSupported :: "'c key_lib \<Rightarrow> bool res" where
  "checkImmutableSecretSupported K = bindr (k8s_Version K) (\<lambda>(major, minor). Ok (major \<ge> 1 \<and> minor \<ge> 21))"

definition KeyPairSecret :: "libs \<Rightarrow> 'c key_lib \<Rightarrow> string \<Rightarrow> pass_func \<Rightarrow> ('c key_store, unit) stm" where
  "KeyPairSecret L K k8sRef pf =
     bindS (liftS (parseRef k8sRef)) (\<lambda>(namespace, name).
     bindS (liftS (wrapr ''generating key pair'' (GenerateKeyPair L K pf))) (\<lambda>keys.
     bindS (liftS (wrapr ''new for config'' (k8s_Client K))) (\<lambda>_.
     bindS (liftS (wrapr ''check immutable'' (checkImmutableSecretSupported K))) (\<lambda>immutable.
     bindS (handleS (readS (\<lambda>s. Secrets_Get K namespace name (ks_servers s)))
       (\<lambda>err. if IsNotFound err
              then handleS (on_servers (Secrets_Create K namespace name (new_secret keys None immutable)))
                     (\<lambda>e. failS (Wrapped e (''creating secret '' @ name @ '' in ns '' @ namespace))) retS
              else failS (Wrapped err ''checking if secret exists''))
       (\<lambda>s. handleS (on_servers (Secrets_Update K namespace name (new_secret keys (secret_Data s) immutable)))
              (\<lambda>e. failS (Wrapped e (''updating secret '' @ name @ '' in ns '' @ namespace))) retS)) (\<lambda>_.
     fs_WriteFile K ''cosign.pub'' (PublicBytes keys))))))"

subsection \<open>GitLab variables\<close>

definition gitlab_client :: "'c key_lib \<Rightarrow> unit res" where
  "gitlab_client K =
     (case LookupEnv K ''GITLAB_TOKEN'' of
        None \<Rightarrow> Err (ErrorString ''could not find GITLAB_TOKEN'')
      | Some token \<Rightarrow> wrapr ''could not create GitLab client'' (gitlab_NewClient K token (LookupEnv K ''GITLAB_HOST'')))"

text \<open>The test of the status code as it is written: no number is below 200 and at least 300.\<close>

definition put_variable :: "'c key_lib \<Rightarrow> string \<Rightarrow> string \<Rightarrow> string \<Rightarrow> ('c key_store, unit) stm" where
  "put_variable K ref key val =
     handleS (on_servers (CreateVariable K ref key val))
       (\<lambda>e. failS (Wrapped e (''could not create '' @ key @ '' variable''))) (\<lambda>status.
     if status < 200 \<and> status \<ge> 300 then failS (LibError ''response body'') else retS ())"

definition gitlab_PutSecret :: "libs \<Rightarrow> 'c key_lib \<Rightarrow> string \<Rightarrow> pass_func \<Rightarrow> ('c key_store, unit) stm" where
  "gitlab_PutSecret L K ref pf =
     bindS (liftS (wrapr ''generating key pair'' (GenerateKeyPair L K pf))) (\<lambda>keys.
     bindS (liftS (gitlab_client K)) (\<lambda>_.
     bindS (put_variable K ref ''COSIGN_PASSWORD'' (kb_password keys)) (\<lambda>_.
     bindS (put_variable K ref ''COSIGN_PRIVATE_KEY'' (PrivateBytes keys)) (\<lambda>_.
     bindS (put_variable K ref ''COSIGN_PUBLIC_KEY'' (PublicBytes keys)) (\<lambda>_.
     fs_WriteFile K ''cosign.pub'' (PublicBytes keys))))))"

definition gitlab_GetSecret :: "'c key_lib \<Rightarrow> 'c \<Rightarrow> string \<Rightarrow> string \<Rightarrow> string res" where
  "gitlab_GetSecret K c ref key =
     bindr (gitlab_client K) (\<lambda>_.
     bindr (wrapr ''could not retrieve COSIGN_PUBLIC_KEY variable'' (GetVariable K ref key c)) (\<lambda>(val, status).
     if status < 200 \<and> status \<ge> 300 then Err (LibError ''response body'') else Ok val))"

text \<open>
  \<open>GetProvider\<close> reads a map: an unknown provider is a nil interface, and a call on it panics.
  \<open>GetSecret\<close> of the GitHub provider gives the empty string.
\<close>

definition git_GetSecret :: "'c key_lib \<Rightarrow> 'c \<Rightarrow> string \<Rightarrow> string \<Rightarrow> string \<Rightarrow> string res" where
  "git_GetSecret K c provider ref key =
     (if provider = ''gitlab'' then gitlab_GetSecret K c ref key
      else if provider = ''github'' then Ok []
      else Panic ''invalid memory address or nil pointer dereference'')"

subsection \<open>References to keys\<close>

definition loadKey :: "host \<Rightarrow> 'c key_lib \<Rightarrow> string \<Rightarrow> pass_func \<Rightarrow> signer_verifier res" where
  "loadKey H K keyPath pf =
     bindr (ReadFile H (filepath_Clean keyPath)) (\<lambda>kb.
     bindr (case pf of None \<Rightarrow> Ok [] | Some f \<Rightarrow> f False) (\<lambda>pass.
     LoadPrivateKey K kb pass))"

definition VerifierForKeyRef :: "libs \<Rightarrow> host \<Rightarrow> 'c key_lib \<Rightarrow> string \<Rightarrow> nat \<Rightarrow> verifier res" where
  "VerifierForKeyRef L H K keyRef hashAlgorithm =
     handler (kms_Get K keyRef hashAlgorithm)
       (\<lambda>_. bindr (LoadFileOrURL H keyRef) (\<lambda>raw.
            bindr (wrapr ''pem to public key'' (UnmarshalPEMToPublicKey L raw)) (\<lambda>pubKey.
            LoadVerifierWith K pubKey hashAlgorithm)))
       (\<lambda>kmsKey. Ok (verifier.truncate kmsKey))"

definition LoadPublicKey :: "libs \<Rightarrow> host \<Rightarrow> 'c key_lib \<Rightarrow> string \<Rightarrow> verifier res" where
  "LoadPublicKey L H K keyRef = VerifierForKeyRef L H K keyRef SHA256"

definition LoadPublicKeyRaw :: "libs \<Rightarrow> 'c key_lib \<Rightarrow> bytes \<Rightarrow> nat \<Rightarrow> verifier res" where
  "LoadPublicKeyRaw L K raw hashAlgorithm =
     bindr (wrapr ''pem to ecdsa'' (PemToECDSAKey L raw)) (\<lambda>ed. LoadECDSAVerifier K ed hashAlgorithm)"

definition from_kms_or_file :: "host \<Rightarrow> 'c key_lib \<Rightarrow> string \<Rightarrow> pass_func \<Rightarrow> signer_verifier res" where
  "from_kms_or_file H K keyRef pf =
     (if contains keyRef ''://'' then wrapr ''kms get'' (kms_Get K keyRef SHA256) else loadKey H K keyRef pf)"

definition SignerVerifierFromKeyRef ::
  "host \<Rightarrow> 'c key_lib \<Rightarrow> 'c \<Rightarrow> string \<Rightarrow> pass_func \<Rightarrow> signer_verifier res" where
  "SignerVerifierFromKeyRef H K c keyRef pf =
     (if has_prefix keyRef ''pkcs11:''
      then bindr (wrapr ''parsing pkcs11 uri'' (pkcs11_Parse K keyRef)) (\<lambda>config.
           bindr (wrapr ''opening pkcs11 token key'' (pkcs11_GetKey K config True)) (\<lambda>sk.
           wrapr ''initializing pkcs11 token signer verifier'' (pkcs11_SignerVerifier K sk)))
      else if has_prefix keyRef KeyReference
      then bindr (GetKeyPairSecret K c keyRef) (\<lambda>s.
           if nil_list (secret_Data s) \<noteq> []
           then LoadPrivateKey K (mget (nil_list (secret_Data s)) ''cosign.key'') (mget (nil_list (secret_Data s)) ''cosign.password'')
           else from_kms_or_file H K keyRef pf)
      else if has_prefix keyRef ''gitlab''
      then (case strings_Split keyRef ''://'' of
              provider # targetRef # _ \<Rightarrow>
                bindr (git_GetSecret K c provider targetRef ''COSIGN_PRIVATE_KEY'') (\<lambda>pk.
                bindr (git_GetSecret K c provider targetRef ''COSIGN_PASSWORD'') (\<lambda>pass.
                LoadPrivateKey K pk pass))
            | _ \<Rightarrow> Err (ErrorString ''could not parse scheme, use <scheme>://<ref> format''))
      else from_kms_or_file H K keyRef pf)"

definition PublicKeyFromKeyRefWithHashAlgo ::
  "libs \<Rightarrow> host \<Rightarrow> 'c key_lib \<Rightarrow> 'c \<Rightarrow> string \<Rightarrow> nat \<Rightarrow> verifier res" where
  "PublicKeyFromKeyRefWithHashAlgo L H K c keyRef hashAlgorithm =
     (let rest =
        (if has_prefix keyRef ''pkcs11:''
         then bindr (wrapr ''parsing pkcs11 uri'' (pkcs11_Parse K keyRef)) (\<lambda>config.
              bindr (wrapr ''opening pkcs11 token key'' (pkcs11_GetKey K config False)) (\<lambda>sk.
              wrapr ''initializing pkcs11 token verifier'' (pkcs11_Verifier K sk)))
         else if has_prefix keyRef ''gitlab''
         then (case strings_Split keyRef ''://'' of
                 provider # targetRef # _ \<Rightarrow>
                   bindr (git_GetSecret K c provider targetRef ''COSIGN_PUBLIC_KEY'') (\<lambda>pubKey.
                   if pubKey \<noteq> [] then LoadPublicKeyRaw L K pubKey hashAlgorithm
                   else VerifierForKeyRef L H K keyRef hashAlgorithm)
               | _ \<Rightarrow> Err (ErrorString ''could not parse scheme, use <scheme>://<ref> format''))
         else VerifierForKeyRef L H K keyRef hashAlgorithm)
      in if has_prefix keyRef KeyReference
         then bindr (GetKeyPairSecret K c keyRef) (\<lambda>s.
              if nil_list (secret_Data s) \<noteq> []
              then LoadPublicKeyRaw L K (mget (nil_list (secret_Data s)) ''cosign.pub'') hashAlgorithm
              else rest)
         else rest)"

definition PublicKeyFromKeyRef :: "libs \<Rightarrow> host \<Rightarrow> 'c key_lib \<Rightarrow> 'c \<Rightarrow> string \<Rightarrow> verifier res" where
  "PublicKeyFromKeyRef L H K c keyRef = PublicKeyFromKeyRefWithHashAlgo L H K c keyRef SHA256"

subsection \<open>Commands\<close>

text \<open>The state holds the regular files: a directory is no entry of it, so that \<open>!info.IsDir()\<close> is
  that the path has an entry.\<close>

definition FileExists :: "'c key_lib \<Rightarrow> string \<Rightarrow> 'c key_store \<Rightarrow> bool res" where
  "FileExists K p s =
     (case fs_Stat_err K p of
        Some e \<Rightarrow> if is_not_exist e then Ok False else Panic ''invalid memory address or nil pointer dereference''
      | None \<Rightarrow> Ok (ks_files s p \<noteq> None))"

definition GetPassFromTerm :: "'c key_lib \<Rightarrow> bool \<Rightarrow> bytes res" where
  "GetPassFromTerm K confirm =
     bindr (ReadPassword K 0) (\<lambda>pw1.
     if \<not> confirm then Ok pw1
     else bindr (ReadPassword K 1) (\<lambda>confirmpw.
          if pw1 \<noteq> confirmpw then Err (ErrorString ''passwords do not match'') else Ok pw1))"

definition GetPass :: "'c key_lib \<Rightarrow> bool \<Rightarrow> bytes res" where
  "GetPass K confirm =
     (case LookupEnv K ''COSIGN_PASSWORD'' of
        Some pw \<Rightarrow> Ok pw
      | None \<Rightarrow> if IsTerminal K then GetPassFromTerm K confirm else ReadStdin K)"

text \<open>Both commands ask before they replace a private key, and return without an error on a no.\<close>

definition write_key_pair :: "'c key_lib \<Rightarrow> string \<Rightarrow> string \<Rightarrow> keys_bytes \<Rightarrow> ('c key_store, unit) stm" where
  "write_key_pair K private public keys =
     bindS (readS (FileExists K private)) (\<lambda>ex.
     if ex \<and> Scan_answer K \<notin> {''y'', ''Y''} then retS ()
     else bindS (fs_WriteFile K private (PrivateBytes keys)) (\<lambda>_. fs_WriteFile K public (PublicBytes keys)))"

definition GenerateKeyPairCmd :: "libs \<Rightarrow> 'c key_lib \<Rightarrow> string \<Rightarrow> string list \<Rightarrow> ('c key_store, unit) stm" where
  "GenerateKeyPairCmd L K kmsVal args =
     (if kmsVal \<noteq> []
      then bindS (liftS (kms_Get K kmsVal SHA256)) (\<lambda>_.
           bindS (liftS (wrapr ''creating key'' (kms_CreateKey K kmsVal))) (\<lambda>pubKey.
           bindS (liftS (MarshalPublicKeyToPEM L pubKey)) (\<lambda>pemBytes.
           fs_WriteFile K ''cosign.pub'' pemBytes)))
      else case args of
        arg # _ \<Rightarrow>
          (case strings_Split arg ''://'' of
             provider # targetRef # _ \<Rightarrow>
               if provider = ''k8s'' then KeyPairSecret L K targetRef (Some (GetPass K))
               else if provider = ''gitlab'' then gitlab_PutSecret L K targetRef (Some (GetPass K))
               else if provider = ''github'' then github_PutSecret K targetRef
               else failS (ErrorString (''undefined provider: '' @ provider))
           | _ \<Rightarrow> failS (ErrorString ''could not parse scheme, use <scheme>://<ref> format''))
      | [] \<Rightarrow> bindS (liftS (GenerateKeyPair L K (Some (GetPass K)))) (write_key_pair K ''cosign.key'' ''cosign.pub''))"

definition ImportKeyPairCmd :: "libs \<Rightarrow> host \<Rightarrow> 'c key_lib \<Rightarrow> string \<Rightarrow> ('c key_store, unit) stm" where
  "ImportKeyPairCmd L H K keyVal =
     bindS (liftS (ImportKeyPair L H K keyVal (Some (GetPass K)))) (write_key_pair K ''import-cosign.key'' ''import-cosign.pub'')"

subsection \<open>A new key pair signs and verifies\<close>

text \<open>
  What the documentation of the libraries says: PEM, PKCS8 and the encryption decode what they
  encoded, and a PEM text is not empty; KMS knows no reference without \<open>://\<close>; \<open>GenerateKey\<close> gives
  an ECDSA key, which loads for signing and verifying; and a verifier of the public key accepts
  what the signer signed.
\<close>

definition keys_documented :: "libs \<Rightarrow> 'c key_lib \<Rightarrow> bool" where
  "keys_documented L K \<longleftrightarrow>
     (\<forall>b. pem_Block K (pem_EncodeToMemory K CosignPrivateKeyPemType b) = Some (CosignPrivateKeyPemType, b)) \<and>
     (\<forall>k b. MarshalPKCS8PrivateKey K k = Ok b \<longrightarrow> ParsePKCS8PrivateKey K b = Ok k) \<and>
     (\<forall>b p e. Encrypt K b p = Ok e \<longrightarrow> Decrypt K e p = Ok b) \<and>
     (\<forall>pub b. MarshalPublicKeyToPEM L pub = Ok b \<longrightarrow> b \<noteq> [] \<and> UnmarshalPEMToPublicKey L b = Ok pub) \<and>
     (\<forall>ref a. \<not> contains ref ''://'' \<longrightarrow> (\<exists>e. kms_Get K ref a = Err e)) \<and>
     (\<forall>k. ecdsa_GenerateKey K = Ok k \<longrightarrow>
        (\<exists>d e sv v v'. k = ECDSAPrivate d \<and> Public K k = ECDSAKey e \<and> LoadECDSASignerVerifier K k = Ok sv \<and>
           LoadVerifierWith K (ECDSAKey e) SHA256 = Ok v \<and> LoadECDSAVerifier K (ECDSAKey e) SHA256 = Ok v' \<and>
           (\<forall>m s. SignMessage sv m = Ok s \<longrightarrow> VerifySignature v s m = Ok () \<and> VerifySignature v' s m = Ok ())))"

definition servers_documented :: "'c key_lib \<Rightarrow> bool" where
  "servers_documented K \<longleftrightarrow>
     (\<forall>ns n x c c'. Secrets_Create K ns n x c = (Ok (), c') \<longrightarrow> Secrets_Get K ns n c' = Ok x) \<and>
     (\<forall>ns n x c c'. Secrets_Update K ns n x c = (Ok (), c') \<longrightarrow> Secrets_Get K ns n c' = Ok x) \<and>
     (\<forall>ref key v c st c'. CreateVariable K ref key v c = (Ok st, c') \<longrightarrow>
        (\<exists>st'. GetVariable K ref key c' = Ok (v, st')) \<and>
        (\<forall>key'. key' \<noteq> key \<longrightarrow> GetVariable K ref key' c' = GetVariable K ref key' c))"

text \<open>The host with the files of the state.\<close>

definition with_files :: "'c key_store \<Rightarrow> host \<Rightarrow> host" where
  "with_files s H = H\<lparr>ReadFile := (\<lambda>p. case ks_files s p of Some b \<Rightarrow> Ok b | None \<Rightarrow> ReadFile H p)\<rparr>"

text \<open>A signer and a verifier that belong together.\<close>

definition matching :: "signer_verifier res \<Rightarrow> verifier res \<Rightarrow> bool" where
  "matching S V \<longleftrightarrow> (\<exists>sv v. S = Ok sv \<and> V = Ok v \<and> (\<forall>m s. SignMessage sv m = Ok s \<longrightarrow> VerifySignature v s m = Ok ()))"

lemma GetPass_confirm: "GetPass K True = Ok p \<Longrightarrow> GetPass K False = Ok p"
  by (auto simp: GetPass_def GetPassFromTerm_def res_simps split: option.splits if_splits)

lemma keys_documentedD:
  assumes "keys_documented L K"
  shows "pem_Block K (pem_EncodeToMemory K CosignPrivateKeyPemType b) = Some (CosignPrivateKeyPemType, b)"
    and "MarshalPKCS8PrivateKey K k = Ok b \<Longrightarrow> ParsePKCS8PrivateKey K b = Ok k"
    and "Encrypt K b p = Ok e \<Longrightarrow> Decrypt K e p = Ok b"
    and "MarshalPublicKeyToPEM L pub = Ok b \<Longrightarrow> b \<noteq> [] \<and> UnmarshalPEMToPublicKey L b = Ok pub"
    and "\<not> contains ref ''://'' \<Longrightarrow> \<exists>e. kms_Get K ref a = Err e"
    and "ecdsa_GenerateKey K = Ok k \<Longrightarrow>
      \<exists>d e sv v v'. k = ECDSAPrivate d \<and> Public K k = ECDSAKey e \<and> LoadECDSASignerVerifier K k = Ok sv \<and>
         LoadVerifierWith K (ECDSAKey e) SHA256 = Ok v \<and> LoadECDSAVerifier K (ECDSAKey e) SHA256 = Ok v' \<and>
         (\<forall>m s. SignMessage sv m = Ok s \<longrightarrow> VerifySignature v s m = Ok () \<and> VerifySignature v' s m = Ok ())"
  using assms unfolding keys_documented_def by blast+

lemma generated:
  assumes "keys_documented L K" and "GenerateKeyPair L K pf = Ok kb"
  shows "matching (LoadPrivateKey K (PrivateBytes kb) (kb_password kb)) (LoadPublicKeyRaw L K (PublicBytes kb) SHA256)"
    and "matching (LoadPrivateKey K (PrivateBytes kb) (kb_password kb))
           (bindr (wrapr m (UnmarshalPEMToPublicKey L (PublicBytes kb))) (\<lambda>p. LoadVerifierWith K p SHA256))"
    and "PublicBytes kb \<noteq> []" and "\<And>f. pf = Some f \<Longrightarrow> f True = Ok (kb_password kb)"
proof -
  obtain k x p e b where k: "ecdsa_GenerateKey K = Ok k" and x: "MarshalPKCS8PrivateKey K k = Ok x"
    and p: "(case pf of None \<Rightarrow> Ok [] | Some f \<Rightarrow> f True) = Ok p" and e: "Encrypt K x p = Ok e"
    and b: "MarshalPublicKeyToPEM L (Public K k) = Ok b"
    and kb: "kb = \<lparr>PrivateBytes = pem_EncodeToMemory K CosignPrivateKeyPemType e, PublicBytes = b, kb_password = p\<rparr>"
    using assms(2) by (auto simp: GenerateKeyPair_def marshalKeyPair_def res_simps)
  note doc = keys_documentedD [OF assms(1)]
  obtain d e' sv v v' where key: "k = ECDSAPrivate d" "Public K k = ECDSAKey e'" "LoadECDSASignerVerifier K k = Ok sv"
      "LoadVerifierWith K (ECDSAKey e') SHA256 = Ok v" "LoadECDSAVerifier K (ECDSAKey e') SHA256 = Ok v'"
    and ok: "\<forall>m s. SignMessage sv m = Ok s \<longrightarrow> VerifySignature v s m = Ok () \<and> VerifySignature v' s m = Ok ()"
    using doc(6) [OF k] by blast
  have pub: "UnmarshalPEMToPublicKey L b = Ok (ECDSAKey e')" and ne: "b \<noteq> []"
    using doc(4) [OF b] key(2) by auto
  have priv: "LoadPrivateKey K (PrivateBytes kb) (kb_password kb) = Ok sv"
    using doc(1) doc(2) [OF x] doc(3) [OF e] key(1,3) by (simp add: LoadPrivateKey_def load_signer_def kb)
  show "matching (LoadPrivateKey K (PrivateBytes kb) (kb_password kb)) (LoadPublicKeyRaw L K (PublicBytes kb) SHA256)"
    using priv pub key(5) ok by (simp add: matching_def LoadPublicKeyRaw_def PemToECDSAKey_def kb)
  show "matching (LoadPrivateKey K (PrivateBytes kb) (kb_password kb))
           (bindr (wrapr m (UnmarshalPEMToPublicKey L (PublicBytes kb))) (\<lambda>p. LoadVerifierWith K p SHA256))"
    using priv pub key(4) ok by (simp add: matching_def kb)
  show "PublicBytes kb \<noteq> []"
    using ne by (simp add: kb)
  show "f True = Ok (kb_password kb)" if "pf = Some f" for f
    using p that by (simp add: kb)
qed

text \<open>Reading the two files, whatever was stored in them.\<close>

lemma key_file:
  assumes "ks_files s ''cosign.key'' = Some b"
  shows "SignerVerifierFromKeyRef (with_files s H) K c ''cosign.key'' (Some f) = bindr (f False) (LoadPrivateKey K b)"
proof -
  have "filepath_Clean ''cosign.key'' = ''cosign.key''"
    by code_simp
  then show ?thesis
    using assms by (simp add: SignerVerifierFromKeyRef_def KeyReference_def from_kms_or_file_def loadKey_def with_files_def)
qed

lemma contains_cosign_pub: "\<not> contains ''cosign.pub'' ''://''"
  by simp

lemma pub_file:
  assumes "keys_documented L K" and "ks_files s ''cosign.pub'' = Some b"
  shows "PublicKeyFromKeyRef L (with_files s H) K c ''cosign.pub'' =
     bindr (wrapr ''pem to public key'' (UnmarshalPEMToPublicKey L b)) (\<lambda>p. LoadVerifierWith K p SHA256)"
proof -
  have "filepath_Clean ''cosign.pub'' = ''cosign.pub''"
    by code_simp
  moreover obtain e where "kms_Get K ''cosign.pub'' SHA256 = Err e"
    using assms(1) keys_documentedD(5) contains_cosign_pub by blast
  ultimately show ?thesis
    using assms(2) by (simp add: PublicKeyFromKeyRef_def PublicKeyFromKeyRefWithHashAlgo_def KeyReference_def
        VerifierForKeyRef_def LoadFileOrURL_def with_files_def)
qed

lemma split_on_none: "\<not> contains s sep \<Longrightarrow> split_on sep w s = [rev w @ s]"
  by (induction s arbitrary: w) auto

lemma split_ref:
  assumes "\<not> contains t ''://''"
  shows "strings_Split (''k8s://'' @ t) ''://'' = [''k8s'', t]" and "strings_Split (''gitlab://'' @ t) ''://'' = [''gitlab'', t]"
  using split_on_none [OF assms] by (simp_all add: strings_Split_def)

lemma parseRef_k8s:
  assumes "\<not> contains t ''://''"
  shows "parseRef (''k8s://'' @ t) = parseRef t"
proof -
  have "\<not> has_prefix t KeyReference"
  proof
    assume "has_prefix t KeyReference"
    then obtain u where "t = ''k8s://'' @ u"
      by (auto simp: has_prefix_iff KeyReference_def)
    then show False
      using assms by simp
  qed
  then show ?thesis
    by (simp add: parseRef_def trim_prefix_def KeyReference_def)
qed

text \<open>What each way of generating a key pair leaves behind.\<close>

lemma fs_WriteFile_Ok [stm_simps]:
  "fs_WriteFile K p b s = (Ok u, s') \<longleftrightarrow> fs_WriteFile_err K p = None \<and> s' = s\<lparr>ks_files := (ks_files s)(p \<mapsto> b)\<rparr>"
  by (auto simp: fs_WriteFile_def split: option.splits)

lemma on_servers_Ok [stm_simps]:
  "on_servers m s = (Ok a, s') \<longleftrightarrow> (\<exists>c. m (ks_servers s) = (Ok a, c) \<and> s' = s\<lparr>ks_servers := c\<rparr>)"
  by (auto simp: on_servers_def split: prod.splits)

lemma generated_files:
  assumes "GenerateKeyPairCmd L K [] [] s = (Ok (), s')"
    and "FileExists K ''cosign.key'' s = Ok False \<or> Scan_answer K \<in> {''y'', ''Y''}"
  shows "\<exists>kb. GenerateKeyPair L K (Some (GetPass K)) = Ok kb \<and>
    ks_files s' ''cosign.key'' = Some (PrivateBytes kb) \<and> ks_files s' ''cosign.pub'' = Some (PublicBytes kb)"
proof -
  obtain kb ex where kb: "GenerateKeyPair L K (Some (GetPass K)) = Ok kb" and ex: "FileExists K ''cosign.key'' s = Ok ex"
    and w: "(if ex \<and> Scan_answer K \<notin> {''y'', ''Y''} then retS ()
       else bindS (fs_WriteFile K ''cosign.key'' (PrivateBytes kb)) (\<lambda>_. fs_WriteFile K ''cosign.pub'' (PublicBytes kb))) s = (Ok (), s')"
    using assms(1) by (auto simp: GenerateKeyPairCmd_def write_key_pair_def bindS_Ok_iff)
  have "\<not> (ex \<and> Scan_answer K \<notin> {''y'', ''Y''})"
    using assms(2) ex by auto
  then have "bindS (fs_WriteFile K ''cosign.key'' (PrivateBytes kb)) (\<lambda>_. fs_WriteFile K ''cosign.pub'' (PublicBytes kb)) s = (Ok (), s')"
    using w by (simp split: if_splits)
  then show ?thesis
    using kb by (auto simp: stm_simps)
qed

lemma generated_secret:
  assumes "servers_documented K" and "KeyPairSecret L K t (Some f) s = (Ok (), s')"
  shows "\<exists>kb ns n data im. GenerateKeyPair L K (Some f) = Ok kb \<and> parseRef t = Ok (ns, n) \<and> k8s_Client K = Ok () \<and>
    Secrets_Get K ns n (ks_servers s') = Ok (new_secret kb data im) \<and> ks_files s' ''cosign.pub'' = Some (PublicBytes kb)"
proof -
  have created: "Secrets_Create K ns n x c = (Ok (), c') \<Longrightarrow> Secrets_Get K ns n c' = Ok x"
    and updated: "Secrets_Update K ns n x c = (Ok (), c') \<Longrightarrow> Secrets_Get K ns n c' = Ok x" for ns n x c c'
    using assms(1) unfolding servers_documented_def by blast+
  obtain ns n kb im s1 where pre: "parseRef t = Ok (ns, n)" "GenerateKeyPair L K (Some f) = Ok kb" "k8s_Client K = Ok ()"
    and put: "handleS (readS (\<lambda>s. Secrets_Get K ns n (ks_servers s)))
       (\<lambda>err. if IsNotFound err
              then handleS (on_servers (Secrets_Create K ns n (new_secret kb None im)))
                     (\<lambda>e. failS (Wrapped e (''creating secret '' @ n @ '' in ns '' @ ns))) retS
              else failS (Wrapped err ''checking if secret exists''))
       (\<lambda>s. handleS (on_servers (Secrets_Update K ns n (new_secret kb (secret_Data s) im)))
              (\<lambda>e. failS (Wrapped e (''updating secret '' @ n @ '' in ns '' @ ns))) retS) s = (Ok (), s1)"
    and w: "fs_WriteFile K ''cosign.pub'' (PublicBytes kb) s1 = (Ok (), s')"
    using assms(2) by (auto simp: KeyPairSecret_def bindS_Ok_iff wrapr_Ok_iff)
  have "\<exists>data. Secrets_Get K ns n (ks_servers s1) = Ok (new_secret kb data im)"
    using put by (auto simp: stm_simps split: if_splits dest!: created updated)
  then show ?thesis
    using pre w by (fastforce simp: stm_simps)
qed

lemma put_variable_Ok:
  assumes "servers_documented K" and "put_variable K ref key v s = (Ok (), s')"
  shows "\<exists>st. GetVariable K ref key (ks_servers s') = Ok (v, st)"
    and "key' \<noteq> key \<Longrightarrow> GetVariable K ref key' (ks_servers s') = GetVariable K ref key' (ks_servers s)"
    and "ks_files s' = ks_files s"
proof -
  obtain st c where c: "CreateVariable K ref key v (ks_servers s) = (Ok st, c)" and s': "s' = s\<lparr>ks_servers := c\<rparr>"
    using assms(2) by (auto simp: put_variable_def stm_simps split: if_splits)
  have "(\<exists>st'. GetVariable K ref key c = Ok (v, st')) \<and>
      (\<forall>key'. key' \<noteq> key \<longrightarrow> GetVariable K ref key' c = GetVariable K ref key' (ks_servers s))"
    using assms(1) c unfolding servers_documented_def by blast
  then show "\<exists>st. GetVariable K ref key (ks_servers s') = Ok (v, st)"
    and "key' \<noteq> key \<Longrightarrow> GetVariable K ref key' (ks_servers s') = GetVariable K ref key' (ks_servers s)"
    and "ks_files s' = ks_files s"
    by (simp_all add: s')
qed

lemma generated_variables:
  assumes "servers_documented K" and "gitlab_PutSecret L K t (Some f) s = (Ok (), s')"
  shows "\<exists>kb. GenerateKeyPair L K (Some f) = Ok kb \<and> ks_files s' ''cosign.pub'' = Some (PublicBytes kb) \<and>
    gitlab_GetSecret K (ks_servers s') t ''COSIGN_PRIVATE_KEY'' = Ok (PrivateBytes kb) \<and>
    gitlab_GetSecret K (ks_servers s') t ''COSIGN_PASSWORD'' = Ok (kb_password kb) \<and>
    gitlab_GetSecret K (ks_servers s') t ''COSIGN_PUBLIC_KEY'' = Ok (PublicBytes kb)"
proof -
  obtain kb s1 s2 s3 where kb: "GenerateKeyPair L K (Some f) = Ok kb" and client: "gitlab_client K = Ok ()"
    and puts: "put_variable K t ''COSIGN_PASSWORD'' (kb_password kb) s = (Ok (), s1)"
      "put_variable K t ''COSIGN_PRIVATE_KEY'' (PrivateBytes kb) s1 = (Ok (), s2)"
      "put_variable K t ''COSIGN_PUBLIC_KEY'' (PublicBytes kb) s2 = (Ok (), s3)"
    and s': "s' = s3\<lparr>ks_files := (ks_files s3)(''cosign.pub'' \<mapsto> PublicBytes kb)\<rparr>"
    using assms(2) by (auto simp: gitlab_PutSecret_def stm_simps wrapr_Ok_iff)
  note put = put_variable_Ok [OF assms(1)]
  have get: "gitlab_GetSecret K (ks_servers s') t key = Ok v" if "\<exists>st. GetVariable K t key (ks_servers s3) = Ok (v, st)" for key v
    using that client by (auto simp: gitlab_GetSecret_def s')
  have "GetVariable K t ''COSIGN_PRIVATE_KEY'' (ks_servers s3) = GetVariable K t ''COSIGN_PRIVATE_KEY'' (ks_servers s2)"
    "GetVariable K t ''COSIGN_PASSWORD'' (ks_servers s3) = GetVariable K t ''COSIGN_PASSWORD'' (ks_servers s1)"
    using put(2) [OF puts(3)] put(2) [OF puts(2)] by simp_all
  then show ?thesis
    using kb s' get put(1) [OF puts(1)] put(1) [OF puts(2)] put(1) [OF puts(3)] by auto
qed

lemma usable_files:
  assumes "keys_documented L K" and "GenerateKeyPairCmd L K [] [] s = (Ok (), s')"
    and "FileExists K ''cosign.key'' s = Ok False \<or> Scan_answer K \<in> {''y'', ''Y''}"
  shows "matching (SignerVerifierFromKeyRef (with_files s' H) K c ''cosign.key'' (Some (GetPass K)))
    (PublicKeyFromKeyRef L (with_files s' H) K c ''cosign.pub'')"
proof -
  obtain kb where kb: "GenerateKeyPair L K (Some (GetPass K)) = Ok kb" "ks_files s' ''cosign.key'' = Some (PrivateBytes kb)"
      "ks_files s' ''cosign.pub'' = Some (PublicBytes kb)"
    using generated_files [OF assms(2,3)] by blast
  have "GetPass K False = Ok (kb_password kb)"
    using generated(4) [OF assms(1) kb(1) refl] by (rule GetPass_confirm)
  then show ?thesis
    using generated(2) [OF assms(1) kb(1)] by (simp add: key_file [OF kb(2)] pub_file [OF assms(1) kb(3)])
qed

lemma usable_secret:
  assumes doc: "keys_documented L K" "servers_documented K"
    and cmd: "GenerateKeyPairCmd L K [] [''k8s://'' @ t] s = (Ok (), s')" and t: "\<not> contains t ''://''"
    and pub: "pubRef \<in> {''cosign.pub'', ''k8s://'' @ t}"
  shows "matching (SignerVerifierFromKeyRef (with_files s' H) K (ks_servers s') (''k8s://'' @ t) pf)
    (PublicKeyFromKeyRef L (with_files s' H) K (ks_servers s') pubRef)"
proof -
  have "KeyPairSecret L K t (Some (GetPass K)) s = (Ok (), s')"
    using cmd split_ref(1) [OF t] by (simp add: GenerateKeyPairCmd_def)
  then obtain kb ns n data im where kb: "GenerateKeyPair L K (Some (GetPass K)) = Ok kb" "parseRef t = Ok (ns, n)" "k8s_Client K = Ok ()"
      "Secrets_Get K ns n (ks_servers s') = Ok (new_secret kb data im)" "ks_files s' ''cosign.pub'' = Some (PublicBytes kb)"
    using generated_secret [OF doc(2)] by blast
  have x: "GetKeyPairSecret K (ks_servers s') (''k8s://'' @ t) = Ok (new_secret kb data im)"
    using kb parseRef_k8s [OF t] by (simp add: GetKeyPairSecret_def)
  have d: "nil_list (secret_Data (new_secret kb data im)) \<noteq> []"
    "mget (nil_list (secret_Data (new_secret kb data im))) ''cosign.key'' = PrivateBytes kb"
    "mget (nil_list (secret_Data (new_secret kb data im))) ''cosign.pub'' = PublicBytes kb"
    "mget (nil_list (secret_Data (new_secret kb data im))) ''cosign.password'' = kb_password kb"
    by (simp_all add: new_secret_def)
  have "SignerVerifierFromKeyRef (with_files s' H) K (ks_servers s') (''k8s://'' @ t) pf =
      LoadPrivateKey K (PrivateBytes kb) (kb_password kb)"
    using x d by (simp add: SignerVerifierFromKeyRef_def KeyReference_def)
  moreover have "PublicKeyFromKeyRef L (with_files s' H) K (ks_servers s') (''k8s://'' @ t) = LoadPublicKeyRaw L K (PublicBytes kb) SHA256"
    using x d by (simp add: PublicKeyFromKeyRef_def PublicKeyFromKeyRefWithHashAlgo_def KeyReference_def)
  ultimately show ?thesis
    using pub generated(1,2) [OF doc(1) kb(1)] by (auto simp: pub_file [OF doc(1) kb(5)])
qed

lemma usable_variables:
  assumes doc: "keys_documented L K" "servers_documented K"
    and cmd: "GenerateKeyPairCmd L K [] [''gitlab://'' @ t] s = (Ok (), s')" and t: "\<not> contains t ''://''"
    and pub: "pubRef \<in> {''cosign.pub'', ''gitlab://'' @ t}"
  shows "matching (SignerVerifierFromKeyRef (with_files s' H) K (ks_servers s') (''gitlab://'' @ t) pf)
    (PublicKeyFromKeyRef L (with_files s' H) K (ks_servers s') pubRef)"
proof -
  have "gitlab_PutSecret L K t (Some (GetPass K)) s = (Ok (), s')"
    using cmd split_ref(2) [OF t] by (simp add: GenerateKeyPairCmd_def)
  then obtain kb where kb: "GenerateKeyPair L K (Some (GetPass K)) = Ok kb" "ks_files s' ''cosign.pub'' = Some (PublicBytes kb)"
      "gitlab_GetSecret K (ks_servers s') t ''COSIGN_PRIVATE_KEY'' = Ok (PrivateBytes kb)"
      "gitlab_GetSecret K (ks_servers s') t ''COSIGN_PASSWORD'' = Ok (kb_password kb)"
      "gitlab_GetSecret K (ks_servers s') t ''COSIGN_PUBLIC_KEY'' = Ok (PublicBytes kb)"
    using generated_variables [OF doc(2)] by blast
  have "SignerVerifierFromKeyRef (with_files s' H) K (ks_servers s') (''gitlab://'' @ t) pf =
      LoadPrivateKey K (PrivateBytes kb) (kb_password kb)"
    using kb split_ref(2) [OF t] by (simp add: SignerVerifierFromKeyRef_def KeyReference_def git_GetSecret_def)
  moreover have "PublicKeyFromKeyRef L (with_files s' H) K (ks_servers s') (''gitlab://'' @ t) = LoadPublicKeyRaw L K (PublicBytes kb) SHA256"
    using kb(5) generated(3) [OF doc(1) kb(1)] split_ref(2) [OF t]
    by (simp add: PublicKeyFromKeyRef_def PublicKeyFromKeyRefWithHashAlgo_def KeyReference_def git_GetSecret_def)
  ultimately show ?thesis
    using pub generated(1,2) [OF doc(1) kb(1)] by (auto simp: pub_file [OF doc(1) kb(2)])
qed

text \<open>C26. A key pair that \<open>cosign generate-key-pair\<close> made can be used. After the command, with the password
  that was entered, signing with the new key and verifying with its public key fit together, whether
  the pair is in the files \<open>cosign.key\<close> and \<open>cosign.pub\<close>, in a Kubernetes secret or in GitLab variables;
  the public key may be taken from there or from \<open>cosign.pub\<close>.\<close>

theorem GenerateKeyPairCmd_usable:
  assumes "keys_documented L K" and "servers_documented K" and "GenerateKeyPairCmd L K [] args s = (Ok (), s')"
    and "args = [] \<and> keyRef = ''cosign.key'' \<and> (FileExists K ''cosign.key'' s = Ok False \<or> Scan_answer K \<in> {''y'', ''Y''}) \<or>
      (\<exists>t. args = [keyRef] \<and> keyRef \<in> {''k8s://'' @ t, ''gitlab://'' @ t} \<and> \<not> contains t ''://'')"
    and "pubRef = ''cosign.pub'' \<or> pubRef = keyRef \<and> args \<noteq> []"
  shows "matching (SignerVerifierFromKeyRef (with_files s' H) K (ks_servers s') keyRef (Some (GetPass K)))
    (PublicKeyFromKeyRef L (with_files s' H) K (ks_servers s') pubRef)"
  using assms usable_files [of L K s s' H "ks_servers s'"] usable_secret [of L K _ s s' pubRef H "Some (GetPass K)"]
    usable_variables [of L K _ s s' pubRef H "Some (GetPass K)"]
  by blast

text \<open>A reference that starts with \<open>gitlab\<close> and has another scheme makes the loading of a key panic.\<close>

lemma gitlab_like_scheme_panics:
  "SignerVerifierFromKeyRef H K c ''gitlab-ci://p'' pf = Panic ''invalid memory address or nil pointer dereference''"
  "PublicKeyFromKeyRef L H K c ''gitlab-ci://p'' = Panic ''invalid memory address or nil pointer dereference''"
  by (simp_all add: SignerVerifierFromKeyRef_def PublicKeyFromKeyRef_def PublicKeyFromKeyRefWithHashAlgo_def KeyReference_def
      strings_Split_def git_GetSecret_def)

subsection \<open>An example\<close>

text \<open>Keys without secrets: the private and the public key are the same bytes, and nothing is encrypted.\<close>

definition sample_signer :: "bytes \<Rightarrow> signer_verifier" where
  "sample_signer b =
     \<lparr>VerifySignature = VerifySignature (sample_verifier (ECDSAKey b)), verifier_PublicKey = Ok (ECDSAKey b),
      SignMessage = (\<lambda>m. Ok (b @ m)), as_pkcs11 = None\<rparr>"

fun private_bytes :: "privkey \<Rightarrow> bytes" where
  "private_bytes (RSAPrivate b) = b"
| "private_bytes (ECDSAPrivate b) = b"
| "private_bytes (ED25519Private b) = b"
| "private_bytes (OtherPrivate b) = b"

definition sample_key_lib :: "'c key_lib" where
  "sample_key_lib = \<lparr>
     pem_Block = (\<lambda>s. let n = length (takeWhile (\<lambda>c. c = CHR ''x'') s)
        in if n < length s then Some (take n (drop (n + 1) s), drop (n + n + 1) s) else None),
     pem_EncodeToMemory = (\<lambda>t b. replicate (length t) CHR ''x'' @ CHR ''-'' # t @ b),
     ParsePKCS1PrivateKey = (\<lambda>b. Ok (RSAPrivate b)),
     ParseECPrivateKey = (\<lambda>b. Ok (ECDSAPrivate b)),
     ParsePKCS8PrivateKey = (\<lambda>b. Ok (ECDSAPrivate b)),
     MarshalPKCS8PrivateKey = (\<lambda>k. case k of ECDSAPrivate b \<Rightarrow> Ok b | _ \<Rightarrow> Err (LibError ''unsupported key'')),
     Public = (\<lambda>k. ECDSAKey (private_bytes k)),
     ValidatePubKey = (\<lambda>_. Ok ()),
     ecdsa_GenerateKey = Ok (ECDSAPrivate ''k''),
     Encrypt = (\<lambda>b p. Ok b),
     Decrypt = (\<lambda>b p. Ok b),
     LoadRSASignerVerifier = (\<lambda>k. Ok (sample_signer (private_bytes k))),
     LoadECDSASignerVerifier = (\<lambda>k. Ok (sample_signer (private_bytes k))),
     LoadED25519SignerVerifier = (\<lambda>k. Ok (sample_signer (private_bytes k))),
     LoadVerifierWith = (\<lambda>k h. Ok (sample_verifier k)),
     LoadECDSAVerifier = (\<lambda>k h. Ok (sample_verifier k)),
     kms_Get = (\<lambda>ref h. if contains ref ''://'' then Ok (sample_signer ''k'') else Err (LibError ''no KMS'')),
     kms_CreateKey = (\<lambda>ref. Err (LibError ''no KMS'')),
     pkcs11_Parse = Ok,
     pkcs11_GetKey = (\<lambda>c pin. Err (LibError ''no token'')),
     pkcs11_SignerVerifier = (\<lambda>k. Err (LibError ''no token'')),
     pkcs11_Verifier = (\<lambda>k. Err (LibError ''no token'')),
     k8s_Client = Err (LibError ''no cluster''),
     k8s_Version = Ok (1, 23),
     Secrets_Get = (\<lambda>ns n c. Err (APINotFound n)),
     Secrets_Create = (\<lambda>ns n x c. (Err (LibError ''forbidden''), c)),
     Secrets_Update = (\<lambda>ns n x c. (Err (LibError ''forbidden''), c)),
     gitlab_NewClient = (\<lambda>t h. Ok ()),
     CreateVariable = (\<lambda>r k v c. (Err (LibError ''forbidden''), c)),
     GetVariable = (\<lambda>r k c. Err (LibError ''not found'')),
     github_PutSecret = (\<lambda>r s. (Err (LibError ''forbidden''), s)),
     LookupEnv = (\<lambda>v. if v = ''COSIGN_PASSWORD'' then Some ''pw'' else None),
     IsTerminal = False,
     ReadPassword = (\<lambda>i. Ok ''pw''),
     ReadStdin = Ok [],
     Scan_answer = ''y'',
     fs_WriteFile_err = (\<lambda>p. None),
     fs_Stat_err = (\<lambda>p. None)\<rparr>"

lemma sample_pem: "pem_Block sample_key_lib (pem_EncodeToMemory sample_key_lib t b) = Some (t, b)"
proof -
  have "takeWhile (\<lambda>c. c = CHR ''x'') (replicate n CHR ''x'' @ CHR ''-'' # r) = replicate n CHR ''x''" for n r
    by (induction n) auto
  then show ?thesis
    by (simp add: sample_key_lib_def Let_def)
qed

lemma sample_keys_documented: "keys_documented sample_libs sample_key_lib"
  using sample_pem
  by (auto simp: keys_documented_def) (auto simp: sample_key_lib_def sample_libs_def sample_signer_def sample_verifier_def
      split: privkey.splits pubkey.splits if_splits)

text \<open>The same keys with a cluster and a GitLab server that store what they are given.\<close>

definition storing_key_lib :: "((string \<times> string \<rightharpoonup> secret) \<times> (string \<times> string \<rightharpoonup> string)) key_lib" where
  "storing_key_lib = sample_key_lib\<lparr>
     k8s_Client := Ok (),
     Secrets_Get := (\<lambda>ns n c. case fst c (ns, n) of None \<Rightarrow> Err (APINotFound n) | Some x \<Rightarrow> Ok x),
     Secrets_Create := (\<lambda>ns n x c. case fst c (ns, n) of
        None \<Rightarrow> (Ok (), ((fst c)((ns, n) \<mapsto> x), snd c)) | Some _ \<Rightarrow> (Err (LibError ''already exists''), c)),
     Secrets_Update := (\<lambda>ns n x c. case fst c (ns, n) of
        None \<Rightarrow> (Err (APINotFound n), c) | Some _ \<Rightarrow> (Ok (), ((fst c)((ns, n) \<mapsto> x), snd c))),
     CreateVariable := (\<lambda>r k v c. case snd c (r, k) of
        None \<Rightarrow> (Ok 201, (fst c, (snd c)((r, k) \<mapsto> v))) | Some _ \<Rightarrow> (Err (LibError ''has already been taken''), c)),
     GetVariable := (\<lambda>r k c. case snd c (r, k) of None \<Rightarrow> Err (LibError ''not found'') | Some v \<Rightarrow> Ok (v, 200)),
     LookupEnv := (\<lambda>v. if v = ''COSIGN_PASSWORD'' then Some ''pw'' else if v = ''GITLAB_TOKEN'' then Some ''token'' else None)\<rparr>"

lemma storing_documented: "keys_documented sample_libs storing_key_lib" "servers_documented storing_key_lib"
proof -
  show "keys_documented sample_libs storing_key_lib"
    using sample_keys_documented [where 'a = "(string \<times> string \<rightharpoonup> secret) \<times> (string \<times> string \<rightharpoonup> string)"]
    by (simp add: keys_documented_def storing_key_lib_def)
  show "servers_documented storing_key_lib"
    by (auto simp: servers_documented_def storing_key_lib_def split: option.splits)
qed

definition sample_keys :: keys_bytes where
  "sample_keys = \<lparr>PrivateBytes = pem_EncodeToMemory storing_key_lib CosignPrivateKeyPemType ''k'', PublicBytes = ''k'', kb_password = ''pw''\<rparr>"

lemma sample_generate: "GenerateKeyPair sample_libs storing_key_lib (Some (GetPass storing_key_lib)) = Ok sample_keys"
  by (simp add: GenerateKeyPair_def marshalKeyPair_def sample_keys_def GetPass_def)
     (simp add: storing_key_lib_def sample_key_lib_def sample_libs_def)

definition sample_store :: "((string \<times> string \<rightharpoonup> secret) \<times> (string \<times> string \<rightharpoonup> string)) key_store" where
  "sample_store = \<lparr>ks_files = Map.empty, ks_servers = (Map.empty, Map.empty)\<rparr>"

lemma storing_selectors:
  "fs_WriteFile_err storing_key_lib p = None" "fs_Stat_err storing_key_lib p = None" "k8s_Client storing_key_lib = Ok ()"
  "k8s_Version storing_key_lib = Ok (1, 23)" "gitlab_NewClient storing_key_lib t h = Ok ()"
  "LookupEnv storing_key_lib ''GITLAB_TOKEN'' = Some ''token''"
  "fst c (ns, n) = None \<Longrightarrow> Secrets_Get storing_key_lib ns n c = Err (APINotFound n)"
  "fst c (ns, n) = None \<Longrightarrow> Secrets_Create storing_key_lib ns n x c = (Ok (), ((fst c)((ns, n) \<mapsto> x), snd c))"
  "snd c (r, k) = None \<Longrightarrow> CreateVariable storing_key_lib r k v c = (Ok 201, (fst c, (snd c)((r, k) \<mapsto> v)))"
  by (simp_all add: storing_key_lib_def sample_key_lib_def)

lemma sample_commands:
  "\<exists>s'. GenerateKeyPairCmd sample_libs storing_key_lib [] [] sample_store = (Ok (), s')"
  "\<exists>s'. GenerateKeyPairCmd sample_libs storing_key_lib [] [''k8s://ns/name''] sample_store = (Ok (), s')"
  "\<exists>s'. GenerateKeyPairCmd sample_libs storing_key_lib [] [''gitlab://p''] sample_store = (Ok (), s')"
proof -
  show "\<exists>s'. GenerateKeyPairCmd sample_libs storing_key_lib [] [] sample_store = (Ok (), s')"
    by (simp add: GenerateKeyPairCmd_def sample_generate write_key_pair_def FileExists_def fs_WriteFile_def sample_store_def bindS_def
        storing_selectors)
  show "\<exists>s'. GenerateKeyPairCmd sample_libs storing_key_lib [] [''k8s://ns/name''] sample_store = (Ok (), s')"
    by (simp add: GenerateKeyPairCmd_def strings_Split_def KeyPairSecret_def sample_generate parseRef_def trim_prefix_def KeyReference_def
        checkImmutableSecretSupported_def on_servers_def fs_WriteFile_def sample_store_def bindS_def handleS_def storing_selectors)
  show "\<exists>s'. GenerateKeyPairCmd sample_libs storing_key_lib [] [''gitlab://p''] sample_store = (Ok (), s')"
    by (simp add: GenerateKeyPairCmd_def strings_Split_def gitlab_PutSecret_def sample_generate gitlab_client_def put_variable_def
        on_servers_def fs_WriteFile_def sample_store_def bindS_def handleS_def storing_selectors)
qed

definition sample_usable :: "string list \<Rightarrow> string \<Rightarrow> bool" where
  "sample_usable args keyRef \<longleftrightarrow>
     (\<exists>s'. GenerateKeyPairCmd sample_libs storing_key_lib [] args sample_store = (Ok (), s') \<and>
       matching (SignerVerifierFromKeyRef (with_files s' sample_host) storing_key_lib (ks_servers s') keyRef (Some (GetPass storing_key_lib)))
         (PublicKeyFromKeyRef sample_libs (with_files s' sample_host) storing_key_lib (ks_servers s') ''cosign.pub''))"

theorem GenerateKeyPairCmd_usable_witness:
  "sample_usable [] ''cosign.key'' \<and> sample_usable [''k8s://ns/name''] ''k8s://ns/name'' \<and> sample_usable [''gitlab://p''] ''gitlab://p''"
proof -
  have new: "FileExists storing_key_lib ''cosign.key'' sample_store = Ok False"
    by (simp add: FileExists_def sample_store_def) (simp add: storing_key_lib_def sample_key_lib_def)
  have "\<not> contains ''ns/name'' ''://''" "\<not> contains ''p'' ''://''"
    by code_simp+
  then have refs: "\<exists>t. ''k8s://ns/name'' \<in> {''k8s://'' @ t, ''gitlab://'' @ t} \<and> \<not> contains t ''://''"
    "\<exists>t. ''gitlab://p'' \<in> {''k8s://'' @ t, ''gitlab://'' @ t} \<and> \<not> contains t ''://''"
    by (auto intro: exI [of _ "''ns/name''"] exI [of _ "''p''"])
  note usable = GenerateKeyPairCmd_usable [OF storing_documented, where pubRef = "''cosign.pub''" and H = sample_host and s = sample_store]
  obtain s1 s2 s3 where runs: "GenerateKeyPairCmd sample_libs storing_key_lib [] [] sample_store = (Ok (), s1)"
    "GenerateKeyPairCmd sample_libs storing_key_lib [] [''k8s://ns/name''] sample_store = (Ok (), s2)"
    "GenerateKeyPairCmd sample_libs storing_key_lib [] [''gitlab://p''] sample_store = (Ok (), s3)"
    using sample_commands by blast
  show ?thesis
    using runs usable [OF runs(1), of "''cosign.key''"] usable [OF runs(2), of "''k8s://ns/name''"] usable [OF runs(3), of "''gitlab://p''"]
      new refs by (auto simp: sample_usable_def)
qed

end
