(* ===== verification/Verify_CLI.thy ===== *)
theory Verify_CLI
  imports Keys Fulcio_Roots Verify
begin

section \<open>The commands verify and verify-attestation\<close>

text \<open>
  \<open>cmd/cosign/cli/verify/verify.go\<close> and \<open>verify_attestation.go\<close>, with the options they share
  (\<open>cmd/cosign/cli/options\<close>), \<open>pkg/policy/attestation.go\<close> and the calls of the policy engines
  (\<open>pkg/cosign/cue\<close>, \<open>pkg/cosign/rego\<close>). What a command prints for an image is a \<open>report\<close>. Clients,
  tokens, engines and JSON are the parameter \<open>cli_lib\<close>.
\<close>

subsection \<open>Options\<close>

record registry_options =
  AllowInsecure :: bool
  KubernetesKeychain :: bool
  RefOpts_TagPrefix :: string
  ro_Keychain :: "string option"

record 'c cli_lib =
  key_api :: "'c key_lib"
  key_servers :: 'c
  rekor_NewClient :: "string \<Rightarrow> rekor_client res"
  piv_GetKey :: "string \<Rightarrow> string res"
  piv_Verifier :: "string \<Rightarrow> verifier res"
  name_ParseReference :: "string \<Rightarrow> reference res"
  name_NewRepository :: "string \<Rightarrow> string res"
  v1_NewHash :: "string \<Rightarrow> hash res"
  roots_once :: once
  layouts :: layout_lib
  Marshal_images :: "simple_image list \<Rightarrow> bytes res"
  bundle_iface :: "rekor_bundle \<Rightarrow> iface"
  error_text :: "gerror \<Rightarrow> string"
  slsa_PredicateSLSAProvenance :: string
  in_toto_PredicateSPDX :: string
  in_toto_PredicateLinkV1 :: string
  Unmarshal_typed :: "string \<Rightarrow> bytes \<Rightarrow> iface res"
  Marshal_typed :: "string \<Rightarrow> iface \<Rightarrow> bytes res"
  cue_Instances :: "string list \<Rightarrow> string list"
  cue_LoadErr :: "string \<Rightarrow> gerror option"
  cue_BuildErr :: "string \<Rightarrow> gerror option"
  cuejson_Validate :: "bytes \<Rightarrow> string \<Rightarrow> gerror option"
  rego_Prepare :: "string list \<Rightarrow> string res"
  rego_Decode :: "bytes \<Rightarrow> iface res"
  rego_Eval :: "string \<Rightarrow> iface \<Rightarrow> string list list res"
  rego_Allowed :: "string list list \<Rightarrow> bool"

definition EnableExperimental :: "host \<Rightarrow> bool" where
  "EnableExperimental H = (case strconv_ParseBool (Getenv H ''COSIGN_EXPERIMENTAL'') of Ok b \<Rightarrow> b | _ \<Rightarrow> False)"

text \<open>The arguments of \<open>NOf\<close> by whether they are zero.\<close>

definition NOf :: "bool list \<Rightarrow> nat" where
  "NOf args = length (filter (\<lambda>nonzero. nonzero) args)"

definition OneOf :: "bool list \<Rightarrow> bool" where
  "OneOf args = (NOf args = 1)"

definition GetRegistryClientOpts :: "registry_options \<Rightarrow> ropt" where
  "GetRegistryClientOpts o' =
     [''context'', ''user-agent''] @
     (case ro_Keychain o' of
        Some kc \<Rightarrow> [kc]
      | None \<Rightarrow> if KubernetesKeychain o' then [''kubernetes-keychain''] else [''authn.DefaultKeychain'']) @
     (if AllowInsecure o' then [''insecure-transport''] else [])"

definition ClientOpts :: "libs \<Rightarrow> host \<Rightarrow> 'c cli_lib \<Rightarrow> registry_options \<Rightarrow> remote_option list res" where
  "ClientOpts L H E o' =
     (let opts = WithRemoteOptions (GetRegistryClientOpts o') #
                 (if RefOpts_TagPrefix o' \<noteq> [] then [WithPrefix (RefOpts_TagPrefix o')] else [])
      in bindr (GetEnvTargetRepository L (Getenv H) (name_NewRepository E)) (\<lambda>targetRepoOverride.
         Ok (opts @ (if targetRepoOverride \<noteq> [] then [WithTargetRepository targetRepoOverride] else []))))"

definition GetRoots :: "libs \<Rightarrow> host \<Rightarrow> 'c cli_lib \<Rightarrow> certpool option res" where
  "GetRoots L H E = fst (fulcioroots_Get L H (roots_once E))"

definition GetAttachedImageRef ::
  "'c cli_lib \<Rightarrow> registry \<Rightarrow> reference \<Rightarrow> string \<Rightarrow> remote_option list \<Rightarrow> reference res" where
  "GetAttachedImageRef E R ref attachment opts =
     (if attachment = [] then Ok ref
      else if attachment = ''sbom'' then SBOMTag (v1_NewHash E) R ref opts
      else Err (ErrorString (''unknown attachment type '' @ attachment)))"

abbreviation ErrHelp :: gerror where "ErrHelp \<equiv> LibError ''flag: help requested''"

abbreviation PubKeyParseError :: gerror where
  "PubKeyParseError \<equiv> ErrorString ''exactly one of: key reference (--key), certificate (--cert) or hardware token (--sk) must be provided''"

subsection \<open>Certificates from files\<close>

definition loadCertFromPEM :: "libs \<Rightarrow> bytes \<Rightarrow> certificate res" where
  "loadCertFromPEM L pems =
     bindr (handler (b64_decode pems) (\<lambda>_. Ok pems) Ok) (\<lambda>out.
     bindr (UnmarshalCertificatesFromPEM L out) (\<lambda>certs.
     case certs of [] \<Rightarrow> Err (ErrorString ''no certs found in pem file'') | cert # _ \<Rightarrow> Ok cert))"

definition loadCertFromFileOrURL :: "libs \<Rightarrow> host \<Rightarrow> string \<Rightarrow> certificate res" where
  "loadCertFromFileOrURL L H path = bindr (LoadFileOrURL H path) (loadCertFromPEM L)"

definition loadCertChainFromFileOrURL :: "libs \<Rightarrow> host \<Rightarrow> string \<Rightarrow> certificate list res" where
  "loadCertChainFromFileOrURL L H path = bindr (LoadFileOrURL H path) (LoadCertificatesFromPEM L)"

definition CertSubject :: "certificate \<Rightarrow> string" where
  "CertSubject c =
     (case EmailAddresses c of
        email # _ \<Rightarrow> email
      | [] \<Rightarrow> (case URIs c of uri # _ \<Rightarrow> uri | [] \<Rightarrow> []))"

definition CertIssuerExtension :: "certificate \<Rightarrow> string" where
  "CertIssuerExtension cert =
     (case find (\<lambda>(i, _). i = [1, 3, 6, 1, 4, 1, 57264, 1, 1]) (Extensions cert) of
        None \<Rightarrow> [] | Some (_, v) \<Rightarrow> v)"

subsection \<open>Which key\<close>

text \<open>The flags that choose the key, and the \<open>switch\<close> on them; the last case may set the roots.\<close>

record key_flags =
  kf_KeyRef :: string
  kf_CertRef :: string
  kf_CertChain :: string
  kf_Sk :: bool
  kf_Slot :: string

text \<open>The two commands wrap the errors of the certificate case differently; an empty text stands for none.\<close>

definition wrap_msg :: "string \<Rightarrow> 'a res \<Rightarrow> 'a res" where
  "wrap_msg msg r = (if msg = [] then r else wrapr msg r)"

definition cert_verifier ::
  "libs \<Rightarrow> host \<Rightarrow> string \<times> string \<Rightarrow> key_flags \<Rightarrow> CheckOpts \<Rightarrow> verifier res \<times> CheckOpts" where
  "cert_verifier L H msgs c co =
     lift_err co (wrap_msg (fst msgs) (loadCertFromFileOrURL L H (kf_CertRef c))) (\<lambda>cert.
     if kf_CertChain c = [] then (wrap_msg (snd msgs) (LoadVerifier L (PublicKey cert)), co)
     else lift_err co (loadCertChainFromFileOrURL L H (kf_CertChain c)) (\<lambda>chain.
          (let (v, co') = ValidateAndUnpackCertWithChain L H cert chain co in (wrap_msg (snd msgs) v, co'))))"

definition select_key ::
  "libs \<Rightarrow> host \<Rightarrow> 'c cli_lib \<Rightarrow> string \<times> string \<Rightarrow> key_flags \<Rightarrow> nat \<Rightarrow> CheckOpts \<Rightarrow> verifier option res \<times> CheckOpts" where
  "select_key L H E msgs c hashAlgorithm co =
     (if kf_KeyRef c \<noteq> []
      then (bindr (wrapr ''loading public key''
              (PublicKeyFromKeyRefWithHashAlgo L H (key_api E) (key_servers E) (kf_KeyRef c) hashAlgorithm)) (\<lambda>v. Ok (Some v)), co)
      else if kf_Sk c
      then (bindr (wrapr ''opening piv token'' (piv_GetKey E (kf_Slot c))) (\<lambda>sk.
            bindr (wrapr ''initializing piv token verifier'' (piv_Verifier E sk)) (\<lambda>v. Ok (Some v))), co)
      else if kf_CertRef c \<noteq> []
      then (let (v, co') = cert_verifier L H msgs c co in (bindr v (\<lambda>v. Ok (Some v)), co'))
      else (Ok None, co))"

subsection \<open>What is printed\<close>

definition PrintVerificationHeader :: "string \<Rightarrow> CheckOpts \<Rightarrow> bool \<Rightarrow> bool \<Rightarrow> string list" where
  "PrintVerificationHeader imgRef co bundleVerified fulcioVerified =
     [''Verification for '' @ imgRef @ '' --'', ''The following checks were performed on each of these signatures:''] @
     (if ClaimVerifier co \<noteq> None
      then (if opts_annotations co \<noteq> None then [''  - The specified annotations were verified.''] else []) @
           [''  - The cosign claims were validated'']
      else []) @
     (if bundleVerified then [''  - Existence of the claims in the transparency log was verified offline'']
      else if RekorClient co \<noteq> None
      then [''  - The claims were present in the transparency log'',
            ''  - The signatures were integrated into the transparency log when the certificate was valid'']
      else []) @
     (if SigVerifier co \<noteq> None then [''  - The signatures were verified against the specified public key''] else []) @
     (if fulcioVerified then [''  - Any certificates were verified against the Fulcio roots.''] else [])"

text \<open>\<open>if x, err := f(); err == nil && x != nil\<close>\<close>

definition if_present :: "'a option res \<Rightarrow> 'a option res" where
  "if_present r = handler r (\<lambda>_. Ok None) Ok"

fun print_text :: "'c cli_lib \<Rightarrow> oci_sig list \<Rightarrow> string list res" where
  "print_text E [] = Ok []"
| "print_text E (sig # sigs) =
     bindr (if_present (Cert sig)) (\<lambda>c.
     (let subject = (case c of
            Some cert \<Rightarrow> (''Certificate subject:  '' @ CertSubject cert) #
              (if CertIssuerExtension cert \<noteq> [] then [''Certificate issuer URL:  '' @ CertIssuerExtension cert] else [])
          | None \<Rightarrow> [])
      in handler (Payload sig) (\<lambda>err. Ok (subject @ [''Error fetching payload: '' @ error_text E err])) (\<lambda>p.
         bindr (print_text E sigs) (\<lambda>rest. Ok (subject @ p # rest)))))"

definition add_subject :: "certificate option \<Rightarrow> (string, iface) gomap \<Rightarrow> (string, iface) gomap" where
  "add_subject c opt =
     (case c of
        None \<Rightarrow> opt
      | Some cert \<Rightarrow>
          (let opt' = mset_key ''Subject'' (IStr (CertSubject cert)) opt
           in if CertIssuerExtension cert \<noteq> [] then mset_key ''Issuer'' (IStr (CertIssuerExtension cert)) opt' else opt'))"

definition output_key :: "libs \<Rightarrow> 'c cli_lib \<Rightarrow> oci_sig \<Rightarrow> (string + simple_image) res" where
  "output_key L E sig =
     handler (Payload sig) (\<lambda>err. Ok (Inl (''Error fetching payload: '' @ error_text E err))) (\<lambda>p.
     handler (Unmarshal_SimpleContainerImage L p) (\<lambda>err. Ok (Inl (''error decoding the payload: '' @ error_text E err))) (\<lambda>ss.
     bindr (if_present (Cert sig)) (\<lambda>c.
     bindr (if_present (Bundle sig)) (\<lambda>b.
     (let opt = add_subject c (Optional ss)
      in Ok (Inr (ss\<lparr>Optional := (case b of Some bundle \<Rightarrow> mset_key ''Bundle'' (bundle_iface E bundle) opt | None \<Rightarrow> opt)\<rparr>)))))))"

fun output_keys :: "libs \<Rightarrow> 'c cli_lib \<Rightarrow> oci_sig list \<Rightarrow> (string + simple_image list) res" where
  "output_keys L E [] = Ok (Inr [])"
| "output_keys L E (sig # sigs) =
     bindr (output_key L E sig) (\<lambda>k.
     case k of
       Inl msg \<Rightarrow> Ok (Inl msg)
     | Inr ss \<Rightarrow> bindr (output_keys L E sigs) (\<lambda>ks. Ok (case ks of Inl msg \<Rightarrow> Inl msg | Inr sss \<Rightarrow> Inr (ss # sss))))"

definition PrintVerification :: "libs \<Rightarrow> 'c cli_lib \<Rightarrow> oci_sig list \<Rightarrow> string \<Rightarrow> string list res" where
  "PrintVerification L E verified output =
     (if output = ''text'' then print_text E verified
      else bindr (output_keys L E verified) (\<lambda>ks.
        case ks of
          Inl msg \<Rightarrow> Ok [msg]
        | Inr outputKeys \<Rightarrow>
            handler (Marshal_images E outputKeys) (\<lambda>err. Ok [''error when generating the output: '' @ error_text E err])
              (\<lambda>b. Ok [b])))"


subsection \<open>verify\<close>

record verify_command =
  vc_Registry :: registry_options
  vc_CheckClaims :: bool
  vc_Key :: key_flags
  vc_CertEmail :: string
  vc_CertOidcIssuer :: string
  vc_EnforceSCT :: bool
  vc_Output :: string
  vc_RekorURL :: string
  vc_Attachment :: string
  vc_Annotations :: "(string, iface) gomap option"
  vc_SignatureRef :: string
  vc_HashAlgorithm :: nat
  vc_LocalImage :: bool

record report =
  rep_header :: "string list"
  rep_output :: "string list"
  rep_sigs :: "oci_sig list"

text \<open>Without a key the experimental mode asks the log and trusts the roots of Fulcio.\<close>

definition experimental_opts :: "libs \<Rightarrow> host \<Rightarrow> 'c cli_lib \<Rightarrow> string \<Rightarrow> CheckOpts \<Rightarrow> CheckOpts res" where
  "experimental_opts L H E rekorURL co =
     (if EnableExperimental H
      then bindr (if rekorURL \<noteq> []
                  then bindr (wrapr ''creating Rekor client'' (rekor_NewClient E rekorURL)) (\<lambda>c. Ok (co\<lparr>RekorClient := Some c\<rparr>))
                  else Ok co) (\<lambda>co'.
           bindr (GetRoots L H E) (\<lambda>roots. Ok (co'\<lparr>RootCerts := roots\<rparr>)))
      else Ok co)"

definition flag_opts :: "libs \<Rightarrow> verify_command \<Rightarrow> remote_option list \<Rightarrow> CheckOpts" where
  "flag_opts L c ociremoteOpts =
     \<lparr>RegistryClientOpts = ociremoteOpts, opts_annotations = vc_Annotations c,
      ClaimVerifier = (if vc_CheckClaims c then Some (SimpleClaimVerifier L) else None),
      RekorClient = None, SigVerifier = None, RootCerts = None, IntermediateCerts = None,
      CertEmail = vc_CertEmail c, CertOidcIssuer = vc_CertOidcIssuer c, EnforceSCT = vc_EnforceSCT c,
      SignatureRef = vc_SignatureRef c, Identities = []\<rparr>"

definition verify_opts :: "libs \<Rightarrow> host \<Rightarrow> 'c cli_lib \<Rightarrow> verify_command \<Rightarrow> remote_option list \<Rightarrow> CheckOpts res" where
  "verify_opts L H E c ociremoteOpts =
     bindr (experimental_opts L H E (vc_RekorURL c) (flag_opts L c ociremoteOpts)) (\<lambda>co.
     (let (k, co') = select_key L H E ([], []) (vc_Key c) (if vc_HashAlgorithm c = 0 then SHA256 else vc_HashAlgorithm c) co
      in bindr k (\<lambda>pubKey. Ok (co'\<lparr>SigVerifier := pubKey\<rparr>))))"

definition verify_image ::
  "libs \<Rightarrow> host \<Rightarrow> 'c cli_lib \<Rightarrow> registry \<Rightarrow> verify_command \<Rightarrow> remote_option list \<Rightarrow> string \<Rightarrow> CheckOpts \<Rightarrow> report res \<times> CheckOpts" where
  "verify_image L H E R c ociremoteOpts img co =
     (let fulcioVerified = (SigVerifier co = None);
          print = (\<lambda>nm (r, co'). (bindr r (\<lambda>(verified, bundleVerified).
             bindr (PrintVerification L E verified (vc_Output c)) (\<lambda>out.
             Ok \<lparr>rep_header = PrintVerificationHeader nm co' bundleVerified fulcioVerified, rep_output = out, rep_sigs = verified\<rparr>)), co'))
      in if vc_LocalImage c then print img (VerifyLocalImageSignatures L H (layouts E) img co)
         else lift_err co (wrapr ''parsing reference'' (name_ParseReference E img)) (\<lambda>ref.
              lift_err co (wrapr (''resolving attachment type '' @ vc_Attachment c @ '' for image '' @ img)
                             (GetAttachedImageRef E R ref (vc_Attachment c) ociremoteOpts)) (\<lambda>ref.
              print (reference_String ref) (VerifyImageSignatures L H R ref co))))"

fun verify_images ::
  "libs \<Rightarrow> host \<Rightarrow> 'c cli_lib \<Rightarrow> registry \<Rightarrow> verify_command \<Rightarrow> remote_option list \<Rightarrow> string list \<Rightarrow> CheckOpts \<Rightarrow> report list res" where
  "verify_images L H E R c oo [] co = Ok []"
| "verify_images L H E R c oo (img # images) co =
     (let (r, co') = verify_image L H E R c oo img co
      in bindr r (\<lambda>rep. bindr (verify_images L H E R c oo images co') (\<lambda>reps. Ok (rep # reps))))"

definition VerifyCommand_Exec ::
  "libs \<Rightarrow> host \<Rightarrow> 'c cli_lib \<Rightarrow> registry \<Rightarrow> verify_command \<Rightarrow> string list \<Rightarrow> report list res" where
  "VerifyCommand_Exec L H E R c images =
     (if images = [] then Err ErrHelp
      else if vc_Attachment c \<notin> {''sbom'', []} then Err ErrHelp
      else if \<not> OneOf [kf_KeyRef (vc_Key c) \<noteq> [], kf_CertRef (vc_Key c) \<noteq> [], kf_Sk (vc_Key c)] \<and> \<not> EnableExperimental H
      then Err PubKeyParseError
      else bindr (wrapr ''constructing client options'' (ClientOpts L H E (vc_Registry c))) (\<lambda>ociremoteOpts.
           bindr (verify_opts L H E c ociremoteOpts) (verify_images L H E R c ociremoteOpts images)))"

subsection \<open>verify-attestation\<close>

definition CosignCustomProvenanceV01 :: string where
  "CosignCustomProvenanceV01 = ''cosign.sigstore.dev/attestation/v1''"

definition CosignVulnProvenanceV01 :: string where
  "CosignVulnProvenanceV01 = ''cosign.sigstore.dev/attestation/vuln/v1''"

definition PredicateTypeMap :: "'c cli_lib \<Rightarrow> (string, string) gomap" where
  "PredicateTypeMap E =
     [(''custom'', CosignCustomProvenanceV01), (''slsaprovenance'', slsa_PredicateSLSAProvenance E),
      (''spdx'', in_toto_PredicateSPDX E), (''link'', in_toto_PredicateLinkV1 E), (''vuln'', CosignVulnProvenanceV01)]"

text \<open>The Go type that an attestation of a predicate type is read into and written from.\<close>

definition statement_JSON :: "'c cli_lib \<Rightarrow> string \<Rightarrow> bytes \<Rightarrow> bytes res" where
  "statement_JSON E type decodedPayload =
     bindr (wrapr (''unmarshaling '' @ type) (Unmarshal_typed E type decodedPayload)) (\<lambda>st.
     wrapr (''marshaling '' @ type) (Marshal_typed E type st))"

text \<open>For the custom type the statement that was decoded is encoded again. The record that
  Unmarshal_Statement gives has only the fields that the source reads, so the full statement is
  decoded under the name of its type.\<close>

definition AttestationToPayloadJSON :: "libs \<Rightarrow> 'c cli_lib \<Rightarrow> string \<Rightarrow> oci_sig \<Rightarrow> bytes res" where
  "AttestationToPayloadJSON L E predicateType att =
     (case mlookup (PredicateTypeMap E) predicateType of
        None \<Rightarrow> Err (ErrorString (''invalid predicate type: '' @ predicateType))
      | Some predicateURI \<Rightarrow>
          bindr (wrapr ''getting payload'' (Payload att)) (\<lambda>p.
          bindr (wrapr ''unmarshaling payload data'' (Unmarshal_Object L p)) (\<lambda>payloadData.
          case mlookup payloadData ''payload'' of
            None \<Rightarrow> Err (ErrorString ''could not find payload in payload data'')
          | Some val \<Rightarrow>
              bindr (as_string val) (\<lambda>v.
              bindr (wrapr ''decoding payload'' (b64_decode v)) (\<lambda>decodedPayload.
              bindr (wrapr ''unmarshal in-toto statement'' (Unmarshal_Statement L decodedPayload)) (\<lambda>statement.
              if PredicateType statement \<noteq> predicateURI then Ok []
              else if predicateType = ''custom''
                then bindr (wrapr ''unmarshal in-toto statement'' (Unmarshal_typed E ''Statement'' decodedPayload)) (\<lambda>st.
                     wrapr ''generating CosignStatement'' (Marshal_typed E ''Statement'' st))
              else if predicateType = ''link'' then statement_JSON E ''LinkStatement'' decodedPayload
              else if predicateType = ''slsaprovenance'' then statement_JSON E ''ProvenanceStatement'' decodedPayload
              else if predicateType = ''spdx'' then statement_JSON E ''SPDXStatement'' decodedPayload
              else if predicateType = ''vuln'' then statement_JSON E ''CosignVulnStatement'' decodedPayload
              else Err (ErrorString (''unsupported predicate type: '' @ predicateType))))))))"

fun validate_instances :: "'c cli_lib \<Rightarrow> bytes \<Rightarrow> string list \<Rightarrow> gerror option" where
  "validate_instances E jsonBody [] = None"
| "validate_instances E jsonBody (bi # bis) =
     (case cue_LoadErr E bi of
        Some e \<Rightarrow> Some e
      | None \<Rightarrow> (case cue_BuildErr E bi of
          Some e \<Rightarrow> Some e
        | None \<Rightarrow> (case cuejson_Validate E jsonBody bi of
            Some e \<Rightarrow> Some e
          | None \<Rightarrow> validate_instances E jsonBody bis)))"

definition cue_ValidateJSON :: "'c cli_lib \<Rightarrow> bytes \<Rightarrow> string list \<Rightarrow> gerror option" where
  "cue_ValidateJSON E jsonBody entrypoints = validate_instances E jsonBody (cue_Instances E entrypoints)"

text \<open>A result set is the list of the expressions of each result.\<close>

definition rego_ValidateJSON :: "'c cli_lib \<Rightarrow> bytes \<Rightarrow> string list \<Rightarrow> gerror list res" where
  "rego_ValidateJSON E jsonBody entrypoints =
     handler (rego_Prepare E entrypoints) (\<lambda>err. Ok [err]) (\<lambda>query.
     handler (rego_Decode E jsonBody) (\<lambda>err. Ok [err]) (\<lambda>input.
     handler (rego_Eval E query input) (\<lambda>err. Ok [err]) (\<lambda>rs.
     if rego_Allowed E rs then Ok []
     else (let errs = map (\<lambda>e. ErrorString (''expression value, '' @ e @ '', is not true'')) (concat rs)
           in Ok (if errs = [] then [ErrorString ''result is undefined for query data.signature.allow''] else errs)))))"

text \<open>\<open>filepath.Ext\<close>\<close>

definition filepath_Ext :: "string \<Rightarrow> string" where
  "filepath_Ext path =
     (let r = takeWhile (\<lambda>c. c \<noteq> CHR ''/'') (rev path)
      in if CHR ''.'' \<in> set r then CHR ''.'' # rev (takeWhile (\<lambda>c. c \<noteq> CHR ''.'') r) else [])"

fun split_policies :: "string list \<Rightarrow> (string list \<times> string list) res" where
  "split_policies [] = Ok ([], [])"
| "split_policies (p # ps) =
     (if filepath_Ext p = ''.rego'' then bindr (split_policies ps) (\<lambda>(cue, rego). Ok (cue, p # rego))
      else if filepath_Ext p = ''.cue'' then bindr (split_policies ps) (\<lambda>(cue, rego). Ok (p # cue, rego))
      else Err (ErrorString ''invalid policy format, expected .cue or .rego''))"

definition policy_errors :: "'c cli_lib \<Rightarrow> string list \<Rightarrow> string list \<Rightarrow> bytes \<Rightarrow> gerror list res" where
  "policy_errors E cuePolicies regoPolicies payload =
     (let cueErrs = (if cuePolicies \<noteq> [] then (case cue_ValidateJSON E payload cuePolicies of None \<Rightarrow> [] | Some e \<Rightarrow> [e]) else [])
      in bindr (if regoPolicies \<noteq> [] then rego_ValidateJSON E payload regoPolicies else Ok []) (\<lambda>regoErrs.
         Ok (cueErrs @ regoErrs)))"

fun validation_errors ::
  "libs \<Rightarrow> 'c cli_lib \<Rightarrow> string \<Rightarrow> string list \<Rightarrow> string list \<Rightarrow> oci_sig list \<Rightarrow> gerror list res" where
  "validation_errors L E predicateType cuePolicies regoPolicies [] = Ok []"
| "validation_errors L E predicateType cuePolicies regoPolicies (vp # vps) =
     bindr (wrapr ''converting to consumable policy validation'' (AttestationToPayloadJSON L E predicateType vp)) (\<lambda>payload.
     bindr (if payload = [] then Ok [] else policy_errors E cuePolicies regoPolicies payload) (\<lambda>errs.
     bindr (validation_errors L E predicateType cuePolicies regoPolicies vps) (\<lambda>rest. Ok (errs @ rest))))"

record attestation_command =
  ac_Registry :: registry_options
  ac_CheckClaims :: bool
  ac_Key :: key_flags
  ac_CertEmail :: string
  ac_CertOidcIssuer :: string
  ac_EnforceSCT :: bool
  ac_RekorURL :: string
  ac_PredicateType :: string
  ac_Policies :: "string list"
  ac_LocalImage :: bool

definition attestation_opts :: "libs \<Rightarrow> host \<Rightarrow> 'c cli_lib \<Rightarrow> attestation_command \<Rightarrow> remote_option list \<Rightarrow> CheckOpts res" where
  "attestation_opts L H E c ociremoteOpts =
     (let co = \<lparr>RegistryClientOpts = ociremoteOpts, opts_annotations = None,
                ClaimVerifier = (if ac_CheckClaims c then Some (IntotoSubjectClaimVerifier L) else None),
                RekorClient = None, SigVerifier = None, RootCerts = None, IntermediateCerts = None,
                CertEmail = ac_CertEmail c, CertOidcIssuer = ac_CertOidcIssuer c, EnforceSCT = ac_EnforceSCT c,
                SignatureRef = [], Identities = []\<rparr>
      in bindr (experimental_opts L H E (ac_RekorURL c) co) (\<lambda>co.
         (let (k, co') = select_key L H E (''loading certificate from reference'', ''creating certificate verifier'') (ac_Key c) SHA256 co in bindr k (\<lambda>pubKey. Ok (co'\<lparr>SigVerifier := pubKey\<rparr>)))))"

definition attestations_found ::
  "libs \<Rightarrow> host \<Rightarrow> 'c cli_lib \<Rightarrow> registry \<Rightarrow> attestation_command \<Rightarrow> string \<Rightarrow> CheckOpts \<Rightarrow> (oci_sig list \<times> bool) res \<times> CheckOpts" where
  "attestations_found L H E R c imageRef co =
     (if ac_LocalImage c then VerifyLocalImageAttestations L H (layouts E) imageRef co
      else lift_err co (name_ParseReference E imageRef) (\<lambda>ref. VerifyImageAttestations L H R ref co))"

definition attestation_report ::
  "libs \<Rightarrow> 'c cli_lib \<Rightarrow> attestation_command \<Rightarrow> string \<Rightarrow> bool \<Rightarrow> CheckOpts \<Rightarrow> oci_sig list \<times> bool \<Rightarrow> report res" where
  "attestation_report L E c imageRef fulcioVerified co v =
     bindr (split_policies (ac_Policies c)) (\<lambda>(cuePolicies, regoPolicies).
     bindr (validation_errors L E (ac_PredicateType c) cuePolicies regoPolicies (fst v)) (\<lambda>errs.
     if errs \<noteq> [] then Err (Joined ''validation errors occurred'' errs)
     else bindr (PrintVerification L E (fst v) ''text'') (\<lambda>out.
          Ok \<lparr>rep_header = PrintVerificationHeader imageRef co (snd v) fulcioVerified, rep_output = out, rep_sigs = fst v\<rparr>)))"

definition verify_attestation_image ::
  "libs \<Rightarrow> host \<Rightarrow> 'c cli_lib \<Rightarrow> registry \<Rightarrow> attestation_command \<Rightarrow> string \<Rightarrow> CheckOpts \<Rightarrow> report res \<times> CheckOpts" where
  "verify_attestation_image L H E R c imageRef co =
     (let (r, co') = attestations_found L H E R c imageRef co
      in (bindr r (attestation_report L E c imageRef (SigVerifier co = None) co'), co'))"

fun verify_attestation_images ::
  "libs \<Rightarrow> host \<Rightarrow> 'c cli_lib \<Rightarrow> registry \<Rightarrow> attestation_command \<Rightarrow> string list \<Rightarrow> CheckOpts \<Rightarrow> report list res" where
  "verify_attestation_images L H E R c [] co = Ok []"
| "verify_attestation_images L H E R c (img # images) co =
     (let (r, co') = verify_attestation_image L H E R c img co
      in bindr r (\<lambda>rep. bindr (verify_attestation_images L H E R c images co') (\<lambda>reps. Ok (rep # reps))))"

definition VerifyAttestationCommand_Exec ::
  "libs \<Rightarrow> host \<Rightarrow> 'c cli_lib \<Rightarrow> registry \<Rightarrow> attestation_command \<Rightarrow> string list \<Rightarrow> report list res" where
  "VerifyAttestationCommand_Exec L H E R c images =
     (if images = [] then Err ErrHelp
      else if \<not> OneOf [kf_KeyRef (ac_Key c) \<noteq> [], kf_Sk (ac_Key c), kf_CertRef (ac_Key c) \<noteq> []] \<and> \<not> EnableExperimental H
      then Err PubKeyParseError
      else bindr (wrapr ''constructing client options'' (ClientOpts L H E (ac_Registry c))) (\<lambda>ociremoteOpts.
           bindr (attestation_opts L H E c ociremoteOpts) (verify_attestation_images L H E R c images)))"

subsection \<open>verify reports what was checked\<close>

lemma accepted_frame:
  "accepted L H cp (co\<lparr>IntermediateCerts := p\<rparr>) h sig \<longleftrightarrow> accepted L H cp co h sig"
  by (simp add: accepted_def verifier_for_def transparent_def logged_def cong: option.case_cong)

text \<open>What the command reads about an image: the name it prints, the digest and the signatures, which
  come from the directory, the registry or the file of the flag \<open>--signature\<close>.\<close>

definition listed :: "oci_sigs option \<Rightarrow> oci_sig list res" where
  "listed sigs = bindr (deref sigs) (\<lambda>s. bindr (Get s) (\<lambda>g. Ok (nil_list g)))"

definition image_signatures ::
  "libs \<Rightarrow> host \<Rightarrow> 'c cli_lib \<Rightarrow> registry \<Rightarrow> verify_command \<Rightarrow> CheckOpts \<Rightarrow> string \<Rightarrow> (string \<times> hash \<times> oci_sig list) res" where
  "image_signatures L H E R c co img =
     (if vc_LocalImage c
      then bindr (layout_SignedImageIndex (layouts E) img) (\<lambda>se.
           bindr (local_digest se) (\<lambda>h.
           bindr (bindr (layout_Signatures L se) listed) (\<lambda>sl. Ok (img, h, sl))))
      else bindr (name_ParseReference E img) (\<lambda>ref.
           bindr (GetAttachedImageRef E R ref (vc_Attachment c) (RegistryClientOpts co)) (\<lambda>ref.
           bindr (getSignedEntity L R ref (RegistryClientOpts co)) (\<lambda>(se, h).
           bindr (bindr (if SignatureRef co = [] then Signatures se
                         else bindr (loadSignatureFromFile L H R (SignatureRef co) ref co) (\<lambda>s. Ok (Some s))) listed) (\<lambda>sl.
           Ok (reference_String ref, h, sl))))))"

text \<open>A report is right if its signatures are exactly the acceptable ones of the image, in their order, and
  at least one, and it prints them and says of the log what is true of them.\<close>

definition right_report ::
  "libs \<Rightarrow> host \<Rightarrow> 'c cli_lib \<Rightarrow> registry \<Rightarrow> verify_command \<Rightarrow> CheckOpts \<Rightarrow> string \<Rightarrow> report \<Rightarrow> bool" where
  "right_report L H E R c co img rep \<longleftrightarrow>
     (\<exists>nm h sl bv. image_signatures L H E R c co img = Ok (nm, h, sl) \<and>
        checks_to L H verifyOCISignature co h sl (rep_sigs rep, bv) \<and>
        PrintVerification L E (rep_sigs rep) (vc_Output c) = Ok (rep_output rep) \<and>
        rep_header rep = PrintVerificationHeader nm co bv (SigVerifier co = None) \<and>
        (''  - Existence of the claims in the transparency log was verified offline'' \<in> set (rep_header rep) \<longleftrightarrow>
           (\<exists>sig \<in> set (rep_sigs rep). VerifyBundle L H sig = Ok True)))"

lemma listed_Ok_iff: "listed sigs = Ok sl \<longleftrightarrow> (\<exists>s g. sigs = Some s \<and> Get s = Ok g \<and> sl = nil_list g)"
  by (auto simp: listed_def res_simps)

lemma verifySignatures_listed:
  assumes "fst (verifySignatures L H sigs h co) = Ok r"
  shows "\<exists>sl. listed sigs = Ok sl \<and> checks_to L H verifyOCISignature co h sl r"
  using assms by (auto simp: verifySignatures_Ok_iff listed_Ok_iff)

lemma header_frame: "PrintVerificationHeader nm (co\<lparr>IntermediateCerts := p\<rparr>) bv fv = PrintVerificationHeader nm co bv fv"
  by (simp add: PrintVerificationHeader_def)

lemma offline_line:
  "''  - Existence of the claims in the transparency log was verified offline'' \<in> set (PrintVerificationHeader nm co bv fv) \<longleftrightarrow> bv"
  by (simp add: PrintVerificationHeader_def)

lemma checks_to_frame: "checks_to L H cp (co\<lparr>IntermediateCerts := p\<rparr>) h sl r \<longleftrightarrow> checks_to L H cp co h sl r"
proof -
  have "accepted L H cp (co\<lparr>IntermediateCerts := p\<rparr>) h = accepted L H cp co h"
    by (simp add: fun_eq_iff accepted_frame)
  then show ?thesis
    by (simp add: checks_to_def)
qed

lemma verify_image_frame: "\<exists>p. snd (verify_image L H E R c oo img co) = co\<lparr>IntermediateCerts := p\<rparr>"
  unfolding verify_image_def Let_def by (auto simp: split_beta intro!: lift_err_frame entry_frames)

lemma VerifyLocalImageSignatures_listed:
  assumes "fst (VerifyLocalImageSignatures L H (layouts E) img co) = Ok (sigs, bv)" and "vc_LocalImage c"
  shows "\<exists>h sl. image_signatures L H E R c co img = Ok (img, h, sl) \<and> checks_to L H verifyOCISignature co h sl (sigs, bv)"
proof -
  obtain se h s where read: "layout_SignedImageIndex (layouts E) img = Ok se" "local_digest se = Ok h" "layout_Signatures L se = Ok s"
    and v: "fst (verifySignatures L H s h co) = Ok (sigs, bv)"
    using assms(1) by (auto simp: VerifyLocalImageSignatures_def lift_err_Ok_iff split: if_splits)
  show ?thesis
    using verifySignatures_listed [OF v] read assms(2) by (auto simp: image_signatures_def)
qed

lemma VerifyImageSignatures_listed:
  assumes "fst (VerifyImageSignatures L H R ref' co) = Ok (sigs, bv)" and "\<not> vc_LocalImage c"
    and "name_ParseReference E img = Ok ref" "GetAttachedImageRef E R ref (vc_Attachment c) (RegistryClientOpts co) = Ok ref'"
  shows "\<exists>h sl. image_signatures L H E R c co img = Ok (reference_String ref', h, sl) \<and>
    checks_to L H verifyOCISignature co h sl (sigs, bv)"
proof -
  have key: "\<not> (RootCerts co = None \<and> SigVerifier co = None)"
    using assms(1) by (metis VerifyImageSignatures_def fst_conv res.distinct(1))
  let ?source = "\<lambda>se. if SignatureRef co = [] then Signatures se
    else bindr (loadSignatureFromFile L H R (SignatureRef co) ref' co) (\<lambda>s. Ok (Some s))"
  obtain se h s where read: "getSignedEntity L R ref' (RegistryClientOpts co) = Ok (se, h)" "?source se = Ok s"
    and v: "fst (verifySignatures L H s h co) = Ok (sigs, bv)"
    using assms(1) key by (auto simp: VerifyImageSignatures_def lift_err_Ok_iff)
  show ?thesis
    using verifySignatures_listed [OF v] read assms(2-4) by (auto simp: image_signatures_def cong: if_cong)
qed

lemma right_reportI:
  assumes "image_signatures L H E R c co img = Ok (nm, h, sl)" "checks_to L H verifyOCISignature co h sl (rep_sigs rep, bv)"
    and "PrintVerification L E (rep_sigs rep) (vc_Output c) = Ok (rep_output rep)"
    and hd: "rep_header rep = PrintVerificationHeader nm (co\<lparr>IntermediateCerts := p\<rparr>) bv (SigVerifier co = None)"
  shows "right_report L H E R c co img rep"
  unfolding right_report_def
  using assms(2) by (intro exI [of _ nm] exI [of _ h] exI [of _ sl] exI [of _ bv] conjI assms(1,2,3))
    (simp_all add: hd header_frame offline_line checks_to_def)

lemma verify_image_right:
  assumes "fst (verify_image L H E R c (RegistryClientOpts co) img co) = Ok rep"
  shows "right_report L H E R c co img rep"
proof (cases "vc_LocalImage c")
  case True
  obtain p where p: "snd (VerifyLocalImageSignatures L H (layouts E) img co) = co\<lparr>IntermediateCerts := p\<rparr>"
    using entry_frames(3) by blast
  with True obtain bv where v: "fst (VerifyLocalImageSignatures L H (layouts E) img co) = Ok (rep_sigs rep, bv)"
    and rep: "PrintVerification L E (rep_sigs rep) (vc_Output c) = Ok (rep_output rep)"
      "rep_header rep = PrintVerificationHeader img (co\<lparr>IntermediateCerts := p\<rparr>) bv (SigVerifier co = None)"
    using assms by (auto simp: verify_image_def res_simps split_beta)
  show ?thesis
    using VerifyLocalImageSignatures_listed [OF v True, of R] right_reportI rep by blast
next
  case False
  obtain ref ref' where refs: "name_ParseReference E img = Ok ref"
      "GetAttachedImageRef E R ref (vc_Attachment c) (RegistryClientOpts co) = Ok ref'"
    using assms False by (auto simp: verify_image_def res_simps)
  obtain p where p: "snd (VerifyImageSignatures L H R ref' co) = co\<lparr>IntermediateCerts := p\<rparr>"
    using entry_frames(1) by blast
  with refs False obtain bv where v: "fst (VerifyImageSignatures L H R ref' co) = Ok (rep_sigs rep, bv)"
    and rep: "PrintVerification L E (rep_sigs rep) (vc_Output c) = Ok (rep_output rep)"
      "rep_header rep = PrintVerificationHeader (reference_String ref') (co\<lparr>IntermediateCerts := p\<rparr>) bv (SigVerifier co = None)"
    using assms by (auto simp: verify_image_def res_simps split_beta)
  show ?thesis
    using VerifyImageSignatures_listed [OF v False refs] right_reportI rep by blast
qed

lemma right_report_frame: "right_report L H E R c (co\<lparr>IntermediateCerts := p\<rparr>) img rep \<longleftrightarrow> right_report L H E R c co img rep"
  by (simp add: right_report_def image_signatures_def loadSignatureFromFile_def checks_to_frame header_frame cong: if_cong)

lemma verify_images_right:
  "verify_images L H E R c (RegistryClientOpts co) images co = Ok reps \<Longrightarrow> list_all2 (right_report L H E R c co) images reps"
proof (induction images arbitrary: co reps)
  case (Cons img images)
  obtain p where p: "snd (verify_image L H E R c (RegistryClientOpts co) img co) = co\<lparr>IntermediateCerts := p\<rparr>"
    using verify_image_frame by blast
  then obtain rep reps' where rep: "fst (verify_image L H E R c (RegistryClientOpts co) img co) = Ok rep" "reps = rep # reps'"
    and rest: "verify_images L H E R c (RegistryClientOpts co) images (co\<lparr>IntermediateCerts := p\<rparr>) = Ok reps'"
    using Cons.prems by (auto simp: split_beta res_simps)
  show ?case
    using verify_image_right [OF rep(1)] Cons.IH [of "co\<lparr>IntermediateCerts := p\<rparr>"] rest rep(2) by (simp add: right_report_frame)
qed simp

text \<open>The options that the flags ask for. With a key, the verifier is the one that \<open>select_key\<close> gives under
  the hash algorithm of the flags; without one, the roots are Fulcio's.\<close>

definition no_key :: "key_flags \<Rightarrow> bool" where
  "no_key c \<longleftrightarrow> kf_KeyRef c = [] \<and> kf_CertRef c = [] \<and> \<not> kf_Sk c"

definition opts_from_flags :: "libs \<Rightarrow> host \<Rightarrow> 'c cli_lib \<Rightarrow> verify_command \<Rightarrow> CheckOpts \<Rightarrow> bool" where
  "opts_from_flags L H E c co \<longleftrightarrow>
     CertEmail co = vc_CertEmail c \<and> CertOidcIssuer co = vc_CertOidcIssuer c \<and> EnforceSCT co = vc_EnforceSCT c \<and>
     SignatureRef co = vc_SignatureRef c \<and> opts_annotations co = vc_Annotations c \<and> Identities co = [] \<and>
     ClaimVerifier co = (if vc_CheckClaims c then Some (SimpleClaimVerifier L) else None) \<and>
     (if EnableExperimental H \<and> vc_RekorURL c \<noteq> [] then \<exists>C. rekor_NewClient E (vc_RekorURL c) = Ok C \<and> RekorClient co = Some C
      else RekorClient co = None) \<and>
     (case SigVerifier co of
        None \<Rightarrow> no_key (vc_Key c) \<and> EnableExperimental H \<and> GetRoots L H E = Ok (RootCerts co)
      | Some v \<Rightarrow> \<exists>co1. experimental_opts L H E (vc_RekorURL c) (flag_opts L c (RegistryClientOpts co)) = Ok co1 \<and>
          fst (select_key L H E ([], []) (vc_Key c) (if vc_HashAlgorithm c = 0 then SHA256 else vc_HashAlgorithm c) co1) = Ok (Some v))"

lemma select_key_frame:
  "\<exists>r p. snd (select_key L H E msgs c h co) = co\<lparr>RootCerts := r, IntermediateCerts := p\<rparr>"
proof -
  have same: "\<exists>r p. co = co\<lparr>RootCerts := r, IntermediateCerts := p\<rparr>"
    by (intro exI [of _ "RootCerts co"] exI [of _ "IntermediateCerts co"]) simp
  have "\<exists>r p. snd (ValidateAndUnpackCertWithChain L H cert chain co) = co\<lparr>RootCerts := r, IntermediateCerts := p\<rparr>" for cert chain
    using same by (auto simp: ValidateAndUnpackCertWithChain_def Let_def)
  then have "\<exists>r p. snd (cert_verifier L H msgs c co) = co\<lparr>RootCerts := r, IntermediateCerts := p\<rparr>"
    using same by (auto simp: cert_verifier_def lift_err_def split_beta split: res.split)
  then show ?thesis
    using same by (auto simp: select_key_def split_beta)
qed

lemma select_key_None:
  assumes "fst (select_key L H E msgs c h co) = Ok None"
  shows "no_key c" and "snd (select_key L H E msgs c h co) = co"
  using assms by (auto simp: no_key_def select_key_def res_simps split_beta split: if_splits)

lemma experimental_opts_Ok:
  assumes "experimental_opts L H E url co = Ok co'"
  shows "\<exists>rc roots. co' = co\<lparr>RekorClient := rc, RootCerts := roots\<rparr> \<and> (EnableExperimental H \<longrightarrow> GetRoots L H E = Ok roots) \<and>
    (if EnableExperimental H \<and> url \<noteq> [] then \<exists>C. rekor_NewClient E url = Ok C \<and> rc = Some C else rc = RekorClient co)"
proof (cases "EnableExperimental H")
  case True
  obtain co1 roots where co1: "(if url \<noteq> [] then bindr (wrapr ''creating Rekor client'' (rekor_NewClient E url)) (\<lambda>c. Ok (co\<lparr>RekorClient := Some c\<rparr>))
       else Ok co) = Ok co1" and roots: "GetRoots L H E = Ok roots" "co' = co1\<lparr>RootCerts := roots\<rparr>"
    using assms True by (auto simp: experimental_opts_def bindr_Ok_iff)
  have "\<exists>rc. co1 = co\<lparr>RekorClient := rc\<rparr> \<and>
    (if url \<noteq> [] then \<exists>C. rekor_NewClient E url = Ok C \<and> rc = Some C else rc = RekorClient co)"
  proof (cases "url = []")
    case True
    then have "co1 = co\<lparr>RekorClient := RekorClient co\<rparr>"
      using co1 by simp
    then show ?thesis
      using True by auto
  qed (use co1 in \<open>auto simp: res_simps\<close>)
  then show ?thesis
    using roots True by auto
next
  case False
  then have "co' = co\<lparr>RekorClient := RekorClient co, RootCerts := RootCerts co\<rparr>"
    using assms by (simp add: experimental_opts_def)
  then show ?thesis
    using False by (intro exI [of _ "RekorClient co"] exI [of _ "RootCerts co"]) simp
qed

lemma verify_opts_right:
  assumes ok: "verify_opts L H E c oo = Ok co"
    and flags: "OneOf [kf_KeyRef (vc_Key c) \<noteq> [], kf_CertRef (vc_Key c) \<noteq> [], kf_Sk (vc_Key c)] \<or> EnableExperimental H"
  shows "opts_from_flags L H E c co" and "RegistryClientOpts co = oo"
proof -
  let ?h = "if vc_HashAlgorithm c = 0 then SHA256 else vc_HashAlgorithm c"
  let ?co0 = "flag_opts L c oo"
  obtain co1 k where co1: "experimental_opts L H E (vc_RekorURL c) ?co0 = Ok co1"
    and k: "fst (select_key L H E ([], []) (vc_Key c) ?h co1) = Ok k" and co: "co = (snd (select_key L H E ([], []) (vc_Key c) ?h co1))\<lparr>SigVerifier := k\<rparr>"
    using ok by (auto simp: verify_opts_def Let_def bindr_Ok_iff split_beta)
  obtain rc roots where co1': "co1 = ?co0\<lparr>RekorClient := rc, RootCerts := roots\<rparr>"
    and exp: "EnableExperimental H \<longrightarrow> GetRoots L H E = Ok roots"
      "if EnableExperimental H \<and> vc_RekorURL c \<noteq> [] then \<exists>C. rekor_NewClient E (vc_RekorURL c) = Ok C \<and> rc = Some C
       else rc = RekorClient ?co0"
    using experimental_opts_Ok [OF co1] by blast
  obtain r p where fr: "snd (select_key L H E ([], []) (vc_Key c) ?h co1) = co1\<lparr>RootCerts := r, IntermediateCerts := p\<rparr>"
    using select_key_frame by blast
  show oo: "RegistryClientOpts co = oo"
    using co fr co1' by (simp add: flag_opts_def)
  have none: "no_key (vc_Key c) \<and> EnableExperimental H \<and> GetRoots L H E = Ok (RootCerts co)" if "k = None"
    using select_key_None [of L H E "([], [])" "vc_Key c" ?h co1] k that flags exp(1) co co1'
    by (auto simp: no_key_def OneOf_def NOf_def)
  have key: "SigVerifier co = k"
    by (simp add: co)
  have "case SigVerifier co of
        None \<Rightarrow> no_key (vc_Key c) \<and> EnableExperimental H \<and> GetRoots L H E = Ok (RootCerts co)
      | Some v \<Rightarrow> \<exists>co1. experimental_opts L H E (vc_RekorURL c) (flag_opts L c (RegistryClientOpts co)) = Ok co1 \<and>
          fst (select_key L H E ([], []) (vc_Key c) ?h co1) = Ok (Some v)"
    unfolding key oo using none k co1 by (cases k) auto
  moreover have "co = ?co0\<lparr>RekorClient := rc, RootCerts := r, IntermediateCerts := p, SigVerifier := k\<rparr>"
    using co fr co1' by simp
  then have "CertEmail co = vc_CertEmail c" "CertOidcIssuer co = vc_CertOidcIssuer c" "EnforceSCT co = vc_EnforceSCT c"
    "SignatureRef co = vc_SignatureRef c" "opts_annotations co = vc_Annotations c" "Identities co = []"
    "ClaimVerifier co = (if vc_CheckClaims c then Some (SimpleClaimVerifier L) else None)" "RekorClient co = rc"
    by (simp_all add: flag_opts_def)
  moreover have "RekorClient ?co0 = None"
    by (simp add: flag_opts_def)
  ultimately show "opts_from_flags L H E c co"
    using exp(2) unfolding opts_from_flags_def by simp
qed

lemma Exec_right:
  assumes "VerifyCommand_Exec L H E R c images = Ok reps"
  shows "images \<noteq> [] \<and> (\<exists>co. ClientOpts L H E (vc_Registry c) = Ok (RegistryClientOpts co) \<and>
    opts_from_flags L H E c co \<and> list_all2 (right_report L H E R c co) images reps)"
proof -
  obtain oo co where oo: "ClientOpts L H E (vc_Registry c) = Ok oo" and co: "verify_opts L H E c oo = Ok co"
    and reps: "verify_images L H E R c oo images co = Ok reps" and "images \<noteq> []"
    and flags: "OneOf [kf_KeyRef (vc_Key c) \<noteq> [], kf_CertRef (vc_Key c) \<noteq> [], kf_Sk (vc_Key c)] \<or> EnableExperimental H"
    using assms by (auto simp: VerifyCommand_Exec_def res_simps split: if_splits)
  then show ?thesis
    using verify_opts_right [OF co flags] verify_images_right [of L H E R c co] by auto
qed

text \<open>C5. A successful \<open>cosign verify\<close> means what it says. If \<open>VerifyCommand.Exec\<close> returns without an error,
  its options are those the flags ask for (the key that the flags name, under their hash algorithm;
  without a key, the roots of Fulcio, in experimental mode only). For each image, in order, there is
  a report whose signatures are exactly those signatures of the image, read from the registry, the
  directory or the file of the flags, that are acceptable under these options for the image's digest,
  and at least one is; these are what is printed, and the line about offline verification is printed
  exactly if the bundle of one of them was verified.\<close>

theorem VerifyCommand_Exec_sound:
  assumes "VerifyCommand_Exec L H E R c images = Ok reps"
  shows "images \<noteq> [] \<and> (\<exists>co. ClientOpts L H E (vc_Registry c) = Ok (RegistryClientOpts co) \<and>
    opts_from_flags L H E c co \<and> list_all2 (right_report L H E R c co) images reps)"
  by (rule Exec_right [OF assms])

subsection \<open>Policies on attestations\<close>

lemma validation_errors_Nil:
  assumes "validation_errors L E t cue rego vps = Ok []" and "vp \<in> set vps"
  shows "\<exists>payload. AttestationToPayloadJSON L E t vp = Ok payload \<and> (payload \<noteq> [] \<longrightarrow> policy_errors E cue rego payload = Ok [])"
  using assms by (induction vps) (auto simp: res_simps split: if_splits)

lemma policy_errors_Nil:
  "policy_errors E cue rego payload = Ok [] \<longleftrightarrow>
     (cue \<noteq> [] \<longrightarrow> cue_ValidateJSON E payload cue = None) \<and> (rego \<noteq> [] \<longrightarrow> rego_ValidateJSON E payload rego = Ok [])"
  by (auto simp: policy_errors_def Let_def res_simps split: option.splits)

lemma split_policies_set: "split_policies ps = Ok (cue, rego) \<Longrightarrow> set ps = set cue \<union> set rego"
  by (induction ps arbitrary: cue rego) (auto simp: res_simps split: if_splits)

text \<open>An attestation that is of the type the command asks for passes its policies.\<close>

definition meets_policies :: "libs \<Rightarrow> 'c cli_lib \<Rightarrow> attestation_command \<Rightarrow> oci_sig \<Rightarrow> bool" where
  "meets_policies L E c att \<longleftrightarrow>
     (\<exists>payload cue rego. AttestationToPayloadJSON L E (ac_PredicateType c) att = Ok payload \<and>
        split_policies (ac_Policies c) = Ok (cue, rego) \<and>
        (payload \<noteq> [] \<longrightarrow> (cue \<noteq> [] \<longrightarrow> cue_ValidateJSON E payload cue = None) \<and>
                          (rego \<noteq> [] \<longrightarrow> rego_ValidateJSON E payload rego = Ok [])))"

lemma attestation_report_Ok:
  assumes "attestation_report L E c img fv co v = Ok rep"
  shows "rep_sigs rep = fst v" and "\<forall>att \<in> set (fst v). meets_policies L E c att"
    and "print_text E (fst v) = Ok (rep_output rep)" and "rep_header rep = PrintVerificationHeader img co (snd v) fv"
proof -
  obtain cue rego where ps: "split_policies (ac_Policies c) = Ok (cue, rego)"
    and errs: "validation_errors L E (ac_PredicateType c) cue rego (fst v) = Ok []" and rep: "rep_sigs rep = fst v"
      "print_text E (fst v) = Ok (rep_output rep)" "rep_header rep = PrintVerificationHeader img co (snd v) fv"
    using assms by (auto simp: attestation_report_def PrintVerification_def res_simps split: if_splits)
  show "rep_sigs rep = fst v" "print_text E (fst v) = Ok (rep_output rep)"
    "rep_header rep = PrintVerificationHeader img co (snd v) fv"
    by (fact rep)+
  show "\<forall>att \<in> set (fst v). meets_policies L E c att"
  proof
    fix att assume "att \<in> set (fst v)"
    from validation_errors_Nil [OF errs this] obtain payload
      where "AttestationToPayloadJSON L E (ac_PredicateType c) att = Ok payload" "payload \<noteq> [] \<longrightarrow> policy_errors E cue rego payload = Ok []"
      by blast
    then show "meets_policies L E c att"
      using ps unfolding meets_policies_def policy_errors_Nil by blast
  qed
qed

text \<open>The digest and the attestations of an image.\<close>

definition image_attestations ::
  "libs \<Rightarrow> 'c cli_lib \<Rightarrow> registry \<Rightarrow> attestation_command \<Rightarrow> CheckOpts \<Rightarrow> string \<Rightarrow> (hash \<times> oci_sig list) res" where
  "image_attestations L E R c co img =
     (if ac_LocalImage c
      then bindr (layout_SignedImageIndex (layouts E) img) (\<lambda>se.
           bindr (local_digest se) (\<lambda>h.
           bindr (bindr (layout_Attestations L se) listed) (\<lambda>sl. Ok (h, sl))))
      else bindr (name_ParseReference E img) (\<lambda>ref.
           bindr (getSignedEntity L R ref (RegistryClientOpts co)) (\<lambda>(se, h).
           bindr (bindr (Attestations se) listed) (\<lambda>sl. Ok (h, sl)))))"

lemma verifyImageAttestations_listed:
  assumes "fst (verifyImageAttestations L H atts h co) = Ok r"
  shows "\<exists>sl. listed atts = Ok sl \<and> checks_to L H (verifyOCIAttestation L) co h sl r"
  using assms by (auto simp: verifyImageAttestations_Ok_iff listed_Ok_iff)

lemma attestations_found_listed:
  assumes "fst (attestations_found L H E R c img co) = Ok v"
  shows "\<exists>h sl. image_attestations L E R c co img = Ok (h, sl) \<and> checks_to L H (verifyOCIAttestation L) co h sl v"
proof (cases "ac_LocalImage c")
  case True
  then obtain se h s where "layout_SignedImageIndex (layouts E) img = Ok se" "local_digest se = Ok h" "layout_Attestations L se = Ok s"
    and v: "fst (verifyImageAttestations L H s h co) = Ok v"
    using assms by (auto simp: attestations_found_def VerifyLocalImageAttestations_def lift_err_Ok_iff split: if_splits)
  then show ?thesis
    using verifyImageAttestations_listed [OF v] True by (auto simp: image_attestations_def)
next
  case False
  then obtain ref se h s where "name_ParseReference E img = Ok ref" "getSignedEntity L R ref (RegistryClientOpts co) = Ok (se, h)"
    "Attestations se = Ok s" and v: "fst (verifyImageAttestations L H s h co) = Ok v"
    using assms by (auto simp: attestations_found_def VerifyImageAttestations_def lift_err_Ok_iff split: if_splits)
  then show ?thesis
    using verifyImageAttestations_listed [OF v] False by (auto simp: image_attestations_def)
qed

lemma attestations_found_frame: "\<exists>p. snd (attestations_found L H E R c img co) = co\<lparr>IntermediateCerts := p\<rparr>"
  unfolding attestations_found_def by (auto intro!: lift_err_frame entry_frames)

text \<open>A report is right if it lists and prints exactly the acceptable attestations of the image, at least one,
  and they all meet the policies.\<close>

definition right_attestations ::
  "libs \<Rightarrow> host \<Rightarrow> 'c cli_lib \<Rightarrow> registry \<Rightarrow> attestation_command \<Rightarrow> CheckOpts \<Rightarrow> string \<Rightarrow> report \<Rightarrow> bool" where
  "right_attestations L H E R c co img rep \<longleftrightarrow>
     (\<exists>h sl bv. image_attestations L E R c co img = Ok (h, sl) \<and>
        checks_to L H (verifyOCIAttestation L) co h sl (rep_sigs rep, bv) \<and>
        print_text E (rep_sigs rep) = Ok (rep_output rep) \<and>
        rep_header rep = PrintVerificationHeader img co bv (SigVerifier co = None)) \<and>
     (\<forall>att \<in> set (rep_sigs rep). meets_policies L E c att)"

lemma right_attestations_frame: "right_attestations L H E R c (co\<lparr>IntermediateCerts := p\<rparr>) = right_attestations L H E R c co"
  by (simp add: fun_eq_iff right_attestations_def image_attestations_def checks_to_frame header_frame cong: if_cong)

lemma verify_attestation_images_right:
  "verify_attestation_images L H E R c images co = Ok reps \<Longrightarrow> list_all2 (right_attestations L H E R c co) images reps"
proof (induction images arbitrary: co reps)
  case (Cons img images)
  obtain p where p: "snd (attestations_found L H E R c img co) = co\<lparr>IntermediateCerts := p\<rparr>"
    using attestations_found_frame by blast
  then obtain v rep reps' where v: "fst (attestations_found L H E R c img co) = Ok v"
    and rep: "attestation_report L E c img (SigVerifier co = None) (co\<lparr>IntermediateCerts := p\<rparr>) v = Ok rep" "reps = rep # reps'"
    and rest: "verify_attestation_images L H E R c images (co\<lparr>IntermediateCerts := p\<rparr>) = Ok reps'"
    using Cons.prems by (auto simp: verify_attestation_image_def split_beta res_simps)
  have "right_attestations L H E R c co img rep"
    using attestation_report_Ok [OF rep(1)] attestations_found_listed [OF v]
    by (cases v) (auto simp: right_attestations_def header_frame)
  then show ?case
    using Cons.IH [OF rest] rep(2) by (simp add: right_attestations_frame)
qed simp

lemma attestation_opts_key:
  assumes ok: "attestation_opts L H E c oo = Ok co" and none: "SigVerifier co = None"
    and flags: "OneOf [kf_KeyRef (ac_Key c) \<noteq> [], kf_Sk (ac_Key c), kf_CertRef (ac_Key c) \<noteq> []] \<or> EnableExperimental H"
  shows "no_key (ac_Key c) \<and> EnableExperimental H \<and> GetRoots L H E = Ok (RootCerts co)"
proof -
  let ?msgs = "(''loading certificate from reference'', ''creating certificate verifier'')"
  obtain co0 co1 k where co1: "experimental_opts L H E (ac_RekorURL c) co0 = Ok co1"
    and k: "fst (select_key L H E ?msgs (ac_Key c) SHA256 co1) = Ok k"
    and co: "co = (snd (select_key L H E ?msgs (ac_Key c) SHA256 co1))\<lparr>SigVerifier := k\<rparr>"
    using ok by (auto simp: attestation_opts_def Let_def bindr_Ok_iff split_beta)
  have "k = None"
    using none co by simp
  then have nk: "no_key (ac_Key c)" "co = co1\<lparr>SigVerifier := None\<rparr>"
    using select_key_None [of L H E ?msgs "ac_Key c" SHA256 co1] k co by simp_all
  then have "EnableExperimental H"
    using flags by (auto simp: no_key_def OneOf_def NOf_def)
  then show ?thesis
    using experimental_opts_Ok [OF co1] nk by auto
qed

text \<open>C6. A successful \<open>cosign verify-attestation\<close> has checked the policies. If the command returns without an
  error, its options are those of the flags (without a key: the roots of Fulcio, in experimental mode
  only), and for each image, in order, there is a report with exactly those attestations of the image,
  read from the registry or the directory, that are acceptable under these options for the image's
  digest, and at least one is; each of them whose predicate type is the one asked for passes all CUE
  and Rego policies.\<close>

theorem VerifyAttestationCommand_Exec_sound:
  assumes "VerifyAttestationCommand_Exec L H E R c images = Ok reps"
  shows "images \<noteq> [] \<and>
    (\<exists>oo co. ClientOpts L H E (ac_Registry c) = Ok oo \<and> attestation_opts L H E c oo = Ok co \<and>
       (SigVerifier co = None \<longrightarrow> no_key (ac_Key c) \<and> EnableExperimental H \<and> GetRoots L H E = Ok (RootCerts co)) \<and>
       list_all2 (right_attestations L H E R c co) images reps)"
proof -
  obtain oo co where "ClientOpts L H E (ac_Registry c) = Ok oo" and co: "attestation_opts L H E c oo = Ok co"
    and reps: "verify_attestation_images L H E R c images co = Ok reps" and "images \<noteq> []"
    and flags: "OneOf [kf_KeyRef (ac_Key c) \<noteq> [], kf_Sk (ac_Key c), kf_CertRef (ac_Key c) \<noteq> []] \<or> EnableExperimental H"
    using assms by (auto simp: VerifyAttestationCommand_Exec_def res_simps split: if_splits)
  then show ?thesis
    by (intro conjI exI [of _ oo] exI [of _ co] impI attestation_opts_key [OF co _ flags] verify_attestation_images_right [OF reps])
qed

text \<open>C38. The predicate type is not required. If no attestation that was found is of the type the command
  asks for, no policy is evaluated and the image is reported as verified: the outcome is the same
  for every CUE and Rego engine, and it is no error if the payloads can be printed.\<close>

theorem predicate_type_not_required:
  assumes "fst (attestations_found L H E R c img co) = Ok (atts, bv)"
    and "\<forall>att \<in> set atts. AttestationToPayloadJSON L E (ac_PredicateType c) att = Ok []"
    and "split_policies (ac_Policies c) = Ok (cue, rego)" and "print_text E atts = Ok out"
  shows "\<exists>rep. fst (verify_attestation_image L H E R c img co) = Ok rep \<and> rep_sigs rep = atts \<and> rep_output rep = out"
proof -
  have "validation_errors L E (ac_PredicateType c) cue rego atts = Ok []"
    using assms(2) by (induction atts) auto
  then show ?thesis
    using assms(1,3,4) by (auto simp: verify_attestation_image_def split_beta attestation_report_def PrintVerification_def)
qed

subsection \<open>Examples\<close>

definition sample_cli :: "unit cli_lib" where
  "sample_cli = \<lparr>
     key_api = sample_key_lib, key_servers = (),
     rekor_NewClient = (\<lambda>u. Ok sample_rekor),
     piv_GetKey = (\<lambda>s. Err (LibError ''no token'')), piv_Verifier = (\<lambda>k. Err (LibError ''no token'')),
     name_ParseReference = (\<lambda>s. Ok (Tag s ''latest'')), name_NewRepository = Ok,
     v1_NewHash = (\<lambda>d. Ok \<lparr>Algorithm = ''sha256'', Hex = d\<rparr>),
     roots_once = once_init, layouts = sample_layout,
     Marshal_images = (\<lambda>is. Ok ''json''), bundle_iface = (\<lambda>b. INil), error_text = (\<lambda>e. ''error''),
     slsa_PredicateSLSAProvenance = ''slsa'', in_toto_PredicateSPDX = [], in_toto_PredicateLinkV1 = ''link'',
     Unmarshal_typed = (\<lambda>t b. Ok (IStr b)), Marshal_typed = (\<lambda>t v. Ok ''{}''),
     cue_Instances = (\<lambda>ps. ps), cue_LoadErr = (\<lambda>i. None), cue_BuildErr = (\<lambda>i. None), cuejson_Validate = (\<lambda>b i. None),
     rego_Prepare = (\<lambda>ps. Err (LibError ''no policy'')), rego_Decode = (\<lambda>b. Ok INil), rego_Eval = (\<lambda>q v. Ok []), rego_Allowed = (\<lambda>rs. False)\<rparr>"

definition sample_flags :: key_flags where
  "sample_flags = \<lparr>kf_KeyRef = ''cosign.pub'', kf_CertRef = [], kf_CertChain = [], kf_Sk = False, kf_Slot = []\<rparr>"

definition sample_registry_options :: registry_options where
  "sample_registry_options = \<lparr>AllowInsecure = False, KubernetesKeychain = False, RefOpts_TagPrefix = [], ro_Keychain = None\<rparr>"

definition sample_verify_command :: verify_command where
  "sample_verify_command = \<lparr>vc_Registry = sample_registry_options, vc_CheckClaims = True, vc_Key = sample_flags,
     vc_CertEmail = [], vc_CertOidcIssuer = [], vc_EnforceSCT = False, vc_Output = ''text'', vc_RekorURL = ''rekor'',
     vc_Attachment = [], vc_Annotations = None, vc_SignatureRef = [], vc_HashAlgorithm = 0, vc_LocalImage = False\<rparr>"

definition sample_key_host :: host where
  "sample_key_host = sample_host\<lparr>ReadFile := (\<lambda>f. if f = ''cosign.pub'' then Ok ''k'' else if f = ''Dockerfile'' then Ok ''FROM app''
     else if f = ''pod.yaml'' then Ok ''app'' else Err (NotExist f))\<rparr>"

lemma sample_not_experimental: "\<not> EnableExperimental sample_key_host"
  by (simp add: EnableExperimental_def strconv_ParseBool_def sample_key_host_def sample_host_def)

lemma sample_ClientOpts: "ClientOpts sample_libs sample_key_host sample_cli sample_registry_options =
    Ok [WithRemoteOptions [''context'', ''user-agent'', ''authn.DefaultKeychain'']]"
  by (simp add: ClientOpts_def GetRegistryClientOpts_def GetEnvTargetRepository_def sample_registry_options_def
      sample_key_host_def sample_host_def)

lemma sample_select_key: "select_key sample_libs sample_key_host sample_cli msgs sample_flags a co =
    (Ok (Some (sample_verifier (ECDSAKey ''k''))), co)"
proof -
  have "filepath_Clean ''cosign.pub'' = ''cosign.pub''"
    by code_simp
  then show ?thesis
    by (simp add: select_key_def sample_flags_def sample_cli_def PublicKeyFromKeyRefWithHashAlgo_def KeyReference_def
        VerifierForKeyRef_def LoadFileOrURL_def sample_key_host_def)
       (simp add: sample_key_lib_def sample_libs_def)
qed

lemma sample_checked:
  assumes "SigVerifier co = Some (sample_verifier (ECDSAKey ''k''))" and "RekorClient co = None"
    and "ClaimVerifier co = None \<or> ClaimVerifier co = Some (SimpleClaimVerifier sample_libs) \<and> p = ''sha256:ab''"
    and "opts_annotations co = None"
  shows "accepted sample_libs H verifyOCISignature co \<lparr>Algorithm = ''sha256'', Hex = ''ab''\<rparr> (sample_stored p)"
proof -
  have "verifyOCISignature (sample_verifier (ECDSAKey ''k'')) (sample_stored p) = Ok ()"
    by (simp add: verifyOCISignature_def sample_verifier_def)
  moreover have "SimpleClaimVerifier sample_libs (sample_stored ''sha256:ab'') \<lparr>Algorithm = ''sha256'', Hex = ''ab''\<rparr> None = Ok ()"
    by (simp add: SimpleClaimVerifier_Ok_iff) (simp add: sample_libs_def hash_String_def)
  moreover have "VerifyBundle sample_libs H (sample_stored p) = Ok False"
    by (simp add: VerifyBundle_def)
  ultimately show ?thesis
    using assms by (auto simp: accepted_def verifier_for_def transparent_def)
qed

lemma sample_verified:
  assumes "SigVerifier co = Some (sample_verifier (ECDSAKey ''k''))" and "RekorClient co = None"
    and "ClaimVerifier co = None \<or> ClaimVerifier co = Some (SimpleClaimVerifier sample_libs) \<and> p = ''sha256:ab''"
    and "opts_annotations co = None" and "SignatureRef co = []"
  shows "fst (VerifyImageSignatures sample_libs H (published p) ref co) = Ok ([sample_stored p], False)"
proof -
  note acc = sample_checked [OF assms(1-4)]
  have "fst (VerifyImageSignature sample_libs H (sample_stored p) \<lparr>Algorithm = ''sha256'', Hex = ''ab''\<rparr> co) \<noteq> Panic q" for q
    by (simp add: verify_one_eqs verify_one_Ok_iff [THEN iffD2, OF conjI [OF _ refl]] acc)
  moreover have "checks_to sample_libs H verifyOCISignature co \<lparr>Algorithm = ''sha256'', Hex = ''ab''\<rparr>
      [sample_stored p] ([sample_stored p], False)"
    by (simp add: checks_to_def acc) (simp add: VerifyBundle_def)
  ultimately show ?thesis
    using sample_published [of p ref "RegistryClientOpts co"] assms
    by (auto simp: VerifyImageSignatures_def res_simps verifySignatures_Ok_iff nil_list_def)
qed

lemma sample_cert: "Cert (sample_stored p) = Ok None"
  by (simp add: sample_stored_def signature_New_def sigLayer_Cert_def mget_def Let_def)

lemma sample_Exec:
  "\<exists>rep. VerifyCommand_Exec sample_libs sample_key_host sample_cli (published ''sha256:ab'') sample_verify_command [''app''] = Ok [rep] \<and>
     rep_sigs rep = [sample_stored ''sha256:ab'']"
proof -
  let ?oo = "[WithRemoteOptions [''context'', ''user-agent'', ''authn.DefaultKeychain'']]"
  let ?co = "flag_opts sample_libs sample_verify_command ?oo \<lparr>SigVerifier := Some (sample_verifier (ECDSAKey ''k''))\<rparr>"
  have opts: "verify_opts sample_libs sample_key_host sample_cli sample_verify_command ?oo = Ok ?co"
    using sample_not_experimental by (simp add: verify_opts_def experimental_opts_def sample_verify_command_def sample_select_key)
  have "fst (VerifyImageSignatures sample_libs sample_key_host (published ''sha256:ab'') (Tag ''app'' ''latest'') ?co) =
      Ok ([sample_stored ''sha256:ab''], False)"
    by (rule sample_verified) (simp_all add: flag_opts_def sample_verify_command_def)
  then have "\<exists>rep. fst (verify_image sample_libs sample_key_host sample_cli (published ''sha256:ab'') sample_verify_command ?oo ''app'' ?co) = Ok rep \<and>
      rep_sigs rep = [sample_stored ''sha256:ab'']"
    by (simp add: verify_image_def sample_verify_command_def sample_cli_def GetAttachedImageRef_def split_beta
        PrintVerification_def sample_cert if_present_def)
  then show ?thesis
    using opts sample_ClientOpts sample_not_experimental
    by (auto simp: VerifyCommand_Exec_def sample_verify_command_def sample_flags_def OneOf_def NOf_def split_beta)
qed

theorem VerifyCommand_Exec_sound_witness:
  "\<exists>rep co. VerifyCommand_Exec sample_libs sample_key_host sample_cli (published ''sha256:ab'') sample_verify_command [''app''] = Ok [rep] \<and>
     rep_sigs rep = [sample_stored ''sha256:ab''] \<and>
     right_report sample_libs sample_key_host sample_cli (published ''sha256:ab'') sample_verify_command co ''app'' rep"
  using sample_Exec VerifyCommand_Exec_sound [of sample_libs sample_key_host sample_cli "published ''sha256:ab''" sample_verify_command "[''app'']"]
  by fastforce

definition sample_attestation_command :: "string \<Rightarrow> attestation_command" where
  "sample_attestation_command t = \<lparr>ac_Registry = sample_registry_options, ac_CheckClaims = False, ac_Key = sample_flags,
     ac_CertEmail = [], ac_CertOidcIssuer = [], ac_EnforceSCT = False, ac_RekorURL = ''rekor'', ac_PredicateType = t,
     ac_Policies = [''p.cue''], ac_LocalImage = False\<rparr>"

lemma sample_attestations:
  assumes "SigVerifier co = Some (sample_verifier (ECDSAKey ''k''))" and "RekorClient co = None" and "ClaimVerifier co = None"
  shows "fst (VerifyImageAttestations sample_libs H (published ''k'') ref co) = Ok ([sample_stored ''k''], False)"
proof -
  let ?h = "\<lparr>Algorithm = ''sha256'', Hex = ''ab''\<rparr>"
  have "verifyOCIAttestation sample_libs (sample_verifier (ECDSAKey ''k'')) (sample_stored ''k'') = Ok ()"
    by (simp add: verifyOCIAttestation_def IntotoPayloadType_def sample_libs_def sample_verifier_def)
  moreover have "VerifyBundle sample_libs H (sample_stored ''k'') = Ok False"
    by (simp add: VerifyBundle_def)
  ultimately have acc: "accepted sample_libs H (verifyOCIAttestation sample_libs) co ?h (sample_stored ''k'')"
    using assms by (simp add: accepted_def verifier_for_def transparent_def)
  then have "fst (verify_attestation sample_libs H (sample_stored ''k'') ?h co) \<noteq> Panic q" for q
    by (simp add: verify_one_eqs verify_one_Ok_iff [THEN iffD2, OF conjI [OF _ refl]])
  moreover have "checks_to sample_libs H (verifyOCIAttestation sample_libs) co ?h [sample_stored ''k''] ([sample_stored ''k''], False)"
    by (simp add: checks_to_def acc) (simp add: VerifyBundle_def)
  ultimately show ?thesis
    using sample_published [of "''k''" ref "RegistryClientOpts co"] assms
    by (auto simp: VerifyImageAttestations_def res_simps verifyImageAttestations_Ok_iff nil_list_def)
qed

lemma sample_found:
  assumes "SigVerifier co = Some (sample_verifier (ECDSAKey ''k''))" and "RekorClient co = None" and "ClaimVerifier co = None"
  shows "fst (attestations_found sample_libs H sample_cli (published ''k'') (sample_attestation_command t) ''app'' co) = Ok ([sample_stored ''k''], False)"
  using sample_attestations [OF assms] by (simp add: attestations_found_def sample_attestation_command_def sample_cli_def)

lemma sample_payloads:
  "AttestationToPayloadJSON sample_libs sample_cli ''spdx'' (sample_stored ''k'') = Ok ''{}''"
  "AttestationToPayloadJSON sample_libs sample_cli ''custom'' (sample_stored ''k'') = Ok []"
  by (simp_all add: AttestationToPayloadJSON_def PredicateTypeMap_def)
     (simp_all add: sample_libs_def sample_cli_def as_string_def statement_JSON_def CosignCustomProvenanceV01_def)

lemma sample_policies: "split_policies [''p.cue''] = Ok ([''p.cue''], [])"
  by (simp add: filepath_Ext_def Let_def)

theorem VerifyAttestationCommand_Exec_sound_witness:
  "\<exists>rep. VerifyAttestationCommand_Exec sample_libs sample_key_host sample_cli (published ''k'') (sample_attestation_command ''spdx'') [''app''] = Ok [rep] \<and>
     rep_sigs rep = [sample_stored ''k''] \<and> meets_policies sample_libs sample_cli (sample_attestation_command ''spdx'') (sample_stored ''k'')"
proof -
  let ?c = "sample_attestation_command ''spdx''" and ?oo = "[WithRemoteOptions [''context'', ''user-agent'', ''authn.DefaultKeychain'']]"
  obtain co where co: "attestation_opts sample_libs sample_key_host sample_cli ?c ?oo = Ok co"
    "SigVerifier co = Some (sample_verifier (ECDSAKey ''k''))" "RekorClient co = None" "ClaimVerifier co = None"
    using sample_not_experimental
    by (simp add: attestation_opts_def experimental_opts_def sample_attestation_command_def sample_select_key Let_def)
  have "policy_errors sample_cli [''p.cue''] [] ''{}'' = Ok []"
    by (simp add: policy_errors_Nil cue_ValidateJSON_def sample_cli_def)
  then have "validation_errors sample_libs sample_cli ''spdx'' [''p.cue''] [] [sample_stored ''k''] = Ok []"
    by (simp add: sample_payloads)
  then have "\<exists>rep. fst (verify_attestation_image sample_libs sample_key_host sample_cli (published ''k'') ?c ''app'' co) = Ok rep \<and>
      rep_sigs rep = [sample_stored ''k'']"
    using sample_found [OF co(2-4), of sample_key_host "''spdx''"]
    by (simp add: verify_attestation_image_def split_beta attestation_report_def sample_attestation_command_def sample_policies
        PrintVerification_def sample_cert if_present_def del: validation_errors.simps split_policies.simps)
  then obtain rep where rep: "VerifyAttestationCommand_Exec sample_libs sample_key_host sample_cli (published ''k'') ?c [''app''] = Ok [rep]"
    "rep_sigs rep = [sample_stored ''k'']"
    using co(1) sample_ClientOpts
    by (auto simp: VerifyAttestationCommand_Exec_def sample_attestation_command_def sample_flags_def OneOf_def NOf_def split_beta)
  then show ?thesis
    using VerifyAttestationCommand_Exec_sound [OF rep(1)] by (auto simp: right_attestations_def)
qed

theorem predicate_type_not_required_witness:
  "\<exists>rep. fst (verify_attestation_image sample_libs sample_host sample_cli (published ''k'') (sample_attestation_command ''custom'') ''app'' sample_key_opts)
     = Ok rep \<and> rep_sigs rep = [sample_stored ''k'']"
proof -
  let ?c = "sample_attestation_command ''custom''"
  have c: "ac_PredicateType ?c = ''custom''" "ac_Policies ?c = [''p.cue'']"
    by (simp_all add: sample_attestation_command_def)
  have "fst (attestations_found sample_libs sample_host sample_cli (published ''k'') ?c ''app'' sample_key_opts) = Ok ([sample_stored ''k''], False)"
    by (rule sample_found) simp_all
  moreover have "print_text sample_cli [sample_stored ''k''] = Ok [''k'']"
    by (simp add: sample_cert if_present_def)
  ultimately show ?thesis
    using predicate_type_not_required [where atts = "[sample_stored ''k'']" and c = ?c and L = sample_libs and E = sample_cli
        and cue = "[''p.cue'']" and rego = "[]" and out = "[''k'']" and bv = False]
    by (fastforce simp: c sample_payloads sample_policies simp del: split_policies.simps print_text.simps)
qed

end
