(* ===== verification/Verify_Files.thy ===== *)
theory Verify_Files
  imports Verify_CLI
begin

section \<open>Verifying the images of a file\<close>

text \<open>
  \<open>cmd/cosign/cli/dockerfile/verify.go\<close> and \<open>cmd/cosign/cli/manifest/verify.go\<close>: the images that a
  Dockerfile builds on and the images of a Kubernetes manifest, handed to \<open>cosign verify\<close>. The
  string functions of Go that the first uses (\<open>TrimSpace\<close>, \<open>Fields\<close>, \<open>os.ExpandEnv\<close>, the line scanner of
  \<open>bufio\<close>) are modelled on bytes; the YAML decoder is a parameter.
\<close>

subsection \<open>White space and lines\<close>

text \<open>\<open>unicode.IsSpace\<close> in UTF-8. A sequence starts with a byte that occurs only at the start of a rune,
  so that matching bytes finds exactly these runes.\<close>

definition white_space :: "string list" where
  "white_space =
     [[CHR 0x09], [CHR 0x0A], [CHR 0x0B], [CHR 0x0C], [CHR 0x0D], [CHR 0x20],
      [CHR 0xC2, CHR 0x85], [CHR 0xC2, CHR 0xA0], [CHR 0xE1, CHR 0x9A, CHR 0x80]] @
     map (\<lambda>c. [CHR 0xE2, CHR 0x80, c])
       [CHR 0x80, CHR 0x81, CHR 0x82, CHR 0x83, CHR 0x84, CHR 0x85, CHR 0x86, CHR 0x87, CHR 0x88, CHR 0x89,
        CHR 0x8A, CHR 0xA8, CHR 0xA9, CHR 0xAF] @
     [[CHR 0xE2, CHR 0x81, CHR 0x9F], [CHR 0xE3, CHR 0x80, CHR 0x80]]"

fun trim_with :: "string list \<Rightarrow> string \<Rightarrow> string" where
  "trim_with ws [] = []"
| "trim_with ws (c # s) =
     (case find (has_prefix (c # s)) ws of None \<Rightarrow> c # s | Some w \<Rightarrow> trim_with ws (drop (length w - 1) s))"

definition TrimSpace :: "string \<Rightarrow> string" where
  "TrimSpace s = rev (trim_with (map rev white_space) (rev (trim_with white_space s)))"

text \<open>The word that is being read, in reverse, comes first.\<close>

fun fields_from :: "string \<Rightarrow> string \<Rightarrow> string list" where
  "fields_from word [] = (if word = [] then [] else [rev word])"
| "fields_from word (c # s) =
     (case find (has_prefix (c # s)) white_space of
        None \<Rightarrow> fields_from (c # word) s
      | Some w \<Rightarrow> (if word = [] then [] else [rev word]) @ fields_from [] (drop (length w - 1) s))"

definition Fields :: "string \<Rightarrow> string list" where
  "Fields s = fields_from [] s"

definition in_range :: "char \<Rightarrow> char \<Rightarrow> char \<Rightarrow> bool" where
  "in_range a z c \<longleftrightarrow> (of_char a :: nat) \<le> of_char c \<and> (of_char c :: nat) \<le> of_char z"

definition upper_char :: "char \<Rightarrow> char" where
  "upper_char c = (if in_range CHR ''a'' CHR ''z'' c then char_of (of_char c - 32 :: nat) else c)"

text \<open>\<open>EqualFold(s, "AS")\<close>: the long s of Unicode folds to an s, too.\<close>

definition folds_to_AS :: "string \<Rightarrow> bool" where
  "folds_to_AS s \<longleftrightarrow>
     (case s of
        a # t \<Rightarrow> a \<in> {CHR ''a'', CHR ''A''} \<and> t \<in> {''s'', ''S'', [CHR 0xC5, CHR 0xBF]}
      | [] \<Rightarrow> False)"

text \<open>\<open>bufio.ScanLines\<close>: a line ends at a newline, a carriage return before it is dropped, and there is no
  empty line after the last newline.\<close>

definition raw_lines :: "string \<Rightarrow> string list" where
  "raw_lines s = (let ls = split_char (CHR 0x0A) s in if last ls = [] then butlast ls else ls)"

definition drop_CR :: "string \<Rightarrow> string" where
  "drop_CR l = (if l \<noteq> [] \<and> last l = CHR 0x0D then butlast l else l)"

definition MaxScanTokenSize :: nat where
  "MaxScanTokenSize = 65536"

subsection \<open>Environment variables\<close>

text \<open>\<open>os.Expand\<close> and its \<open>getShellName\<close>, which gives the name and how many bytes it takes.\<close>

definition is_shell_special :: "char \<Rightarrow> bool" where
  "is_shell_special c \<longleftrightarrow> c \<in> set ''*#$@!?-0123456789''"

definition is_alnum :: "char \<Rightarrow> bool" where
  "is_alnum c \<longleftrightarrow> c = CHR ''_'' \<or> in_range CHR ''0'' CHR ''9'' c \<or> in_range CHR ''a'' CHR ''z'' c \<or> in_range CHR ''A'' CHR ''Z'' c"

definition getShellName :: "string \<Rightarrow> string \<times> nat" where
  "getShellName s =
     (case s of
        [] \<Rightarrow> ([], 0)
      | c # t \<Rightarrow>
          if c = CHR ''{''
          then (if length t > 1 \<and> is_shell_special (t ! 0) \<and> t ! 1 = CHR ''}'' then ([t ! 0], 3)
                else (let name = takeWhile (\<lambda>x. x \<noteq> CHR ''}'') t
                      in if length name = length t then ([], 1)
                         else if name = [] then ([], 2)
                         else (name, length name + 2)))
          else if is_shell_special c then ([c], 1)
          else (let name = takeWhile is_alnum s in (name, length name)))"

fun ExpandEnv :: "(string \<Rightarrow> string) \<Rightarrow> string \<Rightarrow> string" where
  "ExpandEnv env [] = []"
| "ExpandEnv env (c # s) =
     (if c = CHR ''$'' \<and> s \<noteq> []
      then (let (name, w) = getShellName s
            in (if name = [] \<and> w > 0 then [] else if name = [] then [c] else env name) @ ExpandEnv env (drop w s))
      else c # ExpandEnv env s)"

subsection \<open>Dockerfiles\<close>

definition getImageFromLine :: "host \<Rightarrow> string \<Rightarrow> string res" where
  "getImageFromLine H line =
     (let fields = Fields (ExpandEnv (Getenv H) (trim_prefix line ''FROM''));
          kept = (case find (\<lambda>i. folds_to_AS (fields ! i)) (rev [1..<length fields]) of
                    Some i \<Rightarrow> take i fields | None \<Rightarrow> fields)
      in if kept = [] then Panic ''index out of range'' else Ok (last kept))"

fun images_of_lines :: "host \<Rightarrow> string list \<Rightarrow> string list res" where
  "images_of_lines H [] = Ok []"
| "images_of_lines H (raw # ls) =
     (if length raw \<ge> MaxScanTokenSize then Err (LibError ''bufio.Scanner: token too long'')
      else let line = TrimSpace (drop_CR raw)
           in if has_prefix (map upper_char line) ''FROM''
              then bindr (getImageFromLine H line) (\<lambda>image.
                   bindr (images_of_lines H ls) (\<lambda>images.
                   Ok (if image = ''scratch'' then images else image # images)))
              else images_of_lines H ls)"

definition getImagesFromDockerfile :: "host \<Rightarrow> bytes \<Rightarrow> string list res" where
  "getImagesFromDockerfile H dockerfile = images_of_lines H (raw_lines dockerfile)"

record dockerfile_command =
  df_VerifyCommand :: verify_command
  BaseOnly :: bool

definition VerifyDockerfileCommand_Exec ::
  "libs \<Rightarrow> host \<Rightarrow> 'c cli_lib \<Rightarrow> registry \<Rightarrow> dockerfile_command \<Rightarrow> string list \<Rightarrow> report list res" where
  "VerifyDockerfileCommand_Exec L H E R c args =
     (case args of
        [path] \<Rightarrow>
          bindr (wrapr ''could not open Dockerfile'' (ReadFile H path)) (\<lambda>dockerfile.
          bindr (wrapr ''failed extracting images from Dockerfile'' (getImagesFromDockerfile H dockerfile)) (\<lambda>images.
          if images = [] then Err (ErrorString ''no images found in Dockerfile'')
          else VerifyCommand_Exec L H E R (df_VerifyCommand c) (if BaseOnly c then [last images] else images)))
      | _ \<Rightarrow> Err ErrHelp)"

subsection \<open>Manifests\<close>

record imageContainers =
  Containers :: "string list"
  InitContainers :: "string list"

record unionImagesKind =
  pod_spec :: imageContainers
  template_spec :: imageContainers
  jobTemplate_spec :: imageContainers

definition uik_images :: "unionImagesKind \<Rightarrow> string list" where
  "uik_images uik =
     (let addImage = (\<lambda>ic. filter (\<lambda>i. i \<noteq> []) (InitContainers ic) @ filter (\<lambda>i. i \<noteq> []) (Containers ic))
      in addImage (pod_spec uik) @ addImage (template_spec uik) @ addImage (jobTemplate_spec uik))"

text \<open>The decoder, called again and again: each call gives a document or an error, which is \<open>io.EOF\<close> after
  the last one. \<open>decode\<close> is what it gives on a text: the documents, and whether the error was \<open>io.EOF\<close>.\<close>

fun collect_images :: "unionImagesKind list \<times> bool \<Rightarrow> string list res" where
  "collect_images ([], eof) = (if eof then Ok [] else Err (ErrorString ''unable to decode the manifest''))"
| "collect_images (ic # ics, eof) = bindr (collect_images (ics, eof)) (\<lambda>images. Ok (uik_images ic @ images))"

definition getImagesFromYamlManifest :: "(bytes \<Rightarrow> unionImagesKind list \<times> bool) \<Rightarrow> bytes \<Rightarrow> string list res" where
  "getImagesFromYamlManifest decode manifest = collect_images (decode manifest)"

definition allowedExtensionsForManifest :: "string list" where
  "allowedExtensionsForManifest = [''.yaml'', ''.yml'']"

definition isExtensionAllowed :: "string \<Rightarrow> unit res" where
  "isExtensionAllowed ext =
     (if list_ex (\<lambda>v. map upper_char (filepath_Ext (TrimSpace ext)) = map upper_char v) allowedExtensionsForManifest
      then Ok () else Err (ErrorString ''only [.yaml .yml] manifests are supported at this time''))"

definition VerifyManifestCommand_Exec ::
  "libs \<Rightarrow> host \<Rightarrow> 'c cli_lib \<Rightarrow> (bytes \<Rightarrow> unionImagesKind list \<times> bool) \<Rightarrow> registry \<Rightarrow> verify_command \<Rightarrow> string list
   \<Rightarrow> report list res" where
  "VerifyManifestCommand_Exec L H E decode R c args =
     (case args of
        [manifestPath] \<Rightarrow>
          bindr (wrapr ''check if extension is valid'' (isExtensionAllowed manifestPath)) (\<lambda>_.
          bindr (wrapr ''could not read manifest'' (ReadFile H manifestPath)) (\<lambda>manifest.
          bindr (wrapr ''unable to extract the container image references in the manifest''
                   (getImagesFromYamlManifest decode manifest)) (\<lambda>images.
          if images = [] then Err (ErrorString ''no images found in manifest'')
          else VerifyCommand_Exec L H E R c images)))
      | _ \<Rightarrow> Err ErrHelp)"

subsection \<open>The words of a line\<close>

definition plain_char :: "char \<Rightarrow> bool" where
  "plain_char c \<longleftrightarrow> in_range CHR ''!'' CHR ''~'' c \<and> c \<noteq> CHR ''$''"

definition plain :: "string \<Rightarrow> bool" where
  "plain w \<longleftrightarrow> w \<noteq> [] \<and> list_all plain_char w"

lemma white_space_not_plain: "w \<in> set white_space \<or> w \<in> set (map rev white_space) \<Longrightarrow> \<exists>c t. w = c # t \<and> \<not> plain_char c"
proof -
  have "list_all (\<lambda>w. w \<noteq> [] \<and> \<not> plain_char (hd w)) (white_space @ map rev white_space)"
    by (simp add: white_space_def plain_char_def in_range_def)
  then show "w \<in> set white_space \<or> w \<in> set (map rev white_space) \<Longrightarrow> \<exists>c t. w = c # t \<and> \<not> plain_char c"
    unfolding list_all_iff set_append by (metis UnI1 UnI2 list.collapse)
qed

lemma find_white_None:
  assumes "plain_char c"
  shows "find (has_prefix (c # s)) white_space = None" and "find (has_prefix (c # s)) (map rev white_space) = None"
proof -
  have "\<not> has_prefix (c # s) w" if "w \<in> set white_space \<or> w \<in> set (map rev white_space)" for w
    using white_space_not_plain [OF that] assms by auto
  then show "find (has_prefix (c # s)) white_space = None" and "find (has_prefix (c # s)) (map rev white_space) = None"
    unfolding find_None_iff by blast+
qed

lemma trim_with_plain: "plain_char c \<Longrightarrow> trim_with white_space (c # s) = c # s"
  "plain_char c \<Longrightarrow> trim_with (map rev white_space) (c # s) = c # s"
  by (simp_all add: find_white_None)

lemma fields_plain: "list_all plain_char w \<Longrightarrow> fields_from acc (w @ rest) = fields_from (rev w @ acc) rest"
  by (induction w arbitrary: acc) (simp_all add: find_white_None)

lemma fields_space: "fields_from acc (CHR '' '' # s) = (if acc = [] then [] else [rev acc]) @ fields_from [] s"
  by (simp add: white_space_def)

lemma ExpandEnv_plain: "CHR ''$'' \<notin> set s \<Longrightarrow> ExpandEnv env s = s"
  by (induction s) auto

lemma plain_no_dollar: "plain w \<Longrightarrow> CHR ''$'' \<notin> set w"
  by (auto simp: plain_def list_all_iff plain_char_def)

lemma Fields_words:
  assumes "plain w" and "plain v"
  shows "Fields (CHR '' '' # w) = [w]" and "Fields (CHR '' '' # w @ '' AS '' @ v) = [w, ''AS'', v]"
proof -
  have AS: "list_all plain_char ''AS''"
    by (simp add: plain_char_def in_range_def)
  show "Fields (CHR '' '' # w) = [w]"
    using assms fields_plain [of w "[]" "[]"] by (simp add: Fields_def fields_space plain_def del: fields_from.simps(2))
  have "Fields (CHR '' '' # w @ '' AS '' @ v) = w # fields_from [] (''AS'' @ '' '' @ v)"
    using assms fields_plain [of w "[]" "'' AS '' @ v"] by (simp add: Fields_def fields_space plain_def del: fields_from.simps(2))
  also have "\<dots> = [w, ''AS'', v]"
    unfolding fields_plain [OF AS] using assms fields_plain [of v "[]" "[]"]
    by (simp add: fields_space plain_def del: fields_from.simps(2))
  finally show "Fields (CHR '' '' # w @ '' AS '' @ v) = [w, ''AS'', v]" .
qed

text \<open>A line that names an image: \<open>FROM\<close> and a word, or also \<open>AS\<close> and another word.\<close>

definition names_image :: "string \<Rightarrow> string \<Rightarrow> bool" where
  "names_image raw img \<longleftrightarrow> length raw < MaxScanTokenSize \<and> plain img \<and>
     (TrimSpace (drop_CR raw) = ''FROM '' @ img \<or>
      (\<exists>stage. TrimSpace (drop_CR raw) = ''FROM '' @ img @ '' AS '' @ stage \<and> plain stage \<and> \<not> folds_to_AS stage))"

definition from_line :: "string \<Rightarrow> bool" where
  "from_line raw \<longleftrightarrow> has_prefix (map upper_char (TrimSpace (drop_CR raw))) ''FROM''"

lemma names_image_reads:
  assumes "names_image raw img"
  shows "from_line raw" and "getImageFromLine H (TrimSpace (drop_CR raw)) = Ok img"
proof -
  show "from_line raw"
    using assms by (auto simp: names_image_def from_line_def upper_char_def in_range_def)
  show "getImageFromLine H (TrimSpace (drop_CR raw)) = Ok img"
    using assms Fields_words [of img] plain_no_dollar
    by (auto simp: names_image_def getImageFromLine_def trim_prefix_def ExpandEnv_plain Let_def folds_to_AS_def
        simp del: ExpandEnv.simps)
qed

lemma images_of_lines_found:
  assumes "images_of_lines H (pre @ raw # post) = Ok images" and "names_image raw img" and "img \<noteq> ''scratch''"
  shows "\<exists>a b. images = a @ img # b \<and> (list_all (\<lambda>l. \<not> from_line l) post \<longrightarrow> b = [])"
  using assms(1)
proof (induction pre arbitrary: images)
  case Nil
  have rest: "images_of_lines H post = Ok is \<Longrightarrow> list_all (\<lambda>l. \<not> from_line l) post \<Longrightarrow> is = []" for "is"
    by (induction post) (auto simp: from_line_def Let_def split: if_splits)
  show ?case
    using Nil names_image_reads [OF assms(2)] assms(3) rest by (auto simp: from_line_def Let_def bindr_Ok_iff split: if_splits)
next
  case (Cons l pre)
  then show ?case
    by (auto simp: Let_def bindr_Ok_iff split: if_splits) (metis append_Cons)+
qed

text \<open>C7. A verified Dockerfile. If the command succeeds on a Dockerfile, then the image of every line \<open>FROM\<close>
  image, with or without \<open>AS\<close> and a name, unless it is \<open>scratch\<close>, was verified as \<open>cosign verify\<close> does,
  with the options of the flags; with \<open>--base-image-only\<close> this holds for the last such line.\<close>

theorem VerifyDockerfile_sound:
  assumes "VerifyDockerfileCommand_Exec L H E R c [path] = Ok reps"
    and "ReadFile H path = Ok dockerfile" and "raw_lines dockerfile = pre @ raw # post"
    and "names_image raw img" and "img \<noteq> ''scratch''"
    and "BaseOnly c \<Longrightarrow> list_all (\<lambda>l. \<not> from_line l) post"
  shows "\<exists>co. opts_from_flags L H E (df_VerifyCommand c) co \<and>
    (\<exists>rep \<in> set reps. right_report L H E R (df_VerifyCommand c) co img rep)"
proof -
  obtain images where images: "images_of_lines H (pre @ raw # post) = Ok images"
    and exec: "VerifyCommand_Exec L H E R (df_VerifyCommand c) (if BaseOnly c then [last images] else images) = Ok reps"
    using assms(1-3) by (auto simp: VerifyDockerfileCommand_Exec_def getImagesFromDockerfile_def res_simps split: if_splits)
  obtain a b where "images = a @ img # b" "BaseOnly c \<Longrightarrow> b = []"
    using images_of_lines_found [OF images assms(4,5)] assms(6) by auto
  then have "img \<in> set (if BaseOnly c then [last images] else images)"
    by auto
  then show ?thesis
    using Exec_right [OF exec] by (metis in_set_conv_nth list_all2_conv_all_nth)
qed

text \<open>A line with \<open>FROM\<close> and nothing else makes the command panic, and a stage of the name \<open>as\<close> hides the
  image.\<close>

lemma FROM_alone_panics: "getImageFromLine H ''FROM'' = Panic ''index out of range''"
  by (simp add: getImageFromLine_def trim_prefix_def Fields_def)

lemma stage_as_hides_image: "getImageFromLine H ''FROM alpine AS as'' = Ok ''AS''"
  using Fields_words(2) [of "''alpine''" "''as''"]
  by (simp add: getImageFromLine_def trim_prefix_def folds_to_AS_def plain_def plain_char_def in_range_def)

text \<open>C8. A verified manifest. If the command succeeds on a manifest, the manifest was decoded to its end, and
  every image that a container or an init container of a pod, of a pod template or of a job template names
  was verified as \<open>cosign verify\<close> does, with the options of the flags.\<close>

theorem VerifyManifest_sound:
  assumes "VerifyManifestCommand_Exec L H E decode R c [path] = Ok reps"
    and "ReadFile H path = Ok manifest" and "decode manifest = (docs, eof)"
    and "doc \<in> set docs" and "spec \<in> {pod_spec doc, template_spec doc, jobTemplate_spec doc}"
    and "img \<in> set (Containers spec @ InitContainers spec)" and "img \<noteq> []"
  shows "eof \<and> (\<exists>co. opts_from_flags L H E c co \<and> (\<exists>rep \<in> set reps. right_report L H E R c co img rep))"
proof -
  obtain images where images: "collect_images (docs, eof) = Ok images" and exec: "VerifyCommand_Exec L H E R c images = Ok reps"
    using assms(1-3) by (auto simp: VerifyManifestCommand_Exec_def getImagesFromYamlManifest_def res_simps split: if_splits)
  have "eof \<and> images = concat (map uik_images docs)"
    using images by (induction docs arbitrary: images) (auto simp: bindr_Ok_iff split: if_splits)
  moreover have "img \<in> set (uik_images doc)"
    using assms(5-7) by (auto simp: uik_images_def Let_def)
  ultimately have "eof" "img \<in> set images"
    using assms(4) by auto
  then show ?thesis
    using Exec_right [OF exec] by (metis in_set_conv_nth list_all2_conv_all_nth)
qed

subsection \<open>Examples\<close>

definition sample_dockerfile_command :: dockerfile_command where
  "sample_dockerfile_command = \<lparr>df_VerifyCommand = sample_verify_command, BaseOnly = False\<rparr>"

lemma sample_names_image: "names_image ''FROM app'' ''app''"
proof -
  have "plain_char (CHR ''F'')" "plain_char (CHR ''p'')"
    by (simp_all add: plain_char_def in_range_def)
  then show ?thesis
    by (simp add: names_image_def TrimSpace_def trim_with_plain drop_CR_def MaxScanTokenSize_def plain_def plain_char_def in_range_def
        del: trim_with.simps)
qed

lemma sample_files: "ReadFile sample_key_host ''Dockerfile'' = Ok ''FROM app''" "ReadFile sample_key_host ''pod.yaml'' = Ok ''app''"
  by (simp_all add: sample_key_host_def)

theorem VerifyDockerfile_sound_witness:
  "\<exists>rep co. VerifyDockerfileCommand_Exec sample_libs sample_key_host sample_cli (published ''sha256:ab'') sample_dockerfile_command
       [''Dockerfile''] = Ok [rep] \<and>
     right_report sample_libs sample_key_host sample_cli (published ''sha256:ab'') sample_verify_command co ''app'' rep"
proof -
  obtain rep where "VerifyCommand_Exec sample_libs sample_key_host sample_cli (published ''sha256:ab'') sample_verify_command [''app''] = Ok [rep]"
    using sample_Exec by blast
  moreover have "images_of_lines sample_key_host [''FROM app''] = Ok [''app'']"
    using names_image_reads(1) [OF sample_names_image] names_image_reads(2) [OF sample_names_image, of sample_key_host] by (simp add: from_line_def MaxScanTokenSize_def Let_def)
  ultimately have "VerifyDockerfileCommand_Exec sample_libs sample_key_host sample_cli (published ''sha256:ab'') sample_dockerfile_command
       [''Dockerfile''] = Ok [rep]"
    by (simp add: VerifyDockerfileCommand_Exec_def sample_files getImagesFromDockerfile_def raw_lines_def sample_dockerfile_command_def)
  then show ?thesis
    using VerifyDockerfile_sound [OF _ sample_files(1) _ sample_names_image, where pre = "[]" and post = "[]"]
    by (fastforce simp: raw_lines_def sample_dockerfile_command_def)
qed

definition sample_decode :: "bytes \<Rightarrow> unionImagesKind list \<times> bool" where
  "sample_decode b =
     ([\<lparr>pod_spec = \<lparr>Containers = [b], InitContainers = []\<rparr>, template_spec = \<lparr>Containers = [], InitContainers = []\<rparr>,
        jobTemplate_spec = \<lparr>Containers = [], InitContainers = []\<rparr>\<rparr>], True)"

lemma sample_extension: "isExtensionAllowed ''pod.yaml'' = Ok ()"
proof -
  have "TrimSpace ''pod.yaml'' = ''pod.yaml''"
    by (simp add: TrimSpace_def trim_with_plain plain_char_def in_range_def del: trim_with.simps)
  then show ?thesis
    by (simp add: isExtensionAllowed_def allowedExtensionsForManifest_def filepath_Ext_def Let_def)
qed

theorem VerifyManifest_sound_witness:
  "\<exists>rep co. VerifyManifestCommand_Exec sample_libs sample_key_host sample_cli sample_decode (published ''sha256:ab'') sample_verify_command
       [''pod.yaml''] = Ok [rep] \<and>
     right_report sample_libs sample_key_host sample_cli (published ''sha256:ab'') sample_verify_command co ''app'' rep"
proof -
  obtain rep where "VerifyCommand_Exec sample_libs sample_key_host sample_cli (published ''sha256:ab'') sample_verify_command [''app''] = Ok [rep]"
    using sample_Exec by blast
  then have "VerifyManifestCommand_Exec sample_libs sample_key_host sample_cli sample_decode (published ''sha256:ab'') sample_verify_command
       [''pod.yaml''] = Ok [rep]"
    by (simp add: VerifyManifestCommand_Exec_def sample_extension sample_files getImagesFromYamlManifest_def sample_decode_def uik_images_def)
  then show ?thesis
    using VerifyManifest_sound [OF _ sample_files(2), where docs = "fst (sample_decode ''app'')" and eof = True and img = "''app''"]
    by (fastforce simp: sample_decode_def)
qed

end
