(* ===== verification/OCI_Mutate.thy ===== *)
theory OCI_Mutate
  imports OCI_Registry
begin

section \<open>Attaching signatures, attestations and files\<close>

text \<open>
  The packages \<open>pkg/oci/mutate\<close> (\<open>AppendSignatures\<close>, \<open>ReplaceSignatures\<close>, the wrappers \<open>signedImage\<close> and
  \<open>signedImageIndex\<close> and the \<open>Attach*\<close> functions) and \<open>pkg/cosign/remote\<close> (the duplicate detector \<open>dd\<close>
  and the replace operation \<open>ro\<close>). \<open>mutate.Append\<close> of go-containerregistry is a parameter.
\<close>

subsection \<open>Lists of signatures\<close>

type_synonym v1_append = "image \<Rightarrow> (layer \<times> (string, string) gomap) list \<Rightarrow> image res"

text \<open>A nil interface: each method panics.\<close>

definition nil_Signatures :: oci_sigs where
  "nil_Signatures =
     (let np = ''nil pointer dereference''
      in \<lparr>image_Digest = Panic np, Manifest_Layers = Panic np, LayerByDigest = (\<lambda>_. Panic np),
          Layers = Panic np, Get = Panic np\<rparr>)"

definition methods_of :: "oci_sigs option \<Rightarrow> oci_sigs" where
  "methods_of s = (case s of None \<Rightarrow> nil_Signatures | Some x \<Rightarrow> x)"

definition sigAppender :: "image \<Rightarrow> oci_sigs \<Rightarrow> oci_sig list \<Rightarrow> oci_sigs" where
  "sigAppender img base sigs =
     \<lparr>image_Digest = image_Digest img, Manifest_Layers = Manifest_Layers img,
      LayerByDigest = LayerByDigest img, Layers = Layers img,
      Get = bindr (Get base) (\<lambda>sl. Ok (append_slice sl sigs))\<rparr>"

definition addenda :: "oci_sig list \<Rightarrow> (layer \<times> (string, string) gomap) list res" where
  "addenda sigs = mapr (\<lambda>sig. bindr (Annotations sig) (\<lambda>ann. Ok (layer.truncate sig, ann))) sigs"

definition AppendSignatures :: "v1_append \<Rightarrow> oci_sigs \<Rightarrow> oci_sig list \<Rightarrow> oci_sigs res" where
  "AppendSignatures App base sigs =
     bindr (addenda sigs) (\<lambda>adds.
     bindr (App (image.truncate base) adds) (\<lambda>img.
     Ok (sigAppender img base sigs)))"

definition ReplaceSignatures :: "v1_append \<Rightarrow> image \<Rightarrow> oci_sigs \<Rightarrow> oci_sigs res" where
  "ReplaceSignatures App emptyImage base =
     bindr (Get base) (\<lambda>sl.
     bindr (addenda (nil_list sl)) (\<lambda>adds.
     bindr (App emptyImage adds) (\<lambda>img.
     Ok (sigAppender img base (nil_list sl)))))"

subsection \<open>Duplicates and replacement\<close>

type_synonym DupeDetector = "oci_sigs option \<Rightarrow> oci_sig \<Rightarrow> oci_sig option res"
type_synonym ReplaceOp = "oci_sigs option \<Rightarrow> oci_sig \<Rightarrow> oci_sigs res"

fun dd_loop ::
  "verifier \<Rightarrow> oci_sig \<Rightarrow> hash \<Rightarrow> string \<Rightarrow> (string, string) gomap \<Rightarrow> oci_sig list \<Rightarrow> oci_sig option res" where
  "dd_loop v newSig newDigest newMediaType newAnnotations [] = Ok None"
| "dd_loop v newSig newDigest newMediaType newAnnotations (sig # rest) =
     (let next = dd_loop v newSig newDigest newMediaType newAnnotations rest
      in handler (Annotations sig) (\<lambda>_. next) (\<lambda>existingAnnotations.
         if \<not> list_all (\<lambda>(a, value). a = SignatureAnnotationKey \<or> mlookup existingAnnotations a = Some value) newAnnotations
         then next
         else handler (Digest sig) (\<lambda>_. next) (\<lambda>existingDigest.
         if existingDigest \<noteq> newDigest then next
         else handler (MediaType sig) (\<lambda>_. next) (\<lambda>existingMediaType.
         if existingMediaType \<noteq> newMediaType then next
         else handler (Base64Signature sig) (\<lambda>_. next) (\<lambda>existingSignature.
         if existingSignature = [] then next
         else handler (b64_decode existingSignature) (\<lambda>_. next) (\<lambda>uploadedSig.
         bindr (Uncompressed newSig) (\<lambda>r.
         handler (VerifySignature v uploadedSig r) (\<lambda>_. next) (\<lambda>_. Ok (Some sig)))))))))"

definition dd_Find :: "verifier \<Rightarrow> DupeDetector" where
  "dd_Find v sigImage newSig =
     bindr (Digest newSig) (\<lambda>newDigest.
     bindr (MediaType newSig) (\<lambda>newMediaType.
     bindr (Annotations newSig) (\<lambda>newAnnotations.
     bindr (Get (methods_of sigImage)) (\<lambda>sigs.
     dd_loop v newSig newDigest newMediaType newAnnotations (nil_list sigs)))))"

text \<open>The predicate type of a stored attestation; \<open>val.(string)\<close> panics on other values.\<close>

definition predicate_of :: "libs \<Rightarrow> oci_sig \<Rightarrow> iface res" where
  "predicate_of L s =
     bindr (wrapr ''could not get payload'' (Payload s)) (\<lambda>p.
     bindr (wrapr ''unmarshal payload data'' (Unmarshal_Object L p)) (\<lambda>signaturePayload.
     case mlookup signaturePayload ''payload'' of
       None \<Rightarrow> Err (ErrorString ''could not find 'payload' in payload data'')
     | Some val \<Rightarrow>
         bindr (as_string val) (\<lambda>text.
         bindr (wrapr (''could not decode 'payload'' @ [CHR 0x27]) (b64_decode text)) (\<lambda>decodedPayload.
         bindr (wrapr ''unmarshal payloadData'' (Unmarshal_Object L decodedPayload)) (\<lambda>payloadData.
         case mlookup payloadData ''predicateType'' of
           None \<Rightarrow> Err (ErrorString ''could not find 'predicateType' in payload data'')
         | Some x \<Rightarrow> Ok x)))))"

fun replace_loop :: "libs \<Rightarrow> string \<Rightarrow> oci_sig list \<Rightarrow> oci_sig list res" where
  "replace_loop L predicateURI [] = Ok []"
| "replace_loop L predicateURI (s # sigs) =
     bindr (predicate_of L s) (\<lambda>val.
     bindr (replace_loop L predicateURI sigs) (\<lambda>kept.
     Ok (if IStr predicateURI = val then kept else s # kept)))"

definition ro_Replace :: "libs \<Rightarrow> string \<Rightarrow> ReplaceOp" where
  "ro_Replace L predicateURI signatures o' =
     bindr (Get (methods_of signatures)) (\<lambda>sigs.
     bindr (replace_loop L predicateURI (nil_list sigs)) (\<lambda>kept.
     Ok ((methods_of signatures)\<lparr>Get := Ok (Some (o' # kept))\<rparr>)))"

subsection \<open>Options and entities\<close>

record signOpts =
  so_dd :: "DupeDetector option"
  so_ro :: "ReplaceOp option"

datatype SignOption = WithDupeDetector DupeDetector | WithReplaceOp ReplaceOp

fun apply_sign_option :: "signOpts \<Rightarrow> SignOption \<Rightarrow> signOpts" where
  "apply_sign_option so (WithDupeDetector d) = so\<lparr>so_dd := Some d\<rparr>"
| "apply_sign_option so (WithReplaceOp r) = so\<lparr>so_ro := Some r\<rparr>"

definition makeSignOpts :: "SignOption list \<Rightarrow> signOpts" where
  "makeSignOpts opts = foldl apply_sign_option \<lparr>so_dd = None, so_ro = None\<rparr> opts"

record signedImage =
  si_SignedImage :: signed_entity
  si_sig :: "oci_sig option"
  si_att :: "oci_sig option"
  si_so :: signOpts
  si_attachments :: "(string, oci_file) gomap"

text \<open>Whether the detector finds the new element redundant.\<close>

definition redundant :: "signOpts \<Rightarrow> oci_sigs option \<Rightarrow> oci_sig \<Rightarrow> bool res" where
  "redundant so base sig =
     (case so_dd so of
        None \<Rightarrow> Ok False
      | Some Find \<Rightarrow> bindr (Find base sig) (\<lambda>existing. Ok (existing \<noteq> None)))"

definition signedImage_Signatures :: "v1_append \<Rightarrow> signedImage \<Rightarrow> oci_sigs option res" where
  "signedImage_Signatures App si =
     bindr (Signatures (si_SignedImage si)) (\<lambda>base.
     case si_sig si of
       None \<Rightarrow> Ok base
     | Some sig \<Rightarrow>
         bindr (redundant (si_so si) base sig) (\<lambda>r.
         if r then Ok base
         else bindr (AppendSignatures App (methods_of base) [sig]) (\<lambda>s. Ok (Some s))))"

definition signedImage_Attestations :: "v1_append \<Rightarrow> signedImage \<Rightarrow> oci_sigs option res" where
  "signedImage_Attestations App si =
     bindr (Attestations (si_SignedImage si)) (\<lambda>base.
     case si_att si of
       None \<Rightarrow> Ok base
     | Some att \<Rightarrow>
         bindr (redundant (si_so si) base att) (\<lambda>r.
         if r then Ok base
         else case so_ro (si_so si) of
           Some Replace \<Rightarrow>
             bindr (Replace base att) (\<lambda>replace.
             bindr (AppendSignatures App replace []) (\<lambda>s. Ok (Some s)))
         | None \<Rightarrow> bindr (AppendSignatures App (methods_of base) [att]) (\<lambda>s. Ok (Some s))))"

definition signedImageIndex_Attestations :: "v1_append \<Rightarrow> image \<Rightarrow> signedImage \<Rightarrow> oci_sigs option res" where
  "signedImageIndex_Attestations App emptyImage sii =
     bindr (Attestations (si_SignedImage sii)) (\<lambda>base.
     case si_att sii of
       None \<Rightarrow> Ok base
     | Some att \<Rightarrow>
         bindr (redundant (si_so sii) base att) (\<lambda>r.
         if r then Ok base
         else case so_ro (si_so sii) of
           Some Replace \<Rightarrow>
             bindr (Replace base att) (\<lambda>replace.
             bindr (ReplaceSignatures App emptyImage replace) (\<lambda>s. Ok (Some s)))
         | None \<Rightarrow> bindr (AppendSignatures App (methods_of base) [att]) (\<lambda>s. Ok (Some s))))"

definition signedImage_Attachment :: "signedImage \<Rightarrow> string \<Rightarrow> oci_file res" where
  "signedImage_Attachment si attName =
     (case mlookup (si_attachments si) attName of
        Some f \<Rightarrow> Ok f
      | None \<Rightarrow> Err (ErrorString (''attachment '' @ attName @ '' not found'')))"

definition signedImage_entity :: "v1_append \<Rightarrow> signedImage \<Rightarrow> signed_entity" where
  "signedImage_entity App si =
     \<lparr>entity_Digest = entity_Digest (si_SignedImage si), Signatures = signedImage_Signatures App si,
      Attestations = signedImage_Attestations App si, Attachment = signedImage_Attachment si\<rparr>"

text \<open>\<open>signedImageIndex\<close> has the same fields; its methods differ in the attestations.\<close>

type_synonym signedImageIndex = signedImage

definition signedImageIndex_entity :: "v1_append \<Rightarrow> image \<Rightarrow> signedImageIndex \<Rightarrow> signed_entity" where
  "signedImageIndex_entity App emptyImage sii =
     \<lparr>entity_Digest = entity_Digest (si_SignedImage sii), Signatures = signedImage_Signatures App sii,
      Attestations = signedImageIndex_Attestations App emptyImage sii, Attachment = signedImage_Attachment sii\<rparr>"

subsection \<open>Attaching\<close>

definition AttachSignatureToImage :: "signed_entity \<Rightarrow> oci_sig \<Rightarrow> SignOption list \<Rightarrow> signedImage" where
  "AttachSignatureToImage si sig opts =
     \<lparr>si_SignedImage = si, si_sig = Some sig, si_att = None, si_so = makeSignOpts opts, si_attachments = []\<rparr>"

definition AttachAttestationToImage :: "signed_entity \<Rightarrow> oci_sig \<Rightarrow> SignOption list \<Rightarrow> signedImage" where
  "AttachAttestationToImage si att opts =
     \<lparr>si_SignedImage = si, si_sig = None, si_att = Some att, si_so = makeSignOpts opts, si_attachments = []\<rparr>"

definition AttachFileToImage :: "signed_entity \<Rightarrow> string \<Rightarrow> oci_file \<Rightarrow> SignOption list \<Rightarrow> signedImage" where
  "AttachFileToImage si name f opts =
     \<lparr>si_SignedImage = si, si_sig = None, si_att = None, si_so = makeSignOpts opts, si_attachments = [(name, f)]\<rparr>"

definition AttachSignatureToImageIndex :: "signed_entity \<Rightarrow> oci_sig \<Rightarrow> SignOption list \<Rightarrow> signedImageIndex" where
  "AttachSignatureToImageIndex sii sig opts =
     \<lparr>si_SignedImage = sii, si_sig = Some sig, si_att = None, si_so = makeSignOpts opts, si_attachments = []\<rparr>"

definition AttachAttestationToImageIndex :: "signed_entity \<Rightarrow> oci_sig \<Rightarrow> SignOption list \<Rightarrow> signedImageIndex" where
  "AttachAttestationToImageIndex sii att opts =
     \<lparr>si_SignedImage = sii, si_sig = None, si_att = Some att, si_so = makeSignOpts opts, si_attachments = []\<rparr>"

definition AttachFileToImageIndex :: "signed_entity \<Rightarrow> string \<Rightarrow> oci_file \<Rightarrow> SignOption list \<Rightarrow> signedImageIndex" where
  "AttachFileToImageIndex sii name f opts =
     \<lparr>si_SignedImage = sii, si_sig = None, si_att = None, si_so = makeSignOpts opts, si_attachments = [(name, f)]\<rparr>"

text \<open>The dynamic type of an entity.\<close>

datatype entity = IsImage (entity_methods: signed_entity) | IsIndex (entity_methods: signed_entity)
  | IsOther (entity_methods: signed_entity)

definition AttachSignatureToEntity ::
  "v1_append \<Rightarrow> image \<Rightarrow> entity \<Rightarrow> oci_sig \<Rightarrow> SignOption list \<Rightarrow> entity res" where
  "AttachSignatureToEntity App emptyImage se sig opts =
     (case se of
        IsImage obj \<Rightarrow> Ok (IsImage (signedImage_entity App (AttachSignatureToImage obj sig opts)))
      | IsIndex obj \<Rightarrow> Ok (IsIndex (signedImageIndex_entity App emptyImage (AttachSignatureToImageIndex obj sig opts)))
      | IsOther _ \<Rightarrow> Err (ErrorString ''unsupported type''))"

definition AttachAttestationToEntity ::
  "v1_append \<Rightarrow> image \<Rightarrow> entity \<Rightarrow> oci_sig \<Rightarrow> SignOption list \<Rightarrow> entity res" where
  "AttachAttestationToEntity App emptyImage se att opts =
     (case se of
        IsImage obj \<Rightarrow> Ok (IsImage (signedImage_entity App (AttachAttestationToImage obj att opts)))
      | IsIndex obj \<Rightarrow> Ok (IsIndex (signedImageIndex_entity App emptyImage (AttachAttestationToImageIndex obj att opts)))
      | IsOther _ \<Rightarrow> Err (ErrorString ''unsupported type''))"

definition AttachFileToEntity ::
  "v1_append \<Rightarrow> image \<Rightarrow> entity \<Rightarrow> string \<Rightarrow> oci_file \<Rightarrow> SignOption list \<Rightarrow> entity res" where
  "AttachFileToEntity App emptyImage se name f opts =
     (case se of
        IsImage obj \<Rightarrow> Ok (IsImage (signedImage_entity App (AttachFileToImage obj name f opts)))
      | IsIndex obj \<Rightarrow> Ok (IsIndex (signedImageIndex_entity App emptyImage (AttachFileToImageIndex obj name f opts)))
      | IsOther _ \<Rightarrow> Err (ErrorString ''unsupported type''))"

subsection \<open>What is attached is stored\<close>

text \<open>
  \<open>mutate.Append\<close> as documented: the descriptors of the new layers, with their annotations, follow
  those of the base image, and a layer is found by its digest, among the new ones first.
\<close>

definition append_documented :: "v1_append \<Rightarrow> bool" where
  "append_documented App \<longleftrightarrow>
     (\<forall>img adds img'. App img adds = Ok img' \<longrightarrow>
        (\<forall>ls ds. Manifest_Layers img = Ok ls \<longrightarrow> mapr (\<lambda>a. Digest (fst a)) adds = Ok ds \<longrightarrow>
           Manifest_Layers img' =
             Ok (ls @ map2 (\<lambda>d a. \<lparr>desc_Annotations = snd a, desc_Digest = d\<rparr>) ds adds)) \<and>
        (\<forall>d. LayerByDigest img' d =
           (case find (\<lambda>a. Digest (fst a) = Ok d) (rev adds) of
              Some a \<Rightarrow> Ok (fst a) | None \<Rightarrow> LayerByDigest img d)))"

lemma append_documentedD:
  assumes "append_documented App" and "App img adds = Ok img'"
  shows "Manifest_Layers img = Ok ls \<Longrightarrow> mapr (\<lambda>a. Digest (fst a)) adds = Ok ds \<Longrightarrow>
      Manifest_Layers img' = Ok (ls @ map2 (\<lambda>d a. \<lparr>desc_Annotations = snd a, desc_Digest = d\<rparr>) ds adds)"
    and "LayerByDigest img' d =
      (case find (\<lambda>a. Digest (fst a) = Ok d) (rev adds) of Some a \<Rightarrow> Ok (fst a) | None \<Rightarrow> LayerByDigest img d)"
  using assms(1) [unfolded append_documented_def, rule_format, OF assms(2)] by blast+

text \<open>
  A list of signatures agrees with the image that would be written for it: reading the image
  gives signatures of the same content, in the same order.
\<close>

definition reads_as :: "libs \<Rightarrow> image \<Rightarrow> oci_sig list \<Rightarrow> bool" where
  "reads_as L img sigs \<longleftrightarrow> (\<exists>ts. sigs_Get L img = Ok (Some ts) \<and> list_all2 same_content ts sigs)"

definition stored_as :: "libs \<Rightarrow> oci_sigs \<Rightarrow> bool" where
  "stored_as L s \<longleftrightarrow> (\<exists>g. Get s = Ok g \<and> reads_as L (image.truncate s) (nil_list g))"

text \<open>Blobs are addressed by content: those of one digest have the same bytes.\<close>

definition one_blob_each :: "image \<Rightarrow> oci_sig list \<Rightarrow> bool" where
  "one_blob_each img sigs \<longleftrightarrow>
     (\<forall>s \<in> set sigs. \<forall>t \<in> set sigs. Digest s = Digest t \<longrightarrow> Compressed s = Compressed t) \<and>
     (\<forall>s \<in> set sigs. \<forall>d l. Digest s = Ok d \<longrightarrow> LayerByDigest img d = Ok l \<longrightarrow> Compressed l = Compressed s)"

definition storable :: "libs \<Rightarrow> oci_sig \<Rightarrow> bool" where
  "storable L s \<longleftrightarrow> (\<exists>d. Digest s = Ok d \<and> faithful L d s)"

lemma one_blob_eachD:
  assumes "one_blob_each img sigs" and "s \<in> set sigs" and "Digest s = Ok d"
  shows "t \<in> set sigs \<Longrightarrow> Digest t = Ok d \<Longrightarrow> Compressed t = Compressed s"
    and "LayerByDigest img d = Ok l \<Longrightarrow> Compressed l = Compressed s"
  using assms unfolding one_blob_each_def by metis+

lemma same_content_trans: "same_content a b \<Longrightarrow> same_content b c \<Longrightarrow> same_content a c"
  by (simp add: same_content_def)

lemma signature_New_content:
  "Compressed l = Compressed l' \<Longrightarrow> same_content (signature_New L l d) (signature_New L l' d)"
  by (simp add: same_content_def signature_New_def Let_def sigLayer_Payload_def
      sigLayer_Base64Signature_def sigLayer_Cert_def sigLayer_Chain_def sigLayer_Bundle_def split: option.splits)

lemma sigs_Get_iff:
  "sigs_Get L img = Ok (Some ts) \<longleftrightarrow>
     (\<exists>ls. Manifest_Layers img = Ok ls \<and>
        list_all2 (\<lambda>d t. \<exists>l. LayerByDigest img (desc_Digest d) = Ok l \<and> signature_New L l d = t) ls ts)"
  by (auto simp: sigs_Get_def bindr_Ok_iff mapr_Ok_iff)

text \<open>It is enough to find, for each descriptor, a layer that gives the wanted content.\<close>

lemma reads_asI:
  assumes "Manifest_Layers img = Ok ls"
    and "list_all2 (\<lambda>d s. \<exists>l. LayerByDigest img (desc_Digest d) = Ok l \<and> same_content (signature_New L l d) s) ls sigs"
  shows "reads_as L img sigs"
proof -
  let ?t = "\<lambda>d. signature_New L (case LayerByDigest img (desc_Digest d) of Ok l \<Rightarrow> l) d"
  have "sigs_Get L img = Ok (Some (map ?t ls))"
    using assms by (auto simp: sigs_Get_iff list_all2_conv_all_nth)
  moreover have "list_all2 same_content (map ?t ls) sigs"
    using assms(2) by (auto simp: list_all2_conv_all_nth)
  ultimately show ?thesis
    by (auto simp: reads_as_def)
qed

lemma addenda_nth:
  assumes "addenda sigs = Ok adds"
  shows "length adds = length sigs"
    and "i < length sigs \<Longrightarrow> \<exists>ann. Annotations (sigs ! i) = Ok ann \<and> adds ! i = (layer.truncate (sigs ! i), ann)"
  using assms by (auto simp: addenda_def mapr_Ok_iff list_all2_conv_all_nth bindr_Ok_iff)

lemma digest_truncate [simp]: "Digest (layer.truncate s) = Digest s" "Compressed (layer.truncate s) = Compressed s"
  "Uncompressed (layer.truncate s) = Uncompressed s"
  by (simp_all add: layer.truncate_def)

lemma addenda_digests:
  assumes "addenda sigs = Ok adds" and "\<And>s. s \<in> set sigs \<Longrightarrow> storable L s"
  shows "\<exists>ds. mapr (\<lambda>a. Digest (fst a)) adds = Ok ds \<and> length ds = length sigs \<and>
    (\<forall>i < length sigs. Digest (sigs ! i) = Ok (ds ! i) \<and> faithful L (ds ! i) (sigs ! i))"
proof -
  let ?ds = "map (\<lambda>s. case Digest s of Ok d \<Rightarrow> d) sigs"
  have *: "Digest (sigs ! i) = Ok (?ds ! i) \<and> faithful L (?ds ! i) (sigs ! i)" if "i < length sigs" for i
    using assms(2) [of "sigs ! i"] that by (auto simp: storable_def)
  moreover have "mapr (\<lambda>a. Digest (fst a)) adds = Ok ?ds"
    unfolding mapr_Ok_iff
  proof (rule list_all2_all_nthI)
    show "length adds = length ?ds"
      using addenda_nth(1) [OF assms(1)] by simp
    show "Digest (fst (adds ! i)) = Ok (?ds ! i)" if "i < length adds" for i
      using addenda_nth(2) [OF assms(1), of i] * [of i] addenda_nth(1) [OF assms(1)] that by auto
  qed
  ultimately show ?thesis
    by (intro exI [of _ ?ds]) simp
qed

text \<open>A layer found among the new ones is one of the signatures.\<close>

lemma find_addendum:
  assumes "addenda sigs = Ok adds"
  shows "find (\<lambda>a. Digest (fst a) = Ok d) (rev adds) = Some a \<Longrightarrow>
      \<exists>s \<in> set sigs. fst a = layer.truncate s \<and> Digest s = Ok d"
    and "s \<in> set sigs \<Longrightarrow> Digest s = Ok d \<Longrightarrow> \<exists>a. find (\<lambda>a. Digest (fst a) = Ok d) (rev adds) = Some a"
proof -
  have in_adds: "\<exists>s \<in> set sigs. fst a = layer.truncate s" if "a \<in> set adds" for a
    using addenda_nth(1) [OF assms] addenda_nth(2) [OF assms] that by (fastforce simp: in_set_conv_nth)
  have from_sigs: "\<exists>a \<in> set adds. fst a = layer.truncate s" if s: "s \<in> set sigs" for s
  proof -
    obtain i where i: "i < length sigs" "s = sigs ! i"
      using s by (auto simp: in_set_conv_nth)
    then show ?thesis
      using addenda_nth(1) [OF assms] addenda_nth(2) [OF assms, of i] by (intro bexI [of _ "adds ! i"]) auto
  qed
  show "\<exists>s \<in> set sigs. fst a = layer.truncate s \<and> Digest s = Ok d"
    if "find (\<lambda>a. Digest (fst a) = Ok d) (rev adds) = Some a"
  proof -
    have "a \<in> set adds" "Digest (fst a) = Ok d"
      using that by (auto simp: find_Some_iff in_set_conv_nth rev_nth) (metis diff_Suc_less length_greater_0_conv length_pos_if_in_set nth_mem)
    then show ?thesis
      using in_adds by (metis digest_truncate(1))
  qed
  show "\<exists>a. find (\<lambda>a. Digest (fst a) = Ok d) (rev adds) = Some a" if "s \<in> set sigs" "Digest s = Ok d"
  proof (cases "find (\<lambda>a. Digest (fst a) = Ok d) (rev adds)")
    case None
    then have "\<forall>a \<in> set adds. Digest (fst a) \<noteq> Ok d"
      by (auto simp: find_None_iff)
    then show ?thesis
      using from_sigs [OF that(1)] that(2) by (metis digest_truncate(1))
  qed simp
qed

lemma Append_layer:
  assumes App: "append_documented App" and adds: "addenda sigs = Ok adds" and img': "App img adds = Ok img'"
    and blobs: "one_blob_each img sigs"
  shows "LayerByDigest img d = Ok l \<Longrightarrow> \<exists>l'. LayerByDigest img' d = Ok l' \<and> Compressed l' = Compressed l"
    and "s \<in> set sigs \<Longrightarrow> Digest s = Ok d \<Longrightarrow> \<exists>l'. LayerByDigest img' d = Ok l' \<and> Compressed l' = Compressed s"
proof -
  have layer: "LayerByDigest img' d = (case find (\<lambda>a. Digest (fst a) = Ok d) (rev adds) of
      Some a \<Rightarrow> Ok (fst a) | None \<Rightarrow> LayerByDigest img d)"
    by (rule append_documentedD(2) [OF App img'])
  have new: "\<exists>s \<in> set sigs. LayerByDigest img' d = Ok (layer.truncate s) \<and> Digest s = Ok d"
    if "find (\<lambda>a. Digest (fst a) = Ok d) (rev adds) = Some a" for a
    using find_addendum(1) [OF adds that] that by (auto simp: layer)
  show "\<exists>l'. LayerByDigest img' d = Ok l' \<and> Compressed l' = Compressed l" if "LayerByDigest img d = Ok l"
  proof (cases "find (\<lambda>a. Digest (fst a) = Ok d) (rev adds)")
    case (Some a)
    then obtain s where "s \<in> set sigs" "LayerByDigest img' d = Ok (layer.truncate s)" "Digest s = Ok d"
      using new by blast
    then show ?thesis
      using one_blob_eachD(2) [OF blobs _ _ that] by simp
  qed (simp add: layer that)
  show "\<exists>l'. LayerByDigest img' d = Ok l' \<and> Compressed l' = Compressed s" if s: "s \<in> set sigs" "Digest s = Ok d"
  proof -
    obtain t where "t \<in> set sigs" "LayerByDigest img' d = Ok (layer.truncate t)" "Digest t = Ok d"
      using find_addendum(2) [OF adds s] new by blast
    moreover have "Compressed t = Compressed s"
      using calculation by (intro one_blob_eachD(1) [OF blobs s])
    ultimately show ?thesis
      by simp
  qed
qed

lemma Append_reads:
  assumes App: "append_documented App" and adds: "addenda sigs = Ok adds" and img': "App img adds = Ok img'"
    and reads: "reads_as L img old" and ok: "\<And>s. s \<in> set sigs \<Longrightarrow> storable L s"
    and blobs: "one_blob_each img sigs"
  shows "reads_as L img' (old @ sigs)"
proof -
  obtain ls ts where ls: "Manifest_Layers img = Ok ls" and old: "list_all2 same_content ts old"
    "list_all2 (\<lambda>d t. \<exists>l. LayerByDigest img (desc_Digest d) = Ok l \<and> signature_New L l d = t) ls ts"
    using reads by (auto simp: reads_as_def sigs_Get_iff)
  obtain ds where ds: "mapr (\<lambda>a. Digest (fst a)) adds = Ok ds" "length ds = length sigs"
    "\<And>i. i < length sigs \<Longrightarrow> Digest (sigs ! i) = Ok (ds ! i) \<and> faithful L (ds ! i) (sigs ! i)"
    using addenda_digests [OF adds ok] by blast
  let ?new = "map2 (\<lambda>d a. \<lparr>desc_Annotations = snd a, desc_Digest = d\<rparr>) ds adds"
  note layer = Append_layer [OF App adds img' blobs]
  have "Manifest_Layers img' = Ok (ls @ ?new)"
    by (rule append_documentedD(1) [OF App img' ls ds(1)])
  moreover have "list_all2 (\<lambda>d s. \<exists>l. LayerByDigest img' (desc_Digest d) = Ok l \<and> same_content (signature_New L l d) s) ls old"
  proof (rule list_all2_trans [OF _ old(2,1)])
    fix d t s assume "\<exists>l. LayerByDigest img (desc_Digest d) = Ok l \<and> signature_New L l d = t" and ts: "same_content t s"
    then obtain l where l: "LayerByDigest img (desc_Digest d) = Ok l" "signature_New L l d = t"
      by blast
    obtain l' where l': "LayerByDigest img' (desc_Digest d) = Ok l'" "Compressed l' = Compressed l"
      using layer(1) [OF l(1)] by blast
    have "same_content (signature_New L l' d) s"
      using same_content_trans [OF signature_New_content [OF l'(2)]] l(2) ts by blast
    then show "\<exists>l. LayerByDigest img' (desc_Digest d) = Ok l \<and> same_content (signature_New L l d) s"
      using l'(1) by blast
  qed
  moreover have "list_all2 (\<lambda>d s. \<exists>l. LayerByDigest img' (desc_Digest d) = Ok l \<and> same_content (signature_New L l d) s) ?new sigs"
  proof (rule list_all2_all_nthI)
    show len: "length ?new = length sigs"
      using addenda_nth(1) [OF adds] ds(2) by simp
    fix i assume "i < length ?new"
    then have i: "i < length sigs"
      by (simp only: len)
    obtain ann where ann: "Annotations (sigs ! i) = Ok ann" "adds ! i = (layer.truncate (sigs ! i), ann)"
      using addenda_nth(2) [OF adds i] by blast
    let ?d = "\<lparr>desc_Annotations = ann, desc_Digest = ds ! i\<rparr>"
    have new: "?new ! i = ?d"
      using i ann ds(2) addenda_nth(1) [OF adds] by simp
    have same: "same_content (signature_New L (layer.truncate (sigs ! i)) ?d) (sigs ! i)"
      using ds(3) [OF i] ann by (auto simp: faithful_def reread_def)
    obtain l' where l': "LayerByDigest img' (ds ! i) = Ok l'" "Compressed l' = Compressed (layer.truncate (sigs ! i))"
      using layer(2) [OF nth_mem [OF i], of "ds ! i"] ds(3) [OF i] by auto
    have "same_content (signature_New L l' ?d) (sigs ! i)"
      by (rule same_content_trans [OF signature_New_content [OF l'(2)] same])
    then show "\<exists>l. LayerByDigest img' (desc_Digest (?new ! i)) = Ok l \<and> same_content (signature_New L l (?new ! i)) (sigs ! i)"
      using l'(1) unfolding new by auto
  qed
  ultimately show ?thesis
    by (intro reads_asI [of _ "ls @ ?new"] list_all2_appendI)
qed

lemma truncate_sigAppender [simp]: "image.truncate (sigAppender img base sigs) = img"
  by (simp add: sigAppender_def image.truncate_def)

lemma truncate_Get [simp]: "image.truncate (s\<lparr>Get := g\<rparr>) = image.truncate s"
  by (simp add: image.truncate_def)

text \<open>Attached signatures are stored. If a list of signatures agrees with its image, then so does the
  list after \<open>AppendSignatures\<close> with signatures that read back from their annotations: the image
  to be written reads as the old signatures followed by the new ones, and \<open>Get\<close> returns the same.\<close>

theorem AppendSignatures_stored:
  assumes App: "append_documented App" and s': "AppendSignatures App base sigs = Ok s'"
    and base: "stored_as L base" and "\<forall>s \<in> set sigs. storable L s"
    and "one_blob_each (image.truncate base) sigs"
  shows "stored_as L s' \<and> (\<exists>g. Get base = Ok g \<and> Get s' = Ok (append_slice g sigs))"
proof -
  obtain adds img where img: "addenda sigs = Ok adds" "App (image.truncate base) adds = Ok img" "s' = sigAppender img base sigs"
    using s' by (auto simp: AppendSignatures_def bindr_Ok_iff)
  obtain g where g: "Get base = Ok g" "reads_as L (image.truncate base) (nil_list g)"
    using base by (auto simp: stored_as_def)
  have "reads_as L img (nil_list g @ sigs)"
    using Append_reads [OF App img(1,2) g(2)] assms(4,5) by blast
  moreover have "Get s' = Ok (append_slice g sigs)" "image.truncate s' = img"
    using img(3) g(1) by (simp_all add: sigAppender_def image.truncate_def)
  ultimately show ?thesis
    using g(1) by (simp add: stored_as_def)
qed

lemma replace_loop_Ok_iff:
  "replace_loop L uri sigs = Ok kept \<longleftrightarrow>
     (\<forall>s \<in> set sigs. is_ok (predicate_of L s)) \<and> kept = filter (\<lambda>s. predicate_of L s \<noteq> Ok (IStr uri)) sigs"
  by (induction sigs arbitrary: kept) (auto simp: bindr_Ok_iff is_ok_iff)

lemma ro_Replace_Ok_iff:
  "ro_Replace L uri (Some s) o' = Ok r \<longleftrightarrow>
     (\<exists>g. Get s = Ok g \<and> (\<forall>x \<in> set (nil_list g). is_ok (predicate_of L x)) \<and>
        r = s\<lparr>Get := Ok (Some (o' # filter (\<lambda>x. predicate_of L x \<noteq> Ok (IStr uri)) (nil_list g)))\<rparr>)"
  by (auto simp: ro_Replace_def methods_of_def bindr_Ok_iff replace_loop_Ok_iff)

lemma makeSignOpts_replace [simp]:
  "so_dd (makeSignOpts [WithReplaceOp r]) = None" "so_ro (makeSignOpts [WithReplaceOp r]) = Some r"
  by (simp_all add: makeSignOpts_def)

text \<open>Replacing an attestation of an index works on the image that is written: it holds the new
  attestation and then those of other predicate types, in their order, if these all read back. In
  memory, however, \<open>Get\<close> returns that list twice over.\<close>

theorem replace_on_index:
  assumes App: "append_documented App" and empty: "Manifest_Layers emptyImage = Ok []"
    and base: "Attestations se = Ok (Some s)" "Get s = Ok g"
    and r: "signedImageIndex_Attestations App emptyImage
              (AttachAttestationToImageIndex se att [WithReplaceOp (ro_Replace L uri)]) = Ok (Some r)"
    and kept: "kept = att # filter (\<lambda>x. predicate_of L x \<noteq> Ok (IStr uri)) (nil_list g)"
    and "\<forall>s \<in> set kept. storable L s" and "one_blob_each emptyImage kept"
  shows "reads_as L (image.truncate r) kept \<and> Get r = Ok (Some (kept @ kept))"
proof -
  have "bindr (ro_Replace L uri (Some s) att) (ReplaceSignatures App emptyImage) = Ok r"
    using r base by (auto simp: signedImageIndex_Attestations_def AttachAttestationToImageIndex_def redundant_def res_simps)
  then have "ReplaceSignatures App emptyImage (s\<lparr>Get := Ok (Some kept)\<rparr>) = Ok r"
    using base(2) by (auto simp: bindr_Ok_iff ro_Replace_Ok_iff kept)
  then obtain adds img where img: "addenda kept = Ok adds" "App emptyImage adds = Ok img"
    "r = sigAppender img (s\<lparr>Get := Ok (Some kept)\<rparr>) kept"
    by (auto simp: ReplaceSignatures_def bindr_Ok_iff)
  have "reads_as L emptyImage []"
    using empty by (intro reads_asI [of _ "[]"]) simp_all
  then have "reads_as L img ([] @ kept)"
    using Append_reads [OF App img(1,2)] assms(7,8) by blast
  then show ?thesis
    by (simp add: img(3)) (simp add: sigAppender_def append_slice_def)
qed

text \<open>Replacing an attestation of an image is not stored. The image that \<open>signedImage.Attestations\<close>
  gives has the descriptors and the layers of the old one, so that writing it leaves the old
  attestations in place and drops the new one, though \<open>Get\<close> returns the new list.\<close>

theorem replace_on_image_not_stored:
  assumes App: "append_documented App"
    and base: "Attestations se = Ok (Some s)" "Get s = Ok g" and reads: "reads_as L (image.truncate s) (nil_list g)"
    and r: "signedImage_Attestations App
              (AttachAttestationToImage se att [WithReplaceOp (ro_Replace L uri)]) = Ok (Some r)"
  shows "reads_as L (image.truncate r) (nil_list g) \<and>
    Get r = Ok (Some (att # filter (\<lambda>x. predicate_of L x \<noteq> Ok (IStr uri)) (nil_list g)))"
proof -
  let ?kept = "att # filter (\<lambda>x. predicate_of L x \<noteq> Ok (IStr uri)) (nil_list g)"
  have "bindr (ro_Replace L uri (Some s) att) (\<lambda>replace. AppendSignatures App replace []) = Ok r"
    using r base by (auto simp: signedImage_Attestations_def AttachAttestationToImage_def redundant_def res_simps)
  then have "AppendSignatures App (s\<lparr>Get := Ok (Some ?kept)\<rparr>) [] = Ok r"
    using base(2) by (auto simp: bindr_Ok_iff ro_Replace_Ok_iff)
  then obtain img where img: "App (image.truncate s) [] = Ok img" "r = sigAppender img (s\<lparr>Get := Ok (Some ?kept)\<rparr>) []"
    by (auto simp: AppendSignatures_def addenda_def bindr_Ok_iff)
  have "reads_as L img (nil_list g @ [])"
    using Append_reads [OF App _ img(1) reads, of "[]"] by (simp add: addenda_def one_blob_each_def)
  then show ?thesis
    by (simp add: img(2)) (simp add: sigAppender_def append_slice_def)
qed

subsection \<open>Signing twice\<close>

lemma attached_Signatures:
  "signedImage_Signatures App (AttachSignatureToImage se sig opts) =
     bindr (Signatures se) (\<lambda>base.
     bindr (redundant (makeSignOpts opts) base sig) (\<lambda>r.
     if r then Ok base else bindr (AppendSignatures App (methods_of base) [sig]) (\<lambda>s. Ok (Some s))))"
  by (simp add: signedImage_Signatures_def AttachSignatureToImage_def)

text \<open>
  The interface \<open>DupeDetector\<close>: a signature of one's own that was not found before it was appended
  is found afterwards. Attaching such a signature twice is then the same as attaching it once.
\<close>

locale dupe_detector =
  fixes Find :: DupeDetector
    and own :: "oci_sig \<Rightarrow> bool"
  assumes found_after_append:
    "own sig \<Longrightarrow> Find base sig = Ok None \<Longrightarrow> Get (methods_of base) = Ok g \<Longrightarrow>
     Get (t :: oci_sigs) = Ok (append_slice g [sig]) \<Longrightarrow> \<exists>x. Find (Some t) sig = Ok (Some x)"
begin

lemma redundant_again:
  assumes "own sig" and "redundant so base sig = Ok False" and "so_dd so = Some Find"
    and "AppendSignatures App (methods_of base) [sig] = Ok t" and "is_ok (Get (methods_of base))"
  shows "redundant so (Some t) sig = Ok True"
proof -
  obtain g where g: "Get (methods_of base) = Ok g"
    using assms(5) by (auto simp: is_ok_iff)
  have "Find base sig = Ok None"
    using assms(2,3) by (auto simp: redundant_def bindr_Ok_iff)
  moreover have "Get t = Ok (append_slice g [sig])"
    using assms(4) g by (auto simp: AppendSignatures_def bindr_Ok_iff sigAppender_def)
  ultimately show ?thesis
    using found_after_append [OF assms(1) _ g] assms(3) by (fastforce simp: redundant_def)
qed

lemma attach_twice:
  assumes "own sig" and "so_dd (makeSignOpts opts) = Some Find"
    and "\<And>base. Signatures se = Ok base \<Longrightarrow> is_ok (Get (methods_of base))"
  shows "signedImage_Signatures App (AttachSignatureToImage
           (signedImage_entity App (AttachSignatureToImage se sig opts)) sig opts) =
         signedImage_Signatures App (AttachSignatureToImage se sig opts)"
proof -
  let ?again = "\<lambda>base. bindr (redundant (makeSignOpts opts) base sig) (\<lambda>r.
     if r then Ok base else bindr (AppendSignatures App (methods_of base) [sig]) (\<lambda>s. Ok (Some s)))"
  let ?first = "signedImage_Signatures App (AttachSignatureToImage se sig opts)"
  have again: "signedImage_Signatures App (AttachSignatureToImage
      (signedImage_entity App (AttachSignatureToImage se sig opts)) sig opts) = bindr ?first ?again"
    by (subst attached_Signatures) (simp add: signedImage_entity_def)
  show ?thesis
  proof (cases ?first)
    case (Ok s1)
    obtain base r where base: "Signatures se = Ok base" and r: "redundant (makeSignOpts opts) base sig = Ok r"
      using Ok by (auto simp: attached_Signatures bindr_Ok_iff)
    have "redundant (makeSignOpts opts) s1 sig = Ok True"
    proof (cases r)
      case True
      then show ?thesis
        using Ok base r by (simp add: attached_Signatures)
    next
      case False
      then obtain t where t: "AppendSignatures App (methods_of base) [sig] = Ok t" "s1 = Some t"
        using Ok base r by (auto simp: attached_Signatures bindr_Ok_iff)
      then show ?thesis
        using redundant_again [OF assms(1) _ assms(2) t(1) assms(3) [OF base]] r False by simp
    qed
    then show ?thesis
      unfolding again Ok by simp
  qed (simp_all add: again)
qed

end

text \<open>A signature that the detector's own verifier made: it verifies, and its annotations are a map.\<close>

definition signed_by :: "verifier \<Rightarrow> oci_sig \<Rightarrow> bool" where
  "signed_by v sig \<longleftrightarrow>
     (\<exists>ann b64 raw u. is_ok (Digest sig) \<and> is_ok (MediaType sig) \<and> Annotations sig = Ok ann \<and> distinct (map fst ann) \<and>
        Base64Signature sig = Ok b64 \<and> b64 \<noteq> [] \<and> b64_decode b64 = Ok raw \<and>
        Uncompressed sig = Ok u \<and> VerifySignature v raw u = Ok ())"

lemma dd_loop_append:
  "dd_loop v n d m a xs = Ok None \<Longrightarrow> dd_loop v n d m a (xs @ ys) = dd_loop v n d m a ys"
proof (induction xs)
  case (Cons x xs)
  let ?next = "dd_loop v n d m a xs" and ?next' = "dd_loop v n d m a (xs @ ys)"
  show ?case
    using Cons
    by (simp add: Let_def handler_Ok_iff split: if_splits)
       (auto simp: bindr_Ok_iff handler_Ok_iff)
qed simp

interpretation own_dupes: dupe_detector "dd_Find v" "signed_by v" for v
proof
  fix sig base g and t :: oci_sigs
  assume own: "signed_by v sig" and none: "dd_Find v base sig = Ok None"
    and g: "Get (methods_of base) = Ok g" and t: "Get t = Ok (append_slice g [sig])"
  obtain d m ann where dma: "Digest sig = Ok d" "MediaType sig = Ok m" "Annotations sig = Ok ann"
    using own by (auto simp: signed_by_def is_ok_iff)
  have "dd_loop v sig d m ann (nil_list g) = Ok None"
    using none g dma by (simp add: dd_Find_def)
  then have "dd_Find v (Some t) sig = dd_loop v sig d m ann [sig]"
    using t dma by (simp add: dd_Find_def methods_of_def dd_loop_append)
  moreover have "list_all (\<lambda>(a, value). a = SignatureAnnotationKey \<or> mlookup ann a = Some value) ann"
    using own dma(3) by (auto simp: signed_by_def list_all_iff)
  then have "dd_loop v sig d m ann [sig] = Ok (Some sig)"
    using own dma by (auto simp: signed_by_def)
  ultimately show "\<exists>x. dd_Find v (Some t) sig = Ok (Some x)"
    by simp
qed

text \<open>C24. Signing twice with one key stores one signature. With the duplicate detector of a key,
  attaching a signature of that key to an image that already has it attached changes nothing: the
  list of signatures, or the error, is the same.\<close>

theorem attach_signature_idempotent:
  assumes "signed_by v sig" and "\<forall>base. Signatures se = Ok base \<longrightarrow> is_ok (Get (methods_of base))"
  shows "signedImage_Signatures App (AttachSignatureToImage
           (signedImage_entity App (AttachSignatureToImage se sig [WithDupeDetector (dd_Find v)])) sig
           [WithDupeDetector (dd_Find v)]) =
         signedImage_Signatures App (AttachSignatureToImage se sig [WithDupeDetector (dd_Find v)])"
  using assms by (intro own_dupes.attach_twice) (auto simp: makeSignOpts_def)

subsection \<open>Examples\<close>

definition sample_append :: v1_append where
  "sample_append img adds =
     Ok \<lparr>image_Digest = image_Digest img,
         Manifest_Layers = bindr (Manifest_Layers img) (\<lambda>ls.
           bindr (mapr (\<lambda>a. Digest (fst a)) adds) (\<lambda>ds.
           Ok (ls @ map2 (\<lambda>d a. \<lparr>desc_Annotations = snd a, desc_Digest = d\<rparr>) ds adds))),
         LayerByDigest = (\<lambda>d. case find (\<lambda>a. Digest (fst a) = Ok d) (rev adds) of
           Some a \<Rightarrow> Ok (fst a) | None \<Rightarrow> LayerByDigest img d),
         Layers = bindr (Layers img) (\<lambda>ls. Ok (ls @ map fst adds))\<rparr>"

lemma sample_append_documented: "append_documented sample_append"
  by (auto simp: append_documented_def sample_append_def)

definition sample_att :: "bytes \<Rightarrow> oci_sig" where
  "sample_att p =
     \<lparr>Digest = Ok \<lparr>Algorithm = ''sha256'', Hex = p\<rparr>, DiffID = Err (LibError ''none''), Compressed = Ok p,
      Uncompressed = Ok p, Size = Ok 0, MediaType = Ok [],
      Annotations = Ok [(SignatureAnnotationKey, b64_encode (''k'' @ p))], Payload = Ok p,
      Base64Signature = Ok (b64_encode (''k'' @ p)), Cert = Ok None, Chain = Ok [], Bundle = Ok None\<rparr>"

text \<open>Libraries for which the predicate type of an attestation is its payload.\<close>

definition sample_att_libs :: libs where
  "sample_att_libs = sample_libs\<lparr>Unmarshal_Object :=
     (\<lambda>b. Ok [(''payload'', IStr (b64_encode b)), (''predicateType'', IStr b)])\<rparr>"

lemma sample_storable: "storable L (sample_att p)"
  by (auto simp: storable_def sample_att_def sigLayer_Cert_def sigLayer_Chain_def sigLayer_Bundle_def
      mget_def Let_def intro!: faithfulI)

lemma sample_predicate [simp]: "predicate_of sample_att_libs (sample_att p) = Ok (IStr p)"
  by (simp add: predicate_of_def sample_att_libs_def sample_att_def as_string_def)

lemma sample_blobs: "one_blob_each (sample_image []) (map sample_att ps)"
  by (auto simp: one_blob_each_def sample_att_def sample_image_def)

definition sample_atts :: "bytes list \<Rightarrow> oci_sigs" where
  "sample_atts ps =
     (case addenda (map sample_att ps) of
        Ok adds \<Rightarrow> (case sample_append (sample_image []) adds of
          Ok img \<Rightarrow> sigAppender img (sigs_of sample_att_libs (sample_image [])) (map sample_att ps)))"

lemma sample_image_reads: "reads_as L (sample_image []) []"
  by (intro reads_asI [of _ "[]"]) (simp_all add: sample_image_def)

lemma sample_addenda: "\<exists>adds. addenda (map sample_att ps) = Ok adds"
  by (induction ps) (auto simp: addenda_def sample_att_def)

lemma sample_atts_stored:
  "AppendSignatures sample_append (sigs_of sample_att_libs (sample_image [])) (map sample_att ps) = Ok (sample_atts ps)"
  using sample_addenda [of ps]
  by (auto simp: AppendSignatures_def sample_atts_def sample_append_def)

lemma sample_empty_stored: "stored_as L (sigs_of L (sample_image []))"
  by (simp add: stored_as_def sigs_of_def sigs_Get_def image.truncate_def sample_image_def reads_as_def)

theorem AppendSignatures_stored_witness:
  "stored_as sample_att_libs (sample_atts [''x'', ''y''])"
  using AppendSignatures_stored [OF sample_append_documented sample_atts_stored sample_empty_stored,
      of "[''x'', ''y'']"] sample_storable sample_blobs [of "[''x'', ''y'']"]
  by auto

lemma sample_atts_reads:
  "\<exists>g. Get (sample_atts ps) = Ok g \<and> nil_list g = map sample_att ps \<and>
     reads_as sample_att_libs (image.truncate (sample_atts ps)) (nil_list g)"
proof -
  obtain adds where adds: "addenda (map sample_att ps) = Ok adds"
    using sample_addenda by blast
  obtain img where img: "sample_append (sample_image []) adds = Ok img"
    by (simp add: sample_append_def)
  have eq: "sample_atts ps = sigAppender img (sigs_of sample_att_libs (sample_image [])) (map sample_att ps)"
    by (simp add: sample_atts_def adds img)
  have "reads_as sample_att_libs img ([] @ map sample_att ps)"
    using Append_reads [OF sample_append_documented adds img sample_image_reads _ sample_blobs] sample_storable by auto
  moreover have "Get (sigs_of sample_att_libs (sample_image [])) = Ok (Some [])"
    by (simp add: sigs_of_def sigs_Get_def sample_image_def)
  then have "Get (sample_atts ps) = Ok (append_slice (Some []) (map sample_att ps))"
    unfolding eq by (simp add: sigAppender_def)
  ultimately show ?thesis
    by (simp add: eq)
qed

definition sample_att_entity :: "bytes list \<Rightarrow> signed_entity" where
  "sample_att_entity ps =
     \<lparr>entity_Digest = Ok \<lparr>Algorithm = ''sha256'', Hex = ''ab''\<rparr>, Signatures = Ok (Some (sample_atts ps)),
      Attestations = Ok (Some (sample_atts ps)), Attachment = (\<lambda>_. Err (LibError ''none''))\<rparr>"

lemma sample_kept:
  "sample_att ''x'' # filter (\<lambda>a. predicate_of sample_att_libs a \<noteq> Ok (IStr ''x'')) (map sample_att [''x'', ''y''])
     = map sample_att [''x'', ''y'']"
  by simp

theorem replace_on_index_witness:
  "\<exists>r. signedImageIndex_Attestations sample_append (sample_image []) (AttachAttestationToImageIndex
       (sample_att_entity [''x'', ''y'']) (sample_att ''x'') [WithReplaceOp (ro_Replace sample_att_libs ''x'')]) = Ok (Some r) \<and>
     reads_as sample_att_libs (image.truncate r) (map sample_att [''x'', ''y''])"
proof -
  let ?se = "sample_att_entity [''x'', ''y'']" and ?kept = "map sample_att [''x'', ''y'']"
  obtain g where g: "Get (sample_atts [''x'', ''y'']) = Ok g" "nil_list g = ?kept"
    using sample_atts_reads by blast
  have se: "Attestations ?se = Ok (Some (sample_atts [''x'', ''y'']))"
    by (simp add: sample_att_entity_def)
  have "\<exists>r. signedImageIndex_Attestations sample_append (sample_image []) (AttachAttestationToImageIndex
       ?se (sample_att ''x'') [WithReplaceOp (ro_Replace sample_att_libs ''x'')]) = Ok (Some r)"
    using sample_addenda [of "[''x'', ''y'']"] g
    by (auto simp: signedImageIndex_Attestations_def AttachAttestationToImageIndex_def se redundant_def
        ro_Replace_def methods_of_def ReplaceSignatures_def sample_append_def)
  then obtain r where r: "signedImageIndex_Attestations sample_append (sample_image []) (AttachAttestationToImageIndex
       ?se (sample_att ''x'') [WithReplaceOp (ro_Replace sample_att_libs ''x'')]) = Ok (Some r)"
    by blast
  have "reads_as sample_att_libs (image.truncate r) ?kept \<and> Get r = Ok (Some (?kept @ ?kept))"
    using sample_storable sample_blobs [of "[''x'', ''y'']"]
    by (intro replace_on_index [OF sample_append_documented _ se g(1) r]) (auto simp: g(2) sample_kept sample_image_def)
  then show ?thesis
    using r by blast
qed

theorem replace_on_image_not_stored_witness:
  "\<exists>r. signedImage_Attestations sample_append (AttachAttestationToImage
       (sample_att_entity [''y'']) (sample_att ''x'') [WithReplaceOp (ro_Replace sample_att_libs ''x'')]) = Ok (Some r) \<and>
     reads_as sample_att_libs (image.truncate r) [sample_att ''y'']"
proof -
  let ?se = "sample_att_entity [''y'']"
  obtain g where g: "Get (sample_atts [''y'']) = Ok g" "nil_list g = map sample_att [''y'']"
    "reads_as sample_att_libs (image.truncate (sample_atts [''y''])) (nil_list g)"
    using sample_atts_reads by blast
  have se: "Attestations ?se = Ok (Some (sample_atts [''y'']))"
    by (simp add: sample_att_entity_def)
  have "\<exists>r. signedImage_Attestations sample_append (AttachAttestationToImage
       ?se (sample_att ''x'') [WithReplaceOp (ro_Replace sample_att_libs ''x'')]) = Ok (Some r)"
    using g(1,2)
    by (auto simp: signedImage_Attestations_def AttachAttestationToImage_def se redundant_def
        ro_Replace_def methods_of_def AppendSignatures_def addenda_def sample_append_def)
  then obtain r where r: "signedImage_Attestations sample_append (AttachAttestationToImage
       ?se (sample_att ''x'') [WithReplaceOp (ro_Replace sample_att_libs ''x'')]) = Ok (Some r)"
    by blast
  then show ?thesis
    using replace_on_image_not_stored [OF sample_append_documented se g(1,3) r] g(2) by auto
qed

theorem attach_signature_idempotent_witness:
  "signed_by (sample_verifier (ECDSAKey ''k'')) (sample_att ''x'') \<and>
   signedImage_Signatures sample_append (AttachSignatureToImage (signedImage_entity sample_append
     (AttachSignatureToImage (sample_att_entity [''y'']) (sample_att ''x'') [WithDupeDetector (dd_Find (sample_verifier (ECDSAKey ''k'')))]))
     (sample_att ''x'') [WithDupeDetector (dd_Find (sample_verifier (ECDSAKey ''k'')))]) =
   signedImage_Signatures sample_append
     (AttachSignatureToImage (sample_att_entity [''y'']) (sample_att ''x'') [WithDupeDetector (dd_Find (sample_verifier (ECDSAKey ''k'')))])"
proof -
  have "signed_by (sample_verifier (ECDSAKey ''k'')) (sample_att ''x'')"
    by (simp add: signed_by_def sample_att_def sample_verifier_def) (simp add: b64_encode.simps)
  moreover have "\<forall>base. Signatures (sample_att_entity [''y'']) = Ok base \<longrightarrow> is_ok (Get (methods_of base))"
    using sample_atts_reads [of "[''y'']"] by (auto simp: sample_att_entity_def methods_of_def)
  ultimately show ?thesis
    using attach_signature_idempotent by blast
qed

end
