(* ===== verification/Sign_Verify.thy ===== *)
theory Sign_Verify
  imports Verify OCI_Mutate
begin

section \<open>From signing to verification\<close>

text \<open>
  The components together: a signature is attached to an entity, the entity's signatures are
  written to the registry, and the image is verified from there.
\<close>

subsection \<open>Verification looks at the content only\<close>

definition reads_content :: "CheckOpts \<Rightarrow> bool" where
  "reads_content co \<longleftrightarrow>
     (\<forall>cv s t h a. ClaimVerifier co = Some cv \<longrightarrow> same_content s t \<longrightarrow> cv s h a = cv t h a)"

lemma reads_content_simps:
  "ClaimVerifier co = None \<Longrightarrow> reads_content co"
  "ClaimVerifier co = Some (SimpleClaimVerifier L) \<Longrightarrow> reads_content co"
  "ClaimVerifier co = Some (IntotoSubjectClaimVerifier L) \<Longrightarrow> reads_content co"
  by (auto simp: reads_content_def same_content_def SimpleClaimVerifier_def IntotoSubjectClaimVerifier_def)

lemma same_content_sym: "same_content s t \<Longrightarrow> same_content t s"
  by (simp add: same_content_def)

lemma VerifyBundle_content:
  assumes "same_content s t"
  shows "VerifyBundle L H s = VerifyBundle L H t"
proof -
  have eqs: "Payload s = Payload t" "Base64Signature s = Base64Signature t" "Cert s = Cert t" "Bundle s = Bundle t"
    using assms by (simp_all add: same_content_def)
  show ?thesis
    unfolding VerifyBundle_def compareSigs_def eqs ..
qed

lemma check_transparency_content:
  assumes "same_content s t"
  shows "check_transparency L H co s = check_transparency L H co t"
proof -
  have pub: "tlogValidatePublicKey L C pub s = tlogValidatePublicKey L C pub t" for C pub
    using assms by (simp add: same_content_def tlogValidatePublicKey_def)
  have cert: "tlogValidateCertificate L H C s = tlogValidateCertificate L H C t" for C
    using assms by (simp add: same_content_def tlogValidateCertificate_def)
  show ?thesis
    unfolding check_transparency_def VerifyBundle_content [OF assms] pub cert ..
qed

lemma VerifyImageSignature_content:
  assumes "same_content s t" and "reads_content co"
  shows "fst (VerifyImageSignature L H s h co) = fst (VerifyImageSignature L H t h co)"
proof -
  have "find_verifier L H m s co = find_verifier L H m t co" for m
  proof -
    have eqs: "Cert s = Cert t" "Chain s = Chain t"
      using assms(1) by (simp_all add: same_content_def)
    show ?thesis
      unfolding find_verifier_def eqs ..
  qed
  moreover have "verifyOCISignature v s = verifyOCISignature v t" for v
    using assms(1) by (simp add: verifyOCISignature_def same_content_def)
  moreover obtain p where p: "snd (find_verifier L H ''no certificate found on signature'' t co) = co\<lparr>IntermediateCerts := p\<rparr>"
    using find_verifier_frame by blast
  moreover have "check_claims co s h = check_claims co t h"
    using assms by (auto simp: check_claims_def reads_content_def split: option.splits)
  ultimately show ?thesis
    using check_transparency_content [OF assms(1)]
    by (simp add: VerifyImageSignature_def split_beta check_claims_frame check_transparency_frame)
qed

lemma accepted_content:
  assumes "same_content s t" and "reads_content co"
  shows "accepted L H verifyOCISignature co h s \<longleftrightarrow> accepted L H verifyOCISignature co h t"
  using VerifyImageSignature_content [OF assms, of L H h]
  by (simp add: verify_one_eqs flip: verify_one_is_ok_iff [where m = "''no certificate found on signature''"])

subsection \<open>Sign, publish, verify\<close>

lemma verifySignatures_stored:
  assumes reads: "reads_as L img sigs" and content: "reads_content co"
    and no_panic: "\<forall>x \<in> set sigs. \<forall>p. fst (VerifyImageSignature L H x h co) \<noteq> Panic p"
    and sig: "sig \<in> set sigs" "accepted L H verifyOCISignature co h sig"
  shows "\<exists>checked bv. fst (verifySignatures L H (Some (sigs_of L img)) h co) = Ok (checked, bv) \<and>
    (\<exists>sig' \<in> set checked. same_content sig' sig)"
proof -
  obtain ts where ts: "sigs_Get L img = Ok (Some ts)" "list_all2 same_content ts sigs"
    using reads by (auto simp: reads_as_def)
  have no_panic': "fst (VerifyImageSignature L H x h co) \<noteq> Panic p" if "x \<in> set ts" for x p
    using ts(2) that no_panic VerifyImageSignature_content [OF _ content]
    by (metis in_set_conv_nth list_all2_conv_all_nth)
  obtain sig' where sig': "sig' \<in> set ts" "same_content sig' sig"
    using ts(2) sig(1) by (metis in_set_conv_nth list_all2_conv_all_nth)
  have acc: "accepted L H verifyOCISignature co h sig'"
    using accepted_content [OF sig'(2) content] sig(2) by blast
  let ?checked = "filter (accepted L H verifyOCISignature co h) ts"
  have "sig' \<in> set ?checked"
    using sig'(1) acc by simp
  then have "checks_to L H verifyOCISignature co h ts
      (?checked, \<exists>s \<in> set ?checked. VerifyBundle L H s = Ok True)"
    by (auto simp: checks_to_def filter_empty_conv)
  then have "fst (verifySignatures L H (Some (sigs_of L img)) h co) =
      Ok (?checked, \<exists>s \<in> set ?checked. VerifyBundle L H s = Ok True)"
    using no_panic' by (auto simp: verifySignatures_Ok_iff sigs_of_def ts(1))
  then show ?thesis
    using \<open>sig' \<in> set ?checked\<close> sig'(2) by blast
qed

text \<open>C3. A signed image verifies. Take an entity whose signatures are as stored, attach a signature
  that reads back from its annotations and that is acceptable under some options, write the
  signatures to the registry: then, as long as the check of no other signature panics, verifying a
  reference to that entity under these options succeeds and returns the new signature.\<close>

theorem sign_publish_verify:
  assumes App: "append_documented App" and W: "write_stores W"
    and se: "Signatures se = Ok (Some s)" "entity_Digest se = Ok h" and s: "stored_as L s" "Get s = Ok g"
    and sig: "storable L sig" "one_blob_each (image.truncate s) [sig]"
    and wr: "WriteSignatures W R (Context ref)
               (signedImage_entity App (AttachSignatureToImage se sig [])) (RegistryClientOpts co) = Ok R'"
    and got: "getSignedEntity L R' ref (RegistryClientOpts co) = Ok (se', h)"
    and co: "SignatureRef co = []" "RootCerts co \<noteq> None \<or> SigVerifier co \<noteq> None" "reads_content co"
    and acc: "accepted L H verifyOCISignature co h sig"
    and no_panic: "\<forall>x \<in> set (nil_list g). \<forall>p. fst (VerifyImageSignature L H x h co) \<noteq> Panic p"
  shows "\<exists>checked bv. fst (VerifyImageSignatures L H R' ref co) = Ok (checked, bv) \<and>
    (\<exists>sig' \<in> set checked. same_content sig' sig)"
proof -
  let ?se1 = "signedImage_entity App (AttachSignatureToImage se sig [])"
  have sgs: "Signatures ?se1 = bindr (AppendSignatures App s [sig]) (\<lambda>s. Ok (Some s))"
    using se(1) by (simp add: signedImage_entity_def attached_Signatures redundant_def makeSignOpts_def methods_of_def)
  obtain s1 where s1: "AppendSignatures App s [sig] = Ok s1" "Signatures ?se1 = Ok (Some s1)"
    using wr sgs by (auto simp: WriteSignatures_def Let_def res_simps)
  have d: "entity_Digest ?se1 = Ok h"
    using se(2) by (simp add: signedImage_entity_def AttachSignatureToImage_def)
  obtain adds img where img: "addenda [sig] = Ok adds" "App (image.truncate s) adds = Ok img" "image.truncate s1 = img"
    using s1(1) by (auto simp: AppendSignatures_def bindr_Ok_iff)
  have "reads_as L (image.truncate s) (nil_list g)"
    using s by (auto simp: stored_as_def)
  then have reads: "reads_as L (image.truncate s1) (nil_list g @ [sig])"
    using Append_reads [OF App img(1,2)] sig img(3) by auto
  have sig_ok: "fst (VerifyImageSignature L H sig h co) \<noteq> Panic p" for p
    using acc by (auto simp: verify_one_eqs simp flip: verify_one_is_ok_iff [where m = "''no certificate found on signature''"])
  have "\<exists>checked bv. fst (verifySignatures L H (Some (sigs_of L (image.truncate s1))) h co) = Ok (checked, bv) \<and>
    (\<exists>sig' \<in> set checked. same_content sig' sig)"
    by (rule verifySignatures_stored [OF reads co(3)]) (use no_panic sig_ok acc in auto)
  then show ?thesis
    using written_verdict [OF W wr s1(2) d got co(1,2)] by simp
qed

theorem sign_publish_verify_witness:
  "\<exists>R' checked bv. fst (VerifyImageSignatures sample_libs sample_host R' (Tag ''repo'' ''v1'') sample_key_opts)
     = Ok (checked, bv) \<and> (\<exists>sig' \<in> set checked. same_content sig' (sample_att ''x''))"
proof -
  let ?ref = "Tag ''repo'' ''v1''" and ?h = "\<lparr>Algorithm = ''sha256'', Hex = ''ab''\<rparr>"
  let ?s = "sigs_of sample_libs (sample_image [])"
  let ?se = "remote_image sample_libs sample_registry (sample_image []) (remote_makeOptions ''repo'' []) \<lparr>Signatures := Ok (Some ?s)\<rparr>"
  let ?sig = "sample_att ''x''"
  have h: "image_Digest (sample_image []) = Ok ?h" and g: "Get ?s = Ok (Some [])"
    by (simp_all add: sample_image_def sigs_of_def sigs_Get_def)
  have d: "entity_Digest ?se = Ok ?h"
    by (simp add: remote_image_def entity_of_def h)
  have blobs: "one_blob_each (image.truncate ?s) [?sig]"
    using sample_blobs [of "[''x'']"] by simp
  obtain adds where adds: "addenda [?sig] = Ok adds"
    using sample_addenda [of "[''x'']"] by auto
  have sgs: "\<exists>s1. Signatures (signedImage_entity sample_append (AttachSignatureToImage ?se ?sig [])) = Ok (Some s1)"
    using adds by (simp add: signedImage_entity_def attached_Signatures redundant_def makeSignOpts_def methods_of_def
        AppendSignatures_def sample_append_def)
  have d1: "entity_Digest (signedImage_entity sample_append (AttachSignatureToImage ?se ?sig [])) = Ok ?h"
    using d by (simp add: signedImage_entity_def AttachSignatureToImage_def)
  obtain R' where wr: "WriteSignatures sample_write sample_registry ''repo''
      (signedImage_entity sample_append (AttachSignatureToImage ?se ?sig [])) [] = Ok R'"
    and R': "remoteGet R' = remoteGet sample_registry"
    using sgs d1 by (auto simp: WriteSignatures_def sample_write_def Let_def)
  have "\<exists>se'. getSignedEntity sample_libs R' ?ref [] = Ok (se', ?h)"
    by (simp add: getSignedEntity_def SignedEntity_def R' Let_def remote_image_def entity_of_def)
       (simp add: sample_registry_def index_media_types_def image_media_types_def remote_image_def entity_of_def h)
  then obtain se' where got: "getSignedEntity sample_libs R' ?ref [] = Ok (se', ?h)"
    by blast
  have "VerifyBundle sample_libs sample_host ?sig = Ok False"
    by (simp add: VerifyBundle_def sample_att_def)
  moreover have "verifyOCISignature (sample_verifier (ECDSAKey ''k'')) ?sig = Ok ()"
    by (simp add: verifyOCISignature_def sample_att_def sample_verifier_def)
  ultimately have acc: "accepted sample_libs sample_host verifyOCISignature sample_key_opts ?h ?sig"
    by (simp add: accepted_def verifier_for_def transparent_def)
  have "\<exists>checked bv. fst (VerifyImageSignatures sample_libs sample_host R' ?ref sample_key_opts)
     = Ok (checked, bv) \<and> (\<exists>sig' \<in> set checked. same_content sig' ?sig)"
    using wr got acc
    by (intro sign_publish_verify [OF sample_append_documented sample_write_stores _ d sample_empty_stored g
          sample_storable blobs, where R = sample_registry]) (auto intro: reads_content_simps(1))
  then show ?thesis by blast
qed

end
