(* ===== verification/Signing.thy ===== *)
theory Signing
  imports Verify_CLI Sign_Verify
begin

section \<open>Signing\<close>

text \<open>
  \<open>cosign sign\<close> and \<open>cosign sign-blob\<close> (\<open>cmd/cosign/cli/sign\<close>): the choice of the signer, the signers of
  \<open>internal/pkg/cosign\<close> (payload, Fulcio, Rekor), the keyless signer of \<open>cmd/cosign/cli/fulcio\<close>, the walk
  over an image index (\<open>pkg/oci/walk\<close>, \<open>pkg/oci/mutate/map.go\<close>), and the publication of the signature.
  The state has the files that were written and the registry. Tokens, the OIDC flow and the Fulcio
  server are parameters.
\<close>

subsection \<open>Types\<close>

record KeyOpts =
  ko_Sk :: bool
  ko_Slot :: string
  ko_KeyRef :: string
  ko_FulcioURL :: string
  ko_RekorURL :: string
  ko_IDToken :: string
  ko_PassFunc :: pass_func
  ko_OIDC :: "string list"
  ko_BundlePath :: string
  ko_InsecureSkipFulcioVerify :: bool

record cert_response =
  CertPEM :: "bytes option"
  ChainPEM :: "bytes option"
  resp_SCT :: bytes

record local_signed_payload =
  lsp_Base64Signature :: string
  lsp_Cert :: string
  lsp_Bundle :: "rekor_bundle option"

record 'c sign_lib =
  cli :: "'c cli_lib"
  v1_Append :: v1_append
  remote_Write :: remote_write
  piv_SignerVerifier :: "string \<Rightarrow> signer_verifier res"
  piv_Certificate :: "string \<Rightarrow> certificate res"
  EqualKeys :: "pubkey \<Rightarrow> pubkey \<Rightarrow> unit res"
  x509_ParseCertificate :: "bytes \<Rightarrow> certificate res"
  url_Parse :: "string \<Rightarrow> string res"
  providers_Enabled :: bool
  providers_Provide :: "string \<Rightarrow> string res"
  stdin_IsTerminal :: bool
  OIDConnect :: "string \<Rightarrow> string \<Rightarrow> string list \<Rightarrow> (string \<times> string) res"
  ecdsa_SignASN1 :: "privkey \<Rightarrow> bytes \<Rightarrow> bytes res"
  SigningCert :: "string \<Rightarrow> bytes \<Rightarrow> bytes \<Rightarrow> string \<Rightarrow> cert_response res"
  Scanln :: "string res"
  Marshal_Cosign :: "reference \<Rightarrow> (string, iface) gomap option \<Rightarrow> bytes res"
  Marshal_LocalSignedPayload :: "local_signed_payload \<Rightarrow> bytes res"
  Unmarshal_LocalSignedPayload :: "bytes \<Rightarrow> local_signed_payload option res"

record sign_state =
  st_files :: "string \<rightharpoonup> bytes"
  st_registry :: registry

definition st_WriteFile :: "'c sign_lib \<Rightarrow> string \<Rightarrow> bytes \<Rightarrow> (sign_state, unit) stm" where
  "st_WriteFile S p b s =
     (case fs_WriteFile_err (key_api (cli S)) p of
        Some e \<Rightarrow> (Err e, s)
      | None \<Rightarrow> (Ok (), s\<lparr>st_files := (st_files s)(p \<mapsto> b)\<rparr>))"

definition wrapS :: "string \<Rightarrow> ('s, 'a) stm \<Rightarrow> ('s, 'a) stm" where
  "wrapS msg m = handleS m (\<lambda>e. failS (Wrapped e msg)) retS"

subsection \<open>Walking over an entity\<close>

text \<open>
  What \<open>ociremote.SignedEntity\<close> found. Signatures are read when they are asked for, so the methods of
  the entity are those over the registry of that moment.
\<close>

datatype remote_entity = RemoteImage image | RemoteIndex v1_index

definition remote_Digest :: "remote_entity \<Rightarrow> hash res" where
  "remote_Digest e = (case e of RemoteImage i \<Rightarrow> image_Digest i | RemoteIndex ii \<Rightarrow> index_Digest ii)"

definition entity_at :: "libs \<Rightarrow> registry \<Rightarrow> remote_options \<Rightarrow> remote_entity \<Rightarrow> entity" where
  "entity_at L R o' e =
     (case e of
        RemoteImage i \<Rightarrow> IsImage (remote_image L R i o')
      | RemoteIndex ii \<Rightarrow> IsIndex (remote_index L R ii o'))"

definition find_entity :: "registry \<Rightarrow> reference \<Rightarrow> remote_option list \<Rightarrow> remote_entity res" where
  "find_entity R ref opts =
     (let o' = remote_makeOptions (Context ref) opts
      in handler (remoteGet R (ROpt o') ref)
           (\<lambda>err. if as_transport err = Some 404 then Err (ErrorString ''entity not found in registry'') else Err err)
           (\<lambda>g. if got_MediaType g \<in> set index_media_types
                then bindr (got_ImageIndex g) (\<lambda>ii. Ok (RemoteIndex ii))
                else if got_MediaType g \<in> set image_media_types
                then bindr (got_Image g) (\<lambda>i. Ok (RemoteImage i))
                else Err (ErrorString (''unknown mime type: '' @ got_MediaType g))))"

definition ErrSkipChildren :: gerror where
  "ErrSkipChildren = ErrorString ''skip child entities''"

text \<open>
  \<open>mutate.Map\<close> with a callback that returns its entity, as \<open>walk.SignedEntity\<close> passes it: the children never
  change, so that no index is built. The callback gives true where the Go function returns the value
  \<open>ErrSkipChildren\<close>, which no other function returns. On an index, or on the entity given, this skips
  the children; on an image of an index it is an error like any other.
\<close>

definition before_children :: "('s, bool) stm \<Rightarrow> ('s, unit) stm \<Rightarrow> ('s, unit) stm" where
  "before_children fn children = bindS fn (\<lambda>skip. if skip then retS () else children)"

fun walk_children ::
  "(remote_entity \<Rightarrow> ('s, bool) stm) \<Rightarrow> (hash \<Rightarrow> image res) \<Rightarrow> (hash \<Rightarrow> ('s, unit) stm res) \<Rightarrow> manifest_descriptor list
   \<Rightarrow> ('s, unit) stm" where
  "walk_children fn SignedImage walk_child [] = retS ()"
| "walk_children fn SignedImage walk_child (m # manifests) =
     bindS (if desc_MediaType m \<in> set index_media_types
            then bindS (liftS (walk_child (desc_Digest m))) (\<lambda>w. w)
            else if desc_MediaType m \<in> set image_media_types
            then bindS (liftS (SignedImage (desc_Digest m))) (\<lambda>x.
                 bindS (fn (RemoteImage x)) (\<lambda>skip. if skip then failS ErrSkipChildren else retS ()))
            else failS (ErrorString (''unknown mime type: '' @ desc_MediaType m))) (\<lambda>_.
     walk_children fn SignedImage walk_child manifests)"

primrec walk_index :: "(remote_entity \<Rightarrow> ('s, bool) stm) \<Rightarrow> v1_index \<Rightarrow> ('s, unit) stm" where
  "walk_index fn (V1Index d m SignedImage SignedImageIndex) =
     before_children (fn (RemoteIndex (V1Index d m SignedImage SignedImageIndex)))
       (bindS (liftS m) (walk_children fn SignedImage (map_res (walk_index fn) \<circ> SignedImageIndex)))"

definition walk_SignedEntity :: "(remote_entity \<Rightarrow> ('s, bool) stm) \<Rightarrow> remote_entity \<Rightarrow> ('s, unit) stm" where
  "walk_SignedEntity fn parent =
     (case parent of
        RemoteIndex ii \<Rightarrow> walk_index fn ii
      | RemoteImage i \<Rightarrow> before_children (fn parent) (retS ()))"

subsection \<open>Signers\<close>

type_synonym signer = "bytes \<Rightarrow> (oci_sig \<times> pubkey) res"

definition payload_Sign :: "libs \<Rightarrow> signer_verifier \<Rightarrow> signer" where
  "payload_Sign L sv payload =
     bindr (SignMessage sv payload) (\<lambda>sig.
     bindr (verifier_PublicKey sv) (\<lambda>pk.
     bindr (NewSignature L payload (b64_encode sig) []) (\<lambda>ociSig.
     Ok (ociSig, pk))))"

definition fulcio_Sign :: "libs \<Rightarrow> signer \<Rightarrow> bytes option \<Rightarrow> bytes option \<Rightarrow> signer" where
  "fulcio_Sign L inner cert chain payload =
     bindr (inner payload) (\<lambda>(sig, pub).
     bindr (mutate_Signature L sig [Mutate_WithCertChain cert chain]) (\<lambda>newSig.
     Ok (newSig, pub)))"

text \<open>The index of the entry is printed, which panics on a nil pointer.\<close>

definition uploadToTlog :: "log_entry res \<Rightarrow> rekor_bundle option res" where
  "uploadToTlog upload =
     bindr upload (\<lambda>entry.
     bindr (deref (entry_LogIndex entry)) (\<lambda>_.
     EntryToBundle entry))"

definition rekor_Sign :: "libs \<Rightarrow> host \<Rightarrow> rekor_client \<Rightarrow> signer \<Rightarrow> signer" where
  "rekor_Sign L H rClient inner payload =
     bindr (inner payload) (\<lambda>(sig, pub).
     bindr (Payload sig) (\<lambda>payloadBytes.
     bindr (Base64Signature sig) (\<lambda>b64Sig.
     bindr (b64_decode b64Sig) (\<lambda>sigBytes.
     bindr (Cert sig) (\<lambda>cert.
     bindr (case cert of Some c \<Rightarrow> MarshalCertificateToPEM L c | None \<Rightarrow> MarshalPublicKeyToPEM L pub) (\<lambda>rekorBytes.
     bindr (uploadToTlog (TLogUpload L H rClient sigBytes payloadBytes rekorBytes)) (\<lambda>bundle.
     bindr (mutate_Signature L sig [Mutate_WithBundle bundle]) (\<lambda>newSig.
     Ok (newSig, pub)))))))))"

subsection \<open>The key or the certificate to sign with\<close>

record SignerVerifier =
  sv_Cert :: "bytes option"
  sv_Chain :: "bytes option"
  sv_signer :: signer_verifier

definition signerFromSecurityKey :: "libs \<Rightarrow> 'c sign_lib \<Rightarrow> string \<Rightarrow> SignerVerifier res" where
  "signerFromSecurityKey L S keySlot =
     bindr (piv_GetKey (cli S) keySlot) (\<lambda>sk.
     bindr (piv_SignerVerifier S sk) (\<lambda>sv.
     bindr (handler (piv_Certificate S sk) (\<lambda>_. Ok None)
              (\<lambda>cert. bindr (MarshalCertificateToPEM L cert) (\<lambda>pem. Ok (Some pem)))) (\<lambda>pemBytes.
     Ok \<lparr>sv_Cert = pemBytes, sv_Chain = None, sv_signer = sv\<rparr>)))"

text \<open>The parts of \<open>signerFromKeyRef\<close>: the certificate of the token, the one of \<open>--cert\<close>, the chain.\<close>

definition token_cert :: "libs \<Rightarrow> 'c sign_lib \<Rightarrow> signer_verifier \<Rightarrow> (certificate \<times> bytes) option res" where
  "token_cert L S k =
     (case as_pkcs11 k of
        Some (Some certFromPKCS11) \<Rightarrow>
          bindr (MarshalCertificateToPEM L certFromPKCS11) (\<lambda>pemBytes.
          bindr (verifier_PublicKey k) (\<lambda>pubKey.
          handler (EqualKeys S pubKey (PublicKey certFromPKCS11))
            (\<lambda>_. Err (ErrorString ''pkcs11 key and certificate do not match''))
            (\<lambda>_. Ok (Some (certFromPKCS11, pemBytes)))))
      | _ \<Rightarrow> Ok None)"

definition file_cert :: "libs \<Rightarrow> host \<Rightarrow> 'c sign_lib \<Rightarrow> signer_verifier \<Rightarrow> string \<Rightarrow> (certificate \<times> bytes) res" where
  "file_cert L H S k certPath =
     bindr (wrapr ''read certificate'' (ReadFile H certPath)) (\<lambda>certBytes.
     bindr (if has_prefix certBytes ''-----''
            then (case pem_Block (key_api (cli S)) certBytes of
                    None \<Rightarrow> Panic ''invalid memory address or nil pointer dereference''
                  | Some (t, b) \<Rightarrow>
                      if t \<noteq> ''CERTIFICATE'' then Err (ErrorString (''supplied PEM file is not a certificate: '' @ certPath))
                      else Ok b)
            else Ok certBytes) (\<lambda>der.
     bindr (wrapr ''parse x509 certificate'' (x509_ParseCertificate S der)) (\<lambda>parsedCert.
     bindr (wrapr ''get public key'' (verifier_PublicKey k)) (\<lambda>pk.
     handler (EqualKeys S pk (PublicKey parsedCert))
       (\<lambda>_. Err (ErrorString ''public key in certificate does not match the provided public key''))
       (\<lambda>_. bindr (wrapr ''marshaling certificate to PEM'' (MarshalCertificateToPEM L parsedCert)) (\<lambda>pemBytes.
            Ok (parsedCert, pemBytes)))))))"

definition check_chain :: "libs \<Rightarrow> host \<Rightarrow> certificate \<Rightarrow> string \<Rightarrow> bytes res" where
  "check_chain L H leafCert certChainPath =
     bindr (wrapr ''reading certificate chain from path'' (ReadFile H certChainPath)) (\<lambda>certChainBytes.
     bindr (wrapr ''loading certificate chain'' (LoadCertificatesFromPEM L certChainBytes)) (\<lambda>certChain.
     if certChain = [] then Err (ErrorString ''no certificates in certificate chain'')
     else bindr (wrapr ''unable to validate certificate chain''
                   (TrustedCert L leafCert (Some (AddCert (last certChain) NewCertPool))
                      (Some (fold AddCert (butlast certChain) NewCertPool)))) (\<lambda>_.
          bindr (ContainsSCT L (Raw leafCert)) (\<lambda>contains.
          bindr (if contains then VerifyEmbeddedSCT L H (leafCert # certChain) else Ok ()) (\<lambda>_.
          Ok certChainBytes)))))"

definition signerFromKeyRef ::
  "libs \<Rightarrow> host \<Rightarrow> 'c sign_lib \<Rightarrow> string \<Rightarrow> string \<Rightarrow> string \<Rightarrow> pass_func \<Rightarrow> SignerVerifier res" where
  "signerFromKeyRef L H S certPath certChainPath keyRef passFunc =
     bindr (wrapr ''reading key'' (SignerVerifierFromKeyRef H (key_api (cli S)) (key_servers (cli S)) keyRef passFunc)) (\<lambda>k.
     bindr (token_cert L S k) (\<lambda>fromToken.
     bindr (if certPath \<noteq> [] then bindr (file_cert L H S k certPath) (\<lambda>c. Ok (Some c)) else Ok fromToken) (\<lambda>leaf.
     if certChainPath = [] then Ok \<lparr>sv_Cert = map_option snd leaf, sv_Chain = None, sv_signer = k\<rparr>
     else case leaf of
       None \<Rightarrow> Err (ErrorString ''no leaf certificate found or provided while specifying chain'')
     | Some (leafCert, pemBytes) \<Rightarrow>
         bindr (check_chain L H leafCert certChainPath) (\<lambda>certChainBytes.
         Ok \<lparr>sv_Cert = Some pemBytes, sv_Chain = Some certChainBytes, sv_signer = k\<rparr>))))"

subsection \<open>Keyless\<close>

definition getCertForOauthID ::
  "libs \<Rightarrow> 'c sign_lib \<Rightarrow> privkey \<Rightarrow> string \<Rightarrow> string \<Rightarrow> string \<Rightarrow> string list \<Rightarrow> cert_response res" where
  "getCertForOauthID L S priv fc flow idToken oidc =
     bindr (MarshalPKIXPublicKey L (Public (key_api (cli S)) priv)) (\<lambda>pubBytes.
     bindr (OIDConnect S flow idToken oidc) (\<lambda>(tok_Subject, tok_RawString).
     bindr (ecdsa_SignASN1 S priv (sha256 L tok_Subject)) (\<lambda>proof'.
     SigningCert S fc pubBytes proof' tok_RawString)))"

definition GetCert ::
  "libs \<Rightarrow> 'c sign_lib \<Rightarrow> privkey \<Rightarrow> string \<Rightarrow> string \<Rightarrow> string list \<Rightarrow> string \<Rightarrow> cert_response res" where
  "GetCert L S priv idToken flow oidc fClient =
     (if flow \<in> {''device'', ''normal'', ''token''} then getCertForOauthID L S priv fClient flow idToken oidc
      else Err (ErrorString (''unsupported oauth flow: '' @ flow)))"

record fulcio_signer =
  fs_Cert :: "bytes option"
  fs_Chain :: "bytes option"
  fs_SCT :: bytes
  fs_signer :: signer_verifier

text \<open>\<open>PublicKey\<close> returns the address of the field that has the address of the key, which no library
  function takes for a key.\<close>

definition fulcio_NewSigner :: "libs \<Rightarrow> 'c sign_lib \<Rightarrow> string \<Rightarrow> string list \<Rightarrow> string \<Rightarrow> fulcio_signer res" where
  "fulcio_NewSigner L S idToken oidc fClient =
     bindr (wrapr ''generating cert'' (ecdsa_GenerateKey (key_api (cli S)))) (\<lambda>priv.
     bindr (LoadECDSASignerVerifier (key_api (cli S)) priv) (\<lambda>signer.
     bindr (wrapr ''retrieving cert''
              (GetCert L S priv idToken
                 (if idToken \<noteq> [] then ''token'' else if \<not> stdin_IsTerminal S then ''device'' else ''normal'') oidc fClient)) (\<lambda>resp.
     Ok \<lparr>fs_Cert = CertPEM resp, fs_Chain = ChainPEM resp, fs_SCT = resp_SCT resp,
         fs_signer = signer\<lparr>verifier_PublicKey := Ok (OtherKey ''pointer to a pointer'')\<rparr>\<rparr>)))"

definition fulcioverifier_NewSigner :: "libs \<Rightarrow> host \<Rightarrow> 'c sign_lib \<Rightarrow> string \<Rightarrow> string list \<Rightarrow> string \<Rightarrow> fulcio_signer res" where
  "fulcioverifier_NewSigner L H S idToken oidc fClient =
     bindr (fulcio_NewSigner L S idToken oidc fClient) (\<lambda>fs.
     bindr (wrapr ''verifying SCT'' (VerifySCT L H (nil_bytes (fs_Cert fs)) (nil_bytes (fs_Chain fs)) (fs_SCT fs))) (\<lambda>_.
     Ok fs))"

definition keylessSigner :: "libs \<Rightarrow> host \<Rightarrow> 'c sign_lib \<Rightarrow> KeyOpts \<Rightarrow> SignerVerifier res" where
  "keylessSigner L H S ko =
     bindr (wrapr ''creating Fulcio client'' (url_Parse S (ko_FulcioURL ko))) (\<lambda>fClient.
     bindr (if ko_IDToken ko = [] \<and> providers_Enabled S
            then wrapr ''fetching ambient OIDC credentials'' (providers_Provide S ''sigstore'')
            else Ok (ko_IDToken ko)) (\<lambda>tok.
     bindr (wrapr ''getting key from Fulcio''
              (if ko_InsecureSkipFulcioVerify ko then fulcio_NewSigner L S tok (ko_OIDC ko) fClient
               else fulcioverifier_NewSigner L H S tok (ko_OIDC ko) fClient)) (\<lambda>k.
     Ok \<lparr>sv_Cert = fs_Cert k, sv_Chain = fs_Chain k, sv_signer = fs_signer k\<rparr>)))"

definition SignerFromKeyOpts :: "libs \<Rightarrow> host \<Rightarrow> 'c sign_lib \<Rightarrow> string \<Rightarrow> string \<Rightarrow> KeyOpts \<Rightarrow> SignerVerifier res" where
  "SignerFromKeyOpts L H S certPath certChainPath ko =
     (if ko_Sk ko then signerFromSecurityKey L S (ko_Slot ko)
      else if ko_KeyRef ko \<noteq> [] then signerFromKeyRef L H S certPath certChainPath (ko_KeyRef ko) (ko_PassFunc ko)
      else keylessSigner L H S ko)"

definition SignerVerifier_Bytes :: "libs \<Rightarrow> SignerVerifier \<Rightarrow> bytes res" where
  "SignerVerifier_Bytes L c =
     (case sv_Cert c of Some cert \<Rightarrow> Ok cert | None \<Rightarrow> PublicKeyPem L (verifier.truncate (sv_signer c)))"

subsection \<open>sign\<close>

definition ShouldUploadToTlog :: "host \<Rightarrow> 'c sign_lib \<Rightarrow> registry \<Rightarrow> reference \<Rightarrow> bool \<Rightarrow> bool res" where
  "ShouldUploadToTlog H S R ref force =
     (if \<not> EnableExperimental H then Ok False
      else if force then Ok True
      else handler (remoteGet R [''context''] ref)
             (\<lambda>_. handler (Scanln S) (\<lambda>_. Ok False) (\<lambda>answer. Ok (answer \<in> {''y'', ''Y''})))
             (\<lambda>_. Ok True))"

fun replace_first :: "char \<Rightarrow> char \<Rightarrow> string \<Rightarrow> string" where
  "replace_first a b [] = []"
| "replace_first a b (c # s) = (if c = a then b # s else c # replace_first a b s)"

definition DigestStr :: "reference \<Rightarrow> string" where
  "DigestStr ref = (case ref of DigestRef _ d \<Rightarrow> d | Tag _ _ \<Rightarrow> [])"

record sign_flags =
  sf_Registry :: registry_options
  sf_Annotations :: "(string, iface) gomap option"
  sf_CertPath :: string
  sf_CertChainPath :: string
  sf_Upload :: bool
  sf_OutputSignature :: string
  sf_OutputCertificate :: string
  sf_PayloadPath :: string
  sf_Force :: bool
  sf_Recursive :: bool
  sf_Attachment :: string

text \<open>The part of \<open>signDigest\<close> that makes the signature; the registry is asked whether the image is public.\<close>

definition make_signature ::
  "libs \<Rightarrow> host \<Rightarrow> 'c sign_lib \<Rightarrow> KeyOpts \<Rightarrow> sign_flags \<Rightarrow> SignerVerifier \<Rightarrow> registry \<Rightarrow> reference \<Rightarrow> bytes \<Rightarrow> oci_sig res" where
  "make_signature L H S ko f sv R digest payload =
     bindr (if payload = [] then wrapr ''payload'' (Marshal_Cosign S digest (sf_Annotations f)) else Ok payload) (\<lambda>payload.
     (let s = payload_Sign L (sv_signer sv);
          s = (case sv_Cert sv of Some cert \<Rightarrow> fulcio_Sign L s (Some cert) (sv_Chain sv) | None \<Rightarrow> s)
      in bindr (ShouldUploadToTlog H S R digest (sf_Force f)) (\<lambda>upload.
         bindr (if upload then bindr (rekor_NewClient (cli S) (ko_RekorURL ko)) (\<lambda>rClient. Ok (rekor_Sign L H rClient s)) else Ok s) (\<lambda>s.
         bindr (s payload) (\<lambda>(ociSig, _). Ok ociSig)))))"

text \<open>What \<open>signDigest\<close> does with the signature: it writes files and publishes the signature.\<close>

definition output_signature :: "'c sign_lib \<Rightarrow> sign_flags \<Rightarrow> reference \<Rightarrow> string \<Rightarrow> (sign_state, unit) stm" where
  "output_signature S f digest b64sig =
     (if sf_OutputSignature f \<noteq> []
      then wrapS ''create signature file''
             (st_WriteFile S (if sf_Recursive f then sf_OutputSignature f @ ''-'' @ replace_first CHR '':'' CHR ''-'' (DigestStr digest)
                              else sf_OutputSignature f) b64sig)
      else retS ())"

definition output_certificate :: "libs \<Rightarrow> 'c sign_lib \<Rightarrow> sign_flags \<Rightarrow> SignerVerifier \<Rightarrow> (sign_state, unit) stm" where
  "output_certificate L S f sv =
     (if sf_OutputCertificate f \<noteq> []
      then wrapS ''create certificate file''
             (bindS (liftS (SignerVerifier_Bytes L sv)) (\<lambda>rekorBytes. st_WriteFile S (sf_OutputCertificate f) rekorBytes))
      else retS ())"

definition publish_signature ::
  "libs \<Rightarrow> host \<Rightarrow> 'c sign_lib \<Rightarrow> sign_flags \<Rightarrow> SignerVerifier \<Rightarrow> remote_options \<Rightarrow> reference \<Rightarrow> remote_entity \<Rightarrow> oci_sig
   \<Rightarrow> (sign_state, unit) stm" where
  "publish_signature L H S f sv o' digest e ociSig =
     bindS (readS (\<lambda>s.
       bindr (AttachSignatureToEntity (v1_Append S) (empty_Image (st_registry s)) (entity_at L (st_registry s) o' e) ociSig
                [WithDupeDetector (dd_Find (verifier.truncate (sv_signer sv)))]) (\<lambda>newSE.
       bindr (wrapr ''constructing client options'' (ClientOpts L H (cli S) (sf_Registry f))) (\<lambda>walkOpts.
       WriteSignatures (remote_Write S) (st_registry s) (Context digest) (entity_methods newSE) walkOpts)))) (\<lambda>R' s.
     (Ok (), s\<lparr>st_registry := R'\<rparr>))"

definition signDigest ::
  "libs \<Rightarrow> host \<Rightarrow> 'c sign_lib \<Rightarrow> KeyOpts \<Rightarrow> sign_flags \<Rightarrow> SignerVerifier \<Rightarrow> bytes \<Rightarrow> remote_options \<Rightarrow> reference \<Rightarrow> remote_entity
   \<Rightarrow> (sign_state, unit) stm" where
  "signDigest L H S ko f sv payload o' digest e =
     bindS (readS (\<lambda>s. make_signature L H S ko f sv (st_registry s) digest payload)) (\<lambda>ociSig.
     bindS (liftS (Base64Signature ociSig)) (\<lambda>b64sig.
     bindS (output_signature S f digest b64sig) (\<lambda>_.
     bindS (output_certificate L S f sv) (\<lambda>_.
     if \<not> sf_Upload f then retS () else publish_signature L H S f sv o' digest e ociSig))))"

text \<open>The callback of the walk.\<close>

definition sign_entity ::
  "libs \<Rightarrow> host \<Rightarrow> 'c sign_lib \<Rightarrow> KeyOpts \<Rightarrow> sign_flags \<Rightarrow> SignerVerifier \<Rightarrow> bytes \<Rightarrow> remote_options \<Rightarrow> string \<Rightarrow> remote_entity
   \<Rightarrow> (sign_state, bool) stm" where
  "sign_entity L H S ko f sv staticPayload o' repo e =
     bindS (liftS (wrapr ''computing digest'' (remote_Digest e))) (\<lambda>d.
     bindS (wrapS ''signing digest'' (signDigest L H S ko f sv staticPayload o' (DigestRef repo (hash_String d)) e)) (\<lambda>_.
     retS (\<not> sf_Recursive f)))"

definition sign_image ::
  "libs \<Rightarrow> host \<Rightarrow> 'c sign_lib \<Rightarrow> KeyOpts \<Rightarrow> sign_flags \<Rightarrow> SignerVerifier \<Rightarrow> bytes \<Rightarrow> string \<Rightarrow> (sign_state, unit) stm" where
  "sign_image L H S ko f sv staticPayload inputImg =
     bindS (liftS (wrapr ''parsing reference'' (name_ParseReference (cli S) inputImg))) (\<lambda>ref.
     bindS (liftS (wrapr ''constructing client options'' (ClientOpts L H (cli S) (sf_Registry f)))) (\<lambda>opts.
     bindS (readS (\<lambda>s. handler (GetAttachedImageRef (cli S) (st_registry s) ref (sf_Attachment f) opts)
              (\<lambda>_. Err (ErrorString (''unable to resolve attachment '' @ sf_Attachment f @ '' for image '' @ inputImg))) Ok)) (\<lambda>ref.
     (let o' = remote_makeOptions (Context ref) opts
      in if (case ref of DigestRef _ _ \<Rightarrow> \<not> sf_Recursive f | Tag _ _ \<Rightarrow> False)
         then bindS (readS (\<lambda>s. wrapr ''accessing image'' (find_entity (st_registry s) ref opts))) (\<lambda>e.
              wrapS ''signing digest'' (signDigest L H S ko f sv staticPayload o' ref e))
         else bindS (readS (\<lambda>s. wrapr ''accessing entity'' (find_entity (st_registry s) ref opts))) (\<lambda>e.
              wrapS ''recursively signing'' (walk_SignedEntity (sign_entity L H S ko f sv staticPayload o' (Context ref)) e))))))"

fun sign_images ::
  "libs \<Rightarrow> host \<Rightarrow> 'c sign_lib \<Rightarrow> KeyOpts \<Rightarrow> sign_flags \<Rightarrow> SignerVerifier \<Rightarrow> bytes \<Rightarrow> string list \<Rightarrow> (sign_state, unit) stm" where
  "sign_images L H S ko f sv p [] = retS ()"
| "sign_images L H S ko f sv p (img # imgs) =
     bindS (sign_image L H S ko f sv p img) (\<lambda>_. sign_images L H S ko f sv p imgs)"

abbreviation KeyParseError :: gerror where
  "KeyParseError \<equiv> ErrorString ''exactly one of: key reference (--key), or hardware token (--sk) must be provided''"

definition key_flags_ok :: "host \<Rightarrow> KeyOpts \<Rightarrow> bool" where
  "key_flags_ok H ko =
     (if EnableExperimental H then NOf [ko_KeyRef ko \<noteq> [], ko_Sk ko] \<le> 1 else OneOf [ko_KeyRef ko \<noteq> [], ko_Sk ko])"

definition SignCmd ::
  "libs \<Rightarrow> host \<Rightarrow> 'c sign_lib \<Rightarrow> KeyOpts \<Rightarrow> sign_flags \<Rightarrow> string list \<Rightarrow> (sign_state, unit) stm" where
  "SignCmd L H S ko f imgs =
     (if \<not> key_flags_ok H ko then failS KeyParseError
      else bindS (liftS (wrapr ''getting signer'' (SignerFromKeyOpts L H S (sf_CertPath f) (sf_CertChainPath f) ko))) (\<lambda>sv.
           bindS (liftS (if sf_PayloadPath f \<noteq> [] then wrapr ''payload from file'' (ReadFile H (filepath_Clean (sf_PayloadPath f)))
                         else Ok [])) (\<lambda>staticPayload.
           sign_images L H S ko f sv staticPayload imgs)))"

subsection \<open>sign-blob\<close>

definition blob_bundle ::
  "libs \<Rightarrow> host \<Rightarrow> 'c sign_lib \<Rightarrow> KeyOpts \<Rightarrow> SignerVerifier \<Rightarrow> bytes \<Rightarrow> bytes \<Rightarrow> (bytes \<times> rekor_bundle option) res" where
  "blob_bundle L H S ko sv sig payload =
     (if EnableExperimental H
      then bindr (SignerVerifier_Bytes L sv) (\<lambda>rekorBytes.
           bindr (rekor_NewClient (cli S) (ko_RekorURL ko)) (\<lambda>rekorClient.
           bindr (uploadToTlog (TLogUpload L H rekorClient sig payload rekorBytes)) (\<lambda>bundle.
           Ok (rekorBytes, bundle))))
      else Ok ([], None))"

definition SignBlobCmd ::
  "libs \<Rightarrow> host \<Rightarrow> 'c sign_lib \<Rightarrow> KeyOpts \<Rightarrow> string \<Rightarrow> bool \<Rightarrow> string \<Rightarrow> string \<Rightarrow> (sign_state, bytes) stm" where
  "SignBlobCmd L H S ko payloadPath b64 outputSignature outputCertificate =
     bindS (liftS (if payloadPath = ''-'' then ReadStdin (key_api (cli S)) else ReadFile H (filepath_Clean payloadPath))) (\<lambda>payload.
     bindS (liftS (SignerFromKeyOpts L H S [] [] ko)) (\<lambda>sv.
     bindS (liftS (wrapr ''signing blob'' (SignMessage (sv_signer sv) payload))) (\<lambda>sig.
     bindS (liftS (blob_bundle L H S ko sv sig payload)) (\<lambda>(rekorBytes, bundle).
     if ko_BundlePath ko \<noteq> []
     then bindS (liftS (Marshal_LocalSignedPayload S
                   \<lparr>lsp_Base64Signature = b64_encode sig, lsp_Cert = b64_encode rekorBytes, lsp_Bundle = bundle\<rparr>)) (\<lambda>contents.
          bindS (st_WriteFile S (ko_BundlePath ko) contents) (\<lambda>_. retS (b64_encode sig)))
     else bindS (if outputSignature \<noteq> []
                 then bindS (wrapS ''create signature file'' (st_WriteFile S outputSignature (if b64 then b64_encode sig else sig))) (\<lambda>_. retS sig)
                 else retS (if b64 then b64_encode sig else sig)) (\<lambda>result.
          bindS (if outputCertificate \<noteq> [] \<and> rekorBytes \<noteq> []
                 then wrapS ''create certificate file''
                        (st_WriteFile S outputCertificate (if b64 then b64_encode rekorBytes else rekorBytes))
                 else retS ()) (\<lambda>_. retS result))))))"

end
