(* ===== verification/Sign_Correct.thy ===== *)
theory Sign_Correct
  imports Signing
begin

section \<open>What signing achieves\<close>

text \<open>
  \<open>cosign sign\<close> and \<open>cosign verify\<close> together: the walk visits every entity of an index; signing one entity
  leaves a signature in the registry that the public key accepts, and keeps the signatures of all
  others; so what was signed is verified.
\<close>

subsection \<open>The walk visits every part\<close>

inductive part_of :: "remote_entity \<Rightarrow> remote_entity \<Rightarrow> bool" where
  part_self: "part_of e e"
| part_image: "IndexManifest ii = Ok ms \<Longrightarrow> m \<in> set ms \<Longrightarrow> desc_MediaType m \<in> set image_media_types \<Longrightarrow>
    index_Image ii (desc_Digest m) = Ok x \<Longrightarrow> part_of (RemoteImage x) (RemoteIndex ii)"
| part_index: "IndexManifest ii = Ok ms \<Longrightarrow> m \<in> set ms \<Longrightarrow> desc_MediaType m \<in> set index_media_types \<Longrightarrow>
    index_ImageIndex ii (desc_Digest m) = Ok jj \<Longrightarrow> part_of e (RemoteIndex jj) \<Longrightarrow> part_of e (RemoteIndex ii)"

inductive_cases part_of_imageE: "part_of e (RemoteImage x)"

lemma media_types_disjoint: "mt \<in> set image_media_types \<Longrightarrow> mt \<notin> set index_media_types"
  by (auto simp: image_media_types_def index_media_types_def)

text \<open>
  \<open>J A s\<close> says of a state that the entities in \<open>A\<close> have been dealt with. If each call of the callback
  adds its entity, does not skip and undoes nothing, the walk adds all parts.
\<close>

definition deals_with ::
  "(remote_entity set \<Rightarrow> 's \<Rightarrow> bool) \<Rightarrow> ('s, 'a) stm \<Rightarrow> remote_entity set \<Rightarrow> ('a \<Rightarrow> bool) \<Rightarrow> bool" where
  "deals_with J m B ok \<longleftrightarrow> (\<forall>A s a s'. J A s \<longrightarrow> m s = (Ok a, s') \<longrightarrow> ok a \<and> J (A \<union> B) s')"

lemma deals_withD: "deals_with J m B ok \<Longrightarrow> J A s \<Longrightarrow> m s = (Ok a, s') \<Longrightarrow> ok a \<and> J (A \<union> B) s'"
  by (simp add: deals_with_def)

lemma walk_children_deals:
  assumes images: "\<And>m x. m \<in> set ms \<Longrightarrow> desc_MediaType m \<in> set image_media_types \<Longrightarrow> im (desc_Digest m) = Ok x \<Longrightarrow>
      deals_with J (fn (RemoteImage x)) {RemoteImage x} Not"
    and indices: "\<And>m w. m \<in> set ms \<Longrightarrow> desc_MediaType m \<in> set index_media_types \<Longrightarrow> wc (desc_Digest m) = Ok w \<Longrightarrow>
      deals_with J w (B m) (\<lambda>_. True)"
  shows "deals_with J (walk_children fn im wc ms)
    ({RemoteImage x | m x. m \<in> set ms \<and> desc_MediaType m \<in> set image_media_types \<and> im (desc_Digest m) = Ok x} \<union>
     \<Union> (B ` {m \<in> set ms. desc_MediaType m \<in> set index_media_types})) (\<lambda>_. True)"
  using assms
proof (induction ms)
  case Nil
  then show ?case by (simp add: deals_with_def)
next
  case (Cons m ms)
  let ?V = "\<lambda>ms. {RemoteImage x | m x. m \<in> set ms \<and> desc_MediaType m \<in> set image_media_types \<and> im (desc_Digest m) = Ok x} \<union>
     \<Union> (B ` {m \<in> set ms. desc_MediaType m \<in> set index_media_types})"
  have IH: "deals_with J (walk_children fn im wc ms) (?V ms) (\<lambda>_. True)"
    by (rule Cons.IH) (use Cons.prems in auto)
  show ?case
    unfolding deals_with_def
  proof (intro allI impI conjI TrueI)
    fix A s a s' assume J: "J A s" and run: "walk_children fn im wc (m # ms) s = (Ok a, s')"
    show "J (A \<union> ?V (m # ms)) s'"
    proof (cases "desc_MediaType m \<in> set index_media_types")
      case True
      then obtain w s1 where w: "wc (desc_Digest m) = Ok w" "w s = (Ok (), s1)" "walk_children fn im wc ms s1 = (Ok a, s')"
        using run by (auto simp: bindS_Ok_iff)
      have "J (A \<union> B m) s1"
        using deals_withD [OF Cons.prems(2) [of m w] J w(2)] True w(1) by simp
      then have "J (A \<union> B m \<union> ?V ms) s'"
        using deals_withD [OF IH] w(3) by blast
      moreover have "A \<union> B m \<union> ?V ms = A \<union> ?V (m # ms)"
        using True media_types_disjoint by auto
      ultimately show ?thesis by simp
    next
      case False
      then obtain x s1 where mt: "desc_MediaType m \<in> set image_media_types" and x: "im (desc_Digest m) = Ok x"
        "fn (RemoteImage x) s = (Ok False, s1)" "walk_children fn im wc ms s1 = (Ok a, s')"
        using run by (auto simp: bindS_Ok_iff split: if_splits)
      have "J (A \<union> {RemoteImage x}) s1"
        using deals_withD [OF Cons.prems(1) [of m x] J x(2)] mt x(1) by simp
      then have "J (A \<union> {RemoteImage x} \<union> ?V ms) s'"
        using deals_withD [OF IH] x(3) by blast
      moreover have "A \<union> {RemoteImage x} \<union> ?V ms = A \<union> ?V (m # ms)"
        using False mt x(1) by auto
      ultimately show ?thesis by simp
    qed
  qed
qed

lemma parts_of_index:
  assumes "IndexManifest ii = Ok ms"
  shows "{e. part_of e (RemoteIndex ii)} = {RemoteIndex ii} \<union>
    ({RemoteImage x | m x. m \<in> set ms \<and> desc_MediaType m \<in> set image_media_types \<and> index_Image ii (desc_Digest m) = Ok x} \<union>
     \<Union> ((\<lambda>m. {e. \<exists>jj. index_ImageIndex ii (desc_Digest m) = Ok jj \<and> part_of e (RemoteIndex jj)}) `
         {m \<in> set ms. desc_MediaType m \<in> set index_media_types}))" (is "?L = ?R")
proof (intro set_eqI iffI)
  fix e assume "e \<in> ?L"
  then have "part_of e (RemoteIndex ii)" by simp
  then show "e \<in> ?R"
    by (cases rule: part_of.cases) (use assms in auto)
next
  fix e assume "e \<in> ?R"
  then consider "e = RemoteIndex ii"
    | m x where "e = RemoteImage x" "m \<in> set ms" "desc_MediaType m \<in> set image_media_types" "index_Image ii (desc_Digest m) = Ok x"
    | m jj where "m \<in> set ms" "desc_MediaType m \<in> set index_media_types" "index_ImageIndex ii (desc_Digest m) = Ok jj"
        "part_of e (RemoteIndex jj)"
    by blast
  then have "part_of e (RemoteIndex ii)"
    using assms by cases (auto intro: part_of.intros)
  then show "e \<in> ?L" by simp
qed

lemma walk_index_deals:
  assumes "\<And>e. part_of e (RemoteIndex ii) \<Longrightarrow> deals_with J (fn e) {e} Not"
  shows "deals_with J (walk_index fn ii) {e. part_of e (RemoteIndex ii)} (\<lambda>_. True)"
  using assms
proof (induction ii)
  case (V1Index d m im ix)
  let ?ii = "V1Index d m im ix"
  show ?case
    unfolding deals_with_def
  proof (intro allI impI conjI TrueI)
    fix A s a s' assume J: "J A s" and run: "walk_index fn ?ii s = (Ok a, s')"
    obtain skip s1 where first: "fn (RemoteIndex ?ii) s = (Ok skip, s1)"
      and rest: "(if skip then retS () else bindS (liftS m) (walk_children fn im (map_res (walk_index fn) \<circ> ix))) s1 = (Ok a, s')"
      using run by (auto simp: before_children_def bindS_Ok_iff)
    have J1: "\<not> skip" "J (A \<union> {RemoteIndex ?ii}) s1"
      using deals_withD [OF V1Index.prems [OF part_self] J first] by simp_all
    then obtain ms where ms: "m = Ok ms" and run1: "walk_children fn im (map_res (walk_index fn) \<circ> ix) ms s1 = (Ok a, s')"
      using rest by (auto simp: bindS_Ok_iff)
    let ?B = "\<lambda>m. {e. \<exists>jj. ix (desc_Digest m) = Ok jj \<and> part_of e (RemoteIndex jj)}"
    let ?V = "{RemoteImage x | m x. m \<in> set ms \<and> desc_MediaType m \<in> set image_media_types \<and> im (desc_Digest m) = Ok x} \<union>
      \<Union> (?B ` {m \<in> set ms. desc_MediaType m \<in> set index_media_types})"
    have all: "deals_with J (walk_children fn im (map_res (walk_index fn) \<circ> ix) ms) ?V (\<lambda>_. True)"
    proof (rule walk_children_deals)
      fix k x assume "k \<in> set ms" "desc_MediaType k \<in> set image_media_types" "im (desc_Digest k) = Ok x"
      then show "deals_with J (fn (RemoteImage x)) {RemoteImage x} Not"
        using V1Index.prems [OF part_image [of ?ii ms k x]] ms by simp
    next
      fix k w assume k: "k \<in> set ms" "desc_MediaType k \<in> set index_media_types" "(map_res (walk_index fn) \<circ> ix) (desc_Digest k) = Ok w"
      then obtain jj where jj: "ix (desc_Digest k) = Ok jj" "w = walk_index fn jj"
        by (cases "ix (desc_Digest k)") auto
      have "deals_with J (walk_index fn jj) {e. part_of e (RemoteIndex jj)} (\<lambda>_. True)"
      proof (rule V1Index.IH [of "ix (desc_Digest k)"])
        show "deals_with J (fn e) {e} Not" if "part_of e (RemoteIndex jj)" for e
          using V1Index.prems [OF part_index [of ?ii ms k jj e]] that k(1,2) jj(1) ms by simp
        show "ix (desc_Digest k) \<in> range ix" by simp
        show "jj \<in> set_res (ix (desc_Digest k))" using jj(1) by simp
      qed
      then show "deals_with J w (?B k) (\<lambda>_. True)"
        using jj by simp
    qed
    have "J (A \<union> {RemoteIndex ?ii} \<union> ?V) s'"
      using deals_withD [OF all J1(2) run1] by (rule conjunct2)
    moreover have "{e. part_of e (RemoteIndex ?ii)} = {RemoteIndex ?ii} \<union> ?V"
      using parts_of_index [of ?ii ms] ms by simp
    ultimately show "J (A \<union> {e. part_of e (RemoteIndex ?ii)}) s'"
      by (simp only: Un_assoc)
  qed
qed

lemma walk_deals:
  assumes "\<And>e. part_of e e0 \<Longrightarrow> deals_with J (fn e) {e} Not"
  shows "deals_with J (walk_SignedEntity fn e0) {e. part_of e e0} (\<lambda>_. True)"
proof (cases e0)
  case (RemoteImage x)
  moreover have "{e. part_of e (RemoteImage x)} = {RemoteImage x}"
    by (auto elim: part_of_imageE intro: part_self)
  ultimately show ?thesis
    using assms [OF part_self] by (auto simp: walk_SignedEntity_def before_children_def deals_with_def bindS_Ok_iff)
next
  case (RemoteIndex ii)
  then show ?thesis
    using walk_index_deals [of ii J fn] assms by (simp add: walk_SignedEntity_def)
qed

subsection \<open>Signing one entity\<close>

text \<open>A registry serves blobs by their content: a blob has the digest it is asked for, and if that is the
  digest of some bytes, these are its bytes. The empty image has no layers.\<close>

definition addressed_image :: "libs \<Rightarrow> image \<Rightarrow> bool" where
  "addressed_image L img \<longleftrightarrow>
     (\<forall>d l. LayerByDigest img d = Ok l \<longrightarrow> Digest l = Ok d \<and> (\<forall>p. v1_SHA256 L p = Ok d \<longrightarrow> Compressed l = Ok p))"

definition addressed :: "libs \<Rightarrow> registry \<Rightarrow> bool" where
  "addressed L R \<longleftrightarrow> Manifest_Layers (empty_Image R) = Ok [] \<and> addressed_image L (empty_Image R) \<and>
     (\<forall>ro ref img. remoteImage R ro ref = Ok img \<longrightarrow> addressed_image L img)"

text \<open>
  What signing relies on: the libraries append to and write images as documented, a registry stays
  addressed by content, no two payloads have one digest, and \<open>v\<close> accepts what the signer signed
  or accepts itself.
\<close>

definition signing_laws :: "libs \<Rightarrow> 'c sign_lib \<Rightarrow> signer_verifier \<Rightarrow> verifier \<Rightarrow> bool" where
  "signing_laws L S sv v \<longleftrightarrow>
     append_documented (v1_Append S) \<and> write_stores (remote_Write S) \<and> pem_reader L \<and>
     (\<forall>R ro ref img R'. remote_Write S R ro ref img = Ok R' \<longrightarrow> addressed L R \<longrightarrow> addressed_image L img \<longrightarrow> addressed L R') \<and>
     (\<forall>p q d. v1_SHA256 L p = Ok d \<longrightarrow> v1_SHA256 L q = Ok d \<longrightarrow> p = q) \<and>
     (\<forall>m s. SignMessage sv m = Ok s \<longrightarrow> VerifySignature v s m = Ok ()) \<and>
     (\<forall>m s. VerifySignature sv s m = Ok () \<longrightarrow> VerifySignature v s m = Ok ())"

lemma signing_lawsD:
  assumes "signing_laws L S sv v"
  shows "append_documented (v1_Append S)" and "write_stores (remote_Write S)" and "pem_reader L"
    and "remote_Write S R ro ref img = Ok R' \<Longrightarrow> addressed L R \<Longrightarrow> addressed_image L img \<Longrightarrow> addressed L R'"
    and "v1_SHA256 L p = Ok d \<Longrightarrow> v1_SHA256 L q = Ok d \<Longrightarrow> p = q"
    and "SignMessage sv m = Ok s \<Longrightarrow> VerifySignature v s m = Ok ()"
    and "VerifySignature sv s m = Ok () \<Longrightarrow> VerifySignature v s m = Ok ()"
  using assms unfolding signing_laws_def by blast+

text \<open>Under a tag the registry holds a signature over a payload that \<open>v\<close> accepts.\<close>

definition holds_signature :: "libs \<Rightarrow> registry \<Rightarrow> verifier \<Rightarrow> remote_option list \<Rightarrow> reference \<Rightarrow> bytes \<Rightarrow> bool" where
  "holds_signature L R v opts tag p \<longleftrightarrow>
     (\<exists>c n. tag = Tag c n) \<and>
     (\<exists>t ts x. remote_Signatures L R tag opts = Ok t \<and> Get t = Ok (Some ts) \<and> x \<in> set ts \<and>
        Payload x = Ok p \<and> verifyOCISignature v x = Ok ())"

lemma dd_loop_found:
  assumes "dd_loop v new d mt ann sigs = Ok (Some x)"
  shows "x \<in> set sigs \<and> Digest x = Ok d \<and>
    (\<exists>b raw r. Base64Signature x = Ok b \<and> b64_decode b = Ok raw \<and> Uncompressed new = Ok r \<and> VerifySignature v raw r = Ok ())"
  using assms
  by (induction sigs) (auto simp: Let_def res_simps split: if_splits)

lemma remote_Signatures_stored:
  assumes "addressed L R" and "remote_Signatures L R tag opts = Ok t" and "Get t = Ok g"
  shows "reads_as L (image.truncate t) (nil_list g)" and "addressed_image L (image.truncate t)"
    and "g = Some ts \<Longrightarrow> sigs_Get L (image.truncate t) = Ok (Some ts)"
proof -
  consider img ro where "remoteImage R ro tag = Ok img" "t = sigs_of L img" | "t = empty_Signatures R"
    using assms(2) by (auto simp: remote_Signatures_def Let_def res_simps split: option.splits if_splits)
  then have "reads_as L (image.truncate t) (nil_list g) \<and> addressed_image L (image.truncate t) \<and>
    (g = Some ts \<longrightarrow> sigs_Get L (image.truncate t) = Ok (Some ts))"
  proof cases
    case 1
    then have "sigs_Get L img = Ok g" "addressed_image L img"
      using assms(1,3) by (auto simp: sigs_of_def addressed_def)
    then show ?thesis
      using 1(2) by (auto simp: reads_as_def sigs_Get_def nil_list_def bindr_Ok_iff same_content_def list_all2_refl)
  next
    case 2
    then have "image.truncate t = empty_Image R" "g = None"
      using assms(3) by (simp_all add: empty_Signatures_def Let_def image.truncate_def)
    then show ?thesis
      using assms(1) by (simp add: addressed_def reads_as_def sigs_Get_def nil_list_def)
  qed
  then show "reads_as L (image.truncate t) (nil_list g)" and "addressed_image L (image.truncate t)"
    and "g = Some ts \<Longrightarrow> sigs_Get L (image.truncate t) = Ok (Some ts)"
    by blast+
qed

text \<open>A stored signature with the digest of a payload has that payload.\<close>

lemma stored_payload:
  assumes "addressed_image L img" and "sigs_Get L img = Ok (Some ts)" and "x \<in> set ts"
    and "Digest x = Ok d" and "v1_SHA256 L p = Ok d"
  shows "Payload x = Ok p"
proof -
  obtain desc l where l: "LayerByDigest img (desc_Digest desc) = Ok l" "x = signature_New L l desc"
    using assms(2,3) by (auto simp: sigs_Get_iff list_all2_conv_all_nth in_set_conv_nth)
  then have "Digest l = Ok (desc_Digest desc)"
    using assms(1) by (auto simp: addressed_image_def)
  moreover have "Digest x = Digest l" "Payload x = bindr (Compressed l) Ok"
    by (simp_all add: l(2) signature_New_def sigLayer_Payload_def Let_def)
  ultimately show ?thesis
    using assms(1,4,5) l(1) by (auto simp: addressed_image_def)
qed

lemma entity_at_Signatures: "Signatures (entity_methods (entity_at L R o' e)) = signatures_of L R (remote_Digest e) o'"
  by (cases e) (simp_all add: entity_at_def remote_image_def remote_index_def entity_of_def remote_Digest_def)

lemma attached_at:
  assumes "AttachSignatureToEntity App ei (entity_at L R o' e) sig oo = Ok newSE"
  shows "Signatures (entity_methods newSE) = signedImage_Signatures App (AttachSignatureToImage (entity_methods (entity_at L R o' e)) sig oo)"
    and "entity_Digest (entity_methods newSE) = remote_Digest e"
  using assms
  by (cases e; auto simp: AttachSignatureToEntity_def entity_at_def signedImage_entity_def signedImageIndex_entity_def
      AttachSignatureToImage_def AttachSignatureToImageIndex_def remote_image_def remote_index_def entity_of_def remote_Digest_def)+

lemma append_addressed:
  assumes App: "append_documented App" and img: "addressed_image L img" and adds: "addenda [sig] = Ok adds" and app: "App img adds = Ok img'"
    and sig: "Digest sig = v1_SHA256 L p" "Compressed sig = Ok p"
    and inj: "\<And>q d. v1_SHA256 L p = Ok d \<Longrightarrow> v1_SHA256 L q = Ok d \<Longrightarrow> p = q"
  shows "addressed_image L img'"
  unfolding addressed_image_def
proof (intro allI impI)
  fix d l assume l: "LayerByDigest img' d = Ok l"
  show "Digest l = Ok d \<and> (\<forall>q. v1_SHA256 L q = Ok d \<longrightarrow> Compressed l = Ok q)"
  proof (cases "find (\<lambda>a. Digest (fst a) = Ok d) (rev adds)")
    case None
    then show ?thesis
      using l img append_documentedD(2) [OF App app, of d] by (simp add: addressed_image_def)
  next
    case (Some a)
    then have a: "fst a = layer.truncate sig" "Digest sig = Ok d"
      using find_addendum(1) [OF adds Some] by auto
    then have "l = layer.truncate sig"
      using Some l append_documentedD(2) [OF App app, of d] by simp
    moreover have "q = p" if "v1_SHA256 L q = Ok d" for q
      using inj [of d q] that a(2) sig(1) by simp
    ultimately show ?thesis
      using a(2) sig(2) by simp
  qed
qed

lemma new_signature:
  assumes "NewSignature L p b64 [] = Ok sig"
  shows "Digest sig = v1_SHA256 L p" and "Compressed sig = Ok p" and "Uncompressed sig = Ok p"
  using assms by (auto simp: NewSignature_def staticLayer_sig_def bindr_Ok_iff)

lemma verifyOCISignature_content: "same_content s t \<Longrightarrow> verifyOCISignature v s = verifyOCISignature v t"
  by (simp add: verifyOCISignature_def same_content_def)

text \<open>What is held stays held if the signatures that are written read as the old ones, maybe with more.\<close>

lemma written_holds:
  assumes W: "write_stores W" and wr: "W R (ROpt (remote_makeOptions c opts)) tag img = Ok R'" and reads: "reads_as L img sigs"
    and tag: "tag = Tag repo n"
  shows "x \<in> set sigs \<Longrightarrow> Payload x = Ok p \<Longrightarrow> verifyOCISignature v x = Ok () \<Longrightarrow> holds_signature L R' v opts tag p"
    and "remote_Signatures L R tag opts = Ok t \<Longrightarrow> Get t = Ok g \<Longrightarrow> set (nil_list g) \<subseteq> set sigs \<Longrightarrow>
      holds_signature L R v opts tag' p' \<Longrightarrow> holds_signature L R' v opts tag' p'"
proof -
  obtain t' ts where t': "remote_Signatures L R' tag opts = Ok t'" "Get t' = Ok (Some ts)" and ts: "list_all2 same_content ts sigs"
    using write_then_Signatures [OF W wr, of L] reads by (auto simp: reads_as_def)
  have new: "holds_signature L R' v opts tag p" if x: "x \<in> set sigs" "Payload x = Ok p" "verifyOCISignature v x = Ok ()" for x p
  proof -
    obtain y where "y \<in> set ts" "same_content y x"
      using ts x(1) by (metis in_set_conv_nth list_all2_conv_all_nth)
    then show ?thesis
      using t' x(2,3) tag verifyOCISignature_content [of y x v] by (auto simp: holds_signature_def same_content_def)
  qed
  show "x \<in> set sigs \<Longrightarrow> Payload x = Ok p \<Longrightarrow> verifyOCISignature v x = Ok () \<Longrightarrow> holds_signature L R' v opts tag p"
    by (rule new)
  show "holds_signature L R' v opts tag' p'"
    if old: "remote_Signatures L R tag opts = Ok t" "Get t = Ok g" "set (nil_list g) \<subseteq> set sigs" "holds_signature L R v opts tag' p'"
  proof (cases "tag' = tag")
    case True
    then obtain x where "x \<in> set (nil_list g)" "Payload x = Ok p'" "verifyOCISignature v x = Ok ()"
      using old(1,2,4) by (auto simp: holds_signature_def nil_list_def)
    then show ?thesis
      using new old(3) True by blast
  next
    case False
    then show ?thesis
      using old(4) write_frame_Signatures [OF W wr, of tag'] by (auto simp: holds_signature_def)
  qed
qed

lemma attach_cases:
  assumes att: "AttachSignatureToEntity App ei (entity_at L R o' e) sig [WithDupeDetector (dd_Find w)] = Ok newSE"
    and wr: "WriteSignatures W R c (entity_methods newSE) opts = Ok R'"
    and h: "remote_Digest e = Ok h" and o': "o' = remote_makeOptions c opts" and tag: "tag = entity_tag h (SignatureSuffix o') o'"
  shows "\<exists>t g s1 r d mt ann. remote_Signatures L R tag opts = Ok t \<and> Get t = Ok g \<and>
    W R (ROpt (remote_makeOptions c opts)) tag (image.truncate s1) = Ok R' \<and>
    Digest sig = Ok d \<and> dd_loop w sig d mt ann (nil_list g) = Ok r \<and>
    (if r = None then AppendSignatures App t [sig] = Ok s1 else s1 = t)"
proof -
  have sgs: "Signatures (entity_methods newSE) =
      bindr (remote_Signatures L R tag opts) (\<lambda>t. bindr (dd_Find w (Some t) sig) (\<lambda>r.
        if r \<noteq> None then Ok (Some t) else bindr (AppendSignatures App t [sig]) (\<lambda>s. Ok (Some s))))"
    unfolding attached_at(1) [OF att] attached_Signatures entity_at_Signatures h signatures_of_def
    by (cases "remote_Signatures L R tag opts")
       (simp_all add: o' tag redundant_def makeSignOpts_def methods_of_def cong: if_cong)
  obtain s1 where s1: "Signatures (entity_methods newSE) = Ok (Some s1)"
    "W R (ROpt (remote_makeOptions c opts)) tag (image.truncate s1) = Ok R'"
    using wr attached_at(2) [OF att] h by (auto simp: WriteSignatures_def Let_def res_simps o' tag)
  obtain t r where t: "remote_Signatures L R tag opts = Ok t" "dd_Find w (Some t) sig = Ok r"
    "if r = None then AppendSignatures App t [sig] = Ok s1 else s1 = t"
    using s1(1) unfolding sgs by (auto simp: bindr_Ok_iff split: if_splits)
  then obtain d mt ann g where "Get t = Ok g" "Digest sig = Ok d" "dd_loop w sig d mt ann (nil_list g) = Ok r"
    by (auto simp: dd_Find_def bindr_Ok_iff methods_of_def)
  then show ?thesis
    using t s1(2) by blast
qed

lemma sign_step:
  assumes laws: "signing_laws L S sv v" and R: "addressed L R"
    and sg: "SignMessage sv p = Ok sg" and sig: "NewSignature L p (b64_encode sg) [] = Ok sig"
    and att: "AttachSignatureToEntity (v1_Append S) ei (entity_at L R o' e) sig
      [WithDupeDetector (dd_Find (verifier.truncate sv))] = Ok newSE"
    and wr: "WriteSignatures (remote_Write S) R c (entity_methods newSE) opts = Ok R'"
    and h: "remote_Digest e = Ok h" and o': "o' = remote_makeOptions c opts" and tag: "tag = entity_tag h (SignatureSuffix o') o'"
  shows "addressed L R' \<and> holds_signature L R' v opts tag p \<and>
    (\<forall>tag' p'. holds_signature L R v opts tag' p' \<longrightarrow> holds_signature L R' v opts tag' p')"
proof -
  note laws = signing_lawsD [OF laws] and new = new_signature [OF sig]
  obtain t g s1 r d mt ann where t: "remote_Signatures L R tag opts = Ok t" "Get t = Ok g"
    and w: "remote_Write S R (ROpt (remote_makeOptions c opts)) tag (image.truncate s1) = Ok R'"
    and dd: "Digest sig = Ok d" "dd_loop (verifier.truncate sv) sig d mt ann (nil_list g) = Ok r"
    and r: "if r = None then AppendSignatures (v1_Append S) t [sig] = Ok s1 else s1 = t"
    using attach_cases [OF att wr h o' tag] by blast
  note stored = remote_Signatures_stored [OF R t] and tag_eq = tag [unfolded entity_tag_def]
  have conclude: ?thesis
    if "reads_as L (image.truncate s1) sigs" "addressed_image L (image.truncate s1)" "set (nil_list g) \<subseteq> set sigs"
      "x \<in> set sigs" "Payload x = Ok p" "verifyOCISignature v x = Ok ()" for sigs x
    using written_holds(1) [OF laws(2) w that(1) tag_eq that(4-6)] written_holds(2) [OF laws(2) w that(1) tag_eq t that(3)]
      laws(4) [OF w R that(2)]
    by blast
  show ?thesis
  proof (cases r)
    case (Some x)
    then obtain b raw where x: "x \<in> set (nil_list g)" "Digest x = Ok d" "Base64Signature x = Ok b" "b64_decode b = Ok raw"
      "VerifySignature sv raw p = Ok ()"
      using dd_loop_found [OF dd(2) [unfolded Some]] new(3) by (auto simp: verifier.truncate_def)
    obtain ts where ts: "g = Some ts"
      using x(1) by (cases g) (auto simp: nil_list_def)
    have "Payload x = Ok p"
      using stored_payload [OF stored(2) stored(3) [OF ts] _ x(2), of p] x(1) ts dd(1) new(1) by (simp add: nil_list_def)
    then show ?thesis
      using conclude [of "nil_list g" x] Some r x stored(1,2) laws(7) by (simp add: verifyOCISignature_def)
  next
    case None
    then obtain adds where adds: "addenda [sig] = Ok adds" "v1_Append S (image.truncate t) adds = Ok (image.truncate s1)"
      using r by (auto simp: AppendSignatures_def bindr_Ok_iff)
    have "faithful L d sig \<and> Payload sig = Ok p \<and> Base64Signature sig = Ok (b64_encode sg)"
      by (rule NewSignature_stored [OF laws(3) sig refl]) (simp_all add: default_options_def nil_map_def nil_bytes_def bundle_codec_def)
    then have sig': "storable L sig" "Payload sig = Ok p" "verifyOCISignature v sig = Ok ()"
      using dd(1) laws(6) [OF sg] by (auto simp: storable_def verifyOCISignature_def)
    have "one_blob_each (image.truncate t) [sig]"
      using stored(2) new(1,2) dd(1) by (auto simp: one_blob_each_def addressed_image_def)
    then have "reads_as L (image.truncate s1) (nil_list g @ [sig])"
      using Append_reads [OF laws(1) adds stored(1)] sig'(1) by simp
    moreover have "addressed_image L (image.truncate s1)"
      by (rule append_addressed [OF laws(1) stored(2) adds new(1,2) laws(5)])
    ultimately show ?thesis
      using conclude [of "nil_list g @ [sig]" sig] sig'(2,3) by (simp add: subset_insertI)
  qed
qed

lemma wrapS_Ok_iff [stm_simps]: "wrapS msg m s = (Ok a, t) \<longleftrightarrow> m s = (Ok a, t)"
  by (auto simp: wrapS_def handleS_Ok_iff)

lemma st_WriteFile_registry: "st_WriteFile S p b s = (r, t) \<Longrightarrow> st_registry t = st_registry s"
  by (auto simp: st_WriteFile_def split: option.splits)

lemma output_registry:
  "output_signature S f d b s = (Ok (), t) \<Longrightarrow> st_registry t = st_registry s"
  "output_certificate L S f sv s = (Ok (), t) \<Longrightarrow> st_registry t = st_registry s"
  by (auto simp: output_signature_def output_certificate_def wrapS_Ok_iff bindS_Ok_iff dest: st_WriteFile_registry split: if_splits)

text \<open>With a key and not in experimental mode, a signature has no certificate and no bundle.\<close>

lemma make_signature_key:
  assumes "make_signature L H S ko f sv R digest [] = Ok sig" and "\<not> EnableExperimental H" and "sv_Cert sv = None"
  shows "\<exists>p sg. Marshal_Cosign S digest (sf_Annotations f) = Ok p \<and> SignMessage (sv_signer sv) p = Ok sg \<and>
    NewSignature L p (b64_encode sg) [] = Ok sig"
  using assms by (auto simp: make_signature_def ShouldUploadToTlog_def payload_Sign_def res_simps Let_def)

lemma signDigest_step:
  assumes laws: "signing_laws L S (sv_signer sv) v" and key: "\<not> EnableExperimental H" "sv_Cert sv = None"
    and opts: "sf_Upload f" "ClientOpts L H (cli S) (sf_Registry f) = Ok opts"
    and run: "signDigest L H S ko f sv [] o' digest e s = (Ok (), s')"
    and s: "addressed L (st_registry s)" and h: "remote_Digest e = Ok h" and o': "o' = remote_makeOptions (Context digest) opts"
  shows "addressed L (st_registry s') \<and>
    (\<exists>p. Marshal_Cosign S digest (sf_Annotations f) = Ok p \<and>
       holds_signature L (st_registry s') v opts (entity_tag h (SignatureSuffix o') o') p) \<and>
    (\<forall>tag' p'. holds_signature L (st_registry s) v opts tag' p' \<longrightarrow> holds_signature L (st_registry s') v opts tag' p')"
proof -
  obtain sig b64 s1 s2 where sig: "make_signature L H S ko f sv (st_registry s) digest [] = Ok sig"
    and s1: "output_signature S f digest b64 s = (Ok (), s1)" and s2: "output_certificate L S f sv s1 = (Ok (), s2)"
    and pub: "publish_signature L H S f sv o' digest e sig s2 = (Ok (), s')"
    using run opts(1) by (auto simp: signDigest_def bindS_Ok_iff)
  have files: "st_registry s2 = st_registry s"
    using output_registry(1) [OF s1] output_registry(2) [OF s2] by simp
  obtain p sg where p: "Marshal_Cosign S digest (sf_Annotations f) = Ok p" "SignMessage (sv_signer sv) p = Ok sg"
    "NewSignature L p (b64_encode sg) [] = Ok sig"
    using make_signature_key [OF sig key] by blast
  obtain newSE where att: "AttachSignatureToEntity (v1_Append S) (empty_Image (st_registry s)) (entity_at L (st_registry s) o' e) sig
      [WithDupeDetector (dd_Find (verifier.truncate (sv_signer sv)))] = Ok newSE"
    "WriteSignatures (remote_Write S) (st_registry s) (Context digest) (entity_methods newSE) opts = Ok (st_registry s')"
    using pub files opts(2) by (auto simp: publish_signature_def bindS_Ok_iff bindr_Ok_iff)
  show ?thesis
    using sign_step [OF laws s p(2,3) att h o' refl] p(1) by blast
qed

text \<open>The entities in \<open>A\<close> are signed.\<close>

definition signed_all ::
  "libs \<Rightarrow> 'c sign_lib \<Rightarrow> sign_flags \<Rightarrow> verifier \<Rightarrow> remote_option list \<Rightarrow> string \<Rightarrow> remote_entity set \<Rightarrow> sign_state \<Rightarrow> bool" where
  "signed_all L S f v opts c A s \<longleftrightarrow> addressed L (st_registry s) \<and>
     (\<forall>e \<in> A. \<forall>h. remote_Digest e = Ok h \<longrightarrow>
        (\<exists>p. Marshal_Cosign S (DigestRef c (hash_String h)) (sf_Annotations f) = Ok p \<and>
           holds_signature L (st_registry s) v opts
             (entity_tag h (SignatureSuffix (remote_makeOptions c opts)) (remote_makeOptions c opts)) p))"

lemma signDigest_signs:
  assumes laws: "signing_laws L S (sv_signer sv) v" and key: "\<not> EnableExperimental H" "sv_Cert sv = None"
    and opts: "sf_Upload f" "ClientOpts L H (cli S) (sf_Registry f) = Ok opts"
    and run: "signDigest L H S ko f sv [] (remote_makeOptions c opts) (DigestRef c (hash_String h)) e s = (Ok (), s')"
    and h: "remote_Digest e = Ok h" and A: "signed_all L S f v opts c A s"
  shows "signed_all L S f v opts c (A \<union> {e}) s'"
proof -
  have "addressed L (st_registry s)"
    using A by (simp add: signed_all_def)
  note step = signDigest_step [OF laws key opts run this h, simplified]
  show ?thesis
    unfolding signed_all_def
  proof (intro conjI ballI allI impI)
    show "addressed L (st_registry s')"
      using step by simp
  next
    fix e' h' assume "e' \<in> A \<union> {e}" and h': "remote_Digest e' = Ok h'"
    then consider "e' = e" "h' = h" | "e' \<in> A"
      using h by auto
    then show "\<exists>p. Marshal_Cosign S (DigestRef c (hash_String h')) (sf_Annotations f) = Ok p \<and>
        holds_signature L (st_registry s') v opts
          (entity_tag h' (SignatureSuffix (remote_makeOptions c opts)) (remote_makeOptions c opts)) p"
    proof cases
      case 2
      then obtain p where "Marshal_Cosign S (DigestRef c (hash_String h')) (sf_Annotations f) = Ok p"
        "holds_signature L (st_registry s) v opts
          (entity_tag h' (SignatureSuffix (remote_makeOptions c opts)) (remote_makeOptions c opts)) p"
        using A h' unfolding signed_all_def by blast
      then show ?thesis
        using step by blast
    qed (use step in simp)
  qed
qed

lemma sign_entity_deals:
  assumes laws: "signing_laws L S (sv_signer sv) v" and key: "\<not> EnableExperimental H" "sv_Cert sv = None"
    and opts: "sf_Upload f" "ClientOpts L H (cli S) (sf_Registry f) = Ok opts"
  shows "deals_with (signed_all L S f v opts c) (sign_entity L H S ko f sv [] (remote_makeOptions c opts) c e) {e}
    (\<lambda>skip. skip = (\<not> sf_Recursive f))"
  unfolding deals_with_def
proof (intro allI impI)
  fix A s skip s' assume A: "signed_all L S f v opts c A s"
    and run: "sign_entity L H S ko f sv [] (remote_makeOptions c opts) c e s = (Ok skip, s')"
  then obtain h where "remote_Digest e = Ok h"
    "signDigest L H S ko f sv [] (remote_makeOptions c opts) (DigestRef c (hash_String h)) e s = (Ok (), s')" "skip = (\<not> sf_Recursive f)"
    by (auto simp: sign_entity_def bindS_Ok_iff wrapS_Ok_iff wrapr_Ok_iff)
  then show "skip = (\<not> sf_Recursive f) \<and> signed_all L S f v opts c (A \<union> {e}) s'"
    using signDigest_signs [OF laws key opts _ _ A] by blast
qed

lemma walk_skips:
  assumes "deals_with J (fn e) B (\<lambda>skip. skip)"
  shows "deals_with J (walk_SignedEntity fn e) B (\<lambda>_. True)"
proof -
  have "\<exists>ch. walk_SignedEntity fn e = before_children (fn e) ch"
    by (cases e) (auto simp: walk_SignedEntity_def, metis v1_index.exhaust walk_index.simps)
  then obtain ch where ch: "walk_SignedEntity fn e = before_children (fn e) ch"
    by blast
  show ?thesis
    unfolding deals_with_def
  proof (intro allI impI conjI TrueI)
    fix A s a s' assume J: "J A s" and "walk_SignedEntity fn e s = (Ok a, s')"
    then obtain skip s1 where s1: "fn e s = (Ok skip, s1)" "(if skip then retS () else ch) s1 = (Ok a, s')"
      by (auto simp: ch before_children_def bindS_Ok_iff)
    then show "J (A \<union> B) s'"
      using deals_withD [OF assms J s1(1)] by simp
  qed
qed

lemma walk_signs:
  assumes laws: "signing_laws L S (sv_signer sv) v" and key: "\<not> EnableExperimental H" "sv_Cert sv = None"
    and opts: "sf_Upload f" "ClientOpts L H (cli S) (sf_Registry f) = Ok opts"
  shows "deals_with (signed_all L S f v opts c) (walk_SignedEntity (sign_entity L H S ko f sv [] (remote_makeOptions c opts) c) e)
    (if sf_Recursive f then {e'. part_of e' e} else {e}) (\<lambda>_. True)"
proof (cases "sf_Recursive f")
  case True
  then have "deals_with (signed_all L S f v opts c) (sign_entity L H S ko f sv [] (remote_makeOptions c opts) c e') {e'} Not" for e'
    using sign_entity_deals [OF laws key opts, of c ko e'] by (simp add: fun_Compl_def)
  then show ?thesis
    using walk_deals [of e "signed_all L S f v opts c" "sign_entity L H S ko f sv [] (remote_makeOptions c opts) c"] True by simp
next
  case False
  then show ?thesis
    using walk_skips [of "signed_all L S f v opts c" "sign_entity L H S ko f sv [] (remote_makeOptions c opts) c" e "{e}"]
      sign_entity_deals [OF laws key opts, of c ko e] by simp
qed

subsection \<open>What was signed is verified\<close>

text \<open>The payload type of sigstore, as documented: the JSON text names the digest of the image.\<close>

definition payload_documented :: "libs \<Rightarrow> 'c sign_lib \<Rightarrow> bool" where
  "payload_documented L S \<longleftrightarrow>
     (\<forall>c d ann p. Marshal_Cosign S (DigestRef c d) ann = Ok p \<longrightarrow>
        (\<exists>ss. Unmarshal_SimpleContainerImage L p = Ok ss \<and> DockerManifestDigest ss = d))"

text \<open>What is found under a digest has that digest.\<close>

definition names_digest :: "reference \<Rightarrow> remote_entity \<Rightarrow> bool" where
  "names_digest ref e \<longleftrightarrow> (\<forall>c d h. ref = DigestRef c d \<longrightarrow> remote_Digest e = Ok h \<longrightarrow> hash_String h = d)"

text \<open>No signature that is stored with the entity has a broken bundle, and the check of none panics.\<close>

definition orderly :: "libs \<Rightarrow> host \<Rightarrow> CheckOpts \<Rightarrow> signed_entity \<Rightarrow> hash \<Rightarrow> bool" where
  "orderly L H co se h \<longleftrightarrow>
     (\<forall>t g x. Signatures se = Ok (Some t) \<longrightarrow> Get t = Ok g \<longrightarrow> x \<in> set (nil_list g) \<longrightarrow>
        (\<exists>b. VerifyBundle L H x = Ok b) \<and> (\<forall>p. fst (VerifyImageSignature L H x h co) \<noteq> Panic p))"

lemma verify_opts_key:
  assumes "verify_opts L H E c opts = Ok co" and "\<not> EnableExperimental H"
  shows "RegistryClientOpts co = opts" and "RekorClient co = None" and "SignatureRef co = vc_SignatureRef c"
    and "opts_annotations co = vc_Annotations c" and "ClaimVerifier co = (if vc_CheckClaims c then Some (SimpleClaimVerifier L) else None)"
proof -
  let ?h = "if vc_HashAlgorithm c = 0 then SHA256 else vc_HashAlgorithm c"
  obtain k where "co = (snd (select_key L H E ([], []) (vc_Key c) ?h (flag_opts L c opts)))\<lparr>SigVerifier := k\<rparr>"
    using assms by (auto simp: verify_opts_def experimental_opts_def Let_def bindr_Ok_iff split_beta)
  moreover obtain r p where "snd (select_key L H E ([], []) (vc_Key c) ?h (flag_opts L c opts)) =
      (flag_opts L c opts)\<lparr>RootCerts := r, IntermediateCerts := p\<rparr>"
    using select_key_frame by blast
  ultimately show "RegistryClientOpts co = opts" and "RekorClient co = None" and "SignatureRef co = vc_SignatureRef c"
    and "opts_annotations co = vc_Annotations c" and "ClaimVerifier co = (if vc_CheckClaims c then Some (SimpleClaimVerifier L) else None)"
    by (simp_all add: flag_opts_def)
qed

lemma sign_image_signs:
  assumes laws: "signing_laws L S (sv_signer sv) v" and key: "\<not> EnableExperimental H" "sv_Cert sv = None"
    and opts: "sf_Upload f" "ClientOpts L H (cli S) (sf_Registry f) = Ok opts" "sf_Attachment f = []"
    and ref: "name_ParseReference (cli S) img = Ok ref" "find_entity (st_registry s) ref opts = Ok e" "names_digest ref e"
    and run: "sign_image L H S ko f sv [] img s = (Ok (), s')" and R: "addressed L (st_registry s)"
    and e: "e' \<in> (if sf_Recursive f then {e'. part_of e' e} else {e})" "remote_Digest e' = Ok h"
  shows "signed_all L S f v opts (Context ref) {e'} s'"
proof -
  have none: "signed_all L S f v opts (Context ref) {} s"
    using R by (simp add: signed_all_def)
  let ?o = "remote_makeOptions (Context ref) opts"
  consider d where "ref = DigestRef (Context ref) d" "\<not> sf_Recursive f" "signDigest L H S ko f sv [] ?o ref e s = (Ok (), s')"
    | "walk_SignedEntity (sign_entity L H S ko f sv [] ?o (Context ref)) e s = (Ok (), s')"
    using run opts(2,3) ref(1,2)
    by (cases ref) (auto simp: sign_image_def bindS_Ok_iff wrapS_Ok_iff GetAttachedImageRef_def Let_def split: if_splits)
  then show ?thesis
  proof cases
    case 1
    then have "e' = e" "hash_String h = d"
      using e ref(3) unfolding names_digest_def by auto
    then show ?thesis
      using signDigest_signs [OF laws key opts(1,2) _ _ none, where h = h and e = e and s' = s'] 1 e(2) by simp
  next
    case 2
    then have "signed_all L S f v opts (Context ref) (if sf_Recursive f then {e'. part_of e' e} else {e}) s'"
      using deals_withD [OF walk_signs [OF laws key opts(1,2)] none] by simp
    then show ?thesis
      using e(1) unfolding signed_all_def by blast
  qed
qed

lemma held_verifies:
  assumes held: "holds_signature L R v (RegistryClientOpts co) (entity_tag h (SignatureSuffix o') o') p"
    and o': "o' = remote_makeOptions (Context ref) (RegistryClientOpts co)"
    and got: "getSignedEntity L R ref (RegistryClientOpts co) = Ok (se, h)" and orderly: "orderly L H co se h"
    and co: "SignatureRef co = []" "SigVerifier co = Some v" "RekorClient co = None"
    and claims: "\<And>cv x. ClaimVerifier co = Some cv \<Longrightarrow> Payload x = Ok p \<Longrightarrow> cv x h (opts_annotations co) = Ok ()"
  shows "\<exists>checked bv. fst (VerifyImageSignatures L H R ref co) = Ok (checked, bv) \<and> (\<exists>x \<in> set checked. Payload x = Ok p)"
proof -
  obtain t ts x where t: "remote_Signatures L R (entity_tag h (SignatureSuffix o') o') (RegistryClientOpts co) = Ok t" "Get t = Ok (Some ts)"
    and x: "x \<in> set ts" "Payload x = Ok p" "verifyOCISignature v x = Ok ()"
    using held by (auto simp: holds_signature_def)
  have sgs: "Signatures se = Ok (Some t)"
    using getSignedEntity_Signatures [OF got] t(1) by (simp add: signatures_of_def o')
  have calm: "(\<exists>b. VerifyBundle L H y = Ok b) \<and> (\<forall>p. fst (VerifyImageSignature L H y h co) \<noteq> Panic p)" if "y \<in> set ts" for y
    using orderly sgs t(2) that unfolding orderly_def by (force simp: nil_list_def)
  then have "VerifyBundle L H x = Ok True \<or> VerifyBundle L H x = Ok False"
    using x(1) by (metis (full_types))
  then have acc: "accepted L H verifyOCISignature co h x"
    using x co claims by (auto simp: accepted_def verifier_for_def transparent_def)
  let ?checked = "filter (accepted L H verifyOCISignature co h) ts"
  have "fst (verifySignatures L H (Some t) h co) = Ok (?checked, \<exists>s \<in> set ?checked. VerifyBundle L H s = Ok True)"
    using t(2) calm x(1) acc by (auto simp: verifySignatures_Ok_iff checks_to_def nil_list_def filter_empty_conv)
  then have "fst (VerifyImageSignatures L H R ref co) = Ok (?checked, \<exists>s \<in> set ?checked. VerifyBundle L H s = Ok True)"
    using got sgs co by (auto simp: VerifyImageSignatures_def)
  moreover have "x \<in> set ?checked"
    using x(1) acc by simp
  ultimately show ?thesis
    using x(2) by blast
qed

lemma key_signer:
  assumes "SignerFromKeyOpts L H S [] [] ko = Ok sv" and "\<not> ko_Sk ko" and "ko_KeyRef ko \<noteq> []"
    and "SignerVerifierFromKeyRef H (key_api (cli S)) (key_servers (cli S)) (ko_KeyRef ko) (ko_PassFunc ko) = Ok k" and "as_pkcs11 k = None"
  shows "sv_signer sv = k" and "sv_Cert sv = None"
  using assms by (auto simp: SignerFromKeyOpts_def signerFromKeyRef_def token_cert_def)

text \<open>C2. What was signed is verified. If \<open>cosign sign\<close> with a key succeeds on an image, then \<open>cosign verify\<close> with
  a key that belongs to it accepts the image in the registry as it is then: the image or index itself,
  and with \<open>--recursive\<close> every image and index in it, referred to by tag or digest. One of the signatures
  found is over the payload that was signed. This holds if the signature was new and if the duplicate
  detector found an old one, and it does not depend on the order in which the parts were signed.\<close>

theorem sign_then_verify:
  assumes cmd: "SignCmd L H S ko f [img] s = (Ok (), s')"
    and flags: "\<not> EnableExperimental H" "\<not> ko_Sk ko" "sf_Upload f" "sf_PayloadPath f = []" "sf_CertPath f = []"
      "sf_CertChainPath f = []" "sf_Attachment f = []"
    and key: "SignerVerifierFromKeyRef H (key_api (cli S)) (key_servers (cli S)) (ko_KeyRef ko) (ko_PassFunc ko) = Ok k" "as_pkcs11 k = None"
    and laws: "signing_laws L S k v" "payload_documented L S" "addressed L (st_registry s)"
    and ref: "name_ParseReference (cli S) img = Ok ref" "ClientOpts L H (cli S) (sf_Registry f) = Ok opts"
      "find_entity (st_registry s) ref opts = Ok e" "names_digest ref e"
    and part: "part_of e' e" "sf_Recursive f \<or> e' = e" "remote_Digest e' = Ok h"
    and co: "verify_opts L H (cli S) c opts = Ok co" "SigVerifier co = Some v" "vc_Annotations c = None" "vc_SignatureRef c = []"
    and got: "getSignedEntity L (st_registry s') ref' opts = Ok (se, h)" "Context ref' = Context ref" "orderly L H co se h"
  shows "\<exists>checked bv p. fst (VerifyImageSignatures L H (st_registry s') ref' co) = Ok (checked, bv) \<and>
    Marshal_Cosign S (DigestRef (Context ref) (hash_String h)) (sf_Annotations f) = Ok p \<and> (\<exists>x \<in> set checked. Payload x = Ok p)"
proof -
  note vo = verify_opts_key [OF co(1) flags(1)]
  have "ko_KeyRef ko \<noteq> []"
    using cmd flags(1,2) by (auto simp: SignCmd_def key_flags_ok_def OneOf_def NOf_def split: if_splits)
  moreover obtain sv where "SignerFromKeyOpts L H S [] [] ko = Ok sv" "sign_image L H S ko f sv [] img s = (Ok (), s')"
    using cmd flags by (auto simp: SignCmd_def bindS_Ok_iff wrapr_Ok_iff split: if_splits)
  ultimately have sv: "sv_signer sv = k" "sv_Cert sv = None" "sign_image L H S ko f sv [] img s = (Ok (), s')"
    using key_signer [OF _ flags(2) _ key, of L sv] by simp_all
  have "signed_all L S f v opts (Context ref) {e'} s'"
    by (rule sign_image_signs [OF _ flags(1) sv(2) flags(3) ref(2) flags(7) ref(1,3,4) sv(3) laws(3) _ part(3)])
       (use laws(1) sv(1) part in auto)
  then obtain p where p: "Marshal_Cosign S (DigestRef (Context ref) (hash_String h)) (sf_Annotations f) = Ok p"
    "holds_signature L (st_registry s') v opts
       (entity_tag h (SignatureSuffix (remote_makeOptions (Context ref) opts)) (remote_makeOptions (Context ref) opts)) p"
    using part(3) by (auto simp: signed_all_def)
  have claims: "cv x h (opts_annotations co) = Ok ()" if "ClaimVerifier co = Some cv" "Payload x = Ok p" for cv x
    using that p(1) laws(2) co(3) vo(4,5) unfolding payload_documented_def
    by (auto simp: SimpleClaimVerifier_Ok_iff split: if_splits)
  have "\<exists>checked bv. fst (VerifyImageSignatures L H (st_registry s') ref' co) = Ok (checked, bv) \<and> (\<exists>x \<in> set checked. Payload x = Ok p)"
    by (rule held_verifies [OF _ refl _ got(3)]) (use p(2) got vo co claims in simp_all)
  then show ?thesis
    using p(1) by blast
qed

subsection \<open>An example\<close>

definition sample_sign_lib :: "unit sign_lib" where
  "sample_sign_lib = \<lparr>
     cli = sample_cli, v1_Append = sample_append, remote_Write = sample_write,
     piv_SignerVerifier = (\<lambda>k. Err (LibError ''no token'')), piv_Certificate = (\<lambda>k. Err (LibError ''no token'')),
     EqualKeys = (\<lambda>a b. if a = b then Ok () else Err (LibError ''different keys'')),
     x509_ParseCertificate = (\<lambda>b. Ok (sample_cert\<lparr>Raw := b\<rparr>)),
     url_Parse = Ok, providers_Enabled = False, providers_Provide = (\<lambda>a. Err (LibError ''no provider'')),
     stdin_IsTerminal = False, OIDConnect = (\<lambda>flow tok os. Ok (''subject'', tok)),
     ecdsa_SignASN1 = (\<lambda>k h. Ok (private_bytes k @ h)),
     SigningCert = (\<lambda>u pub prf tok. Ok \<lparr>CertPEM = Some pub, ChainPEM = Some ''root'', resp_SCT = []\<rparr>),
     Scanln = Ok ''n'', Marshal_Cosign = (\<lambda>ref ann. Ok (DigestStr ref)),
     Marshal_LocalSignedPayload = (\<lambda>p. if lsp_Bundle p = None \<and> CHR ''|'' \<notin> set (lsp_Base64Signature p)
       then Ok (lsp_Base64Signature p @ CHR ''|'' # lsp_Cert p) else Err (LibError ''unsupported'')),
     Unmarshal_LocalSignedPayload = (\<lambda>b. Ok (Some \<lparr>lsp_Base64Signature = takeWhile (\<lambda>c. c \<noteq> CHR ''|'') b,
       lsp_Cert = tl (dropWhile (\<lambda>c. c \<noteq> CHR ''|'') b), lsp_Bundle = None\<rparr>))\<rparr>"

definition sample_ko :: KeyOpts where
  "sample_ko = \<lparr>ko_Sk = False, ko_Slot = [], ko_KeyRef = ''kms://k'', ko_FulcioURL = [], ko_RekorURL = ''rekor'', ko_IDToken = [],
     ko_PassFunc = None, ko_OIDC = [], ko_BundlePath = [], ko_InsecureSkipFulcioVerify = False\<rparr>"

definition sample_sign_flags :: sign_flags where
  "sample_sign_flags = \<lparr>sf_Registry = sample_registry_options, sf_Annotations = None, sf_CertPath = [], sf_CertChainPath = [],
     sf_Upload = True, sf_OutputSignature = ''sig'', sf_OutputCertificate = [], sf_PayloadPath = [], sf_Force = False,
     sf_Recursive = True, sf_Attachment = []\<rparr>"

lemma sample_selectors:
  "sf_Upload sample_sign_flags" "sf_Recursive sample_sign_flags" "sf_Attachment sample_sign_flags = []" "sf_PayloadPath sample_sign_flags = []"
  "sf_CertPath sample_sign_flags = []" "sf_CertChainPath sample_sign_flags = []" "sf_Registry sample_sign_flags = sample_registry_options"
  "cli sample_sign_lib = sample_cli" "v1_Append sample_sign_lib = sample_append" "remote_Write sample_sign_lib = sample_write"
  by (simp_all add: sample_sign_flags_def sample_sign_lib_def)

definition sample_sign_state :: sign_state where
  "sample_sign_state = \<lparr>st_files = Map.empty, st_registry = sample_registry\<rparr>"

lemma sample_kms: "SignerVerifierFromKeyRef sample_key_host sample_key_lib () ''kms://k'' pf = Ok (sample_signer ''k'')"
  by (simp add: SignerVerifierFromKeyRef_def from_kms_or_file_def KeyReference_def sample_key_lib_def)

lemma sample_addressed: "addressed sample_libs sample_registry"
  by (simp add: addressed_def addressed_image_def sample_registry_def sample_image_def)

lemma sample_signing_laws: "signing_laws sample_libs sample_sign_lib (sample_signer ''k'') (sample_verifier (ECDSAKey ''k''))"
proof -
  have "pem_reader sample_libs"
    by (simp add: pem_reader_def sample_libs_def)
  moreover have "addressed sample_libs R'" if "sample_write R ro ref img = Ok R'" "addressed sample_libs R" "addressed_image sample_libs img"
    for R ro ref img R'
    using that by (auto simp: sample_write_def addressed_def split: if_splits)
  moreover have "p = q" if "v1_SHA256 sample_libs p = Ok d" "v1_SHA256 sample_libs q = Ok d" for p q d
    using that by (auto simp: sample_libs_def simp: hex_encode_inject)
  ultimately show ?thesis
    using sample_append_documented sample_write_stores
    by (auto simp: signing_laws_def sample_sign_lib_def sample_signer_def sample_verifier_def)
qed

lemma sample_payload_documented: "payload_documented sample_libs sample_sign_lib"
  by (simp add: payload_documented_def sample_sign_lib_def sample_libs_def DigestStr_def)


abbreviation sample_oo :: "remote_option list" where
  "sample_oo \<equiv> [WithRemoteOptions [''context'', ''user-agent'', ''authn.DefaultKeychain'']]"

abbreviation sample_hash :: hash where
  "sample_hash \<equiv> \<lparr>Algorithm = ''sha256'', Hex = ''ab''\<rparr>"

lemma sample_entity_found: "find_entity sample_registry (Tag ''app'' ''latest'') oo = Ok (RemoteImage (sample_image []))"
  by (simp add: find_entity_def sample_registry_def index_media_types_def image_media_types_def Let_def)

lemma sample_new: "\<exists>sig. NewSignature sample_libs p b [] = Ok sig"
  by (simp add: NewSignature_def makeOptions_def default_options_def)

lemma sample_make:
  "make_signature sample_libs sample_key_host sample_sign_lib sample_ko sample_sign_flags
     \<lparr>sv_Cert = None, sv_Chain = None, sv_signer = sample_signer ''k''\<rparr> R (DigestRef c ''sha256:ab'') [] =
   NewSignature sample_libs ''sha256:ab'' (b64_encode ''ksha256:ab'') []"
  using sample_not_experimental
  by (simp add: make_signature_def ShouldUploadToTlog_def payload_Sign_def sample_sign_lib_def sample_signer_def DigestStr_def)

lemma sample_sign_opts: "ClientOpts sample_libs sample_key_host (cli sample_sign_lib) (sf_Registry sample_sign_flags) = Ok sample_oo"
  using sample_ClientOpts by (simp add: sample_sign_lib_def sample_sign_flags_def)

lemma sample_publish:
  assumes sig: "NewSignature sample_libs ''sha256:ab'' b64 [] = Ok sig" and s: "st_registry s = sample_registry"
  shows "\<exists>s1 s'. AppendSignatures sample_append (empty_Signatures sample_registry) [sig] = Ok s1 \<and>
    publish_signature sample_libs sample_key_host sample_sign_lib sample_sign_flags sv (remote_makeOptions ''app'' sample_oo)
      (DigestRef ''app'' ''sha256:ab'') (RemoteImage (sample_image [])) sig s = (Ok (), s') \<and>
    st_registry s' = sample_registry\<lparr>remoteImage := (\<lambda>ro ref.
       if ref = Tag ''app'' ''sha256-ab.sig'' then Ok (image.truncate s1) else Err (TransportError 404))\<rparr>"
proof -
  obtain s1 where s1: "AppendSignatures sample_append (empty_Signatures sample_registry) [sig] = Ok s1"
    using sig by (auto simp: AppendSignatures_def addenda_def sample_append_def NewSignature_def staticLayer_sig_def
        staticLayer_Annotations_def bindr_Ok_iff)
  have "remote_Signatures sample_libs sample_registry (Tag ''app'' ''sha256-ab.sig'') sample_oo = Ok (empty_Signatures sample_registry)"
    by (simp add: remote_Signatures_def sample_registry_def)
  moreover have "dd_Find w (Some (empty_Signatures sample_registry)) sig = Ok None" for w
    using sig by (auto simp: dd_Find_def methods_of_def empty_Signatures_def Let_def nil_list_def NewSignature_def staticLayer_sig_def
        staticLayer_Annotations_def bindr_Ok_iff) (simp add: sample_libs_def)
  moreover have "remoteImage sample_registry = (\<lambda>ro ref. Err (TransportError 404))"
    by (simp add: sample_registry_def)
  moreover have "image_Digest (sample_image []) = Ok sample_hash"
    by (simp add: sample_image_def)
  ultimately show ?thesis
    using s s1 sample_sign_opts
    by (simp add: publish_signature_def AttachSignatureToEntity_def entity_at_def sample_selectors signedImage_entity_def
        signedImage_Signatures_def redundant_def makeSignOpts_def bindS_def methods_of_def remote_image_def entity_of_def signatures_of_def
        entity_tag_def normalize_def remote_makeOptions_def WriteSignatures_def AttachSignatureToImage_def sample_write_def Let_def cong: if_cong)
qed

lemma sample_references: "name_ParseReference sample_cli i = Ok (Tag i ''latest'')" "key_api sample_cli = sample_key_lib" "key_servers sample_cli = ()"
  by (simp_all add: sample_cli_def)

lemma sample_start: "st_registry sample_sign_state = sample_registry"
  by (simp add: sample_sign_state_def)

lemma sample_signed:
  "\<exists>s' sig s1. SignCmd sample_libs sample_key_host sample_sign_lib sample_ko sample_sign_flags [''app''] sample_sign_state = (Ok (), s') \<and>
    NewSignature sample_libs ''sha256:ab'' (b64_encode ''ksha256:ab'') [] = Ok sig \<and>
    AppendSignatures sample_append (empty_Signatures sample_registry) [sig] = Ok s1 \<and>
    st_registry s' = sample_registry\<lparr>remoteImage := (\<lambda>ro ref.
       if ref = Tag ''app'' ''sha256-ab.sig'' then Ok (image.truncate s1) else Err (TransportError 404))\<rparr>"
proof -
  let ?sv = "\<lparr>sv_Cert = None, sv_Chain = None, sv_signer = sample_signer ''k''\<rparr>"
  obtain sig where sig: "NewSignature sample_libs ''sha256:ab'' (b64_encode ''ksha256:ab'') [] = Ok sig"
    using sample_new by blast
  then have b64: "Base64Signature sig = Ok (b64_encode ''ksha256:ab'')"
    by (auto simp: NewSignature_def staticLayer_sig_def bindr_Ok_iff)
  let ?s = "sample_sign_state\<lparr>st_files := [''sig-sha256-ab'' \<mapsto> b64_encode ''ksha256:ab'']\<rparr>"
  obtain s1 s' where s1: "AppendSignatures sample_append (empty_Signatures sample_registry) [sig] = Ok s1"
    and pub: "publish_signature sample_libs sample_key_host sample_sign_lib sample_sign_flags ?sv (remote_makeOptions ''app'' sample_oo)
      (DigestRef ''app'' ''sha256:ab'') (RemoteImage (sample_image [])) sig ?s = (Ok (), s')"
    and s': "st_registry s' = sample_registry\<lparr>remoteImage := (\<lambda>ro ref.
       if ref = Tag ''app'' ''sha256-ab.sig'' then Ok (image.truncate s1) else Err (TransportError 404))\<rparr>"
    using sample_publish [OF sig, of ?s ?sv] by (auto simp: sample_sign_state_def)
  have "output_signature sample_sign_lib sample_sign_flags (DigestRef ''app'' ''sha256:ab'') (b64_encode ''ksha256:ab'') sample_sign_state = (Ok (), ?s)"
    by (simp add: output_signature_def sample_sign_flags_def wrapS_def st_WriteFile_def sample_sign_lib_def sample_cli_def sample_key_lib_def
        DigestStr_def sample_sign_state_def)
  moreover have "output_certificate sample_libs sample_sign_lib sample_sign_flags ?sv = retS ()"
    by (simp add: output_certificate_def sample_sign_flags_def)
  ultimately have "signDigest sample_libs sample_key_host sample_sign_lib sample_ko sample_sign_flags ?sv [] (remote_makeOptions ''app'' sample_oo)
      (DigestRef ''app'' ''sha256:ab'') (RemoteImage (sample_image [])) sample_sign_state = (Ok (), s')"
    using pub sig b64 by (simp add: signDigest_def sample_make sample_selectors)
  moreover have "remote_Digest (RemoteImage (sample_image [])) = Ok sample_hash" "hash_String sample_hash = ''sha256:ab''"
    by (simp_all add: remote_Digest_def sample_image_def hash_String_def)
  ultimately have "sign_image sample_libs sample_key_host sample_sign_lib sample_ko sample_sign_flags ?sv [] ''app'' sample_sign_state = (Ok (), s')"
    using sample_entity_found [of sample_oo] sample_sign_opts
    by (simp add: sign_image_def sample_selectors sample_references GetAttachedImageRef_def wrapS_def
        sample_start walk_SignedEntity_def before_children_def sign_entity_def Let_def bindS_def handleS_def)
  moreover have "SignerFromKeyOpts sample_libs sample_key_host sample_sign_lib [] [] sample_ko = Ok ?sv"
    using sample_kms by (simp add: SignerFromKeyOpts_def sample_ko_def signerFromKeyRef_def sample_selectors sample_references token_cert_def sample_signer_def)
  ultimately have "SignCmd sample_libs sample_key_host sample_sign_lib sample_ko sample_sign_flags [''app''] sample_sign_state = (Ok (), s')"
    using sample_not_experimental
    by (simp add: SignCmd_def key_flags_ok_def OneOf_def NOf_def sample_selectors) (simp add: sample_ko_def)
  then show ?thesis
    using sig s1 s' by blast
qed


text \<open>What the registry then has for the image.\<close>

lemma sample_stored_signature:
  assumes sig: "NewSignature sample_libs p (b64_encode raw) [] = Ok sig"
    and s1: "AppendSignatures sample_append (empty_Signatures sample_registry) [sig] = Ok s1"
  shows "\<exists>x. sigs_Get sample_libs (image.truncate s1) = Ok (Some [x]) \<and> Payload x = Ok p \<and> Base64Signature x = Ok (b64_encode raw) \<and>
    Bundle x = Ok None"
proof -
  have sig': "Digest sig = Ok \<lparr>Algorithm = ''sha256'', Hex = hex_encode p\<rparr>" "Annotations sig = Ok [(SignatureAnnotationKey, b64_encode raw)]"
    "Compressed sig = Ok p"
    using sig by (auto simp: NewSignature_def makeOptions_def default_options_def staticLayer_sig_def staticLayer_Annotations_def nil_map_def
        mcopy_def) (simp_all add: sample_libs_def)
  let ?d = "\<lparr>desc_Annotations = [(SignatureAnnotationKey, b64_encode raw)], desc_Digest = \<lparr>Algorithm = ''sha256'', Hex = hex_encode p\<rparr>\<rparr>"
  have "addenda [sig] = Ok [(layer.truncate sig, [(SignatureAnnotationKey, b64_encode raw)])]"
    using sig'(2) by (simp add: addenda_def)
  moreover have "image.truncate (empty_Signatures sample_registry) = sample_image []"
    by (simp add: empty_Signatures_def image.truncate_def sample_registry_def Let_def)
  ultimately have "sigs_Get sample_libs (image.truncate s1) = Ok (Some [signature_New sample_libs (layer.truncate sig) ?d])"
    using s1 sig'(1) by (auto simp: AppendSignatures_def sample_append_def sigs_Get_def sample_image_def)
  moreover have "BundleAnnotationKey \<noteq> SignatureAnnotationKey"
    by (simp add: annotation_keys)
  then have "Payload (signature_New sample_libs (layer.truncate sig) ?d) = Ok p" "Bundle (signature_New sample_libs (layer.truncate sig) ?d) = Ok None"
      "Base64Signature (signature_New sample_libs (layer.truncate sig) ?d) = Ok (b64_encode raw)"
    using sig'(3) by (simp_all add: signature_New_def sigLayer_Payload_def sigLayer_Bundle_def sigLayer_Base64Signature_def mget_def Let_def)
  ultimately show ?thesis by blast
qed

theorem sign_then_verify_witness:
  "\<exists>s' co checked bv. SignCmd sample_libs sample_key_host sample_sign_lib sample_ko sample_sign_flags [''app''] sample_sign_state = (Ok (), s') \<and>
     verify_opts sample_libs sample_key_host sample_cli sample_verify_command sample_oo = Ok co \<and>
     fst (VerifyImageSignatures sample_libs sample_key_host (st_registry s') (Tag ''app'' ''latest'') co) = Ok (checked, bv) \<and>
     (\<exists>x \<in> set checked. Payload x = Ok ''sha256:ab'')"
proof -
  let ?ref = "Tag ''app'' ''latest''"
  obtain s' sig s1 where cmd: "SignCmd sample_libs sample_key_host sample_sign_lib sample_ko sample_sign_flags [''app''] sample_sign_state = (Ok (), s')"
    and sig: "NewSignature sample_libs ''sha256:ab'' (b64_encode ''ksha256:ab'') [] = Ok sig"
    and s1: "AppendSignatures sample_append (empty_Signatures sample_registry) [sig] = Ok s1"
    and R': "st_registry s' = sample_registry\<lparr>remoteImage := (\<lambda>ro ref.
       if ref = Tag ''app'' ''sha256-ab.sig'' then Ok (image.truncate s1) else Err (TransportError 404))\<rparr>"
    using sample_signed by blast
  obtain x where x: "sigs_Get sample_libs (image.truncate s1) = Ok (Some [x])" "Payload x = Ok ''sha256:ab''"
    "Base64Signature x = Ok (b64_encode ''ksha256:ab'')" "Bundle x = Ok None"
    using sample_stored_signature [OF sig s1] by blast
  let ?co = "flag_opts sample_libs sample_verify_command sample_oo \<lparr>SigVerifier := Some (sample_verifier (ECDSAKey ''k''))\<rparr>"
  have co: "verify_opts sample_libs sample_key_host sample_cli sample_verify_command sample_oo = Ok ?co"
    using sample_not_experimental by (simp add: verify_opts_def experimental_opts_def sample_verify_command_def sample_select_key)
  obtain se where got: "getSignedEntity sample_libs (st_registry s') ?ref sample_oo = Ok (se, sample_hash)"
    by (auto simp: getSignedEntity_def SignedEntity_def R' sample_registry_def index_media_types_def image_media_types_def remote_image_def
        entity_of_def sample_image_def Let_def)
  have bdl: "VerifyBundle sample_libs sample_key_host x = Ok False"
    using x(4) by (simp add: VerifyBundle_def)
  have "accepted sample_libs sample_key_host verifyOCISignature ?co sample_hash x"
    using x bdl by (simp add: accepted_def verifier_for_def transparent_def flag_opts_def sample_verify_command_def verifyOCISignature_def
        sample_verifier_def SimpleClaimVerifier_Ok_iff) (simp add: sample_libs_def hash_String_def)
  then have "fst (VerifyImageSignature sample_libs sample_key_host x sample_hash ?co) \<noteq> Panic p" for p
    by (auto simp: verify_one_eqs simp flip: verify_one_is_ok_iff [where m = "''no certificate found on signature''"])
  moreover have "Signatures se = Ok (Some (sigs_of sample_libs (image.truncate s1)))"
    using getSignedEntity_Signatures [OF got] by (simp add: signatures_of_def R' remote_Signatures_def entity_tag_def normalize_def remote_makeOptions_def)
  ultimately have orderly: "orderly sample_libs sample_key_host ?co se sample_hash"
    using x(1) bdl by (auto simp: orderly_def sigs_of_def nil_list_def)
  have "\<exists>checked bv p. fst (VerifyImageSignatures sample_libs sample_key_host (st_registry s') ?ref ?co) = Ok (checked, bv) \<and>
    Marshal_Cosign sample_sign_lib (DigestRef (Context ?ref) (hash_String sample_hash)) (sf_Annotations sample_sign_flags) = Ok p \<and>
    (\<exists>x \<in> set checked. Payload x = Ok p)"
    by (rule sign_then_verify [OF cmd sample_not_experimental _ _ _ _ _ _ _ _ sample_signing_laws sample_payload_documented,
          where c = sample_verify_command and e = "RemoteImage (sample_image [])" and e' = "RemoteImage (sample_image [])" and opts = sample_oo])
       (use sample_kms sample_addressed sample_entity_found sample_sign_opts co got orderly in
          \<open>simp_all add: sample_ko_def sample_selectors sample_references sample_signer_def sample_start names_digest_def part_self
             remote_Digest_def sample_image_def flag_opts_def sample_verify_command_def\<close>)
  then show ?thesis
    using cmd co by (auto simp: sample_sign_lib_def DigestStr_def hash_String_def)
qed

end
