(* ===== verification/Verify_Blob.thy ===== *)
theory Verify_Blob
  imports Sign_Correct
begin

section \<open>The command verify-blob\<close>

text \<open>
  \<open>cmd/cosign/cli/verify/verify_blob.go\<close> and \<open>FetchLocalSignedPayloadFromPath\<close> of \<open>pkg/cosign/fetch.go\<close>:
  where the signature and the key come from, the check of the signature, and the check of the
  transparency log, online or with the bundle. Shown are what an accepted blob means, that what
  \<open>cosign sign-blob\<close> wrote is accepted, and that an entry of the log that does not verify is ignored.
  The DSSE library and the decoding of log entries are the parameter \<open>blob_lib\<close>.
\<close>

subsection \<open>Operations\<close>

datatype entry_impl = RekordV001Entry rekord_schema | HashedrekordV001Entry rekord_schema | OtherEntry

record blob_lib =
  dsse_WrapVerifier :: "verifier \<Rightarrow> verifier"
  UnmarshalProposedEntry :: "bytes \<Rightarrow> string res"
  types_NewEntry :: "string \<Rightarrow> entry_impl res"

record blob_flags =
  bf_CertRef :: string
  bf_CertEmail :: string
  bf_CertOidcIssuer :: string
  bf_CertChain :: string
  bf_SigRef :: string
  bf_BlobRef :: string
  bf_EnforceSCT :: bool

definition isb64 :: "bytes \<Rightarrow> bool" where
  "isb64 data = is_ok (b64_decode data)"

text \<open>The pointer stays nil if the file holds the JSON text \<open>null\<close>.\<close>

definition FetchLocalSignedPayloadFromPath :: "host \<Rightarrow> 'c sign_lib \<Rightarrow> string \<Rightarrow> local_signed_payload option res" where
  "FetchLocalSignedPayloadFromPath H S path =
     bindr (wrapr (''reading '' @ path) (ReadFile H path)) (Unmarshal_LocalSignedPayload S)"

definition signatures :: "host \<Rightarrow> 'c sign_lib \<Rightarrow> string \<Rightarrow> string \<Rightarrow> (bytes \<times> string) res" where
  "signatures H S sigRef bundlePath =
     bindr (if sigRef \<noteq> []
            then handler (LoadFileOrURL H sigRef) (\<lambda>err. if is_not_exist err then Ok sigRef else Err err) Ok
            else if bundlePath \<noteq> []
            then bindr (FetchLocalSignedPayloadFromPath H S bundlePath) (\<lambda>b.
                 bindr (deref b) (\<lambda>b. Ok (lsp_Base64Signature b)))
            else Err (ErrorString (''missing flag '' @ [CHR 0x27] @ ''--signature'' @ [CHR 0x27]))) (\<lambda>targetSig.
     if isb64 targetSig then bindr (b64_decode targetSig) (\<lambda>sigBytes. Ok (sigBytes, targetSig))
     else Ok (targetSig, b64_encode targetSig))"

definition payloadBytes :: "host \<Rightarrow> 'c sign_lib \<Rightarrow> string \<Rightarrow> bytes res" where
  "payloadBytes H S blobRef = (if blobRef = ''-'' then ReadStdin (key_api (cli S)) else LoadFileOrURL H blobRef)"

definition isIntotoDSSE :: "libs \<Rightarrow> bytes \<Rightarrow> bool" where
  "isIntotoDSSE L blobBytes =
     (case Unmarshal_Envelope L blobBytes of Ok env \<Rightarrow> PayloadType env = IntotoPayloadType | _ \<Rightarrow> False)"

definition extractCerts :: "libs \<Rightarrow> blob_lib \<Rightarrow> log_entry \<Rightarrow> certificate list res" where
  "extractCerts L B e =
     bindr (as_string (entry_Body e)) (\<lambda>body.
     bindr (b64_decode body) (\<lambda>b.
     bindr (UnmarshalProposedEntry B b) (\<lambda>pe.
     bindr (types_NewEntry B pe) (\<lambda>eimpl.
     bindr (case eimpl of
              RekordV001Entry obj \<Rightarrow> bindr (deref (rekord_Signature obj)) (\<lambda>s. deref (sigref_PublicKey s))
            | HashedrekordV001Entry obj \<Rightarrow> bindr (deref (rekord_Signature obj)) (\<lambda>s. deref (sigref_PublicKey s))
            | OtherEntry \<Rightarrow> Err (ErrorString ''unexpected tlog entry type'')) (\<lambda>content.
     bindr (b64_decode (strfmt_Base64_String L content)) (\<lambda>publicKey.
     bindr (UnmarshalCertificatesFromPEM L publicKey) (\<lambda>certs.
     if certs = [] then Err (ErrorString ''no certs found in pem tlog'') else Ok certs)))))))"

definition verifyRekorBundle :: "libs \<Rightarrow> host \<Rightarrow> 'c sign_lib \<Rightarrow> string \<Rightarrow> certificate option \<Rightarrow> unit res" where
  "verifyRekorBundle L H S bundlePath cert =
     bindr (FetchLocalSignedPayloadFromPath H S bundlePath) (\<lambda>b.
     bindr (deref b) (\<lambda>b.
     case lsp_Bundle b of
       None \<Rightarrow> Err (ErrorString ''rekor entry is not available'')
     | Some bdl \<Rightarrow>
         bindr (wrapr ''retrieving rekor public key'' (GetRekorPubs L H)) (\<lambda>publicKeys.
         case mlookup publicKeys (LogID (bundle_Payload bdl)) of
           None \<Rightarrow> Err (ErrorString ''rekor log public key not found for payload'')
         | Some pubKey \<Rightarrow>
             bindr (VerifySET L (bundle_Payload bdl) (SignedEntryTimestamp bdl) (PubKey pubKey)) (\<lambda>_.
             case cert of
               None \<Rightarrow> Ok ()
             | Some cert \<Rightarrow> CheckExpiry cert (time_Unix (IntegratedTime (bundle_Payload bdl)))))))"

definition entry_pem :: "libs \<Rightarrow> verifier \<Rightarrow> certificate option \<Rightarrow> bytes res" where
  "entry_pem L pubKey cert =
     bindr (PublicKeyPem L pubKey) (\<lambda>pubBytes.
     case cert of Some c \<Rightarrow> MarshalCertificateToPEM L c | None \<Rightarrow> Ok pubBytes)"

definition online_entry ::
  "libs \<Rightarrow> host \<Rightarrow> 'c sign_lib \<Rightarrow> KeyOpts \<Rightarrow> log_entry option \<Rightarrow> verifier \<Rightarrow> certificate option \<Rightarrow> string \<Rightarrow> bytes \<Rightarrow> unit res" where
  "online_entry L H S ko e pubKey cert b64sig blobBytes =
     bindr (rekor_NewClient (cli S) (ko_RekorURL ko)) (\<lambda>rekorClient.
     bindr (case e of
              Some e \<Rightarrow> Ok e
            | None \<Rightarrow> bindr (entry_pem L pubKey cert) (\<lambda>pubBytes. FindTlogEntry L rekorClient b64sig blobBytes pubBytes)) (\<lambda>e.
     handler (VerifyTLogEntry L H rekorClient e) (\<lambda>_. Ok ()) (\<lambda>_.
     bindr (ComputeLeafHash L e) (\<lambda>uuid.
     bindr (bindr (bindr (deref (Verification e)) (\<lambda>v. deref (InclusionProof v))) (\<lambda>p. deref (proof_LogIndex p))) (\<lambda>_.
     case cert of
       None \<Rightarrow> Ok ()
     | Some cert \<Rightarrow> bindr (deref (entry_IntegratedTime e)) (\<lambda>it. CheckExpiry cert (time_Unix it)))))))"

definition verifyRekorEntry ::
  "libs \<Rightarrow> host \<Rightarrow> 'c sign_lib \<Rightarrow> KeyOpts \<Rightarrow> log_entry option \<Rightarrow> verifier \<Rightarrow> certificate option \<Rightarrow> string \<Rightarrow> bytes \<Rightarrow> unit res" where
  "verifyRekorEntry L H S ko e pubKey cert b64sig blobBytes =
     (let online = (if \<not> EnableExperimental H then Ok () else online_entry L H S ko e pubKey cert b64sig blobBytes)
      in if ko_BundlePath ko \<noteq> []
         then handler (verifyRekorBundle L H S (ko_BundlePath ko) cert) (\<lambda>_. online) Ok
         else online)"

definition blob_opts :: "blob_flags \<Rightarrow> certpool option \<Rightarrow> certpool option \<Rightarrow> CheckOpts" where
  "blob_opts f roots inters =
     \<lparr>RegistryClientOpts = [], opts_annotations = None, ClaimVerifier = None, RekorClient = None, SigVerifier = None,
      RootCerts = roots, IntermediateCerts = inters, CertEmail = bf_CertEmail f,
      CertOidcIssuer = bf_CertOidcIssuer f, EnforceSCT = bf_EnforceSCT f, SignatureRef = [], Identities = []\<rparr>"

definition maybe_dsse :: "libs \<Rightarrow> blob_lib \<Rightarrow> bytes \<Rightarrow> verifier \<Rightarrow> verifier" where
  "maybe_dsse L B blobBytes v = (if isIntotoDSSE L blobBytes then dsse_WrapVerifier B v else v)"

text \<open>One turn of the loop of \<open>verifySigByUUID\<close>. The roots are fetched, and a failure to fetch them panics,
  only if the entry has certificates; every other failure skips the entry.\<close>

definition valid_entry ::
  "libs \<Rightarrow> host \<Rightarrow> 'c sign_lib \<Rightarrow> blob_lib \<Rightarrow> KeyOpts \<Rightarrow> rekor_client \<Rightarrow> blob_flags \<Rightarrow> bytes \<Rightarrow> string \<Rightarrow> bytes \<Rightarrow> string \<Rightarrow> unit res" where
  "valid_entry L H S B ko rClient f sig b64sig blobBytes u =
     bindr (GetTlogEntry L rClient u) (\<lambda>tlogEntry.
     bindr (extractCerts L B tlogEntry) (\<lambda>certs.
     bindr (GetRoots L H (cli S)) (\<lambda>roots.
     bindr (fst (GetIntermediates L H (snd (fulcioroots_Get L H (roots_once (cli S)))))) (\<lambda>inters.
     bindr (ValidateAndUnpackCert L H (hd certs) (blob_opts f roots inters)) (\<lambda>v.
     bindr (VerifySignature (maybe_dsse L B blobBytes v) sig blobBytes) (\<lambda>_.
     verifyRekorEntry L H S ko (Some tlogEntry) (maybe_dsse L B blobBytes v) (Some (hd certs)) b64sig blobBytes))))))"

fun verifySigByUUID ::
  "libs \<Rightarrow> host \<Rightarrow> 'c sign_lib \<Rightarrow> blob_lib \<Rightarrow> KeyOpts \<Rightarrow> rekor_client \<Rightarrow> blob_flags \<Rightarrow> bytes \<Rightarrow> string \<Rightarrow> bytes \<Rightarrow> bool \<Rightarrow> string list
   \<Rightarrow> unit res" where
  "verifySigByUUID L H S B ko C f sig b64sig blobBytes validSigExists [] =
     (if validSigExists then Ok () else Err (ErrorString ''could not find a valid tlog entry for provided blob''))"
| "verifySigByUUID L H S B ko C f sig b64sig blobBytes validSigExists (u # uuids) =
     handler (valid_entry L H S B ko C f sig b64sig blobBytes u)
       (\<lambda>_. verifySigByUUID L H S B ko C f sig b64sig blobBytes validSigExists uuids)
       (\<lambda>_. verifySigByUUID L H S B ko C f sig b64sig blobBytes True uuids)"

text \<open>The cases of the \<open>switch\<close> that give a verifier, with the certificate if there is one.\<close>

definition bundle_key :: "libs \<Rightarrow> host \<Rightarrow> 'c sign_lib \<Rightarrow> string \<Rightarrow> (verifier \<times> certificate option) res" where
  "bundle_key L H S bundlePath =
     bindr (FetchLocalSignedPayloadFromPath H S bundlePath) (\<lambda>b.
     bindr (deref b) (\<lambda>b.
     if lsp_Cert b = [] then Err (ErrorString ''bundle does not contain cert for verification, please provide public key'')
     else bindr (if isb64 (lsp_Cert b) then b64_decode (lsp_Cert b) else Ok (lsp_Cert b)) (\<lambda>certBytes.
          handler (loadCertFromPEM L certBytes)
            (\<lambda>_. bindr (LoadPublicKeyRaw L (key_api (cli S)) certBytes SHA256) (\<lambda>v. Ok (v, None)))
            (\<lambda>cert. bindr (LoadVerifier L (PublicKey cert)) (\<lambda>v. Ok (v, Some cert))))))"

definition blob_key ::
  "libs \<Rightarrow> host \<Rightarrow> 'c sign_lib \<Rightarrow> KeyOpts \<Rightarrow> blob_flags \<Rightarrow> (verifier \<times> certificate option) res option" where
  "blob_key L H S ko f =
     (if ko_KeyRef ko \<noteq> []
      then Some (bindr (wrapr ''loading public key''
                   (PublicKeyFromKeyRef L H (key_api (cli S)) (key_servers (cli S)) (ko_KeyRef ko))) (\<lambda>v. Ok (v, None)))
      else if ko_Sk ko
      then Some (bindr (wrapr ''opening piv token'' (piv_GetKey (cli S) (ko_Slot ko))) (\<lambda>sk.
                 bindr (wrapr ''loading public key from token'' (piv_Verifier (cli S) sk)) (\<lambda>v. Ok (v, None))))
      else if bf_CertRef f \<noteq> []
      then Some (bindr (loadCertFromFileOrURL L H (bf_CertRef f)) (\<lambda>cert.
                 bindr (if bf_CertChain f = [] then LoadVerifier L (PublicKey cert)
                        else bindr (loadCertChainFromFileOrURL L H (bf_CertChain f)) (\<lambda>chain.
                             fst (ValidateAndUnpackCertWithChain L H cert chain (blob_opts f None None)))) (\<lambda>v.
                 Ok (v, Some cert))))
      else if ko_BundlePath ko \<noteq> [] then Some (bundle_key L H S (ko_BundlePath ko))
      else None)"

definition VerifyBlobCmd :: "libs \<Rightarrow> host \<Rightarrow> 'c sign_lib \<Rightarrow> blob_lib \<Rightarrow> KeyOpts \<Rightarrow> blob_flags \<Rightarrow> unit res" where
  "VerifyBlobCmd L H S B ko f =
     (if \<not> OneOf [ko_KeyRef ko \<noteq> [], ko_Sk ko, bf_CertRef f \<noteq> []] \<and> \<not> EnableExperimental H \<and> ko_BundlePath ko = []
      then Err PubKeyParseError
      else bindr (signatures H S (bf_SigRef f) (ko_BundlePath ko)) (\<lambda>(sig, b64sig).
           bindr (payloadBytes H S (bf_BlobRef f)) (\<lambda>blobBytes.
           case blob_key L H S ko f of
             None \<Rightarrow>
               bindr (rekor_NewClient (cli S) (ko_RekorURL ko)) (\<lambda>rClient.
               bindr (FindTLogEntriesByPayload L rClient blobBytes) (\<lambda>uuids.
               if uuids = [] then Err (ErrorString ''could not find a tlog entry for provided blob'')
               else verifySigByUUID L H S B ko rClient f sig b64sig blobBytes False uuids))
           | Some key \<Rightarrow>
               bindr key (\<lambda>(v, cert).
               bindr (VerifySignature (maybe_dsse L B blobBytes v) sig blobBytes) (\<lambda>_.
               verifyRekorEntry L H S ko None (maybe_dsse L B blobBytes v) cert b64sig blobBytes)))))"

subsection \<open>What an accepted blob means\<close>

text \<open>
  What the experimental mode knows of the log: the bundle has a signed timestamp, or an entry was
  found, and either it verifies and the certificate was valid at its time, or its verification failed.
\<close>

definition logged_blob ::
  "libs \<Rightarrow> host \<Rightarrow> 'c sign_lib \<Rightarrow> KeyOpts \<Rightarrow> log_entry option \<Rightarrow> verifier \<Rightarrow> certificate option \<Rightarrow> string \<Rightarrow> bytes \<Rightarrow> bool" where
  "logged_blob L H S ko e v cert b64sig blob \<longleftrightarrow>
     ko_BundlePath ko \<noteq> [] \<and> verifyRekorBundle L H S (ko_BundlePath ko) cert = Ok () \<or>
     (\<exists>C e'. rekor_NewClient (cli S) (ko_RekorURL ko) = Ok C \<and>
        (e = Some e' \<or> e = None \<and> (\<exists>pem. entry_pem L v cert = Ok pem \<and> FindTlogEntry L C b64sig blob pem = Ok e')) \<and>
        ((\<exists>err. VerifyTLogEntry L H C e' = Err err) \<or>
         VerifyTLogEntry L H C e' = Ok () \<and>
         (\<forall>c. cert = Some c \<longrightarrow> (\<exists>it. entry_IntegratedTime e' = Some it \<and> CheckExpiry c (time_Unix it) = Ok ()))))"

lemma online_entry_Ok:
  assumes "online_entry L H S ko e v cert b64sig blob = Ok ()"
  shows "logged_blob L H S ko e v cert b64sig blob"
proof -
  obtain C where C: "rekor_NewClient (cli S) (ko_RekorURL ko) = Ok C"
    using assms by (cases "rekor_NewClient (cli S) (ko_RekorURL ko)") (simp_all add: online_entry_def)
  let ?found = "case e of Some e \<Rightarrow> Ok e
    | None \<Rightarrow> bindr (entry_pem L v cert) (\<lambda>pubBytes. FindTlogEntry L C b64sig blob pubBytes)"
  obtain e' where e': "?found = Ok e'"
    using assms C by (cases ?found) (simp_all add: online_entry_def)
  have found: "e = Some e' \<or> e = None \<and> (\<exists>pem. entry_pem L v cert = Ok pem \<and> FindTlogEntry L C b64sig blob pem = Ok e')"
    using e' by (cases e) (simp_all add: bindr_Ok_iff)
  consider err where "VerifyTLogEntry L H C e' = Err err" | "VerifyTLogEntry L H C e' = Ok ()"
    using assms C e' by (cases "VerifyTLogEntry L H C e'") (simp_all add: online_entry_def)
  then show ?thesis
  proof cases
    case 1
    then show ?thesis
      unfolding logged_blob_def by (intro disjI2 exI [of _ C] exI [of _ e'] conjI C found disjI1 exI [of _ err])
  next
    case 2
    have "\<exists>it. entry_IntegratedTime e' = Some it \<and> CheckExpiry c (time_Unix it) = Ok ()" if "cert = Some c" for c
    proof -
      have "bindr (ComputeLeafHash L e') (\<lambda>uuid.
          bindr (bindr (bindr (deref (Verification e')) (\<lambda>v. deref (InclusionProof v))) (\<lambda>p. deref (proof_LogIndex p))) (\<lambda>_.
          bindr (deref (entry_IntegratedTime e')) (\<lambda>it. CheckExpiry c (time_Unix it)))) = Ok ()"
        using assms C e' 2 unfolding that by (simp add: online_entry_def)
      then show ?thesis
        by (auto simp: bindr_Ok_iff deref_Ok_iff)
    qed
    then show ?thesis
      unfolding logged_blob_def using 2 by (intro disjI2 exI [of _ C] exI [of _ e'] conjI C found) auto
  qed
qed

lemma verifyRekorEntry_Ok:
  assumes "verifyRekorEntry L H S ko e v cert b64sig blob = Ok ()" and "EnableExperimental H"
  shows "logged_blob L H S ko e v cert b64sig blob"
proof (cases "ko_BundlePath ko \<noteq> [] \<and> verifyRekorBundle L H S (ko_BundlePath ko) cert = Ok ()")
  case False
  then have "online_entry L H S ko e v cert b64sig blob = Ok ()"
    using assms by (cases "verifyRekorBundle L H S (ko_BundlePath ko) cert") (simp_all add: verifyRekorEntry_def Let_def split: if_splits)
  then show ?thesis
    by (rule online_entry_Ok)
qed (simp add: logged_blob_def)

lemma verifySigByUUID_Ok:
  assumes "verifySigByUUID L H S B ko C f sig b64sig blob valid uuids = Ok ()"
  shows "valid \<or> (\<exists>u \<in> set uuids. valid_entry L H S B ko C f sig b64sig blob u = Ok ())"
  using assms by (induction uuids arbitrary: valid) (auto simp: handler_Ok_iff split: if_splits)

text \<open>A certificate that an entry of the log has and that Fulcio issued.\<close>

definition fulcio_key :: "libs \<Rightarrow> host \<Rightarrow> 'c sign_lib \<Rightarrow> blob_lib \<Rightarrow> blob_flags \<Rightarrow> log_entry \<Rightarrow> certificate \<Rightarrow> verifier \<Rightarrow> bool" where
  "fulcio_key L H S B f e cert v \<longleftrightarrow>
     (\<exists>certs roots inters. extractCerts L B e = Ok (cert # certs) \<and> GetRoots L H (cli S) = Ok roots \<and>
        ValidateAndUnpackCert L H cert (blob_opts f roots inters) = Ok v)"

lemma valid_entry_Ok:
  assumes "valid_entry L H S B ko C f sig b64sig blob u = Ok ()"
  shows "\<exists>e cert v. GetTlogEntry L C u = Ok e \<and> fulcio_key L H S B f e cert v \<and>
    VerifySignature (maybe_dsse L B blob v) sig blob = Ok () \<and>
    verifyRekorEntry L H S ko (Some e) (maybe_dsse L B blob v) (Some cert) b64sig blob = Ok ()"
proof -
  obtain e certs roots inters v where e: "GetTlogEntry L C u = Ok e" "extractCerts L B e = Ok certs"
    and v: "GetRoots L H (cli S) = Ok roots" "ValidateAndUnpackCert L H (hd certs) (blob_opts f roots inters) = Ok v"
    and ok: "VerifySignature (maybe_dsse L B blob v) sig blob = Ok ()"
      "verifyRekorEntry L H S ko (Some e) (maybe_dsse L B blob v) (Some (hd certs)) b64sig blob = Ok ()"
    using assms by (auto simp: valid_entry_def bindr_Ok_iff)
  moreover have "certs \<noteq> []"
    using e(2) by (auto simp: extractCerts_def bindr_Ok_iff split: if_splits)
  ultimately show ?thesis
    unfolding fulcio_key_def by (metis list.collapse)
qed

text \<open>C9. What \<open>cosign verify-blob\<close> checked. If the command succeeds, the signature of the flag or of the
  bundle verifies over the blob under the key of the flags: the given key, the token, the key of the
  given certificate or the one the bundle itself brings. Without any of them, and then only in
  experimental mode, it is the key of a certificate that a log entry for the blob has and that passes
  the checks of e-mail, issuer and SCT against the roots of Fulcio. In experimental mode there is
  moreover a bundle with a signed timestamp, or an entry of the log; if that entry verifies, the
  certificate was valid at its time.\<close>

theorem VerifyBlobCmd_sound:
  assumes "VerifyBlobCmd L H S B ko f = Ok ()"
  shows "\<exists>sig b64sig blob e v cert. signatures H S (bf_SigRef f) (ko_BundlePath ko) = Ok (sig, b64sig) \<and>
    payloadBytes H S (bf_BlobRef f) = Ok blob \<and> VerifySignature (maybe_dsse L B blob v) sig blob = Ok () \<and>
    (case blob_key L H S ko f of
       Some key \<Rightarrow> key = Ok (v, cert) \<and> e = None
     | None \<Rightarrow> EnableExperimental H \<and> (\<exists>C us u e' c. e = Some e' \<and> cert = Some c \<and> rekor_NewClient (cli S) (ko_RekorURL ko) = Ok C \<and>
         FindTLogEntriesByPayload L C blob = Ok us \<and> u \<in> set us \<and> GetTlogEntry L C u = Ok e' \<and> fulcio_key L H S B f e' c v)) \<and>
    (EnableExperimental H \<longrightarrow> logged_blob L H S ko e (maybe_dsse L B blob v) cert b64sig blob)"
proof -
  have flags: "OneOf [ko_KeyRef ko \<noteq> [], ko_Sk ko, bf_CertRef f \<noteq> []] \<or> EnableExperimental H \<or> ko_BundlePath ko \<noteq> []"
    using assms by (auto simp: VerifyBlobCmd_def split: if_splits)
  obtain sig b64sig blob where sig: "signatures H S (bf_SigRef f) (ko_BundlePath ko) = Ok (sig, b64sig)"
    and blob: "payloadBytes H S (bf_BlobRef f) = Ok blob"
    using assms by (auto simp: VerifyBlobCmd_def bindr_Ok_iff split: if_splits)
  show ?thesis
  proof (cases "blob_key L H S ko f")
    case None
    then have exp: "EnableExperimental H"
      using flags by (auto simp: blob_key_def OneOf_def NOf_def split: if_splits)
    obtain C us where C: "rekor_NewClient (cli S) (ko_RekorURL ko) = Ok C" "FindTLogEntriesByPayload L C blob = Ok us"
      "verifySigByUUID L H S B ko C f sig b64sig blob False us = Ok ()"
      using assms sig blob None by (auto simp: VerifyBlobCmd_def bindr_Ok_iff split: if_splits)
    then obtain u where u: "u \<in> set us" "valid_entry L H S B ko C f sig b64sig blob u = Ok ()"
      using verifySigByUUID_Ok by blast
    obtain e c v where e: "GetTlogEntry L C u = Ok e" "fulcio_key L H S B f e c v"
      "VerifySignature (maybe_dsse L B blob v) sig blob = Ok ()"
      "verifyRekorEntry L H S ko (Some e) (maybe_dsse L B blob v) (Some c) b64sig blob = Ok ()"
      using valid_entry_Ok [OF u(2)] by blast
    note logged = verifyRekorEntry_Ok [OF e(4) exp]
    show ?thesis
      by (rule exI [of _ sig], rule exI [of _ b64sig], rule exI [of _ blob], rule exI [of _ "Some e"], rule exI [of _ v],
          rule exI [of _ "Some c"])
         (use sig blob None exp C(1,2) u(1) e(1-3) logged in auto)
  next
    case (Some key)
    then obtain v cert where "key = Ok (v, cert)" "VerifySignature (maybe_dsse L B blob v) sig blob = Ok ()"
      "verifyRekorEntry L H S ko None (maybe_dsse L B blob v) cert b64sig blob = Ok ()"
      using assms sig blob by (auto simp: VerifyBlobCmd_def bindr_Ok_iff split: if_splits)
    then show ?thesis
      using verifyRekorEntry_Ok [of L H S ko None "maybe_dsse L B blob v" cert b64sig blob] sig blob Some by auto
  qed
qed

text \<open>C37. An entry of the log that does not verify is ignored. In experimental mode, with a key of the
  flags and a valid signature, the command asks for the entry of the signature; if the check of that
  entry fails, with whatever error, it reports success, and without any check of the certificate
  against the time of the entry.\<close>

theorem unverified_log_entry_accepted:
  assumes "EnableExperimental H" and "ko_BundlePath ko = []"
    and "signatures H S (bf_SigRef f) [] = Ok (sig, b64sig)" and "payloadBytes H S (bf_BlobRef f) = Ok blob"
    and "blob_key L H S ko f = Some (Ok (v, cert))" and "VerifySignature (maybe_dsse L B blob v) sig blob = Ok ()"
    and "rekor_NewClient (cli S) (ko_RekorURL ko) = Ok C" and "entry_pem L (maybe_dsse L B blob v) cert = Ok pem"
    and "FindTlogEntry L C b64sig blob pem = Ok e" and "VerifyTLogEntry L H C e = Err err"
  shows "VerifyBlobCmd L H S B ko f = Ok ()"
  using assms by (simp add: VerifyBlobCmd_def verifyRekorEntry_def online_entry_def)

lemma b64_encode_Nil_iff: "b64_encode b = [] \<longleftrightarrow> b = []"
proof
  assume "b64_encode b = []"
  then have "Ok b = b64_decode (b64_encode [])"
    using b64_decode_encode [of b] by (simp add: b64_encode.simps(1))
  then show "b = []"
    by simp
qed (simp add: b64_encode.simps(1))

text \<open>A bundle, or a certificate without a chain, vouches for itself: the checks of e-mail, issuer and SCT
  are not made, so that these flags change nothing.\<close>

lemma identity_flags_ignored:
  assumes "ko_KeyRef ko \<noteq> [] \<or> ko_Sk ko \<or> (if bf_CertRef f \<noteq> [] then bf_CertChain f = [] else ko_BundlePath ko \<noteq> [])"
  shows "VerifyBlobCmd L H S B ko (f\<lparr>bf_CertEmail := m, bf_CertOidcIssuer := i, bf_EnforceSCT := b\<rparr>) = VerifyBlobCmd L H S B ko f"
proof -
  have "blob_key L H S ko (f\<lparr>bf_CertEmail := m, bf_CertOidcIssuer := i, bf_EnforceSCT := b\<rparr>) = blob_key L H S ko f"
    and "blob_key L H S ko f \<noteq> None"
    using assms by (auto simp: blob_key_def)
  then show ?thesis
    by (auto simp: VerifyBlobCmd_def)
qed

subsection \<open>What was signed is verified\<close>

definition after_files :: "sign_state \<Rightarrow> host \<Rightarrow> host" where
  "after_files s H = H\<lparr>ReadFile := (\<lambda>p. case st_files s p of Some b \<Rightarrow> Ok b | None \<Rightarrow> ReadFile H p)\<rparr>"

definition plain_path :: "string \<Rightarrow> bool" where
  "plain_path p \<longleftrightarrow> p \<notin> {[], ''-''} \<and> \<not> has_prefix p ''http://'' \<and> \<not> has_prefix p ''https://'' \<and> filepath_Clean p = p"

lemma plain_path_reads: "plain_path p \<Longrightarrow> LoadFileOrURL H p = ReadFile H p" "plain_path p \<Longrightarrow> payloadBytes H S p = ReadFile H p"
  by (simp_all add: plain_path_def LoadFileOrURL_def payloadBytes_def)

lemma st_WriteFile_Ok: "st_WriteFile S p b s = (Ok x, s') \<longleftrightarrow> fs_WriteFile_err (key_api (cli S)) p = None \<and> s' = s\<lparr>st_files := (st_files s)(p \<mapsto> b)\<rparr>"
  by (auto simp: st_WriteFile_def split: option.splits)

lemma SignBlobCmd_writes:
  assumes "SignBlobCmd L H S ko path True out outCert s = (Ok r, s')" and "\<not> EnableExperimental H" and "plain_path path"
    and "ko_BundlePath ko = [] \<Longrightarrow> out \<noteq> []"
  shows "\<exists>blob sv sig. ReadFile H path = Ok blob \<and> SignerFromKeyOpts L H S [] [] ko = Ok sv \<and> SignMessage (sv_signer sv) blob = Ok sig \<and>
    (if ko_BundlePath ko = [] then st_files s' = (st_files s)(out \<mapsto> b64_encode sig)
     else \<exists>contents. Marshal_LocalSignedPayload S \<lparr>lsp_Base64Signature = b64_encode sig, lsp_Cert = [], lsp_Bundle = None\<rparr> = Ok contents \<and>
       st_files s' = (st_files s)(ko_BundlePath ko \<mapsto> contents))"
proof (cases "ko_BundlePath ko = []")
  case True
  then show ?thesis
    using assms by (auto simp: SignBlobCmd_def bindS_Ok_iff wrapS_Ok_iff st_WriteFile_Ok blob_bundle_def plain_path_def wrapr_Ok_iff)
next
  case False
  then show ?thesis
    using assms by (auto simp: b64_encode_Nil_iff [THEN iffD2] SignBlobCmd_def bindS_Ok_iff wrapS_Ok_iff st_WriteFile_Ok blob_bundle_def plain_path_def wrapr_Ok_iff)
qed

lemma after_files_simps [simp]:
  "EnableExperimental (after_files s H) = EnableExperimental H"
  "st_files s p = Some b \<Longrightarrow> ReadFile (after_files s H) p = Ok b"
  "st_files s p = None \<Longrightarrow> ReadFile (after_files s H) p = ReadFile H p"
  by (simp_all add: after_files_def EnableExperimental_def)

text \<open>What \<open>encoding/json\<close> documents of encoding a bundle and decoding it.\<close>

definition payload_codec :: "'c sign_lib \<Rightarrow> bool" where
  "payload_codec S \<longleftrightarrow> (\<forall>p b. Marshal_LocalSignedPayload S p = Ok b \<longrightarrow> Unmarshal_LocalSignedPayload S b = Ok (Some p))"

text \<open>C10. What \<open>cosign sign-blob\<close> wrote, \<open>cosign verify-blob\<close> accepts. After a blob was signed with a key, in
  base64 to a file or into a bundle, the verification of the blob with the public key and that file or
  bundle succeeds on the files as they are then.\<close>

theorem sign_blob_then_verify_blob:
  assumes cmd: "SignBlobCmd L H S ko path True out outCert s = (Ok r, s')"
    and modes: "\<not> EnableExperimental H" "\<not> ko_Sk ko" "ko_KeyRef ko \<noteq> []"
    and key: "SignerVerifierFromKeyRef H (key_api (cli S)) (key_servers (cli S)) (ko_KeyRef ko) (ko_PassFunc ko) = Ok k" "as_pkcs11 k = None"
    and pub: "PublicKeyFromKeyRef L (after_files s' H) (key_api (cli S)) (key_servers (cli S)) (ko_KeyRef ko') = Ok v"
      "\<And>m sig. SignMessage k m = Ok sig \<Longrightarrow> VerifySignature v sig m = Ok ()"
    and codec: "payload_codec S"
    and files: "plain_path path" "st_files s path = None" "path \<noteq> target" "ko_BundlePath ko' = ko_BundlePath ko"
      "if ko_BundlePath ko = [] then target = out \<and> plain_path out \<and> bf_SigRef f = out else target = ko_BundlePath ko \<and> bf_SigRef f = []"
    and flags: "ko_KeyRef ko' \<noteq> []" "\<not> ko_Sk ko'" "bf_CertRef f = []" "bf_BlobRef f = path"
    and blob: "ReadFile H path = Ok blob" "\<not> isIntotoDSSE L blob"
  shows "VerifyBlobCmd L (after_files s' H) S B ko' f = Ok ()"
proof -
  let ?H = "after_files s' H"
  have "ko_BundlePath ko = [] \<Longrightarrow> out \<noteq> []"
    using files(5) by (auto simp: plain_path_def)
  then obtain sv sig where sv: "SignerFromKeyOpts L H S [] [] ko = Ok sv" "SignMessage (sv_signer sv) blob = Ok sig"
    and out: "if ko_BundlePath ko = [] then st_files s' = (st_files s)(out \<mapsto> b64_encode sig)
     else \<exists>contents. Marshal_LocalSignedPayload S \<lparr>lsp_Base64Signature = b64_encode sig, lsp_Cert = [], lsp_Bundle = None\<rparr> = Ok contents \<and>
       st_files s' = (st_files s)(ko_BundlePath ko \<mapsto> contents)"
    using SignBlobCmd_writes [OF cmd modes(1) files(1)] blob(1) by auto
  have ok: "VerifySignature v sig blob = Ok ()"
    using pub(2) sv key_signer [OF sv(1) modes(2,3) key] by simp
  have read: "payloadBytes ?H S path = Ok blob"
    using out files blob(1) by (auto simp: plain_path_reads split: if_splits)
  have "signatures ?H S (bf_SigRef f) (ko_BundlePath ko) = Ok (sig, b64_encode sig) \<and>
      (ko_BundlePath ko \<noteq> [] \<longrightarrow> (\<exists>e. verifyRekorBundle L ?H S (ko_BundlePath ko) None = Err e))"
  proof (cases "ko_BundlePath ko = []")
    case True
    then show ?thesis
      using out files(5) by (auto simp: signatures_def plain_path_reads isb64_def plain_path_def [of out])
  next
    case False
    then show ?thesis
      using out files(5) codec by (auto simp: signatures_def FetchLocalSignedPayloadFromPath_def payload_codec_def isb64_def verifyRekorBundle_def)
  qed
  then show ?thesis
    using modes(1) pub(1) files(4) flags blob(2) ok read
    by (auto simp: VerifyBlobCmd_def blob_key_def maybe_dsse_def verifyRekorEntry_def OneOf_def NOf_def Let_def)
qed

subsection \<open>Examples\<close>

text \<open>Libraries that take nothing for an envelope, a host with a blob, and an experimental one.\<close>

definition blob_libs :: libs where
  "blob_libs = sample_libs\<lparr>Unmarshal_Envelope := (\<lambda>_. Err (LibError ''no envelope''))\<rparr>"

definition sample_blob_lib :: blob_lib where
  "sample_blob_lib = \<lparr>dsse_WrapVerifier = (\<lambda>v. v), UnmarshalProposedEntry = Ok, types_NewEntry = (\<lambda>_. Ok OtherEntry)\<rparr>"

definition blob_host :: host where
  "blob_host = sample_host\<lparr>ReadFile := (\<lambda>f. if f = ''cosign.pub'' then Ok ''k'' else if f = ''blob'' then Ok ''data''
     else if f = ''sig'' then Ok (b64_encode ''kdata'') else Err (NotExist f))\<rparr>"

definition experimental_host :: host where
  "experimental_host = blob_host\<lparr>Getenv := (\<lambda>e. if e = ''COSIGN_EXPERIMENTAL'' then ''1'' else [])\<rparr>"

definition blob_ko :: KeyOpts where
  "blob_ko = sample_ko\<lparr>ko_KeyRef := ''cosign.pub''\<rparr>"

definition sample_blob_flags :: blob_flags where
  "sample_blob_flags = \<lparr>bf_CertRef = [], bf_CertEmail = [], bf_CertOidcIssuer = [], bf_CertChain = [], bf_SigRef = ''sig'',
     bf_BlobRef = ''blob'', bf_EnforceSCT = False\<rparr>"

lemma sample_paths: "plain_path ''sig''" "plain_path ''blob''" "plain_path ''cosign.pub''"
proof -
  have "filepath_Clean ''sig'' = ''sig''" "filepath_Clean ''blob'' = ''blob''" "filepath_Clean ''cosign.pub'' = ''cosign.pub''"
    by code_simp+
  then show "plain_path ''sig''" "plain_path ''blob''" "plain_path ''cosign.pub''"
    by (simp_all add: plain_path_def)
qed

lemma sample_public_key:
  assumes "ReadFile H ''cosign.pub'' = Ok ''k''"
  shows "PublicKeyFromKeyRef blob_libs H sample_key_lib () ''cosign.pub'' = Ok (sample_verifier (ECDSAKey ''k''))"
  using assms sample_paths(3)
  by (simp add: PublicKeyFromKeyRef_def PublicKeyFromKeyRefWithHashAlgo_def KeyReference_def VerifierForKeyRef_def
      plain_path_reads) (simp add: sample_key_lib_def blob_libs_def sample_libs_def)

lemma sample_not_DSSE: "\<not> isIntotoDSSE blob_libs b"
  by (simp add: isIntotoDSSE_def blob_libs_def)

lemma blob_selectors:
  "ko_KeyRef blob_ko = ''cosign.pub''" "\<not> ko_Sk blob_ko" "ko_BundlePath blob_ko = []" "bf_CertRef sample_blob_flags = []"
  "bf_SigRef sample_blob_flags = ''sig''" "bf_BlobRef sample_blob_flags = ''blob''"
  by (simp_all add: blob_ko_def sample_ko_def sample_blob_flags_def)

lemma sample_blob_read:
  assumes "H = blob_host \<or> H = experimental_host"
  shows "signatures H S ''sig'' [] = Ok (''kdata'', b64_encode ''kdata'')" and "payloadBytes H S ''blob'' = Ok ''data''"
    and "ReadFile H ''cosign.pub'' = Ok ''k''"
  using assms sample_paths by (auto simp: signatures_def plain_path_reads isb64_def blob_host_def experimental_host_def)

lemma sample_experimental: "EnableExperimental experimental_host" "\<not> EnableExperimental blob_host"
  by (simp_all add: EnableExperimental_def strconv_ParseBool_def experimental_host_def blob_host_def sample_host_def)

lemma sample_blob_key:
  assumes "H = blob_host \<or> H = experimental_host"
  shows "blob_key blob_libs H sample_sign_lib blob_ko sample_blob_flags = Some (Ok (sample_verifier (ECDSAKey ''k''), None))"
  using sample_public_key [OF sample_blob_read(3) [OF assms]]
  by (simp add: blob_key_def blob_selectors sample_selectors sample_references)

lemma sample_blob_signature: "VerifySignature (maybe_dsse blob_libs B ''data'' (sample_verifier (ECDSAKey ''k''))) ''kdata'' ''data'' = Ok ()"
  by (simp add: maybe_dsse_def sample_not_DSSE) (simp add: sample_verifier_def)

theorem VerifyBlobCmd_sound_witness:
  "VerifyBlobCmd blob_libs blob_host sample_sign_lib sample_blob_lib blob_ko sample_blob_flags = Ok () \<and>
   (\<exists>sig blob v. payloadBytes blob_host sample_sign_lib ''blob'' = Ok blob \<and>
      blob_key blob_libs blob_host sample_sign_lib blob_ko sample_blob_flags = Some (Ok (v, None)) \<and>
      VerifySignature (maybe_dsse blob_libs sample_blob_lib blob v) sig blob = Ok ())"
proof -
  have ok: "VerifyBlobCmd blob_libs blob_host sample_sign_lib sample_blob_lib blob_ko sample_blob_flags = Ok ()"
    by (simp add: VerifyBlobCmd_def blob_selectors OneOf_def NOf_def verifyRekorEntry_def sample_blob_key sample_blob_read
        sample_blob_signature sample_experimental)
  show ?thesis
    using VerifyBlobCmd_sound [OF ok] ok sample_blob_key [of blob_host] by (auto simp: blob_selectors)
qed

definition unproven_entry :: log_entry where
  "unproven_entry = sample_entry\<lparr>Verification := None\<rparr>"

definition unproven_lib :: "unit sign_lib" where
  "unproven_lib = sample_sign_lib\<lparr>cli := sample_cli\<lparr>rekor_NewClient := (\<lambda>_. Ok (sample_rekor\<lparr>SearchLogQuery :=
     (\<lambda>_. Ok [[(hex_encode ''body'', unproven_entry)]])\<rparr>))\<rparr>\<rparr>"

theorem unverified_log_entry_accepted_witness:
  "(\<forall>C. \<exists>err. VerifyTLogEntry blob_libs experimental_host C unproven_entry = Err err) \<and>
   VerifyBlobCmd blob_libs experimental_host unproven_lib sample_blob_lib blob_ko sample_blob_flags = Ok ()"
proof -
  let ?C = "sample_rekor\<lparr>SearchLogQuery := (\<lambda>_. Ok [[(hex_encode ''body'', unproven_entry)]])\<rparr>"
  have bad: "VerifyTLogEntry blob_libs experimental_host C unproven_entry = Err (ErrorString ''inclusion proof not provided'')" for C
    by (simp add: VerifyTLogEntry_def unproven_entry_def)
  have key: "blob_key blob_libs experimental_host unproven_lib blob_ko sample_blob_flags = Some (Ok (sample_verifier (ECDSAKey ''k''), None))"
    using sample_public_key [OF sample_blob_read(3) [of experimental_host]]
    by (simp add: blob_key_def blob_selectors unproven_lib_def sample_references)
  have pem: "entry_pem blob_libs (maybe_dsse blob_libs sample_blob_lib ''data'' (sample_verifier (ECDSAKey ''k''))) None = Ok ''k''"
    by (simp add: entry_pem_def maybe_dsse_def sample_not_DSSE PublicKeyPem_def)
       (simp add: blob_libs_def sample_libs_def sample_verifier_def)
  have found: "FindTlogEntry blob_libs ?C (b64_encode ''kdata'') ''data'' ''k'' = Ok unproven_entry"
    by (simp add: FindTlogEntry_def proposedEntry_encode verifyUUID_def ComputeLeafHash_def unproven_entry_def sample_entry_def as_string_def)
       (simp add: blob_libs_def sample_libs_def)
  have "VerifyBlobCmd blob_libs experimental_host unproven_lib sample_blob_lib blob_ko sample_blob_flags = Ok ()"
    by (rule unverified_log_entry_accepted [where C = ?C, OF _ _ _ _ key sample_blob_signature _ pem found bad])
       (simp_all add: blob_selectors sample_blob_read sample_experimental unproven_lib_def)
  then show ?thesis
    using bad by blast
qed

lemma sample_payload_codec: "payload_codec sample_sign_lib"
proof -
  have "takeWhile (\<lambda>c. c \<noteq> CHR ''|'') (a @ CHR ''|'' # b) = a" "dropWhile (\<lambda>c. c \<noteq> CHR ''|'') (a @ CHR ''|'' # b) = CHR ''|'' # b"
    if "CHR ''|'' \<notin> set a" for a b
    using that by (induction a) auto
  then show ?thesis
    by (auto simp: payload_codec_def sample_sign_lib_def split: if_splits)
qed

lemma sample_written: "st_WriteFile sample_sign_lib p b s = (Ok (), s\<lparr>st_files := (st_files s)(p \<mapsto> b)\<rparr>)"
  by (simp add: st_WriteFile_def sample_selectors sample_references) (simp add: sample_key_lib_def)

theorem sign_blob_then_verify_blob_witness:
  "\<exists>r s'. SignBlobCmd blob_libs blob_host sample_sign_lib sample_ko ''blob'' True ''new'' [] sample_sign_state = (Ok r, s') \<and>
     VerifyBlobCmd blob_libs (after_files s' blob_host) sample_sign_lib sample_blob_lib blob_ko (sample_blob_flags\<lparr>bf_SigRef := ''new''\<rparr>) = Ok ()"
proof -
  have new: "plain_path ''new''"
  proof -
    have "filepath_Clean ''new'' = ''new''" by code_simp
    then show ?thesis by (simp add: plain_path_def)
  qed
  have kms: "SignerVerifierFromKeyRef blob_host sample_key_lib () ''kms://k'' None = Ok (sample_signer ''k'')"
    by (simp add: SignerVerifierFromKeyRef_def from_kms_or_file_def KeyReference_def sample_key_lib_def)
  then have signer: "SignerFromKeyOpts blob_libs blob_host sample_sign_lib [] [] sample_ko =
      Ok \<lparr>sv_Cert = None, sv_Chain = None, sv_signer = sample_signer ''k''\<rparr>"
    by (simp add: SignerFromKeyOpts_def sample_ko_def signerFromKeyRef_def sample_selectors sample_references token_cert_def sample_signer_def)
  have data: "ReadFile blob_host ''blob'' = Ok ''data''" "filepath_Clean ''blob'' = ''blob''"
    using sample_paths by (simp_all add: blob_host_def plain_path_def)
  let ?s = "sample_sign_state\<lparr>st_files := (st_files sample_sign_state)(''new'' \<mapsto> b64_encode ''kdata'')\<rparr>"
  have cmd: "SignBlobCmd blob_libs blob_host sample_sign_lib sample_ko ''blob'' True ''new'' [] sample_sign_state = (Ok ''kdata'', ?s)"
    by (simp add: SignBlobCmd_def data signer blob_bundle_def sample_experimental wrapS_def handleS_def bindS_def sample_written
        sample_signer_def) (simp add: sample_ko_def)
  have pub: "PublicKeyFromKeyRef blob_libs (after_files ?s blob_host) sample_key_lib () ''cosign.pub'' = Ok (sample_verifier (ECDSAKey ''k''))"
    by (rule sample_public_key) (simp add: after_files_def sample_sign_state_def sample_blob_read)
  have "VerifyBlobCmd blob_libs (after_files ?s blob_host) sample_sign_lib sample_blob_lib blob_ko (sample_blob_flags\<lparr>bf_SigRef := ''new''\<rparr>) = Ok ()"
    by (rule sign_blob_then_verify_blob [OF cmd, where k = "sample_signer ''k''" and target = "''new''" and blob = "''data''"
          and v = "sample_verifier (ECDSAKey ''k'')"])
       (use kms pub new sample_paths data sample_payload_codec sample_not_DSSE sample_experimental in
         \<open>simp_all add: blob_selectors sample_selectors sample_references sample_ko_def sample_signer_def sample_verifier_def
            sample_sign_state_def sample_blob_read\<close>)
  then show ?thesis
    using cmd by blast
qed

end
